(* ===== verification/Prelude.thy ===== *)
theory Prelude
  imports Main
    "HOL-Library.Char_ord" "HOL-Library.List_Lexorder" "HOL-Library.Product_Lexorder"
    "HOL-Library.AList" "HOL-Library.Word" "HOL-Library.Code_Target_Numeral"
begin

text \<open>
  What the component theories share: the exceptions the Python code raises, as one datatype, and
  results as sums with their composition; dictionaries as association lists in insertion order;
  decimal text; the regular expressions the code matches with \<open>fullmatch\<close>; and the named
  collections the proofs use.

  A Python \<open>str\<close> is a \<open>string\<close> holding its UTF-8 bytes: \<open>str.encode\<close> and
  \<open>bytes.decode\<close> are the identity on it, \<open>len(s.encode())\<close> is its length, and the
  order of code points, which Python compares by, is the order of the bytes.
\<close>

named_theorems inr_simps
  \<open>equations that take a successful or failed composed result apart\<close>
named_theorems dict_simps
  \<open>lookups in dictionaries after an update\<close>

subsection \<open>Exceptions and results\<close>

datatype exn =
    ContractError string string
  | CanonicalSerializationError string string
  | EventValidationError string string
  | IncompatibleEventSchemaError int
  | DuplicateEventError string
  | ProjectionAuthorityError string string
  | IntegrityError string
  | CapabilityRecordError string string
  | DocumentStateError string
  | ValueError string
  | ControlOperationError string
  | ControllerExecutionError string
  | RpcProtocolError string
  | KeyError string
  | TypeError string
  | OverflowError
  | ResearchError string
  | ControllerBackendError string
  | ArtifactError string
  | DocumentIoError string
  | ContributionValidationError string
  | PromotionError string

type_synonym 'a res = "exn + 'a"

definition bindr :: "'a res \<Rightarrow> ('a \<Rightarrow> 'b res) \<Rightarrow> 'b res" where
  "bindr m f = (case m of Inl e \<Rightarrow> Inl e | Inr x \<Rightarrow> f x)"

definition ensure :: "bool \<Rightarrow> exn \<Rightarrow> unit res" where
  "ensure b e = (if b then Inr () else Inl e)"

lemma bindr_Inl [simp]: "bindr (Inl e) f = Inl e"
  by (simp add: bindr_def)

lemma bindr_Inr [simp]: "bindr (Inr x) f = f x"
  by (simp add: bindr_def)

lemma bindr_eq_Inr [inr_simps]: "bindr m f = Inr y \<longleftrightarrow> (\<exists>x. m = Inr x \<and> f x = Inr y)"
  by (cases m) simp_all

lemma bindr_eq_Inl [inr_simps]:
  "bindr m f = Inl e \<longleftrightarrow> m = Inl e \<or> (\<exists>x. m = Inr x \<and> f x = Inl e)"
  by (cases m) simp_all

text \<open>Evaluation opens the composition, so that a branch is computed only when it is taken.\<close>

lemma bindr_inline [code_unfold]: "bindr m f = (case m of Inl e \<Rightarrow> Inl e | Inr x \<Rightarrow> f x)"
  by (simp add: bindr_def)

lemma bindr_Inr_right [simp]: "bindr m Inr = m"
  by (cases m) simp_all

lemma bindr_assoc: "bindr (bindr m f) g = bindr m (\<lambda>x. bindr (f x) g)"
  by (cases m) simp_all

lemma ensure_eq_Inr [simp]: "ensure b e = Inr u \<longleftrightarrow> b"
  by (simp add: ensure_def)

lemma ensure_eq_Inl [simp]: "ensure b e = Inl e' \<longleftrightarrow> \<not> b \<and> e' = e"
  by (auto simp: ensure_def)

lemma bindr_ensure: "bindr (ensure b e) f = (if b then f () else Inl e)"
  by (simp add: ensure_def)

lemma bindr_cong [fundef_cong]:
  "m = m' \<Longrightarrow> (\<And>x. m' = Inr x \<Longrightarrow> f x = g x) \<Longrightarrow> bindr m f = bindr m' g"
  by (cases m') simp_all

lemma bindr_rel:
  assumes "rel_sum (=) A m n" "\<And>x y. A x y \<Longrightarrow> rel_sum (=) B (f x) (g y)"
  shows "rel_sum (=) B (bindr m f) (bindr n g)"
  using assms by (cases m; cases n) auto

lemma bindr_rel_same:
  assumes "\<And>x. m = Inr x \<Longrightarrow> rel_sum (=) B (f x) (g x)"
  shows "rel_sum (=) B (bindr m f) (bindr m g)"
  using assms by (cases m) auto

lemma option_eqI: "(\<And>x. a = Some x \<longleftrightarrow> b = Some x) \<Longrightarrow> a = b"
  by (cases a; cases b) auto

text \<open>A generator or loop that stops at the first exception.\<close>

fun mapr :: "('a \<Rightarrow> 'b res) \<Rightarrow> 'a list \<Rightarrow> 'b list res" where
  "mapr f [] = Inr []"
| "mapr f (x # xs) = bindr (f x) (\<lambda>y. bindr (mapr f xs) (\<lambda>ys. Inr (y # ys)))"

fun foldr_res :: "('a \<Rightarrow> 's \<Rightarrow> 's res) \<Rightarrow> 'a list \<Rightarrow> 's \<Rightarrow> 's res" where
  "foldr_res f [] s = Inr s"
| "foldr_res f (x # xs) s = bindr (f x s) (foldr_res f xs)"

lemma mapr_cong [fundef_cong]:
  "xs = ys \<Longrightarrow> (\<And>x. x \<in> set ys \<Longrightarrow> f x = g x) \<Longrightarrow> mapr f xs = mapr g ys"
  by (induction ys arbitrary: xs) auto

lemma mapr_eq_Inr_list_all2: "mapr f xs = Inr ys \<longleftrightarrow> list_all2 (\<lambda>x y. f x = Inr y) xs ys"
  by (induction xs arbitrary: ys) (auto simp: inr_simps list_all2_Cons1)

lemma mapr_total: "(\<And>x. x \<in> set xs \<Longrightarrow> f x = Inr (g x)) \<Longrightarrow> mapr f xs = Inr (map g xs)"
  by (induction xs) auto

lemma mapr_map: "mapr f (map g xs) = mapr (f \<circ> g) xs"
  by (induction xs) auto

lemma mapr_append:
  "mapr f (xs @ ys) = bindr (mapr f xs) (\<lambda>us. bindr (mapr f ys) (\<lambda>vs. Inr (us @ vs)))"
  by (induction xs) (auto simp: bindr_assoc)

lemma foldr_res_append:
  "foldr_res f (xs @ ys) s = bindr (foldr_res f xs s) (foldr_res f ys)"
  by (induction xs arbitrary: s) (auto simp: bindr_assoc bindr_def split: sum.splits)

lemma foldr_res_single [simp]: "foldr_res f [x] = f x"
proof
  fix s
  have "foldr_res f [] = Inr" by (rule ext) simp
  then show "foldr_res f [x] s = f x s" by simp
qed

subsection \<open>Dictionaries\<close>

text \<open>
  A \<open>dict\<close> with string keys is an association list in insertion order. \<open>map_of d k\<close>
  is \<open>d.get(k)\<close>, \<open>AList.update k v d\<close> is \<open>d[k] = v\<close> (in place, or appended),
  \<open>dict_merge d e\<close> is \<open>{**d, **e}\<close> and \<open>keys d\<close> is \<open>set(d)\<close>.
\<close>

type_synonym 'v dict = "(string \<times> 'v) list"

definition keys :: "'v dict \<Rightarrow> string set" where
  "keys d = fst ` set d"

definition dict_merge :: "'v dict \<Rightarrow> 'v dict \<Rightarrow> 'v dict" where
  "dict_merge d e = fold (\<lambda>(k, v). AList.update k v) e d"

definition wf_dict :: "'v dict \<Rightarrow> bool" where
  "wf_dict d \<longleftrightarrow> distinct (map fst d)"

definition getr :: "'v dict \<Rightarrow> string \<Rightarrow> 'v res" where
  "getr d k = (case map_of d k of None \<Rightarrow> Inl (KeyError k) | Some v \<Rightarrow> Inr v)"

lemma keys_Nil [simp]: "keys [] = {}"
  by (simp add: keys_def)

lemma keys_Cons [simp]: "keys ((k, v) # d) = insert k (keys d)"
  by (simp add: keys_def)

lemma map_of_eq_None_keys [dict_simps]: "map_of d k = None \<longleftrightarrow> k \<notin> keys d"
  by (simp add: keys_def map_of_eq_None_iff)

lemma in_keys_map_of: "k \<in> keys d \<longleftrightarrow> (\<exists>v. map_of d k = Some v)"
  by (metis map_of_eq_None_keys option.collapse option.distinct(1))

lemma getr_eq_Inr [simp]: "getr d k = Inr v \<longleftrightarrow> map_of d k = Some v"
  by (auto simp: getr_def split: option.splits)

lemma map_of_update [dict_simps]:
  "map_of (AList.update k v d) k' = (if k' = k then Some v else map_of d k')"
  by (simp add: update_conv)

lemma keys_update [dict_simps]: "keys (AList.update k v d) = insert k (keys d)"
  by (auto simp: in_keys_map_of map_of_update split: if_splits)

lemma wf_dict_update: "wf_dict d \<Longrightarrow> wf_dict (AList.update k v d)"
  by (simp add: wf_dict_def distinct_update)

lemma wf_dict_merge: "wf_dict d \<Longrightarrow> wf_dict (dict_merge d e)"
  by (induction e arbitrary: d) (auto simp: dict_merge_def wf_dict_update)

lemma map_of_dict_merge:
  "wf_dict e \<Longrightarrow>
   map_of (dict_merge d e) k = (case map_of e k of Some v \<Rightarrow> Some v | None \<Rightarrow> map_of d k)"
proof (induction e arbitrary: d)
  case Nil
  then show ?case by (simp add: dict_merge_def)
next
  case (Cons kv e)
  obtain k0 v0 where kv: "kv = (k0, v0)" by (cases kv)
  from Cons.prems kv have fresh: "map_of e k0 = None" and wf: "wf_dict e"
    by (auto simp: wf_dict_def map_of_eq_None_iff)
  have "dict_merge d (kv # e) = dict_merge (AList.update k0 v0 d) e"
    by (simp add: dict_merge_def kv)
  with Cons.IH [OF wf] fresh show ?case
    by (auto simp: kv map_of_update split: option.splits)
qed

end
