(* ===== verification/Text_Format.thy ===== *)
theory Text_Format
  imports Prelude
begin

text \<open>
  The text formats the code reads and writes: character classes of its regular expressions,
  \<open>str.strip\<close>'s white space, decimal numbers with and without leading zeros, and
  \<open>PurePosixPath\<close>'s normal form of a path.
\<close>

subsection \<open>Character classes\<close>

definition code :: "char \<Rightarrow> nat" where
  "code c = of_char c"

definition in_range :: "nat \<Rightarrow> nat \<Rightarrow> char \<Rightarrow> bool" where
  "in_range lo hi c \<longleftrightarrow> lo \<le> code c \<and> code c \<le> hi"

definition is_digit :: "char \<Rightarrow> bool" where
  "is_digit = in_range 48 57"

definition is_lower :: "char \<Rightarrow> bool" where
  "is_lower = in_range 97 122"

definition is_upper :: "char \<Rightarrow> bool" where
  "is_upper = in_range 65 90"

definition is_alpha :: "char \<Rightarrow> bool" where
  "is_alpha c \<longleftrightarrow> is_lower c \<or> is_upper c"

definition is_alnum :: "char \<Rightarrow> bool" where
  "is_alnum c \<longleftrightarrow> is_alpha c \<or> is_digit c"

definition is_lower_hex :: "char \<Rightarrow> bool" where
  "is_lower_hex c \<longleftrightarrow> is_digit c \<or> in_range 97 102 c"

text \<open>\<open>re.fullmatch(r"[0-9a-f]{64}", s)\<close>, the shape of a SHA-256 digest.\<close>

definition is_hash :: "string \<Rightarrow> bool" where
  "is_hash s \<longleftrightarrow> length s = 64 \<and> list_all is_lower_hex s"

lemmas char_class_defs =
  code_def in_range_def is_digit_def is_lower_def is_upper_def is_alpha_def is_alnum_def
  is_lower_hex_def

lemma is_hash_nonempty: "is_hash s \<Longrightarrow> s \<noteq> []"
  by (auto simp: is_hash_def)

text \<open>
  A one-character class followed by at most \<open>n\<close> characters of another: the identifiers of the
  code, e.g. \<open>[a-z][a-z0-9_-]{0,63}\<close>.
\<close>

definition ident_match :: "(char \<Rightarrow> bool) \<Rightarrow> (char \<Rightarrow> bool) \<Rightarrow> nat \<Rightarrow> string \<Rightarrow> bool" where
  "ident_match first rest n s =
     (case s of [] \<Rightarrow> False | c # cs \<Rightarrow> first c \<and> length cs \<le> n \<and> list_all rest cs)"

subsection \<open>White space and \<open>str.strip\<close>\<close>

text \<open>
  The white space of Python's \<open>str.isspace\<close>, as UTF-8 byte sequences: U+0009 to U+000D, U+001C to
  U+0020, U+0085, U+00A0, U+1680, U+2000 to U+200A, U+2028, U+2029, U+202F, U+205F and U+3000.
  \<open>ltrim\<close> drops the leading ones; \<open>not s.strip()\<close> holds when nothing is left.
\<close>

definition ascii_space :: "char \<Rightarrow> bool" where
  "ascii_space c \<longleftrightarrow> in_range 9 13 c \<or> in_range 28 32 c"

fun ltrim :: "string \<Rightarrow> string" where
  "ltrim [] = []"
| "ltrim (a # s) =
     (if ascii_space a then ltrim s
      else case s of
        [] \<Rightarrow> a # s
      | b # s' \<Rightarrow>
          if code a = 194 \<and> (code b = 133 \<or> code b = 160) then ltrim s'
          else case s' of
            [] \<Rightarrow> a # s
          | c # s'' \<Rightarrow>
              if (code a = 225 \<and> code b = 154 \<and> code c = 128)
                \<or> (code a = 226 \<and> code b = 128
                    \<and> (in_range 128 138 c \<or> in_range 168 169 c \<or> code c = 175))
                \<or> (code a = 226 \<and> code b = 129 \<and> code c = 159)
                \<or> (code a = 227 \<and> code b = 128 \<and> code c = 128)
              then ltrim s'' else a # s)"

definition blank :: "string \<Rightarrow> bool" where
  "blank s \<longleftrightarrow> ltrim s = []"

subsection \<open>Decimal numbers\<close>

definition digit_char :: "nat \<Rightarrow> char" where
  "digit_char d = char_of (48 + d)"

definition digit_val :: "char \<Rightarrow> nat" where
  "digit_val c = code c - 48"

fun show_nat :: "nat \<Rightarrow> string" where
  "show_nat n = (if n < 10 then [digit_char n] else show_nat (n div 10) @ [digit_char (n mod 10)])"

declare show_nat.simps [simp del]

definition show_int :: "int \<Rightarrow> string" where
  "show_int i = (if i < 0 then CHR ''-'' # show_nat (nat (- i)) else show_nat (nat i))"

definition read_nat :: "string \<Rightarrow> nat" where
  "read_nat s = foldl (\<lambda>a c. 10 * a + digit_val c) 0 s"

text \<open>\<open>pad k n\<close> is \<open>f"{n:0kd}"\<close> for a number of at most \<open>k\<close> digits.\<close>

fun pad :: "nat \<Rightarrow> nat \<Rightarrow> string" where
  "pad 0 n = []"
| "pad (Suc k) n = pad k (n div 10) @ [digit_char (n mod 10)]"

lemma digit_char_values [simp]:
  "digit_char 0 = CHR ''0''" "digit_char 1 = CHR ''1''" "digit_char (Suc 0) = CHR ''1''"
  "digit_char 2 = CHR ''2''" "digit_char 3 = CHR ''3''" "digit_char 4 = CHR ''4''"
  "digit_char 5 = CHR ''5''" "digit_char 6 = CHR ''6''" "digit_char 7 = CHR ''7''"
  "digit_char 8 = CHR ''8''" "digit_char 9 = CHR ''9''"
  by code_simp+

lemma digit_val_char [simp]: "d < 10 \<Longrightarrow> digit_val (digit_char d) = d"
  by (simp add: digit_val_def digit_char_def code_def)

lemma code_digit_char: "d < 10 \<Longrightarrow> code (digit_char d) = 48 + d"
  by (simp add: digit_char_def code_def)

lemma is_digit_char [simp]: "d < 10 \<Longrightarrow> is_digit (digit_char d)"
  by (simp add: code_digit_char is_digit_def in_range_def)

lemma read_nat_snoc [simp]: "read_nat (s @ [c]) = 10 * read_nat s + digit_val c"
  by (simp add: read_nat_def)

lemma read_nat_Nil [simp]: "read_nat [] = 0"
  by (simp add: read_nat_def)

lemma read_show_nat [simp]: "read_nat (show_nat n) = n"
proof (induction n rule: show_nat.induct)
  case (1 n)
  show ?case
  proof (cases "n < 10")
    case True
    then show ?thesis
      using read_nat_snoc [of "[]" "digit_char n"] by (simp add: show_nat.simps [of n])
  next
    case False
    with 1 show ?thesis by (simp add: show_nat.simps [of n])
  qed
qed

lemma show_nat_digits: "list_all is_digit (show_nat n)"
proof (induction n rule: show_nat.induct)
  case (1 n)
  then show ?case by (cases "n < 10") (simp_all add: show_nat.simps [of n])
qed

lemma show_nat_nonempty [simp]: "show_nat n \<noteq> []"
  by (subst show_nat.simps) simp

lemma show_nat_inject [simp]: "show_nat m = show_nat n \<longleftrightarrow> m = n"
  by (metis read_show_nat)

lemma length_pad [simp]: "length (pad k n) = k"
  by (induction k arbitrary: n) simp_all

lemma pad_digits: "list_all is_digit (pad k n)"
  by (induction k arbitrary: n) simp_all

lemma read_pad [simp]: "n < 10 ^ k \<Longrightarrow> read_nat (pad k n) = n"
proof (induction k arbitrary: n)
  case 0
  then show ?case by simp
next
  case (Suc k)
  then have "n div 10 < 10 ^ k" by (simp add: less_mult_imp_div_less)
  with Suc.IH show ?case by simp
qed

lemma less_iff_div_mod_10:
  "(m::nat) < n \<longleftrightarrow> m div 10 < n div 10 \<or> (m div 10 = n div 10 \<and> m mod 10 < n mod 10)"
proof -
  have "m = 10 * (m div 10) + m mod 10" "n = 10 * (n div 10) + n mod 10"
    and "m mod 10 < 10" "n mod 10 < 10" by simp_all
  then show ?thesis by linarith
qed

lemma pad_less_iff:
  assumes "m < 10 ^ k" and "n < 10 ^ k"
  shows "pad k m < pad k n \<longleftrightarrow> m < n"
  using assms
proof (induction k arbitrary: m n)
  case 0
  then show ?case by simp
next
  case (Suc k)
  have div: "m div 10 < 10 ^ k" "n div 10 < 10 ^ k"
    using Suc.prems by (simp_all add: less_mult_imp_div_less)
  have snoc: "us @ [a] < vs @ [b] \<longleftrightarrow> us < vs \<or> (us = vs \<and> a < b)"
    if "length us = length vs" for us vs :: string and a b :: char
    using that by (induction us vs rule: list_induct2) auto
  have digit: "digit_char (m mod 10) < digit_char (n mod 10) \<longleftrightarrow> m mod 10 < n mod 10"
    using code_digit_char [of "m mod 10"] code_digit_char [of "n mod 10"]
    by (simp add: less_char_def code_def)
  have eq: "pad k (m div 10) = pad k (n div 10) \<longleftrightarrow> m div 10 = n div 10"
    using div by (metis read_pad)
  have "pad (Suc k) m < pad (Suc k) n \<longleftrightarrow>
      m div 10 < n div 10 \<or> (m div 10 = n div 10 \<and> m mod 10 < n mod 10)"
    using Suc.IH [OF div] by (simp add: snoc eq digit)
  also have "\<dots> \<longleftrightarrow> m < n"
    by (rule less_iff_div_mod_10 [symmetric])
  finally show ?case .
qed

subsection \<open>\<open>PurePosixPath\<close>\<close>

text \<open>
  \<open>PurePosixPath(s).as_posix()\<close>: empty and \<open>.\<close> components are dropped, exactly two leading
  slashes are kept, any other number of leading slashes becomes one, and the empty relative path
  is \<open>.\<close>.
\<close>

fun split_on :: "char \<Rightarrow> string \<Rightarrow> string list" where
  "split_on d [] = [[]]"
| "split_on d (c # s) =
     (if c = d then [] # split_on d s
      else case split_on d s of [] \<Rightarrow> [[c]] | w # ws \<Rightarrow> (c # w) # ws)"

fun join :: "string \<Rightarrow> string list \<Rightarrow> string" where
  "join sep [] = []"
| "join sep [w] = w"
| "join sep (w # ws) = w @ sep @ join sep ws"

definition path_parts :: "string \<Rightarrow> string list" where
  "path_parts s = filter (\<lambda>w. w \<noteq> [] \<and> w \<noteq> ''.'') (split_on (CHR ''/'') s)"

definition path_root :: "string \<Rightarrow> string" where
  "path_root s =
     (let n = length (takeWhile (\<lambda>c. c = CHR ''/'') s)
      in if n = 0 then '''' else if n = 2 then ''//'' else ''/'')"

definition as_posix :: "string \<Rightarrow> string" where
  "as_posix s =
     (let t = path_root s @ join ''/'' (path_parts s) in if t = [] then ''.'' else t)"

lemma split_on_nonempty [simp]: "split_on d s \<noteq> []"
  by (cases s) (auto split: list.splits)

lemma split_on_no_sep: "w \<in> set (split_on d s) \<Longrightarrow> d \<notin> set w"
  by (induction s arbitrary: w) (fastforce split: list.splits if_splits)+

lemma split_on_word: "d \<notin> set w \<Longrightarrow> split_on d w = [w]"
  by (induction w) auto

lemma split_on_append: "d \<notin> set w \<Longrightarrow> split_on d (w @ d # s) = w # split_on d s"
  by (induction w) auto

lemma split_on_join:
  "ws \<noteq> [] \<Longrightarrow> (\<And>w. w \<in> set ws \<Longrightarrow> d \<notin> set w) \<Longrightarrow> split_on d (join [d] ws) = ws"
proof (induction ws)
  case Nil
  then show ?case by simp
next
  case (Cons w ws)
  show ?case
  proof (cases ws)
    case Nil
    with Cons.prems show ?thesis by (simp add: split_on_word)
  next
    case (Cons v vs)
    with Cons.IH Cons.prems show ?thesis by (simp add: split_on_append)
  qed
qed

lemma path_parts_word:
  "w \<in> set (path_parts s) \<Longrightarrow> w \<noteq> [] \<and> w \<noteq> ''.'' \<and> CHR ''/'' \<notin> set w"
  by (auto simp: path_parts_def dest: split_on_no_sep)

lemma path_parts_slash [simp]: "path_parts (CHR ''/'' # s) = path_parts s"
  by (simp add: path_parts_def)

lemma path_parts_join:
  assumes "ps = path_parts s"
  shows "path_parts (join ''/'' ps) = ps"
proof (cases "ps = []")
  case True
  then show ?thesis by (simp add: path_parts_def)
next
  case False
  have word: "w \<noteq> [] \<and> w \<noteq> ''.'' \<and> CHR ''/'' \<notin> set w" if "w \<in> set ps" for w
    using that assms path_parts_word by blast
  then have "split_on (CHR ''/'') (join ''/'' ps) = ps"
    using False by (intro split_on_join) auto
  with word show ?thesis by (simp add: path_parts_def filter_id_conv)
qed

lemma path_parts_root [simp]: "path_parts (path_root s @ t) = path_parts t"
  by (simp add: path_root_def Let_def)

lemma join_no_slash:
  "ps = path_parts s \<Longrightarrow> takeWhile (\<lambda>c. c = CHR ''/'') (join ''/'' ps) = []"
proof (cases ps)
  case (Cons w ws)
  moreover assume "ps = path_parts s"
  ultimately have "w \<noteq> []" "CHR ''/'' \<notin> set w"
    using path_parts_word [of w s] by auto
  with Cons show ?thesis by (cases w; cases ws) auto
qed simp

lemma path_root_join:
  assumes "ps = path_parts s"
  shows "path_root (path_root s @ join ''/'' ps) = path_root s"
  using join_no_slash [OF assms] by (simp add: path_root_def Let_def takeWhile_append)

lemma as_posix_idem: "as_posix (as_posix s) = as_posix s"
proof (cases "path_root s @ join ''/'' (path_parts s) = []")
  case True
  then have "as_posix s = ''.''" by (simp add: as_posix_def)
  moreover have "as_posix ''.'' = ''.''"
    by (simp add: as_posix_def path_root_def path_parts_def Let_def)
  ultimately show ?thesis by simp
next
  case False
  then have "as_posix s = path_root s @ join ''/'' (path_parts s)"
    by (auto simp: as_posix_def Let_def)
  with False show ?thesis
    by (simp add: as_posix_def [of "path_root s @ _"] path_root_join path_parts_join Let_def)
qed

end
