(* ===== verification/Timestamps.thy ===== *)
theory Timestamps
  imports Text_Format
begin

text \<open>
  \<open>datetime\<close> values, their order and their ISO 8601 text. The code writes an aware UTC time as
  \<open>value.isoformat().replace("+00:00", "Z")\<close>, which leaves the fraction out when the microseconds
  are zero, and reads it back with \<open>fromisoformat\<close>.
\<close>

subsection \<open>Values\<close>

text \<open>\<open>utcoffset\<close> is \<open>value.utcoffset()\<close> in microseconds; \<open>None\<close> is a naive datetime.\<close>

datatype datetime = Datetime (year: nat) (month: nat) (day: nat) (hour: nat) (minute: nat)
  (second: nat) (microsecond: nat) (utcoffset: "int option")

definition is_leap :: "nat \<Rightarrow> bool" where
  "is_leap y \<longleftrightarrow> y mod 4 = 0 \<and> (y mod 100 \<noteq> 0 \<or> y mod 400 = 0)"

definition days_in_month :: "nat \<Rightarrow> nat \<Rightarrow> nat" where
  "days_in_month y m =
     (if m = 2 then if is_leap y then 29 else 28
      else if m \<in> {4, 6, 9, 11} then 30 else 31)"

text \<open>What the \<open>datetime\<close> constructor accepts.\<close>

definition valid_datetime :: "datetime \<Rightarrow> bool" where
  "valid_datetime d \<longleftrightarrow>
     1 \<le> year d \<and> year d \<le> 9999 \<and> 1 \<le> month d \<and> month d \<le> 12
     \<and> 1 \<le> day d \<and> day d \<le> days_in_month (year d) (month d)
     \<and> hour d < 24 \<and> minute d < 60 \<and> second d < 60 \<and> microsecond d < 1000000
     \<and> (case utcoffset d of None \<Rightarrow> True | Some off \<Rightarrow> \<bar>off\<bar> < 86400000000)"

text \<open>\<open>value.tzinfo is not None and value.utcoffset() == timedelta(0)\<close>.\<close>

definition is_utc :: "datetime \<Rightarrow> bool" where
  "is_utc d \<longleftrightarrow> utcoffset d = Some 0"

text \<open>
  Comparison. On two aware UTC datetimes, which are all the code compares, this is Python's order;
  the offset only completes it to a linear order of the type.
\<close>

definition dt_key :: "datetime \<Rightarrow> nat \<times> nat \<times> nat \<times> nat \<times> nat \<times> nat \<times> nat \<times> nat \<times> int" where
  "dt_key d = (year d, month d, day d, hour d, minute d, second d, microsecond d,
     case utcoffset d of None \<Rightarrow> (0, 0) | Some off \<Rightarrow> (1, off))"

lemma dt_key_inject [simp]: "dt_key a = dt_key b \<longleftrightarrow> a = b"
  by (cases a; cases b) (auto simp: dt_key_def split: option.splits)

instantiation datetime :: linorder
begin

definition less_datetime :: "datetime \<Rightarrow> datetime \<Rightarrow> bool" where
  "less_datetime a b \<longleftrightarrow> dt_key a < dt_key b"

definition less_eq_datetime :: "datetime \<Rightarrow> datetime \<Rightarrow> bool" where
  "less_eq_datetime a b \<longleftrightarrow> dt_key a \<le> dt_key b"

instance
proof
  fix x y z :: datetime
  show "x < y \<longleftrightarrow> x \<le> y \<and> \<not> y \<le> x"
    by (simp only: less_datetime_def less_eq_datetime_def less_le_not_le)
  show "x \<le> x"
    by (simp only: less_eq_datetime_def order.refl)
  show "x \<le> y \<Longrightarrow> y \<le> z \<Longrightarrow> x \<le> z"
    unfolding less_eq_datetime_def by (rule order.trans)
  show "x \<le> y \<Longrightarrow> y \<le> x \<Longrightarrow> x = y"
    unfolding less_eq_datetime_def by (drule (1) order.antisym) simp
  show "x \<le> y \<or> y \<le> x"
    unfolding less_eq_datetime_def by (rule linear)
qed

end

subsection \<open>Text\<close>

definition naive_text :: "datetime \<Rightarrow> string" where
  "naive_text d =
     pad 4 (year d) @ ''-'' @ pad 2 (month d) @ ''-'' @ pad 2 (day d) @ ''T''
     @ pad 2 (hour d) @ '':'' @ pad 2 (minute d) @ '':'' @ pad 2 (second d)
     @ (if microsecond d = 0 then '''' else ''.'' @ pad 6 (microsecond d))"

definition offset_text :: "int option \<Rightarrow> string" where
  "offset_text off =
     (case off of
       None \<Rightarrow> ''''
     | Some o' \<Rightarrow>
         let a = nat \<bar>o'\<bar>; s = a div 1000000 mod 60; us = a mod 1000000
         in (if o' < 0 then ''-'' else ''+'') @ pad 2 (a div 3600000000) @ '':''
            @ pad 2 (a div 60000000 mod 60)
            @ (if s = 0 \<and> us = 0 then '''' else '':'' @ pad 2 s)
            @ (if us = 0 then '''' else ''.'' @ pad 6 us))"

definition isoformat :: "datetime \<Rightarrow> string" where
  "isoformat d = naive_text d @ offset_text (utcoffset d)"

text \<open>\<open>s.replace(old, new)\<close> for a non-empty \<open>old\<close>, \<open>s.endswith(t)\<close>, \<open>s.removesuffix(t)\<close>.\<close>

definition starts_with :: "string \<Rightarrow> string \<Rightarrow> bool" where
  "starts_with t s \<longleftrightarrow> take (length t) s = t"

definition ends_with :: "string \<Rightarrow> string \<Rightarrow> bool" where
  "ends_with t s \<longleftrightarrow> starts_with (rev t) (rev s)"

definition removesuffix :: "string \<Rightarrow> string \<Rightarrow> string" where
  "removesuffix t s = (if ends_with t s then take (length s - length t) s else s)"

fun replace_str :: "string \<Rightarrow> string \<Rightarrow> string \<Rightarrow> string" where
  "replace_str old new [] = []"
| "replace_str old new (c # s) =
     (if old \<noteq> [] \<and> starts_with old (c # s)
      then new @ replace_str old new (drop (length old - 1) s)
      else c # replace_str old new s)"

definition utc_text :: "datetime \<Rightarrow> string" where
  "utc_text d = replace_str ''+00:00'' ''Z'' (isoformat d)"

text \<open>
  \<open>datetime.fromisoformat\<close> on the texts \<open>isoformat\<close> writes for UTC times. The code always gives
  it a text that ends in \<open>+00:00\<close> and compares the rendering of the result with the input, so
  that the other forms \<open>fromisoformat\<close> reads are refused in any case.
\<close>

definition number_field :: "nat \<Rightarrow> nat \<Rightarrow> string \<Rightarrow> nat option" where
  "number_field pos len s =
     (let t = take len (drop pos s)
      in if length t = len \<and> list_all is_digit t then Some (read_nat t) else None)"

definition fromisoformat :: "string \<Rightarrow> datetime option" where
  "fromisoformat s =
     (let fraction = (take 1 (drop 19 s) = ''.'')
      in Option.bind (number_field 0 4 s) (\<lambda>y.
         Option.bind (number_field 5 2 s) (\<lambda>mo.
         Option.bind (number_field 8 2 s) (\<lambda>d.
         Option.bind (number_field 11 2 s) (\<lambda>h.
         Option.bind (number_field 14 2 s) (\<lambda>mi.
         Option.bind (number_field 17 2 s) (\<lambda>sec.
         Option.bind (if fraction then number_field 20 6 s else Some 0) (\<lambda>us.
           let dt = Datetime y mo d h mi sec us (Some 0)
           in if take 1 (drop 4 s) = ''-'' \<and> take 1 (drop 7 s) = ''-'' \<and> length s > 10
                \<and> take 1 (drop 13 s) = '':'' \<and> take 1 (drop 16 s) = '':''
                \<and> drop (if fraction then 26 else 19) s = ''+00:00'' \<and> valid_datetime dt
              then Some dt else None))))))))"

text \<open>The check each reader of a stored time makes: canonical UTC text only.\<close>

definition read_utc :: "string \<Rightarrow> datetime option" where
  "read_utc s =
     (if \<not> ends_with ''Z'' s then None
      else case fromisoformat (removesuffix ''Z'' s @ ''+00:00'') of
        None \<Rightarrow> None
      | Some d \<Rightarrow> if utc_text d \<noteq> s then None else Some d)"

lemma replace_str_skip:
  "old = x # old' \<Longrightarrow> x \<notin> set s \<Longrightarrow> replace_str old new (s @ t) = s @ replace_str old new t"
  by (induction s) (auto simp: starts_with_def)

lemma plus_not_digit: "list_all is_digit s \<Longrightarrow> CHR ''+'' \<notin> set s"
  by (auto simp: list_all_iff char_class_defs)

lemma plus_notin_naive: "CHR ''+'' \<notin> set (naive_text d)"
  using pad_digits plus_not_digit by (simp add: naive_text_def)

lemma pad_2: "pad 2 n = [digit_char (n div 10 mod 10), digit_char (n mod 10)]"
  by (simp add: numeral_2_eq_2)

lemma pad_4:
  "pad 4 n = [digit_char (n div 1000 mod 10), digit_char (n div 100 mod 10),
     digit_char (n div 10 mod 10), digit_char (n mod 10)]"
proof -
  have "pad (Suc (Suc 2)) n =
      pad 2 (n div 10 div 10) @ [digit_char (n div 10 mod 10), digit_char (n mod 10)]"
    by (simp only: pad.simps append_assoc append.simps)
  moreover have "Suc (Suc 2) = 4" by simp
  ultimately show ?thesis
    by (simp only: pad_2 append.simps) (simp add: div_mult2_eq [symmetric])
qed

lemma offset_text_zero: "offset_text (Some 0) = ''+00:00''"
  by (simp add: offset_text_def pad_2)

lemma utc_text_eq: "is_utc d \<Longrightarrow> utc_text d = naive_text d @ ''Z''"
  using plus_notin_naive [of d]
  by (simp add: utc_text_def isoformat_def is_utc_def offset_text_zero replace_str_skip)
     (simp add: starts_with_def)

lemma year_bound: "valid_datetime d \<Longrightarrow> year d < 10 ^ 4"
  by (simp add: valid_datetime_def)

lemma field_bounds:
  assumes "valid_datetime d"
  shows "month d < 10 ^ 2" "day d < 10 ^ 2" "hour d < 10 ^ 2" "minute d < 10 ^ 2"
    "second d < 10 ^ 2" "microsecond d < 10 ^ 6"
proof -
  have "days_in_month (year d) (month d) \<le> 31" by (simp add: days_in_month_def)
  then show "month d < 10 ^ 2" "day d < 10 ^ 2" "hour d < 10 ^ 2" "minute d < 10 ^ 2"
    "second d < 10 ^ 2" "microsecond d < 10 ^ 6"
    using assms by (auto simp: valid_datetime_def)
qed

lemmas field_digits = year_bound field_bounds

lemma fromisoformat_naive_text:
  assumes "valid_datetime d" "is_utc d"
  shows "fromisoformat (naive_text d @ ''+00:00'') = Some d"
proof -
  have dt: "Datetime (year d) (month d) (day d) (hour d) (minute d) (second d) (microsecond d)
      (Some 0) = d"
    using assms(2) by (cases d) (simp add: is_utc_def)
  have parts:
    "number_field 0 4 (naive_text d @ t) = Some (year d)"
    "number_field 5 2 (naive_text d @ t) = Some (month d)"
    "number_field 8 2 (naive_text d @ t) = Some (day d)"
    "number_field 11 2 (naive_text d @ t) = Some (hour d)"
    "number_field 14 2 (naive_text d @ t) = Some (minute d)"
    "number_field 17 2 (naive_text d @ t) = Some (second d)"
    "microsecond d \<noteq> 0 \<Longrightarrow> number_field 20 6 (naive_text d @ t) = Some (microsecond d)" for t
    using field_digits [OF assms(1)] by (simp_all add: number_field_def naive_text_def pad_digits)
  show ?thesis
  proof (cases "microsecond d = 0")
    case True
    with dt have "Datetime (year d) (month d) (day d) (hour d) (minute d) (second d) 0 (Some 0) = d"
      by simp
    with True assms(1) show ?thesis
      unfolding fromisoformat_def parts by (simp add: naive_text_def)
  next
    case False
    with assms(1) dt show ?thesis
      unfolding fromisoformat_def parts(1-6) parts(7) [OF False] by (simp add: naive_text_def)
  qed
qed

lemma ends_with_append [simp]: "ends_with t (s @ t)"
  by (simp add: ends_with_def starts_with_def)

lemma removesuffix_append [simp]: "removesuffix t (s @ t) = s"
  by (simp add: removesuffix_def)

lemma read_utc_text: "valid_datetime d \<Longrightarrow> is_utc d \<Longrightarrow> read_utc (utc_text d) = Some d"
  using utc_text_eq [of d] fromisoformat_naive_text [of d]
  by (simp add: read_utc_def)

lemma fromisoformat_valid: "fromisoformat s = Some d \<Longrightarrow> valid_datetime d \<and> is_utc d"
  by (simp add: fromisoformat_def Let_def bind_eq_Some_conv split: if_splits)
     (auto simp: is_utc_def)

lemma read_utc_Some: "read_utc s = Some d \<Longrightarrow> valid_datetime d \<and> is_utc d \<and> utc_text d = s"
  by (auto simp: read_utc_def dest: fromisoformat_valid split: if_splits option.splits)

lemma utc_text_inject:
  "valid_datetime a \<Longrightarrow> is_utc a \<Longrightarrow> valid_datetime b \<Longrightarrow> is_utc b \<Longrightarrow>
   utc_text a = utc_text b \<longleftrightarrow> a = b"
  by (metis read_utc_text option.inject)

subsection \<open>The order of the texts\<close>

lemma append_less_same_length:
  "length a = length b \<Longrightarrow> (a @ x < b @ y) \<longleftrightarrow> a < b \<or> (a = b \<and> x < (y :: string))"
  by (induction a b rule: list_induct2) auto

lemma pad_eq_iff: "m < 10 ^ k \<Longrightarrow> n < 10 ^ k \<Longrightarrow> pad k m = pad k n \<longleftrightarrow> m = n"
  by (metis read_pad)

text \<open>
  Text order is the order of the times, except within one second where only one of the times has
  a fraction: \<open>.\<close> comes before \<open>Z\<close>, so a text with a fraction sorts before the text of its
  whole second.
\<close>

definition whole_second :: "datetime \<Rightarrow> nat list" where
  "whole_second d = [year d, month d, day d, hour d, minute d, second d]"

definition text_before :: "datetime \<Rightarrow> datetime \<Rightarrow> bool" where
  "text_before a b \<longleftrightarrow>
     (if whole_second a = whole_second b \<and> (microsecond a = 0) \<noteq> (microsecond b = 0)
      then microsecond a \<noteq> 0 else a < b)"

lemma utc_text_less:
  assumes "valid_datetime a" "is_utc a" "valid_datetime b" "is_utc b"
  shows "utc_text a < utc_text b \<longleftrightarrow> text_before a b"
proof -
  note bounds = field_digits [OF assms(1)] field_digits [OF assms(3)]
  have off: "utcoffset a = Some 0" "utcoffset b = Some 0"
    using assms(2,4) by (simp_all add: is_utc_def)
  show ?thesis
    unfolding utc_text_eq [OF assms(2)] utc_text_eq [OF assms(4)] naive_text_def
      less_datetime_def dt_key_def text_before_def whole_second_def
    using off bounds
    by (cases "microsecond a = 0"; cases "microsecond b = 0")
       (simp_all add: append_less_same_length pad_less_iff pad_eq_iff less_char_def, linarith+)
qed

subsection \<open>Durations\<close>

text \<open>
  \<open>value - delta\<close> for a duration in microseconds, by the proleptic Gregorian
  ordinals of \<open>datetime\<close>; \<open>None\<close> is its \<open>OverflowError\<close>.
\<close>

definition days_before_year :: "nat \<Rightarrow> nat" where
  "days_before_year y = (let k = y - 1 in k * 365 + k div 4 - k div 100 + k div 400)"

definition days_before_month :: "nat \<Rightarrow> nat \<Rightarrow> nat" where
  "days_before_month y m =
     [0, 0, 31, 59, 90, 120, 151, 181, 212, 243, 273, 304, 334] ! m
     + (if 2 < m \<and> is_leap y then 1 else 0)"

definition to_ordinal :: "datetime \<Rightarrow> nat" where
  "to_ordinal d = days_before_year (year d) + days_before_month (year d) (month d) + day d"

definition to_microseconds :: "datetime \<Rightarrow> int" where
  "to_microseconds d =
     (((int (to_ordinal d) * 24 + int (hour d)) * 60 + int (minute d)) * 60 + int (second d))
       * 1000000 + int (microsecond d)"

definition year_of_ordinal :: "nat \<Rightarrow> nat" where
  "year_of_ordinal n =
     (let m = n - 1; n400 = m div 146097; r400 = m mod 146097; n100 = r400 div 36524;
          r100 = r400 mod 36524; n4 = r100 div 1461; r4 = r100 mod 1461; n1 = r4 div 365
      in if n1 = 4 \<or> n100 = 4 then n400 * 400 + n100 * 100 + n4 * 4 + n1
         else n400 * 400 + n100 * 100 + n4 * 4 + n1 + 1)"

definition of_microseconds :: "int \<Rightarrow> datetime option" where
  "of_microseconds t =
     (let n = t div 86400000000; us = nat (t mod 86400000000)
      in if n < 1 \<or> 3652059 < n then None
         else let y = year_of_ordinal (nat n); k = nat n - days_before_year y;
                  m = last (filter (\<lambda>m. days_before_month y m < k) [1, 2, 3, 4, 5, 6, 7, 8, 9, 10, 11, 12])
              in Some (Datetime y m (k - days_before_month y m)
                   (us div 3600000000) (us div 60000000 mod 60) (us div 1000000 mod 60)
                   (us mod 1000000) (Some 0)))"

definition minus_microseconds :: "datetime \<Rightarrow> int \<Rightarrow> datetime option" where
  "minus_microseconds d us = map_option
     (\<lambda>e. Datetime (year e) (month e) (day e) (hour e) (minute e) (second e) (microsecond e) (utcoffset d))
     (of_microseconds (to_microseconds d - us))"

end
