(* ===== verification/Domain_Model.thy ===== *)
theory Domain_Model
  imports Timestamps
begin

text \<open>
  \<open>domain/model.py\<close> and \<open>domain/controller_provider.py\<close>: the frozen data classes of the domain.
  A class is a record with its fields; its \<open>__post_init__\<close> is a check that returns the
  \<open>_ContractError\<close> it raises, in the order of the code. The checks of the run-time type of a
  field are the types of the records. \<open>sha\<close> is \<open>sha256_bytes\<close>, the hexadecimal digest.
\<close>

subsection \<open>Field checks\<close>

definition require_text :: "string \<Rightarrow> string \<Rightarrow> unit res" where
  "require_text value field =
     ensure (value \<noteq> []) (ContractError field ''must be a non-empty string'')"

definition require_hash :: "string \<Rightarrow> string \<Rightarrow> unit res" where
  "require_hash value field =
     ensure (is_hash value)
       (ContractError field ''must be a 64-character lowercase hexadecimal hash'')"

definition require_sequence :: "int \<Rightarrow> string \<Rightarrow> unit res" where
  "require_sequence value field =
     ensure (0 \<le> value) (ContractError field ''must be a non-negative integer'')"

fun require_all :: "(unit res) list \<Rightarrow> unit res" where
  "require_all [] = Inr ()"
| "require_all (c # cs) = bindr c (\<lambda>_. require_all cs)"

lemma require_text_Inr [simp]: "require_text v f = Inr () \<longleftrightarrow> v \<noteq> []"
  by (simp add: require_text_def)

lemma require_hash_Inr [simp]: "require_hash v f = Inr () \<longleftrightarrow> is_hash v"
  by (simp add: require_hash_def)

lemma require_sequence_Inr [simp]: "require_sequence v f = Inr () \<longleftrightarrow> 0 \<le> v"
  by (simp add: require_sequence_def)

lemma require_all_Inr [simp]: "require_all cs = Inr () \<longleftrightarrow> (\<forall>c \<in> set cs. c = Inr ())"
  by (induction cs) (auto simp: inr_simps)

subsection \<open>Enumerations\<close>

datatype contribution_payload_kind = PATCH | SNAPSHOT

datatype agent_role =
    RESEARCH_CONDUCTOR | LITERATURE_SCOUT | BOUNDARY_MAPPER | CONJECTURE_GENERATOR
  | NOVELTY_AUDITOR | FORMALIZER | FORMAL_PLANNER | PROOF_EXPLORER | LEMMA_INVENTOR
  | COUNTEREXAMPLE_AGENT | LEARNING_AGENT

fun role_value :: "agent_role \<Rightarrow> string" where
  "role_value RESEARCH_CONDUCTOR = ''research_conductor''"
| "role_value LITERATURE_SCOUT = ''literature_scout''"
| "role_value BOUNDARY_MAPPER = ''boundary_mapper''"
| "role_value CONJECTURE_GENERATOR = ''conjecture_generator''"
| "role_value NOVELTY_AUDITOR = ''novelty_auditor''"
| "role_value FORMALIZER = ''formalizer''"
| "role_value FORMAL_PLANNER = ''formal_planner''"
| "role_value PROOF_EXPLORER = ''proof_explorer''"
| "role_value LEMMA_INVENTOR = ''lemma_inventor''"
| "role_value COUNTEREXAMPLE_AGENT = ''counterexample_agent''"
| "role_value LEARNING_AGENT = ''learning_agent''"

definition all_roles :: "agent_role list" where
  "all_roles = [RESEARCH_CONDUCTOR, LITERATURE_SCOUT, BOUNDARY_MAPPER, CONJECTURE_GENERATOR,
     NOVELTY_AUDITOR, FORMALIZER, FORMAL_PLANNER, PROOF_EXPLORER, LEMMA_INVENTOR,
     COUNTEREXAMPLE_AGENT, LEARNING_AGENT]"

text \<open>\<open>AgentRole(value)\<close>: the member with that value, \<open>None\<close> for its \<open>ValueError\<close>.\<close>

definition agent_role_of :: "string \<Rightarrow> agent_role option" where
  "agent_role_of s = List.find (\<lambda>r. role_value r = s) all_roles"

lemma agent_role_of_value [simp]: "agent_role_of (role_value r) = Some r"
  by (cases r) (simp_all add: agent_role_of_def all_roles_def)

lemma agent_role_of_Some: "agent_role_of s = Some r \<Longrightarrow> role_value r = s"
  by (auto simp: agent_role_of_def find_Some_iff)

lemma role_value_nonempty [simp]: "role_value r \<noteq> []"
  by (cases r) simp_all

subsection \<open>Epochs, staleness\<close>

record epoch_pair =
  base_epoch :: string
  knowledge_epoch :: int

definition check_epoch_pair :: "epoch_pair \<Rightarrow> unit res" where
  "check_epoch_pair e = require_all
     [require_hash (base_epoch e) ''base_epoch'',
      require_sequence (knowledge_epoch e) ''knowledge_epoch'']"

definition new_epoch_pair :: "string \<Rightarrow> int \<Rightarrow> epoch_pair res" where
  "new_epoch_pair b k =
     (let e = \<lparr>base_epoch = b, knowledge_epoch = k\<rparr>
      in bindr (check_epoch_pair e) (\<lambda>_. Inr e))"

record staleness =
  stale_base_epoch :: bool
  stale_knowledge_epoch :: bool
  stale_file_version :: bool

definition is_stale :: "staleness \<Rightarrow> bool" where
  "is_stale s \<longleftrightarrow> stale_base_epoch s \<or> stale_knowledge_epoch s \<or> stale_file_version s"

subsection \<open>File leases\<close>

record file_lease =
  fl_lease_id :: string
  fl_worker_id :: string
  fl_run_id :: string
  fl_document_id :: string
  fl_namespace :: string
  fl_epoch_pair :: epoch_pair
  fl_file_version :: int
  fl_content_hash :: string
  fl_expires_at :: datetime
  fl_physical_file :: "string option"
  fl_recovery_metadata :: "(string \<times> string) list"

definition check_file_lease :: "file_lease \<Rightarrow> unit res" where
  "check_file_lease l = require_all
     [require_text (fl_lease_id l) ''lease_id'',
      require_text (fl_worker_id l) ''worker_id'',
      require_text (fl_run_id l) ''run_id'',
      require_text (fl_document_id l) ''document_id'',
      require_text (fl_namespace l) ''virtual_document_namespace'',
      require_sequence (fl_file_version l) ''file_version'',
      require_hash (fl_content_hash l) ''content_hash'',
      ensure (is_utc (fl_expires_at l))
        (ContractError ''expires_at'' ''must be a timezone-aware UTC datetime'')]"

subsection \<open>Contributions\<close>

record contribution =
  co_worker_id :: string
  co_run_id :: string
  co_lease_id :: string
  co_epoch_pair :: epoch_pair
  co_file_version :: "int option"
  co_payload_kind :: contribution_payload_kind
  co_environment_fingerprint :: string
  co_candidate_declaration :: string
  co_candidate_proof :: string
  co_patch_body :: "string option"
  co_snapshot_body :: "string option"
  co_payload_hash :: "string option"
  co_formal_dependencies :: "string list"
  co_imports :: "string list"
  co_assumptions :: "string list"
  co_axioms :: "string list"
  co_formal_action_trace :: "string list"
  co_research_notes :: "string list"
  co_evidence_links :: "string list"

definition check_contribution_body :: "(string \<Rightarrow> string) \<Rightarrow> contribution \<Rightarrow> unit res" where
  "check_contribution_body sha c =
     (case co_payload_kind c of
       PATCH \<Rightarrow>
         (case co_patch_body c of
           None \<Rightarrow> Inl (ContractError ''patch'' ''requires a body and expected file version'')
         | Some b \<Rightarrow> bindr (require_text b ''patch_body'') (\<lambda>_.
             ensure (co_snapshot_body c = None \<and> co_payload_hash c = None)
               (ContractError ''patch'' ''cannot contain snapshot fields'')))
     | SNAPSHOT \<Rightarrow>
         (case (co_snapshot_body c, co_payload_hash c) of
           (Some b, Some h) \<Rightarrow> require_all
             [require_text b ''snapshot_body'',
              require_hash h ''payload_hash'',
              ensure (sha b = h) (ContractError ''payload_hash'' ''does not match snapshot body''),
              ensure (co_patch_body c = None)
                (ContractError ''snapshot'' ''cannot contain a patch body'')]
         | _ \<Rightarrow> Inl (ContractError ''snapshot'' ''requires a body and payload hash'')))"

definition check_contribution :: "(string \<Rightarrow> string) \<Rightarrow> contribution \<Rightarrow> unit res" where
  "check_contribution sha c = require_all
     [require_text (co_worker_id c) ''worker_id'',
      require_text (co_run_id c) ''run_id'',
      require_text (co_lease_id c) ''lease_id'',
      require_text (co_candidate_declaration c) ''candidate_declaration'',
      require_text (co_candidate_proof c) ''candidate_proof'',
      (case co_file_version c of
        None \<Rightarrow> Inl (ContractError ''file_version'' ''must record the leased file version'')
      | Some v \<Rightarrow> require_sequence v ''file_version''),
      require_hash (co_environment_fingerprint c) ''environment_fingerprint'',
      check_contribution_body sha c]"

definition staleness_of :: "contribution \<Rightarrow> epoch_pair \<Rightarrow> int \<Rightarrow> staleness res" where
  "staleness_of c current_epoch current_file_version =
     bindr (require_sequence current_file_version ''current_file_version'') (\<lambda>_.
       Inr \<lparr>stale_base_epoch = (base_epoch (co_epoch_pair c) \<noteq> base_epoch current_epoch),
            stale_knowledge_epoch =
              (knowledge_epoch (co_epoch_pair c) \<noteq> knowledge_epoch current_epoch),
            stale_file_version =
              (case co_payload_kind c of
                PATCH \<Rightarrow> co_file_version c \<noteq> Some current_file_version
              | SNAPSHOT \<Rightarrow> False)\<rparr>)"

subsection \<open>Knowledge deltas\<close>

record knowledge_delta =
  kd_previous_epoch :: epoch_pair
  kd_new_epoch :: epoch_pair
  kd_theorem_name :: "string option"
  kd_complete_type :: "string option"
  kd_module :: "string option"
  kd_dependencies :: "string list"
  kd_assumptions :: "string list"
  kd_evidence_links :: "string list"
  kd_old_fingerprint :: "string option"
  kd_new_fingerprint :: "string option"

definition require_some :: "string option \<Rightarrow> (string \<Rightarrow> string \<Rightarrow> unit res) \<Rightarrow> string \<Rightarrow> string \<Rightarrow> unit res" where
  "require_some v check field reason =
     (case v of None \<Rightarrow> Inl (ContractError field reason) | Some s \<Rightarrow> check s field)"

definition check_knowledge_delta :: "knowledge_delta \<Rightarrow> unit res" where
  "check_knowledge_delta d =
     (let prev = kd_previous_epoch d; next' = kd_new_epoch d;
          has_declaration = (\<exists>v \<in> set [kd_theorem_name d, kd_complete_type d, kd_module d]. v \<noteq> None);
          has_environment = (\<exists>v \<in> set [kd_old_fingerprint d, kd_new_fingerprint d]. v \<noteq> None)
      in require_all
       [ensure (knowledge_epoch next' = knowledge_epoch prev + 1)
          (ContractError ''new_epoch'' ''must advance knowledge_epoch exactly once''),
        ensure (base_epoch next' \<noteq> base_epoch prev)
          (ContractError ''new_epoch'' ''must publish a new base_epoch''),
        ensure (has_declaration \<noteq> has_environment)
          (ContractError ''knowledge_delta'' ''must contain one delta payload kind''),
        (if has_declaration then
           let reason = ''is required for a declaration delta''
           in require_all
             [require_some (kd_theorem_name d) require_text ''theorem_name'' reason,
              require_some (kd_complete_type d) require_text ''complete_type'' reason,
              require_some (kd_module d) require_text ''module'' reason]
         else Inr ()),
        (if has_environment then
           let reason = ''is required for an environment delta''
           in require_all
             [require_some (kd_old_fingerprint d) require_hash ''old_environment_fingerprint'' reason,
              require_some (kd_new_fingerprint d) require_hash ''new_environment_fingerprint'' reason,
              ensure (kd_old_fingerprint d \<noteq> kd_new_fingerprint d)
                (ContractError ''new_environment_fingerprint''
                   ''must differ from old_environment_fingerprint'')]
         else Inr ())])"

subsection \<open>Controller provider names\<close>

text \<open>\<open>re.fullmatch(r"[a-z][a-z0-9_-]{0,63}", value)\<close>.\<close>

definition is_controller_provider_id :: "string \<Rightarrow> bool" where
  "is_controller_provider_id =
     ident_match is_lower
       (\<lambda>c. is_lower c \<or> is_digit c \<or> c = CHR ''_'' \<or> c = CHR ''-'') 63"

subsection \<open>What the checks establish\<close>

lemma check_epoch_pair_Inr [simp]:
  "check_epoch_pair e = Inr () \<longleftrightarrow> is_hash (base_epoch e) \<and> 0 \<le> knowledge_epoch e"
  by (simp add: check_epoch_pair_def inr_simps)

lemma new_epoch_pair_Inr [simp]:
  "new_epoch_pair b k = Inr e \<longleftrightarrow>
     is_hash b \<and> 0 \<le> k \<and> e = \<lparr>base_epoch = b, knowledge_epoch = k\<rparr>"
  by (auto simp: new_epoch_pair_def Let_def inr_simps)

text \<open>
  An accepted contribution has exactly the body its kind asks for: a patch has a patch body
  and neither snapshot field, a snapshot has a snapshot body whose digest is the recorded payload
  hash and no patch body; either way it names the leased file version.
\<close>

lemma contribution_body_matches_kind:
  assumes "check_contribution sha c = Inr ()"
  shows "(\<exists>v \<ge> 0. co_file_version c = Some v) \<and>
    (co_payload_kind c = PATCH \<and> (\<exists>b. b \<noteq> [] \<and> co_patch_body c = Some b)
        \<and> co_snapshot_body c = None \<and> co_payload_hash c = None
     \<or> co_payload_kind c = SNAPSHOT \<and> co_patch_body c = None
        \<and> (\<exists>b. b \<noteq> [] \<and> co_snapshot_body c = Some b \<and> co_payload_hash c = Some (sha b)
              \<and> is_hash (sha b)))"
  using assms
  by (auto simp: check_contribution_def check_contribution_body_def inr_simps
      split: option.splits contribution_payload_kind.splits)

text \<open>
  An accepted knowledge delta moves from its previous epoch to the next knowledge epoch with a
  new base, and carries either a complete declaration or a change of environment, never both.
\<close>

lemma knowledge_delta_advances_once:
  assumes "check_knowledge_delta d = Inr ()"
  shows "knowledge_epoch (kd_new_epoch d) = knowledge_epoch (kd_previous_epoch d) + 1
    \<and> base_epoch (kd_new_epoch d) \<noteq> base_epoch (kd_previous_epoch d)
    \<and> ((\<exists>n t m. kd_theorem_name d = Some n \<and> kd_complete_type d = Some t \<and> kd_module d = Some m
          \<and> n \<noteq> [] \<and> t \<noteq> [] \<and> m \<noteq> []
          \<and> kd_old_fingerprint d = None \<and> kd_new_fingerprint d = None)
      \<or> (\<exists>f g. kd_old_fingerprint d = Some f \<and> kd_new_fingerprint d = Some g \<and> f \<noteq> g
          \<and> is_hash f \<and> is_hash g
          \<and> kd_theorem_name d = None \<and> kd_complete_type d = None \<and> kd_module d = None))"
  using assms
  by (auto simp: check_knowledge_delta_def require_some_def Let_def inr_simps
      split: option.splits if_splits)

end
