(* ===== verification/Json.thy ===== *)
theory Json
  imports Text_Format
begin

text \<open>
  The JSON values of \<open>domain/serialization.py\<close>, their canonical form and text, and the frozen
  payloads of \<open>state/event_payload.py\<close>. A JSON float is its 64 bits of IEEE 754; the text of a
  float (Python's shortest \<open>repr\<close>) is an argument of the printer, and the reader, which is here
  to show that the text of a value determines it, leaves floats out.
\<close>

subsection \<open>Values\<close>

datatype json =
    JNull
  | JBool bool
  | JInt int
  | JFloat "64 word"
  | JStr string
  | JArr "json list"
  | JObj "(string \<times> json) list"

type_synonym jdict = "json dict"

definition float_finite :: "64 word \<Rightarrow> bool" where
  "float_finite w \<longleftrightarrow> take_bit 11 (drop_bit 52 w) \<noteq> 2047"

fun str_of :: "json \<Rightarrow> string option" where
  "str_of (JStr s) = Some s"
| "str_of _ = None"

text \<open>\<open>d.get(k)\<close> followed by the check that it is a string.\<close>

definition get_str :: "jdict \<Rightarrow> string \<Rightarrow> string option" where
  "get_str d k = Option.bind (map_of d k) str_of"

lemma str_of_eq_Some [simp]: "str_of v = Some s \<longleftrightarrow> v = JStr s"
  by (cases v) auto

lemma get_str_eq_Some [simp]: "get_str d k = Some s \<longleftrightarrow> map_of d k = Some (JStr s)"
  by (cases "map_of d k") (auto simp: get_str_def)

lemma get_str_Some [simp]: "map_of d k = Some (JStr s) \<Longrightarrow> get_str d k = Some s"
  by (simp only: get_str_eq_Some)

subsection \<open>Canonical form: keys sorted at every level\<close>

fun canon :: "json \<Rightarrow> json" where
  "canon (JArr xs) = JArr (map canon xs)"
| "canon (JObj d) = JObj (sort_key fst (map (\<lambda>(k, v). (k, canon v)) d))"
| "canon v = v"

definition canon_dict :: "jdict \<Rightarrow> jdict" where
  "canon_dict d = sort_key fst (map (\<lambda>(k, v). (k, canon v)) d)"

fun floats_finite :: "json \<Rightarrow> bool" where
  "floats_finite (JFloat w) = float_finite w"
| "floats_finite (JArr xs) = list_all floats_finite xs"
| "floats_finite (JObj d) = list_all (\<lambda>(k, v). floats_finite v) d"
| "floats_finite _ = True"

text \<open>Dictionaries have one entry for each key, at every level.\<close>

fun wf_json :: "json \<Rightarrow> bool" where
  "wf_json (JArr xs) = list_all wf_json xs"
| "wf_json (JObj d) = (distinct (map fst d) \<and> list_all (\<lambda>(k, v). wf_json v) d)"
| "wf_json _ = True"

definition wf_jdict :: "jdict \<Rightarrow> bool" where
  "wf_jdict d \<longleftrightarrow> wf_json (JObj d)"

lemma canon_JObj: "canon (JObj d) = JObj (canon_dict d)"
  by (simp add: canon_dict_def)

lemma fst_case_canon [simp]: "fst (case p of (k, v) \<Rightarrow> (k, f v)) = fst p"
  by (cases p) simp

lemma map_fst_canon_pairs [simp]: "map fst (map (\<lambda>(k, v). (k, f v)) d) = map fst d"
  by (induction d) auto

lemma wf_jdict_wf_dict: "wf_jdict d \<Longrightarrow> wf_dict d"
  by (simp add: wf_jdict_def wf_dict_def)

lemma map_of_map_snd: "map_of (map (\<lambda>(k, v). (k, f v)) d) k = map_option f (map_of d k)"
  by (induction d) auto

lemma distinct_map_fst_sort [simp]:
  "distinct (map fst (sort_key fst d)) \<longleftrightarrow> distinct (map fst d)"
  by (simp add: distinct_map)

lemma map_of_sort_key_fst:
  assumes "distinct (map fst d)"
  shows "map_of (sort_key fst d) = map_of d"
proof -
  have "distinct (map fst (sort_key fst d))"
    using assms by simp
  then show ?thesis using assms by (metis map_of_eqI map_of_inject_set set_sort set_map)
qed

lemma map_of_canon_dict:
  "wf_dict d \<Longrightarrow> map_of (canon_dict d) k = map_option canon (map_of d k)"
  unfolding canon_dict_def
  by (subst map_of_sort_key_fst) (simp_all add: wf_dict_def map_of_map_snd del: map_map)

lemma keys_canon_dict [simp]: "keys (canon_dict d) = keys d"
  by (force simp: keys_def canon_dict_def image_iff)

lemma sort_key_fst_idem:
  "sorted (map fst d) \<Longrightarrow> sort_key fst d = (d :: 'v dict)"
  by (rule sort_key_id_if_sorted)

lemma sorted_canon_dict: "sorted (map fst (canon_dict d))"
  by (simp add: canon_dict_def)

lemma map_canon_canon_dict:
  assumes "\<And>k v. (k, v) \<in> set d \<Longrightarrow> canon (canon v) = canon v"
  shows "map (\<lambda>(k, v). (k, canon v)) (canon_dict d) = canon_dict d"
  using assms by (auto simp: canon_dict_def intro!: map_idI)

lemma canon_idem [simp]: "canon (canon v) = canon v"
proof (induction v rule: canon.induct)
  case (2 d)
  have "map (\<lambda>(k, v). (k, canon v)) (canon_dict d) = canon_dict d"
    using 2 by (intro map_canon_canon_dict) auto
  then have "canon_dict (canon_dict d) = canon_dict d"
    using sorted_canon_dict [of d] by (simp add: canon_dict_def [of "canon_dict d"] sort_key_fst_idem)
  then show ?case by (simp only: canon_JObj)
qed auto

lemma canon_dict_idem [simp]: "canon_dict (canon_dict d) = canon_dict d"
  using canon_idem [of "JObj d"] by (simp only: canon_JObj json.inject)

lemma canon_eq_JStr [simp]: "canon v = JStr s \<longleftrightarrow> v = JStr s"
  by (cases v) auto

lemma canon_eq_JInt [simp]: "canon v = JInt i \<longleftrightarrow> v = JInt i"
  by (cases v) auto

lemma canon_eq_JBool [simp]: "canon v = JBool b \<longleftrightarrow> v = JBool b"
  by (cases v) auto

lemma canon_eq_JNull [simp]: "canon v = JNull \<longleftrightarrow> v = JNull"
  by (cases v) auto

lemma str_of_canon [simp]: "str_of (canon v) = str_of v"
  by (cases v) auto

lemma get_str_canon_dict [simp]: "wf_dict d \<Longrightarrow> get_str (canon_dict d) k = get_str d k"
  by (cases "map_of d k") (auto simp: get_str_def map_of_canon_dict)

lemma wf_dict_canon_dict [simp]: "wf_dict (canon_dict d) \<longleftrightarrow> wf_dict d"
  by (simp add: wf_dict_def canon_dict_def del: map_map)

lemma wf_json_canon [simp]: "wf_json (canon v) \<longleftrightarrow> wf_json v"
proof (induction v rule: canon.induct)
  case (2 d)
  have "list_all (\<lambda>(k, v). wf_json v) (canon_dict d) \<longleftrightarrow> list_all (\<lambda>(k, v). wf_json v) d"
    using 2 by (force simp: canon_dict_def list_all_iff)
  then show ?case
    using wf_dict_canon_dict [of d] unfolding canon_JObj by (simp add: wf_dict_def)
qed (auto simp: list_all_iff)

lemma wf_jdict_canon [simp]: "wf_jdict (canon_dict d) \<longleftrightarrow> wf_jdict d"
  using wf_json_canon [of "JObj d"] by (simp only: canon_JObj wf_jdict_def)

lemma floats_finite_canon [simp]: "floats_finite (canon v) \<longleftrightarrow> floats_finite v"
proof (induction v rule: canon.induct)
  case (2 d)
  then show ?case by (force simp: list_all_iff)
qed (auto simp: list_all_iff)

text \<open>
  Python's \<open>==\<close> on dictionaries does not see the order of the keys: two are equal when their
  canonical forms are. (The dictionaries the code compares hold validated strings, integers and
  lists of strings, so that \<open>True == 1 == 1.0\<close> plays no part.)
\<close>

definition dict_eq :: "jdict \<Rightarrow> jdict \<Rightarrow> bool" where
  "dict_eq d e \<longleftrightarrow> canon_dict d = canon_dict e"

lemma dict_eq_canon [simp]: "dict_eq (canon_dict d) e = dict_eq d e" "dict_eq d (canon_dict e) = dict_eq d e"
  by (simp_all add: dict_eq_def)

lemma dict_eq_map_of:
  assumes "dict_eq d e" "wf_dict d" "wf_dict e"
  shows "map_option canon (map_of d k) = map_option canon (map_of e k)"
  using assms by (metis dict_eq_def map_of_canon_dict)

lemma dict_eq_get_str:
  "dict_eq d e \<Longrightarrow> wf_dict d \<Longrightarrow> wf_dict e \<Longrightarrow> get_str d k = get_str e k"
  by (metis dict_eq_def get_str_canon_dict)

lemma canon_dict_eqI:
  assumes "wf_dict d" "wf_dict e"
    and eq: "\<And>k. map_option canon (map_of d k) = map_option canon (map_of e k)"
  shows "canon_dict d = canon_dict e"
proof -
  have "distinct (map fst (canon_dict d))" "distinct (map fst (canon_dict e))"
    using assms(1,2) by (metis wf_dict_canon_dict wf_dict_def)+
  moreover have "map_of (canon_dict d) = map_of (canon_dict e)"
    using eq assms(1,2) by (auto simp: map_of_canon_dict)
  ultimately have "set (canon_dict d) = set (canon_dict e)"
    by (simp add: map_of_inject_set)
  moreover have "inj_on fst (set (canon_dict d))"
    using \<open>distinct (map fst (canon_dict d))\<close> by (simp add: distinct_map)
  ultimately show ?thesis
    using \<open>distinct (map fst (canon_dict d))\<close> \<open>distinct (map fst (canon_dict e))\<close>
      sorted_canon_dict [of d] sorted_canon_dict [of e]
    by (intro map_sorted_distinct_set_unique [where f = fst]) auto
qed

lemma canon_dict_cong:
  assumes "canon_dict d = canon_dict e"
  shows "keys d = keys e" "wf_dict d = wf_dict e" "wf_dict d \<Longrightarrow> get_str d k = get_str e k"
    "wf_dict d \<Longrightarrow> map_option canon (map_of d k) = map_option canon (map_of e k)"
proof -
  show "keys d = keys e" using assms by (metis keys_canon_dict)
  show wf: "wf_dict d = wf_dict e" using assms by (metis wf_dict_canon_dict)
  show "get_str d k = get_str e k" if "wf_dict d"
    using assms that wf by (metis get_str_canon_dict)
  show "map_option canon (map_of d k) = map_option canon (map_of e k)" if "wf_dict d"
    using assms that wf by (metis map_of_canon_dict)
qed

lemma canon_dict_merge:
  assumes "wf_dict p" "wf_dict d"
  shows "canon_dict (dict_merge p (canon_dict d)) = canon_dict (dict_merge p d)"
  using assms
  by (intro canon_dict_eqI)
     (auto simp: wf_dict_merge map_of_dict_merge map_of_canon_dict split: option.splits)

lemma canon_dict_update:
  assumes "wf_dict d" "canon_dict d = canon_dict e"
  shows "canon_dict (AList.update k v d) = canon_dict (AList.update k v e)"
  using assms canon_dict_cong(2) [OF assms(2)] canon_dict_cong(4) [OF assms(2,1)]
  by (intro canon_dict_eqI) (auto simp: wf_dict_update map_of_update)

text \<open>Two payloads that differ in the order of their keys only.\<close>

definition same_payload :: "jdict \<Rightarrow> jdict \<Rightarrow> bool" where
  "same_payload p q \<longleftrightarrow> wf_jdict p \<and> wf_jdict q \<and> canon_dict p = canon_dict q"

lemma same_payload_wf: "same_payload p q \<Longrightarrow> wf_dict p \<and> wf_dict q"
  by (auto simp: same_payload_def wf_jdict_wf_dict)

lemma same_payload_lookups:
  assumes "same_payload p q"
  shows "keys p = keys q" "get_str p k = get_str q k"
    "map_option canon (map_of p k) = map_option canon (map_of q k)"
  using assms canon_dict_cong [of p q] same_payload_wf [OF assms]
  by (auto simp: same_payload_def)

lemma wf_json_map_of: "wf_jdict p \<Longrightarrow> map_of p k = Some v \<Longrightarrow> wf_json v"
  by (auto simp: wf_jdict_def list_all_iff dest: map_of_SomeD)

lemma wf_jdict_iff: "wf_jdict d \<longleftrightarrow> wf_dict d \<and> (\<forall>k v. map_of d k = Some v \<longrightarrow> wf_json v)"
proof
  assume d: "wf_dict d \<and> (\<forall>k v. map_of d k = Some v \<longrightarrow> wf_json v)"
  then have "distinct (map fst d)" by (simp add: wf_dict_def)
  then have "list_all (\<lambda>(k, v). wf_json v) d"
    using d by (auto simp: list_all_iff)
  then show "wf_jdict d" using \<open>distinct (map fst d)\<close> by (simp add: wf_jdict_def)
qed (auto simp: wf_jdict_wf_dict wf_json_map_of)

lemma wf_jdict_merge: "wf_jdict p \<Longrightarrow> wf_jdict q \<Longrightarrow> wf_jdict (dict_merge p q)"
  unfolding wf_jdict_iff
  by (auto simp: wf_dict_merge map_of_dict_merge split: option.splits)

lemma wf_jdict_update: "wf_jdict p \<Longrightarrow> wf_json v \<Longrightarrow> wf_jdict (AList.update k v p)"
  unfolding wf_jdict_iff by (auto simp: wf_dict_update map_of_update split: if_splits)

lemma same_payload_merge:
  assumes "wf_jdict p" "same_payload c d"
  shows "same_payload (dict_merge p c) (dict_merge p d)"
proof -
  have "wf_jdict c" "wf_jdict d" "wf_dict c" "wf_dict d" "wf_dict p"
    using assms by (auto simp: same_payload_def wf_jdict_wf_dict)
  then show ?thesis
    using assms canon_dict_merge [of p c] canon_dict_merge [of p d]
    by (simp add: same_payload_def wf_jdict_merge)
qed

lemma same_payload_update:
  "same_payload p q \<Longrightarrow> wf_json v \<Longrightarrow> same_payload (AList.update k v p) (AList.update k v q)"
  using canon_dict_update [of p q k v] same_payload_wf [of p q]
  by (simp add: same_payload_def wf_jdict_update)

subsection \<open>Frozen payloads (\<open>state/event_payload.py\<close>)\<close>

text \<open>
  An event keeps its payload as tuples and read-only mappings; \<open>freeze_payload\<close> and
  \<open>thaw_payload\<close> convert. Values of HOL cannot be mutated, so the models of events hold the
  thawed dictionary; \<open>thaw_freeze_payload\<close> is what makes that the same.
\<close>

datatype frozen =
    FNull
  | FBool bool
  | FInt int
  | FFloat "64 word"
  | FStr string
  | FTuple "frozen list"
  | FMapping "(string \<times> frozen) list"

fun freeze :: "json \<Rightarrow> frozen" where
  "freeze (JObj d) = FMapping (map (\<lambda>(k, v). (k, freeze v)) d)"
| "freeze (JArr xs) = FTuple (map freeze xs)"
| "freeze JNull = FNull"
| "freeze (JBool b) = FBool b"
| "freeze (JInt i) = FInt i"
| "freeze (JFloat w) = FFloat w"
| "freeze (JStr s) = FStr s"

definition freeze_payload :: "jdict \<Rightarrow> frozen dict" where
  "freeze_payload d = map (\<lambda>(k, v). (k, freeze v)) d"

fun thaw :: "frozen \<Rightarrow> json" where
  "thaw (FMapping d) = JObj (map (\<lambda>(k, v). (k, thaw v)) d)"
| "thaw (FTuple xs) = JArr (map thaw xs)"
| "thaw FNull = JNull"
| "thaw (FBool b) = JBool b"
| "thaw (FInt i) = JInt i"
| "thaw (FFloat w) = JFloat w"
| "thaw (FStr s) = JStr s"

definition thaw_payload :: "frozen dict \<Rightarrow> jdict" where
  "thaw_payload d = map (\<lambda>(k, v). (k, thaw v)) d"

lemma thaw_freeze [simp]: "thaw (freeze v) = v"
  by (induction v rule: freeze.induct) (auto intro!: map_idI)

lemma freeze_thaw [simp]: "freeze (thaw f) = f"
  by (induction f rule: thaw.induct) (auto intro!: map_idI)

lemma thaw_freeze_payload: "thaw_payload (freeze_payload d) = d"
  by (auto simp: thaw_payload_def freeze_payload_def intro!: map_idI)

lemma freeze_thaw_payload: "freeze_payload (thaw_payload f) = f"
  by (auto simp: thaw_payload_def freeze_payload_def intro!: map_idI)

end
