(* ===== verification/Event_Schema.thy ===== *)
theory Event_Schema
  imports Domain_Model Json
begin

text \<open>
  The event schema: the field validators of \<open>state/schema_v1_validation.py\<close> and
  \<open>state/payload_validation.py\<close>, the payload codecs of \<open>state/schema_v1.py\<close> and
  \<open>state/schema_v1_orchestration.py\<close>, and \<open>validate_payload\<close>. The payload of a
  \<open>ResearchRecordUpdated\<close> event is validated by \<open>research/records.py\<close>, which the schema
  imports late; it is the argument \<open>valid_record\<close> here.
\<close>

subsection \<open>Field validators\<close>

definition text_payload :: "json \<Rightarrow> bool" where
  "text_payload v = (case v of JStr s \<Rightarrow> s \<noteq> [] | _ \<Rightarrow> False)"

definition integer_payload :: "json \<Rightarrow> bool" where
  "integer_payload v = (case v of JInt i \<Rightarrow> 0 \<le> i | _ \<Rightarrow> False)"

definition positive_integer :: "json \<Rightarrow> bool" where
  "positive_integer v = (case v of JInt i \<Rightarrow> 0 < i | _ \<Rightarrow> False)"

definition sha256_payload :: "json \<Rightarrow> bool" where
  "sha256_payload v = (case v of JStr s \<Rightarrow> is_hash s | _ \<Rightarrow> False)"

definition timestamp_payload :: "json \<Rightarrow> bool" where
  "timestamp_payload v = (case v of JStr s \<Rightarrow> read_utc s \<noteq> None | _ \<Rightarrow> False)"

definition strings_payload :: "json \<Rightarrow> bool" where
  "strings_payload v = (case v of JArr xs \<Rightarrow> list_all text_payload xs | _ \<Rightarrow> False)"

definition boolean_payload :: "json \<Rightarrow> bool" where
  "boolean_payload v = (case v of JBool _ \<Rightarrow> True | _ \<Rightarrow> False)"

definition dict_payload :: "json \<Rightarrow> bool" where
  "dict_payload v = (case v of JObj _ \<Rightarrow> True | _ \<Rightarrow> False)"

definition list_payload :: "json \<Rightarrow> bool" where
  "list_payload v = (case v of JArr _ \<Rightarrow> True | _ \<Rightarrow> False)"

definition enum_payload :: "string list \<Rightarrow> json \<Rightarrow> bool" where
  "enum_payload allowed v = (case v of JStr s \<Rightarrow> s \<in> set allowed | _ \<Rightarrow> False)"

definition provider_payload :: "json \<Rightarrow> bool" where
  "provider_payload v = (case v of JStr s \<Rightarrow> is_controller_provider_id s | _ \<Rightarrow> False)"

definition patch_edit :: "json \<Rightarrow> bool" where
  "patch_edit item =
     (case item of
       JObj d \<Rightarrow>
         keys d = {''start_byte'', ''end_byte'', ''replacement_hex''}
         \<and> (case (map_of d ''start_byte'', map_of d ''end_byte'', map_of d ''replacement_hex'') of
              (Some (JInt a), Some (JInt b), Some (JStr h)) \<Rightarrow>
                0 \<le> a \<and> a \<le> b \<and> even (length h) \<and> list_all is_lower_hex h
            | _ \<Rightarrow> False)
     | _ \<Rightarrow> False)"

definition patch_edits_payload :: "json \<Rightarrow> bool" where
  "patch_edits_payload v = (case v of JArr xs \<Rightarrow> list_all patch_edit xs | _ \<Rightarrow> False)"

lemmas validator_defs =
  text_payload_def integer_payload_def positive_integer_def sha256_payload_def
  timestamp_payload_def strings_payload_def boolean_payload_def dict_payload_def
  list_payload_def enum_payload_def provider_payload_def patch_edits_payload_def

subsection \<open>Codecs\<close>

record payload_codec =
  required :: "string list"
  optional :: "string list"
  validators :: "(string \<times> (json \<Rightarrow> bool)) list"

definition codec ::
  "string list \<Rightarrow> string list \<Rightarrow> (string \<times> (json \<Rightarrow> bool)) list \<Rightarrow> payload_codec" where
  "codec req opt vs = \<lparr>required = req, optional = opt, validators = vs\<rparr>"

definition field_validators :: "(string \<times> (json \<Rightarrow> bool)) list" where
  "field_validators =
    [(''base_epoch'', sha256_payload), (''content_hash'', sha256_payload),
     (''expected_hash'', sha256_payload), (''expected_version'', integer_payload),
     (''knowledge_epoch'', integer_payload), (''manifest'', dict_payload),
     (''operations'', list_payload), (''imports'', strings_payload),
     (''dependencies'', strings_payload), (''assumptions'', strings_payload),
     (''axioms'', strings_payload), (''evidence_links'', strings_payload),
     (''state_version'', integer_payload), (''version'', integer_payload)]"

definition validator_for :: "payload_codec \<Rightarrow> string \<Rightarrow> json \<Rightarrow> bool" where
  "validator_for c field =
     (case map_of (validators c) field of
       Some f \<Rightarrow> f
     | None \<Rightarrow> (case map_of field_validators field of Some f \<Rightarrow> f | None \<Rightarrow> text_payload))"

fun check_fields :: "payload_codec \<Rightarrow> string \<Rightarrow> jdict \<Rightarrow> unit res" where
  "check_fields c event_type [] = Inr ()"
| "check_fields c event_type ((field, v) # d) =
     (if \<not> validator_for c field v
      then Inl (EventValidationError event_type (''field '' @ field @ '' has an invalid type''))
      else check_fields c event_type d)"

definition codec_validate :: "payload_codec \<Rightarrow> string \<Rightarrow> jdict \<Rightarrow> unit res" where
  "codec_validate c event_type payload =
     (let missing = filter (\<lambda>f. f \<notin> keys payload) (required c);
          unknown = filter (\<lambda>f. f \<notin> set (required c) \<and> f \<notin> set (optional c)) (map fst payload)
      in if missing \<noteq> [] then
           Inl (EventValidationError event_type
             (''missing fields: '' @ join '', '' (sort (remdups missing))))
         else if unknown \<noteq> [] then
           Inl (EventValidationError event_type
             (''unknown fields: '' @ join '', '' (sort (remdups unknown))))
         else bindr (check_fields c event_type payload) (\<lambda>_.
           ensure (floats_finite (JObj payload))
             (CanonicalSerializationError ''float'' ''floating-point value must be finite'')))"

definition document_fields :: "string list" where
  "document_fields =
    [''document_id'', ''lease_id'', ''worker_id'', ''relative_path'',
     ''virtual_document_namespace'', ''base_epoch'', ''knowledge_epoch'', ''version'',
     ''content_hash'', ''expires_at'']"

definition document_validators :: "(string \<times> (json \<Rightarrow> bool)) list" where
  "document_validators =
    [(''base_epoch'', sha256_payload), (''content_hash'', sha256_payload),
     (''expires_at'', timestamp_payload)]"

definition contribution_optional :: "string list" where
  "contribution_optional =
    [''worker_id'', ''lease_id'', ''document_id'', ''payload_kind'', ''payload_hash'',
     ''expected_file_version'', ''expected_content_hash'', ''environment_fingerprint'',
     ''base_epoch'', ''knowledge_epoch'', ''candidate_name'', ''complete_type'', ''imports'',
     ''dependencies'', ''assumptions'', ''evidence_links'', ''edits'', ''rebased_from'']"

definition contribution_validators :: "(string \<times> (json \<Rightarrow> bool)) list" where
  "contribution_validators =
    [(''payload_kind'', enum_payload [''patch'', ''snapshot'']),
     (''payload_hash'', sha256_payload), (''expected_file_version'', integer_payload),
     (''expected_content_hash'', sha256_payload), (''environment_fingerprint'', sha256_payload),
     (''edits'', patch_edits_payload), (''base_epoch'', sha256_payload),
     (''knowledge_epoch'', integer_payload), (''imports'', strings_payload),
     (''dependencies'', strings_payload), (''assumptions'', strings_payload),
     (''evidence_links'', strings_payload)]"

definition declaration_optional :: "string list" where
  "declaration_optional =
    [''name'', ''type'', ''content_hash'', ''contribution_id'', ''module'', ''dependencies'',
     ''assumptions'', ''axioms'', ''evidence_links'', ''publication_sequence'']"

definition delta_optional :: "string list" where
  "delta_optional =
    [''declaration_id'', ''contribution_id'', ''previous_base_epoch'',
     ''previous_knowledge_epoch'', ''fully_qualified_name'', ''complete_type'', ''module'',
     ''dependencies'', ''assumptions'', ''axioms'', ''evidence_links'', ''publication_sequence'']"

definition foundation_codecs :: "(string \<times> payload_codec) list" where
  "foundation_codecs =
   [
    (''ProjectInitialized'', codec [''project_id'', ''base_epoch'',
      ''knowledge_epoch''] [''environment_fingerprint''] [(''base_epoch'', sha256_payload),
      (''environment_fingerprint'', sha256_payload)]),
    (''RunCreated'', codec [] [''manifest'', ''status''] []),
    (''RunCompleted'', codec [] [''outcome'', ''ended_at''] [(''ended_at'',
      timestamp_payload)]),
    (''RunAborted'', codec [] [''reason_code'', ''ended_at''] [(''ended_at'',
      timestamp_payload)]),
    (''WorkerRegistered'', codec [''worker_id''] [''role'', ''status''] []),
    (''WorkerStarted'', codec [''worker_id''] [''role'', ''started_at''] [(''started_at'',
      timestamp_payload)]),
    (''WorkerStopped'', codec [''worker_id''] [''reason_code'',
      ''stopped_at''] [(''stopped_at'', timestamp_payload)]),
    (''WorkerCrashed'', codec [''worker_id''] [''reason_code'',
      ''artifact_hash''] [(''artifact_hash'', sha256_payload)]),
    (''CapabilityMinted'', codec [''worker_id'', ''role''] [''token_hash'', ''lease_id'',
      ''operations'', ''expires_at''] [(''token_hash'', sha256_payload), (''expires_at'',
      timestamp_payload)]),
    (''CapabilityDenied'', codec [''reason_code'', ''role'', ''worker_id'', ''operation'',
      ''request_id''] [] []),
    (''SandboxProbeStarted'', codec [''probe_id''] [''profile''] []),
    (''SandboxProbeDenied'', codec [''probe_id'', ''reason_code''] [''operation'',
      ''policy_hash''] [(''policy_hash'', sha256_payload)]),
    (''SandboxProbePassed'', codec [''probe_id''] [''operation'',
      ''policy_hash''] [(''policy_hash'', sha256_payload)]),
    (''SandboxProbeFailed'', codec [''probe_id'',
      ''reason_code''] [''artifact_hash''] [(''artifact_hash'', sha256_payload)]),
    (''LeaseGranted'', codec document_fields [] document_validators),
    (''LeaseReleased'', codec [''lease_id''] [''reason_code''] []),
    (''LeaseRecovered'', codec [''lease_id''] [''reason_code''] []),
    (''DocumentEditPrepared'', codec (document_fields @ [''expected_version'',
      ''expected_hash'']) [] ((''expected_hash'', sha256_payload) # document_validators)),
    (''DocumentEdited'', codec document_fields [] document_validators),
    (''DocumentEditRecovered'', codec document_fields [] document_validators),
    (''FormalActionRecorded'', codec [''action_id'', ''action_kind'', ''worker_id'',
      ''document_id'', ''input_hash'', ''output_hash'', ''verdict'', ''document_version'',
      ''base_epoch'', ''knowledge_epoch'', ''started_at'',
      ''completed_at''] [] [(''action_kind'', enum_payload [''diagnostics'', ''goal'',
      ''trial'']), (''input_hash'', sha256_payload), (''output_hash'', sha256_payload),
      (''document_version'', integer_payload), (''started_at'', timestamp_payload),
      (''completed_at'', timestamp_payload)]),
    (''ContributionSubmitted'',
      codec [''contribution_id''] contribution_optional contribution_validators),
    (''ContributionRebased'', codec [''contribution_id'',
      ''source_contribution_id''] [''base_epoch''] [(''base_epoch'', sha256_payload)]),
    (''ContributionEnqueued'', codec [''contribution_id''] [''state''] []),
    (''PromotionStateChanged'', codec [''contribution_id'', ''state''] [''state_version'',
      ''former_owner''] []),
    (''PromotionPrepared'', codec [''contribution_id'', ''module'', ''content_hash'',
      ''base_epoch'', ''knowledge_epoch'', ''declaration_id'',
      ''delta_id''] [] [(''content_hash'', sha256_payload), (''base_epoch'',
      sha256_payload)]),
    (''PromotionFailed'', codec [''contribution_id'',
      ''reason_code''] [''artifact_hash''] [(''artifact_hash'', sha256_payload)]),
    (''DeclarationPublished'',
      codec [''declaration_id''] declaration_optional [(''content_hash'', sha256_payload),
      (''dependencies'', strings_payload), (''assumptions'', strings_payload), (''axioms'',
      strings_payload), (''evidence_links'', strings_payload), (''publication_sequence'',
      integer_payload)]),
    (''KnowledgeDeltaPublished'', codec [''delta_id'', ''base_epoch'',
      ''knowledge_epoch''] delta_optional [(''base_epoch'', sha256_payload),
      (''previous_base_epoch'', sha256_payload), (''previous_knowledge_epoch'',
      integer_payload), (''publication_sequence'', integer_payload), (''dependencies'',
      strings_payload), (''assumptions'', strings_payload), (''axioms'', strings_payload),
      (''evidence_links'', strings_payload)]),
    (''KnowledgeDeltaAcknowledged'', codec [''acknowledgement_id'', ''worker_id'',
      ''delta_id''] [] [(''acknowledgement_id'', sha256_payload)]),
    (''LeanRuntimeStarted'', codec [''runtime_id''] [''mode'',
      ''started_at''] [(''started_at'', timestamp_payload)]),
    (''LeanRuntimeCrashed'', codec [''runtime_id'',
      ''reason_code''] [''artifact_hash''] [(''artifact_hash'', sha256_payload)]),
    (''LeanRuntimeRestarted'', codec [''runtime_id''] [''previous_runtime_id''] []),
    (''EnvironmentTransitionProposed'', codec [''transition_id'', ''old_fingerprint'',
      ''new_fingerprint'', ''reason''] [] [(''old_fingerprint'', sha256_payload),
      (''new_fingerprint'', sha256_payload)]),
    (''EnvironmentTransitionApproved'', codec [''transition_id'', ''old_fingerprint'',
      ''new_fingerprint'', ''reason'', ''reviewer''] [] [(''old_fingerprint'',
      sha256_payload), (''new_fingerprint'', sha256_payload)]),
    (''EnvironmentTransitionRejected'', codec [''transition_id''] [''reason_code''] []),
    (''AlignmentReviewed'', codec [''review_id''] [''verdict'', ''reviewer'', ''kind''] []),
    (''InterventionRecorded'', codec [''intervention_id''] [''kind'', ''actor'',
      ''reason''] [])]"

definition orchestration_codecs :: "(string \<times> payload_codec) list" where
  "orchestration_codecs =
   [
    (''ControllerConfigured'', codec [''controller_id'',
      ''provider''] [''model''] [(''provider'', provider_payload)]),
    (''WorkerConfigured'', codec [''worker_id'', ''role'', ''status''] [] []),
    (''WorkerTaskAssigned'', codec [''assignment_id'', ''controller_id'', ''worker_id'',
      ''task'', ''task_hash'', ''task_version''] [] [(''assignment_id'', sha256_payload),
      (''task_hash'', sha256_payload), (''task_version'', positive_integer)]),
    (''ScheduleProposed'', codec [''directive_id'', ''worker_id'',
      ''execution_id''] [''role''] []),
    (''WorkerCursorSaved'', codec [''directive_id'', ''worker_id'', ''execution_id'',
      ''last_event_sequence'', ''remaining_budget'',
      ''terminal''] [''last_acknowledged_delta'', ''lease_id'', ''document_id'',
      ''document_version'', ''base_epoch'', ''knowledge_epoch''] [(''last_event_sequence'',
      integer_payload), (''remaining_budget'', integer_payload), (''terminal'',
      boolean_payload), (''document_version'', integer_payload), (''base_epoch'',
      sha256_payload), (''knowledge_epoch'', integer_payload)]),
    (''WorkerTimedOut'', codec [''worker_id'', ''execution_id''] [''reason_code''] []),
    (''AgentRunCompleted'', codec [''worker_id'', ''execution_id'', ''status'',
      ''transport_event_hash'', ''final_message_hash'',
      ''exit_code''] [''policy_hash''] [(''transport_event_hash'', sha256_payload),
      (''final_message_hash'', sha256_payload), (''exit_code'', integer_payload),
      (''policy_hash'', sha256_payload)]),
    (''PromotionVerificationRecorded'', codec [''contribution_id'', ''diagnostics_hash'',
      ''diagnostics_verdict'', ''build_hash'', ''build_verdict'',
      ''axiom_verification_hash'', ''axiom_verification_verdict''] [''source_scan_hash'',
      ''source_scan_verdict''] [(''diagnostics_hash'', sha256_payload), (''build_hash'',
      sha256_payload), (''axiom_verification_hash'', sha256_payload),
      (''source_scan_hash'', sha256_payload)]),
    (''LeanRuntimeStopped'', codec [''runtime_id''] [] []),
    (''ArtifactRegistered'', codec [''artifact_name'', ''content_hash'', ''relative_path'',
      ''media_type'', ''byte_length''] [] [(''content_hash'', sha256_payload),
      (''byte_length'', integer_payload)]),
    (''FormalTraceSealed'', codec [''cutoff_kind''] [] []),
    (''EvaluationTransitionRejected'', codec [''field'', ''requested_hash'',
      ''reason_code''] [] [(''requested_hash'', sha256_payload)]),
    (''ControllerStarted'', codec [''controller_id'', ''controller_session_id'',
      ''controller_version'', ''provider'', ''backend_version'',
      ''executable_hash''] [] [(''controller_version'', positive_integer), (''provider'',
      provider_payload), (''executable_hash'', sha256_payload)]),
    (''ControllerStopped'', codec [''controller_id'', ''controller_session_id'',
      ''reason_code''] [] [(''reason_code'', enum_payload [''OPERATOR_SIGNAL'',
      ''PREFLIGHT_FAILED'', ''RESEARCH_IDLE'', ''TIME_LIMIT'', ''CONTROLLER_FAILED''])]),
    (''ControllerCrashed'', codec [''controller_id'', ''controller_session_id'',
      ''reason_code''] [] [(''reason_code'', enum_payload [''UNCLEAN_SHUTDOWN''])]),
    (''WorkerTaskClaimed'', codec [''assignment_id'', ''controller_id'',
      ''controller_session_id'', ''controller_version'', ''worker_id'', ''task_version'',
      ''execution_id''] [] [(''assignment_id'', sha256_payload), (''controller_version'',
      positive_integer), (''task_version'', positive_integer)]),
    (''WorkerTaskDispatchPlanned'', codec [''assignment_id'', ''execution_id'',
      ''directive_id'', ''directive_artifact_hash'', ''instruction_hash'', ''budget'',
      ''timeout_milliseconds''] [] [(''assignment_id'', sha256_payload),
      (''directive_artifact_hash'', sha256_payload), (''instruction_hash'',
      sha256_payload), (''budget'', positive_integer), (''timeout_milliseconds'',
      positive_integer)]),
    (''WorkerTaskCompleted'', codec [''assignment_id'', ''execution_id'',
      ''result_hash''] [] [(''assignment_id'', sha256_payload), (''result_hash'',
      sha256_payload)]),
    (''WorkerTaskFailed'', codec [''assignment_id'', ''execution_id'',
      ''reason_code''] [] [(''assignment_id'', sha256_payload), (''reason_code'',
      enum_payload [''CONTROLLER_BLOCKED'', ''CONTROLLER_REJECTED'',
      ''CONTROLLER_DECISION_INVALID'', ''CONTROLLER_TIMEOUT'', ''WORKER_FAILED'',
      ''WORKER_ROLE_UNSUPPORTED'', ''FORMAL_TARGET_REQUIRED''])]),
    (''WorkerTaskInterrupted'', codec [''assignment_id'', ''execution_id'',
      ''reason_code''] [] [(''assignment_id'', sha256_payload), (''reason_code'',
      enum_payload [''OPERATOR_SIGNAL'', ''CONTROLLER_RESTART''])])]"

definition codecs :: "(string \<times> payload_codec) list" where
  "codecs = foundation_codecs @ orchestration_codecs"

text \<open>Evaluation looks an event type up without computing the codecs of all others.\<close>

definition codec_at :: "string \<Rightarrow> payload_codec option" where
  "codec_at t = map_of codecs t"

lemmas codec_at_code [code] =
  codec_at_def [unfolded codecs_def foundation_codecs_def orchestration_codecs_def append.simps map_of_Cons_code]

lemma map_of_codecs_code [code_unfold]: "map_of codecs t = codec_at t"
  by (simp add: codec_at_def)

subsection \<open>\<open>validate_payload\<close>\<close>

text \<open>
  \<open>repr\<close> of a string, as \<open>!r\<close> in a message asks for: the quotes, the escapes of quotes,
  backslashes and ASCII control characters. (Characters outside ASCII are kept; \<open>repr\<close> escapes
  those of them that are not printable.)
\<close>

definition repr_char :: "char \<Rightarrow> char \<Rightarrow> string" where
  "repr_char quote c =
     (if c = quote \<or> c = CHR 0x5C then [CHR 0x5C, c]
      else if c = CHR 0x09 then [CHR 0x5C, CHR ''t'']
      else if c = CHR 0x0A then [CHR 0x5C, CHR ''n'']
      else if c = CHR 0x0D then [CHR 0x5C, CHR ''r'']
      else if code c < 32 \<or> code c = 127 then
        [CHR 0x5C, CHR ''x'', ''0123456789abcdef'' ! (code c div 16), ''0123456789abcdef'' ! (code c mod 16)]
      else [c])"

definition py_repr :: "string \<Rightarrow> string" where
  "py_repr s =
     (let quote = (if CHR 0x27 \<in> set s \<and> CHR 0x22 \<notin> set s then CHR 0x22 else CHR 0x27)
      in quote # concat (map (repr_char quote) s) @ [quote])"

definition validate_payload :: "(jdict \<Rightarrow> bool) \<Rightarrow> string \<Rightarrow> jdict \<Rightarrow> unit res" where
  "validate_payload valid_record event_type payload =
     (if event_type = ''ResearchRecordUpdated'' then
        ensure (valid_record payload)
          (EventValidationError event_type ''invalid typed research record'')
      else case map_of codecs event_type of
        None \<Rightarrow> Inl (EventValidationError ''event_type'' (''unknown event type '' @ py_repr event_type))
      | Some c \<Rightarrow> codec_validate c event_type payload)"

subsection \<open>What validation accepts\<close>

lemma check_fields_Inr [simp]:
  "check_fields c t d = Inr () \<longleftrightarrow> (\<forall>(k, v) \<in> set d. validator_for c k v)"
  by (induction c t d rule: check_fields.induct) auto

lemma codec_validate_Inr:
  "codec_validate c t d = Inr () \<longleftrightarrow>
     set (required c) \<subseteq> keys d \<and> keys d \<subseteq> set (required c) \<union> set (optional c)
     \<and> (\<forall>(k, v) \<in> set d. validator_for c k v) \<and> floats_finite (JObj d)"
  by (auto simp: codec_validate_def Let_def inr_simps filter_empty_conv keys_def)

definition canon_invariant :: "(json \<Rightarrow> bool) \<Rightarrow> bool" where
  "canon_invariant f \<longleftrightarrow> (\<forall>v. wf_json v \<longrightarrow> f (canon v) = f v)"

lemma canon_invariant_validators [simp]:
  "canon_invariant text_payload" "canon_invariant integer_payload"
  "canon_invariant positive_integer" "canon_invariant sha256_payload"
  "canon_invariant timestamp_payload" "canon_invariant boolean_payload"
  "canon_invariant dict_payload" "canon_invariant list_payload"
  "canon_invariant (enum_payload vs)" "canon_invariant provider_payload"
  by (auto simp: canon_invariant_def validator_defs canon_JObj split: json.splits)

lemma list_all_canon:
  "canon_invariant f \<Longrightarrow> list_all wf_json xs \<Longrightarrow> list_all f (map canon xs) = list_all f xs"
  by (induction xs) (auto simp: canon_invariant_def)

lemma canon_invariant_strings [simp]: "canon_invariant strings_payload"
proof -
  have "strings_payload (canon v) = strings_payload v" if "wf_json v" for v
    using that list_all_canon [OF canon_invariant_validators(1)]
    by (cases v) (auto simp: strings_payload_def canon_JObj simp del: list.pred_map)
  then show ?thesis by (simp add: canon_invariant_def)
qed

lemma patch_edit_iff:
  "patch_edit v \<longleftrightarrow> (\<exists>d a b h. v = JObj d
     \<and> keys d = {''start_byte'', ''end_byte'', ''replacement_hex''}
     \<and> map_of d ''start_byte'' = Some (JInt a) \<and> map_of d ''end_byte'' = Some (JInt b)
     \<and> map_of d ''replacement_hex'' = Some (JStr h)
     \<and> 0 \<le> a \<and> a \<le> b \<and> even (length h) \<and> list_all is_lower_hex h)"
proof (cases v)
  case (JObj d)
  then show ?thesis
    unfolding patch_edit_def
    by (cases "map_of d ''start_byte''" rule: option.exhaust;
        cases "map_of d ''end_byte''" rule: option.exhaust;
        cases "map_of d ''replacement_hex''" rule: option.exhaust)
       (simp_all split: json.split)
qed (simp_all add: patch_edit_def)

lemma canon_invariant_patch_edit: "canon_invariant patch_edit"
proof -
  have "patch_edit (canon v) = patch_edit v" if "wf_json v" for v
  proof (cases v)
    case (JObj d)
    then have "wf_dict d" using that by (simp add: wf_dict_def)
    then have "map_of (canon_dict d) k = map_option canon (map_of d k)" for k
      by (rule map_of_canon_dict)
    then show ?thesis
      unfolding patch_edit_iff JObj canon_JObj by simp
  qed (simp_all add: patch_edit_def)
  then show ?thesis by (simp add: canon_invariant_def)
qed

lemma canon_invariant_patch_edits [simp]: "canon_invariant patch_edits_payload"
proof -
  have "patch_edits_payload (canon v) = patch_edits_payload v" if "wf_json v" for v
    using that list_all_canon [OF canon_invariant_patch_edit]
    by (cases v) (auto simp: patch_edits_payload_def canon_JObj simp del: list.pred_map)
  then show ?thesis by (simp add: canon_invariant_def)
qed

lemma codecs_canon_invariant:
  "(t, c) \<in> set codecs \<Longrightarrow> (k, f) \<in> set (validators c) \<Longrightarrow> canon_invariant f"
proof -
  have "list_all (\<lambda>(t, c). list_all (\<lambda>(k, f). canon_invariant f) (validators c)) codecs"
    by (simp add: codecs_def foundation_codecs_def orchestration_codecs_def codec_def
        document_validators_def contribution_validators_def)
  then show "(t, c) \<in> set codecs \<Longrightarrow> (k, f) \<in> set (validators c) \<Longrightarrow> canon_invariant f"
    by (force simp: list_all_iff)
qed

lemma field_validators_canon_invariant:
  "(k, f) \<in> set field_validators \<Longrightarrow> canon_invariant f"
  by (auto simp: field_validators_def)

lemma validator_for_canon:
  assumes "map_of codecs t = Some c" "wf_json v"
  shows "validator_for c k (canon v) = validator_for c k v"
proof -
  have "canon_invariant (validator_for c k)"
    using codecs_canon_invariant [OF map_of_SomeD [OF assms(1)]] field_validators_canon_invariant
    by (auto simp: validator_for_def split: option.splits dest!: map_of_SomeD)
  with assms(2) show ?thesis by (simp add: canon_invariant_def)
qed

text \<open>Validation does not see the order of the keys.\<close>

lemma codec_validate_canon:
  assumes "map_of codecs t = Some c" "wf_jdict d"
  shows "codec_validate c t (canon_dict d) = Inr () \<longleftrightarrow> codec_validate c t d = Inr ()"
proof -
  have "(\<forall>(k, v) \<in> set (canon_dict d). validator_for c k v)
      \<longleftrightarrow> (\<forall>(k, v) \<in> set d. validator_for c k v)"
    using assms validator_for_canon [OF assms(1)]
    by (force simp: canon_dict_def wf_jdict_def list_all_iff)
  moreover have "floats_finite (JObj (canon_dict d)) = floats_finite (JObj d)"
    by (metis canon_JObj floats_finite_canon)
  ultimately show ?thesis by (simp only: codec_validate_Inr keys_canon_dict)
qed

lemma validate_payload_canon:
  assumes "wf_jdict d" "valid_record (canon_dict d) = valid_record d"
  shows "validate_payload valid_record t (canon_dict d) = Inr ()
    \<longleftrightarrow> validate_payload valid_record t d = Inr ()"
  using assms codec_validate_canon [of t _ d]
  by (auto simp: validate_payload_def split: option.splits)

end
