(* ===== verification/Events.thy ===== *)
theory Events
  imports Event_Schema
begin

unbundle bit_operations_syntax

text \<open>
  Event envelopes (\<open>state/events.py\<close>): the checks of the constructor, the JSON document of an
  event and the reader \<open>upcast\<close> that turns one back into an envelope, and the factory of event
  identifiers. An envelope holds its payload thawed (theory \<open>Json\<close>).
\<close>

subsection \<open>Envelopes\<close>

definition event_schema_version :: int where
  "event_schema_version = 1"

definition event_field_names :: "string list" where
  "event_field_names =
    [''event_id'', ''schema_version'', ''event_type'', ''occurred_at'', ''actor'', ''run_id'',
     ''causation_id'', ''payload'']"

definition ulid_alphabet :: string where
  "ulid_alphabet = ''0123456789ABCDEFGHJKMNPQRSTVWXYZ''"

record event_envelope =
  ev_id :: string
  ev_version :: int
  ev_type :: string
  ev_time :: datetime
  ev_actor :: string
  ev_run :: "string option"
  ev_cause :: "string option"
  ev_payload :: jdict

definition event_text :: "string \<Rightarrow> string \<Rightarrow> unit res" where
  "event_text value location =
     ensure (value \<noteq> []) (EventValidationError location ''must be a non-empty string'')"

definition optional_event_text :: "string option \<Rightarrow> string \<Rightarrow> unit res" where
  "optional_event_text value location =
     (case value of None \<Rightarrow> Inr () | Some s \<Rightarrow> event_text s location)"

definition is_ulid :: "string \<Rightarrow> bool" where
  "is_ulid s \<longleftrightarrow> length s = 26 \<and> list_all (\<lambda>c. c \<in> set ulid_alphabet) s"

definition mk_event ::
  "(jdict \<Rightarrow> bool) \<Rightarrow> string \<Rightarrow> int \<Rightarrow> string \<Rightarrow> datetime \<Rightarrow> string \<Rightarrow> string option \<Rightarrow> string option
     \<Rightarrow> jdict \<Rightarrow> event_envelope res" where
  "mk_event valid_record event_id version event_type occurred_at actor run_id causation_id payload =
     bindr (event_text event_id ''event_id'') (\<lambda>_.
     bindr (ensure (is_ulid event_id)
       (EventValidationError ''event_id'' ''must be a 26-character Crockford ULID'')) (\<lambda>_.
     bindr (ensure (version = event_schema_version) (IncompatibleEventSchemaError version)) (\<lambda>_.
     bindr (event_text event_type ''event_type'') (\<lambda>_.
     bindr (event_text actor ''actor'') (\<lambda>_.
     bindr (ensure (is_utc occurred_at)
       (EventValidationError ''occurred_at'' ''must be timezone-aware UTC'')) (\<lambda>_.
     bindr (optional_event_text run_id ''run_id'') (\<lambda>_.
     bindr (optional_event_text causation_id ''causation_id'') (\<lambda>_.
     bindr (validate_payload valid_record event_type payload) (\<lambda>_.
     Inr \<lparr>ev_id = event_id, ev_version = version, ev_type = event_type, ev_time = occurred_at,
          ev_actor = actor, ev_run = run_id, ev_cause = causation_id,
          ev_payload = thaw_payload (freeze_payload payload)\<rparr>)))))))))"

subsection \<open>Event documents\<close>

definition json_of_option :: "string option \<Rightarrow> json" where
  "json_of_option v = (case v of None \<Rightarrow> JNull | Some s \<Rightarrow> JStr s)"

definition event_as_dict :: "event_envelope \<Rightarrow> jdict" where
  "event_as_dict e =
    [(''event_id'', JStr (ev_id e)), (''schema_version'', JInt (ev_version e)),
     (''event_type'', JStr (ev_type e)), (''occurred_at'', JStr (utc_text (ev_time e))),
     (''actor'', JStr (ev_actor e)), (''run_id'', json_of_option (ev_run e)),
     (''causation_id'', json_of_option (ev_cause e)), (''payload'', JObj (ev_payload e))]"

definition event_timestamp :: "string \<Rightarrow> datetime res" where
  "event_timestamp value =
     (case read_utc value of
       None \<Rightarrow> Inl (EventValidationError ''occurred_at'' ''must be canonical UTC RFC 3339'')
     | Some d \<Rightarrow> Inr d)"

definition required_text_value :: "jdict \<Rightarrow> string \<Rightarrow> string res" where
  "required_text_value d key = bindr (getr d key) (\<lambda>v.
     case v of
       JStr s \<Rightarrow> bindr (event_text s key) (\<lambda>_. Inr s)
     | _ \<Rightarrow> Inl (EventValidationError key ''must be a non-empty string''))"

definition optional_text_value :: "jdict \<Rightarrow> string \<Rightarrow> string option res" where
  "optional_text_value d key = bindr (getr d key) (\<lambda>v.
     case v of
       JNull \<Rightarrow> Inr None
     | JStr s \<Rightarrow> bindr (ensure (s \<noteq> [])
         (EventValidationError key ''must be a non-empty string or null'')) (\<lambda>_. Inr (Some s))
     | _ \<Rightarrow> Inl (EventValidationError key ''must be a non-empty string or null''))"

definition upcast_v1 :: "(jdict \<Rightarrow> bool) \<Rightarrow> jdict \<Rightarrow> event_envelope res" where
  "upcast_v1 valid_record d =
     (let unknown = filter (\<lambda>k. k \<notin> set event_field_names) (remdups (map fst d));
          missing = filter (\<lambda>k. k \<notin> keys d) event_field_names
      in if missing \<noteq> [] then
           Inl (EventValidationError ''event'' (''missing fields: '' @ join '', '' (sort missing)))
         else if unknown \<noteq> [] then
           Inl (EventValidationError ''event'' (''unknown fields: '' @ join '', '' (sort unknown)))
         else bindr (getr d ''payload'') (\<lambda>p.
           case p of
             JObj payload \<Rightarrow>
               bindr (required_text_value d ''event_id'') (\<lambda>event_id.
               bindr (required_text_value d ''event_type'') (\<lambda>event_type.
               bindr (required_text_value d ''occurred_at'') (\<lambda>time.
               bindr (event_timestamp time) (\<lambda>occurred_at.
               bindr (required_text_value d ''actor'') (\<lambda>actor.
               bindr (optional_text_value d ''run_id'') (\<lambda>run_id.
               bindr (optional_text_value d ''causation_id'') (\<lambda>causation_id.
                 mk_event valid_record event_id event_schema_version event_type occurred_at actor
                   run_id causation_id payload)))))))
           | _ \<Rightarrow> Inl (EventValidationError ''payload'' ''must be a JSON object'')))"

definition upcast :: "(jdict \<Rightarrow> bool) \<Rightarrow> jdict \<Rightarrow> event_envelope res" where
  "upcast valid_record d =
     (case map_of d ''schema_version'' of
       Some (JInt v) \<Rightarrow>
         (if v = 1 then upcast_v1 valid_record d else Inl (IncompatibleEventSchemaError v))
     | _ \<Rightarrow> Inl (EventValidationError ''schema_version'' ''must be an integer''))"

subsection \<open>Event identifiers\<close>

text \<open>
  \<open>MonotoneUlidFactory\<close>: its two fields, and one call, given the milliseconds of the clock and the
  80 random bits \<open>secrets.randbits\<close> would return.
\<close>

record ulid_factory =
  last_milliseconds :: int
  randomness :: int

definition new_ulid_factory :: ulid_factory where
  "new_ulid_factory = \<lparr>last_milliseconds = -1, randomness = 0\<rparr>"

fun ulid_characters :: "nat \<Rightarrow> int \<Rightarrow> string" where
  "ulid_characters 0 value = []"
| "ulid_characters (Suc n) value =
     ulid_characters n (drop_bit 5 value) @ [ulid_alphabet ! nat (value AND 31)]"

definition ulid_tick :: "ulid_factory \<Rightarrow> int \<Rightarrow> int \<Rightarrow> ulid_factory" where
  "ulid_tick f milliseconds bits =
     (if milliseconds > last_milliseconds f then
        f \<lparr>last_milliseconds := milliseconds, randomness := bits\<rparr>
      else
        let r = randomness f + 1
        in if r \<ge> push_bit 80 1
           then f \<lparr>last_milliseconds := last_milliseconds f + 1, randomness := 0\<rparr>
           else f \<lparr>randomness := r\<rparr>)"

definition ulid_value :: "ulid_factory \<Rightarrow> int" where
  "ulid_value f = push_bit 80 (last_milliseconds f) OR randomness f"

definition next_ulid :: "ulid_factory \<Rightarrow> int \<Rightarrow> int \<Rightarrow> string \<times> ulid_factory" where
  "next_ulid f milliseconds bits =
     (let g = ulid_tick f milliseconds bits in (ulid_characters 26 (ulid_value g), g))"

fun ulid_run :: "ulid_factory \<Rightarrow> (int \<times> int) list \<Rightarrow> string list" where
  "ulid_run f [] = []"
| "ulid_run f ((milliseconds, bits) # calls) =
     (let (s, g) = next_ulid f milliseconds bits in s # ulid_run g calls)"

subsection \<open>What the constructor accepts\<close>

lemma event_text_Inr [simp]: "event_text v l = Inr () \<longleftrightarrow> v \<noteq> []"
  by (simp add: event_text_def)

lemma optional_event_text_Inr [simp]: "optional_event_text v l = Inr () \<longleftrightarrow> v \<noteq> Some []"
  by (auto simp: optional_event_text_def split: option.splits)

definition valid_event :: "(jdict \<Rightarrow> bool) \<Rightarrow> event_envelope \<Rightarrow> bool" where
  "valid_event valid_record e \<longleftrightarrow>
     is_ulid (ev_id e) \<and> ev_version e = event_schema_version \<and> ev_type e \<noteq> [] \<and> ev_actor e \<noteq> []
     \<and> is_utc (ev_time e) \<and> ev_run e \<noteq> Some [] \<and> ev_cause e \<noteq> Some []
     \<and> validate_payload valid_record (ev_type e) (ev_payload e) = Inr ()"

lemma is_ulid_nonempty: "is_ulid s \<Longrightarrow> s \<noteq> []"
  by (auto simp: is_ulid_def)

lemma mk_event_Inr:
  "mk_event vr i v t w a r c p = Inr e \<longleftrightarrow>
     e = \<lparr>ev_id = i, ev_version = v, ev_type = t, ev_time = w, ev_actor = a, ev_run = r,
          ev_cause = c, ev_payload = p\<rparr> \<and> valid_event vr e"
  unfolding mk_event_def valid_event_def
  by (auto simp: inr_simps thaw_freeze_payload dest: is_ulid_nonempty)

lemma mk_event_valid: "mk_event vr i v t w a r c p = Inr e \<Longrightarrow> valid_event vr e"
  by (auto simp: mk_event_Inr)

text \<open>
  What the types of Python give: the fields of a \<open>datetime\<close> are in range, and a dictionary has
  one value for each key.
\<close>

definition typed_event :: "event_envelope \<Rightarrow> bool" where
  "typed_event e \<longleftrightarrow> valid_datetime (ev_time e) \<and> wf_jdict (ev_payload e)"

lemma json_of_option_eq [simp]:
  "json_of_option v = JNull \<longleftrightarrow> v = None" "json_of_option v = JStr s \<longleftrightarrow> v = Some s"
  by (auto simp: json_of_option_def split: option.splits)

lemma optional_text_value_Inr:
  "map_of d k = Some (json_of_option v) \<Longrightarrow> v \<noteq> Some [] \<Longrightarrow> optional_text_value d k = Inr v"
  by (auto simp: optional_text_value_def json_of_option_def getr_def bindr_ensure split: option.splits)

lemma required_text_value_Inr:
  "map_of d k = Some (JStr s) \<Longrightarrow> s \<noteq> [] \<Longrightarrow> required_text_value d k = Inr s"
  by (simp add: required_text_value_def getr_def event_text_def bindr_ensure)

lemma utc_text_nonempty: "is_utc d \<Longrightarrow> utc_text d \<noteq> []"
  by (simp add: utc_text_eq)

text \<open>The keys of a document: exactly the fields of an event.\<close>

lemma upcast_v1_complete:
  assumes "keys d = set event_field_names" "map_of d ''payload'' = Some (JObj p)"
    "map_of d ''event_id'' = Some (JStr i)" "map_of d ''event_type'' = Some (JStr t)"
    "map_of d ''occurred_at'' = Some (JStr (utc_text w))" "map_of d ''actor'' = Some (JStr a)"
    "map_of d ''run_id'' = Some (json_of_option r)" "map_of d ''causation_id'' = Some (json_of_option c)"
    and e: "e = \<lparr>ev_id = i, ev_version = event_schema_version, ev_type = t, ev_time = w,
      ev_actor = a, ev_run = r, ev_cause = c, ev_payload = p\<rparr>"
    and ok: "valid_event vr e" "valid_datetime w"
  shows "upcast_v1 vr d = Inr e"
proof -
  have "filter (\<lambda>k. k \<notin> keys d) event_field_names = []"
    "filter (\<lambda>k. k \<notin> set event_field_names) (remdups (map fst d)) = []"
    using assms(1) by (auto simp: filter_empty_conv keys_def)
  moreover have "i \<noteq> []" "t \<noteq> []" "a \<noteq> []" "utc_text w \<noteq> []" "r \<noteq> Some []" "c \<noteq> Some []"
    "read_utc (utc_text w) = Some w"
    using ok by (auto simp: e valid_event_def is_ulid_nonempty utc_text_nonempty read_utc_text)
  moreover have "mk_event vr i event_schema_version t w a r c p = Inr e"
    using ok(1) by (simp add: mk_event_Inr e)
  ultimately show ?thesis
    using assms(2-8)
    by (simp add: upcast_v1_def Let_def getr_def required_text_value_Inr optional_text_value_Inr
        event_timestamp_def)
qed

text \<open>
  C25. Reading back the document of an event gives the event: \<open>upcast\<close> accepts what
  \<open>event_as_dict\<close> writes for every envelope the constructor built, and returns that envelope.
\<close>

theorem upcast_event_as_dict:
  assumes "mk_event valid_record i v t w a r c p = Inr e" "typed_event e"
  shows "upcast valid_record (event_as_dict e) = Inr e"
proof -
  have e: "e = \<lparr>ev_id = i, ev_version = v, ev_type = t, ev_time = w, ev_actor = a, ev_run = r,
      ev_cause = c, ev_payload = p\<rparr>" and ok: "valid_event valid_record e"
    using assms(1) by (auto simp: mk_event_Inr)
  have "upcast_v1 valid_record (event_as_dict e) = Inr e"
    by (rule upcast_v1_complete [where p = p and i = i and t = t and w = w and a = a and r = r and c = c])
       (use assms(2) ok in \<open>auto simp: e event_as_dict_def event_field_names_def typed_event_def
         valid_event_def\<close>)
  moreover have "ev_version e = 1"
    using ok by (simp add: valid_event_def event_schema_version_def)
  ultimately show ?thesis
    by (simp add: upcast_def event_as_dict_def)
qed

definition sample_event :: event_envelope where
  "sample_event =
    \<lparr>ev_id = ''01ARZ3NDEKTSV4RRFFQ69G5FAV'', ev_version = 1, ev_type = ''LeaseReleased'',
     ev_time = Datetime 2024 2 29 12 30 15 250000 (Some 0), ev_actor = ''document_broker'',
     ev_run = Some ''run-1'', ev_cause = None,
     ev_payload = [(''reason_code'', JStr ''RELEASED''), (''lease_id'', JStr ''lease-1'')]\<rparr>"

theorem upcast_event_as_dict_witness:
  "upcast (\<lambda>_. False) (event_as_dict sample_event) = Inr sample_event"
  by (rule upcast_event_as_dict [where i = "ev_id sample_event" and v = 1
      and t = "ev_type sample_event" and w = "ev_time sample_event" and a = "ev_actor sample_event"
      and r = "ev_run sample_event" and c = "ev_cause sample_event" and p = "ev_payload sample_event"])
     code_simp+

text \<open>An event validates, its payload canonical or not.\<close>

lemma valid_event_canon:
  assumes "valid_event vr e" "wf_jdict (ev_payload e)"
    "vr (canon_dict (ev_payload e)) = vr (ev_payload e)"
  shows "valid_event vr (e\<lparr>ev_payload := canon_dict (ev_payload e)\<rparr>)"
  using assms validate_payload_canon [of "ev_payload e" vr] by (simp add: valid_event_def)

subsection \<open>Identifiers are unique and ascending\<close>

definition ulid_inv :: "ulid_factory \<Rightarrow> bool" where
  "ulid_inv f \<longleftrightarrow> 0 \<le> randomness f \<and> randomness f < 2 ^ 80 \<and> - 1 \<le> last_milliseconds f"

lemma alphabet_ascending:
  assumes "i < j" "j < 32"
  shows "ulid_alphabet ! i < ulid_alphabet ! j"
proof -
  have "sorted_wrt (<) ulid_alphabet" "length ulid_alphabet = 32"
    by (simp_all add: ulid_alphabet_def less_char_def)
  with assms show ?thesis by (simp add: sorted_wrt_iff_nth_less)
qed

lemma and_31: "value AND 31 = value mod (32 :: int)"
  using take_bit_eq_mask [of 5 "value"] by (simp add: take_bit_eq_mod mask_eq_exp_minus_1)

lemma length_ulid_characters [simp]: "length (ulid_characters n v) = n"
  by (induction n arbitrary: v) auto

lemma ulid_characters_alphabet: "list_all (\<lambda>c. c \<in> set ulid_alphabet) (ulid_characters n v)"
proof (induction n arbitrary: v)
  case (Suc n)
  have "nat (v AND 31) < length ulid_alphabet"
    by (simp add: and_31 ulid_alphabet_def)
  then show ?case by (simp add: Suc)
qed simp

lemma less_append_same_length:
  fixes s t :: string
  assumes "length s = length t"
  shows "s @ [a] < t @ [b] \<longleftrightarrow> s < t \<or> s = t \<and> a < b"
  using assms by (induction s t rule: list_induct2) auto

lemma ulid_digit_less_iff:
  fixes x y :: int
  shows "ulid_alphabet ! nat (x mod 32) < ulid_alphabet ! nat (y mod 32) \<longleftrightarrow> x mod 32 < y mod 32"
    and "ulid_alphabet ! nat (x mod 32) = ulid_alphabet ! nat (y mod 32) \<longleftrightarrow> x mod 32 = y mod 32"
proof -
  have b: "nat (z mod 32) < 32" for z :: int
    by (simp add: nat_less_iff)
  have pos: "0 \<le> x mod 32" "0 \<le> y mod 32"
    by simp_all
  have mono: "a < b \<Longrightarrow> b < 32 \<Longrightarrow> ulid_alphabet ! a < ulid_alphabet ! b" for a b
    by (rule alphabet_ascending)
  show "ulid_alphabet ! nat (x mod 32) < ulid_alphabet ! nat (y mod 32) \<longleftrightarrow> x mod 32 < y mod 32"
    using mono [OF _ b, of "nat (x mod 32)" y] mono [OF _ b, of "nat (y mod 32)" x] pos
    by (cases "x mod 32" "y mod 32" rule: linorder_cases) (auto simp: nat_less_eq_zless)
  show "ulid_alphabet ! nat (x mod 32) = ulid_alphabet ! nat (y mod 32) \<longleftrightarrow> x mod 32 = y mod 32"
    using mono [OF _ b, of "nat (x mod 32)" y] mono [OF _ b, of "nat (y mod 32)" x] pos
    by (cases "x mod 32" "y mod 32" rule: linorder_cases) (auto simp: nat_less_eq_zless)
qed

lemma less_div_mod_32:
  fixes v w :: int
  shows "v < w \<longleftrightarrow> v div 32 < w div 32 \<or> v div 32 = w div 32 \<and> v mod 32 < w mod 32"
    and "v = w \<longleftrightarrow> v div 32 = w div 32 \<and> v mod 32 = w mod 32"
proof -
  have "v = 32 * (v div 32) + v mod 32" "w = 32 * (w div 32) + w mod 32"
    "0 \<le> v mod 32" "v mod 32 < 32" "0 \<le> w mod 32" "w mod 32 < 32"
    by simp_all
  then show "v < w \<longleftrightarrow> v div 32 < w div 32 \<or> v div 32 = w div 32 \<and> v mod 32 < w mod 32"
    by linarith
  show "v = w \<longleftrightarrow> v div 32 = w div 32 \<and> v mod 32 = w mod 32"
    by (metis div_mult_mod_eq)
qed

lemma ulid_characters_less_iff:
  assumes "0 \<le> v" "v < 32 ^ n" "0 \<le> w" "w < 32 ^ n"
  shows "(ulid_characters n v < ulid_characters n w \<longleftrightarrow> v < w)
    \<and> (ulid_characters n v = ulid_characters n w \<longleftrightarrow> v = w)"
  using assms
proof (induction n arbitrary: v w)
  case (Suc n)
  have q: "0 \<le> v div 32" "v div 32 < 32 ^ n" "0 \<le> w div 32" "w div 32 < 32 ^ n"
    using Suc.prems by auto
  have split: "ulid_characters (Suc n) x
      = ulid_characters n (x div 32) @ [ulid_alphabet ! nat (x mod 32)]" for x
    by (simp add: and_31 drop_bit_eq_div)
  show ?case
    unfolding split using Suc.IH [OF q]
    by (simp add: less_append_same_length ulid_digit_less_iff less_div_mod_32 [of v w])
qed auto

lemma ulid_value_eq:
  assumes "0 \<le> randomness f" "randomness f < 2 ^ 80"
  shows "ulid_value f = last_milliseconds f * 2 ^ 80 + randomness f"
proof -
  have "randomness f = take_bit 80 (randomness f)"
    using assms by (simp add: take_bit_int_eq_self)
  then have "ulid_value f = concat_bit 80 (randomness f) (last_milliseconds f)"
    by (simp add: ulid_value_def concat_bit_def or.commute)
  also have "\<dots> = randomness f + push_bit 80 (last_milliseconds f)"
    using assms by (simp add: concat_bit_eq take_bit_int_eq_self)
  finally show ?thesis by (simp add: push_bit_eq_mult)
qed

lemma ulid_tick_inv:
  assumes "ulid_inv f" "0 \<le> ms" "0 \<le> bits" "bits < 2 ^ 80"
  shows "ulid_inv (ulid_tick f ms bits)" "0 \<le> last_milliseconds (ulid_tick f ms bits)"
  using assms by (auto simp: ulid_tick_def ulid_inv_def Let_def)

lemma ulid_tick_ascends:
  assumes "ulid_inv f" "0 \<le> ms" "0 \<le> bits" "bits < 2 ^ 80"
  shows "ulid_value f < ulid_value (ulid_tick f ms bits)"
proof -
  have "ulid_value (ulid_tick f ms bits)
      = last_milliseconds (ulid_tick f ms bits) * 2 ^ 80 + randomness (ulid_tick f ms bits)"
    using ulid_tick_inv [OF assms] by (intro ulid_value_eq) (auto simp: ulid_inv_def)
  moreover have "ulid_value f = last_milliseconds f * 2 ^ 80 + randomness f"
    using assms(1) by (intro ulid_value_eq) (auto simp: ulid_inv_def)
  ultimately show ?thesis
    using assms by (auto simp: ulid_tick_def ulid_inv_def Let_def)
qed

lemma ulid_tick_bound:
  "last_milliseconds (ulid_tick f ms bits) \<le> max ms (last_milliseconds f + 1)"
  by (auto simp: ulid_tick_def Let_def)

lemma ulid_value_bounds:
  assumes "ulid_inv f" "0 \<le> last_milliseconds f" "last_milliseconds f < 2 ^ 50"
  shows "0 \<le> ulid_value f \<and> ulid_value f < 32 ^ 26"
  using assms ulid_value_eq [of f] by (auto simp: ulid_inv_def)

lemma ulid_run_values:
  assumes "ulid_inv f" "last_milliseconds f + int (length calls) < 2 ^ 50"
    "\<forall>(ms, bits) \<in> set calls. 0 \<le> ms \<and> ms + int (length calls) < 2 ^ 50 \<and> 0 \<le> bits \<and> bits < 2 ^ 80"
  shows "\<exists>vs. ulid_run f calls = map (ulid_characters 26) vs \<and> sorted_wrt (<) (ulid_value f # vs)
    \<and> (\<forall>v \<in> set vs. 0 \<le> v \<and> v < 32 ^ 26)"
  using assms
proof (induction calls arbitrary: f)
  case (Cons call calls)
  obtain ms bits where call: "call = (ms, bits)" by (cases call)
  let ?g = "ulid_tick f ms bits"
  have args: "0 \<le> ms" "0 \<le> bits" "bits < 2 ^ 80"
    using Cons.prems(3) by (auto simp: call)
  have g: "ulid_inv ?g" "0 \<le> last_milliseconds ?g" "ulid_value f < ulid_value ?g"
    using ulid_tick_inv [OF Cons.prems(1) args] ulid_tick_ascends [OF Cons.prems(1) args] by auto
  have last: "last_milliseconds ?g + int (length calls) < 2 ^ 50"
    using ulid_tick_bound [of f ms bits] Cons.prems(2,3) by (auto simp: call)
  have "\<forall>(m, b) \<in> set calls. 0 \<le> m \<and> m + int (length calls) < 2 ^ 50 \<and> 0 \<le> b \<and> b < 2 ^ 80"
    using Cons.prems(3) by (auto simp: case_prod_beta)
  from Cons.IH [OF g(1) last this] obtain vs where vs:
    "ulid_run ?g calls = map (ulid_characters 26) vs" "sorted_wrt (<) (ulid_value ?g # vs)"
    "\<forall>v \<in> set vs. 0 \<le> v \<and> v < 32 ^ 26" by blast
  have "0 \<le> ulid_value ?g \<and> ulid_value ?g < 32 ^ 26"
    using g last by (intro ulid_value_bounds) auto
  with vs g(3) show ?case
    by (intro exI [of _ "ulid_value ?g # vs"])
       (auto simp: call next_ulid_def Let_def simp del: ulid_characters.simps)
qed simp

text \<open>
  C26. The identifiers the factory hands out are event identifiers the envelope accepts, and each is
  greater, as text, than all before it, whatever the clock does: it may stand still, go back, or
  the random part may overflow. (The clock stays below \<open>2 ^ 50\<close> milliseconds, the year 37648.)
\<close>

theorem ulid_run_ascending:
  assumes "int (length calls) < 2 ^ 50"
    "\<forall>(ms, bits) \<in> set calls. 0 \<le> ms \<and> ms + int (length calls) < 2 ^ 50 \<and> 0 \<le> bits \<and> bits < 2 ^ 80"
  shows "sorted_wrt (<) (ulid_run new_ulid_factory calls)
    \<and> list_all is_ulid (ulid_run new_ulid_factory calls)"
proof -
  have "ulid_inv new_ulid_factory" "last_milliseconds new_ulid_factory + int (length calls) < 2 ^ 50"
    using assms(1) by (simp_all add: ulid_inv_def new_ulid_factory_def)
  from ulid_run_values [OF this assms(2)] obtain vs where
    "ulid_run new_ulid_factory calls = map (ulid_characters 26) vs" "sorted_wrt (<) vs"
    "\<forall>v \<in> set vs. 0 \<le> v \<and> v < 32 ^ 26" by auto
  then show ?thesis
    using ulid_characters_less_iff [of _ 26]
    by (auto simp: sorted_wrt_map list_all_iff is_ulid_def ulid_characters_alphabet
        simp del: ulid_characters.simps elim!: sorted_wrt_mono_rel [rotated]
        dest: bspec [OF ulid_characters_alphabet [unfolded list_all_iff]])
qed

theorem ulid_run_ascending_witness:
  "sorted_wrt (<) (ulid_run new_ulid_factory [(5, 2 ^ 80 - 1), (5, 7), (3, 9)])
    \<and> list_all is_ulid (ulid_run new_ulid_factory [(5, 2 ^ 80 - 1), (5, 7), (3, 9)])"
  by (rule ulid_run_ascending) simp_all

end
