(* ===== verification/Reducers.thy ===== *)
theory Reducers
  imports Events
begin

text \<open>
  The projections (\<open>state/projection_types.py\<close>, \<open>state/projections.py\<close>) and the reducer that
  computes their changes from an event (\<open>state/reducers.py\<close>,
  \<open>state/projections_orchestration.py\<close>). The \<open>state_json\<close> of a record is canonical JSON; the
  model keeps the value it denotes in canonical form (theory \<open>Json_Text\<close> shows that the text and
  the value determine each other).
\<close>

subsection \<open>Projection records\<close>

record projection =
  pr_name :: string
  pr_entity :: string
  pr_version :: int
  pr_state :: json

definition projection_names :: "string list" where
  "projection_names =
    [''research'', ''project'', ''runs'', ''artifacts'', ''evaluations'', ''schedules'',
     ''controller'', ''workers'', ''worker_roster'', ''worker_assignments'',
     ''controller_runtime'', ''worker_executions'', ''worker_cursors'', ''epochs'', ''leases'',
     ''documents'', ''formal_actions'', ''contributions'', ''verified_declarations'',
     ''knowledge_deltas'', ''knowledge_acknowledgements'', ''denials'', ''resources'',
     ''alignment_reviews'', ''interventions'']"

definition audit_projections :: "string list" where
  "audit_projections = [''denials'']"

definition find_projection :: "projection list \<Rightarrow> string \<Rightarrow> string \<Rightarrow> projection option" where
  "find_projection snapshots name entity =
     List.find (\<lambda>r. pr_name r = name \<and> pr_entity r = entity) snapshots"

subsection \<open>Orchestration events\<close>

definition orchestration_event_projections :: "(string \<times> string) list" where
  "orchestration_event_projections =
    [(''ControllerStarted'', ''controller_runtime''),
     (''ControllerStopped'', ''controller_runtime''),
     (''ControllerCrashed'', ''controller_runtime''),
     (''WorkerTaskClaimed'', ''worker_executions''),
     (''WorkerTaskDispatchPlanned'', ''worker_executions''),
     (''WorkerTaskCompleted'', ''worker_executions''),
     (''WorkerTaskFailed'', ''worker_executions''),
     (''WorkerTaskInterrupted'', ''worker_executions'')]"

definition orchestration_entity_fields :: "(string \<times> string) list" where
  "orchestration_entity_fields =
    [(''ControllerStarted'', ''controller_id''),
     (''ControllerStopped'', ''controller_id''),
     (''ControllerCrashed'', ''controller_id''),
     (''WorkerTaskClaimed'', ''assignment_id''),
     (''WorkerTaskDispatchPlanned'', ''assignment_id''),
     (''WorkerTaskCompleted'', ''assignment_id''),
     (''WorkerTaskFailed'', ''assignment_id''),
     (''WorkerTaskInterrupted'', ''assignment_id'')]"

definition target_statuses :: "(string \<times> string) list" where
  "target_statuses =
    [(''ControllerStarted'', ''running''),
     (''ControllerStopped'', ''stopped''),
     (''ControllerCrashed'', ''crashed''),
     (''WorkerTaskClaimed'', ''claimed''),
     (''WorkerTaskDispatchPlanned'', ''planned''),
     (''WorkerTaskCompleted'', ''completed''),
     (''WorkerTaskFailed'', ''failed''),
     (''WorkerTaskInterrupted'', ''interrupted'')]"

definition allowed_previous :: "(string \<times> string option list) list" where
  "allowed_previous =
    [(''ControllerStarted'', [None, Some ''stopped'', Some ''crashed'']),
     (''ControllerStopped'', [Some ''running'']),
     (''ControllerCrashed'', [Some ''running'']),
     (''WorkerTaskClaimed'', [None]),
     (''WorkerTaskDispatchPlanned'', [Some ''claimed'']),
     (''WorkerTaskCompleted'', [Some ''planned'']),
     (''WorkerTaskFailed'', [Some ''claimed'', Some ''planned'']),
     (''WorkerTaskInterrupted'', [Some ''claimed'', Some ''planned''])]"

text \<open>
  \<open>status in allowed\<close> and \<open>repr(status)\<close>. A list or dictionary has no hash and makes the test
  raise. A stored status is always one of the texts above; the digits of a float are left out.
\<close>

definition hashable :: "json \<Rightarrow> bool" where
  "hashable v = (case v of JArr _ \<Rightarrow> False | JObj _ \<Rightarrow> False | _ \<Rightarrow> True)"

definition repr_json :: "json \<Rightarrow> string" where
  "repr_json v =
     (case v of JStr s \<Rightarrow> py_repr s | JInt i \<Rightarrow> show_int i
      | JBool b \<Rightarrow> (if b then ''True'' else ''False'') | JFloat _ \<Rightarrow> ''float'' | _ \<Rightarrow> ''None'')"

definition get_json :: "jdict \<Rightarrow> string \<Rightarrow> json" where
  "get_json d k = (case map_of d k of None \<Rightarrow> JNull | Some v \<Rightarrow> v)"

definition previous_payload :: "string \<Rightarrow> projection option \<Rightarrow> jdict option res" where
  "previous_payload projection_name record =
     (case record of
       None \<Rightarrow> Inr None
     | Some r \<Rightarrow>
        (case pr_state r of
          JObj state \<Rightarrow>
            (case map_of state ''payload'' of
              Some (JObj payload) \<Rightarrow> Inr (Some payload)
            | _ \<Rightarrow> Inl (ProjectionAuthorityError projection_name ''stored payload is invalid''))
        | _ \<Rightarrow> Inl (ProjectionAuthorityError projection_name ''stored state is invalid'')))"

definition require_same_execution ::
  "string \<Rightarrow> string \<Rightarrow> jdict \<Rightarrow> jdict \<Rightarrow> unit res" where
  "require_same_execution projection_name event_type previous current =
     (let field = (if event_type \<in> {''ControllerStopped'', ''ControllerCrashed''}
                   then ''controller_session_id'' else ''execution_id'')
      in ensure (canon (get_json previous field) = canon (get_json current field))
           (ProjectionAuthorityError projection_name (field @ '' does not match'')))"

definition reduce_orchestration_payload ::
  "projection list \<Rightarrow> event_envelope \<Rightarrow> jdict res" where
  "reduce_orchestration_payload snapshots e =
     bindr (getr orchestration_event_projections (ev_type e)) (\<lambda>projection_name.
     bindr (getr orchestration_entity_fields (ev_type e)) (\<lambda>entity_field.
     bindr (getr (ev_payload e) entity_field) (\<lambda>entity.
     bindr (case entity of
         JStr s \<Rightarrow> Inr s
       | _ \<Rightarrow> Inl (ProjectionAuthorityError projection_name ''entity identifier is invalid''))
       (\<lambda>entity_id.
     bindr (previous_payload projection_name
         (find_projection snapshots projection_name entity_id)) (\<lambda>previous.
     bindr (Inr (case previous of None \<Rightarrow> JNull | Some p \<Rightarrow> get_json p ''status'')) (\<lambda>status.
     bindr (ensure (hashable status) (TypeError ''unhashable type'')) (\<lambda>_.
     bindr (getr allowed_previous (ev_type e)) (\<lambda>allowed.
     bindr (getr target_statuses (ev_type e)) (\<lambda>target.
     bindr (ensure (status \<in> set (map json_of_option allowed))
       (ProjectionAuthorityError projection_name
         (''transition from '' @ repr_json status @ '' to '' @ py_repr target @ '' is not allowed'')))
       (\<lambda>_.
     bindr (case previous of
         None \<Rightarrow> Inr (ev_payload e)
       | Some p \<Rightarrow>
           bindr (require_same_execution projection_name (ev_type e) p (ev_payload e)) (\<lambda>_.
             Inr (dict_merge p (ev_payload e))))
       (\<lambda>payload.
     Inr (AList.update ''status'' (JStr target) payload))))))))))))"

subsection \<open>The reducer\<close>

definition event_projections :: "(string \<times> string) list" where
  "event_projections =
    [(''ResearchRecordUpdated'', ''research''), (''ProjectInitialized'', ''project''),
     (''RunCreated'', ''runs''), (''RunCompleted'', ''runs''), (''RunAborted'', ''runs''),
     (''ArtifactRegistered'', ''artifacts''), (''FormalTraceSealed'', ''evaluations''),
     (''EvaluationTransitionRejected'', ''evaluations''), (''ScheduleProposed'', ''schedules''),
     (''ControllerConfigured'', ''controller''), (''WorkerRegistered'', ''workers''),
     (''WorkerConfigured'', ''worker_roster''), (''WorkerTaskAssigned'', ''worker_assignments''),
     (''WorkerStarted'', ''workers''), (''WorkerStopped'', ''workers''),
     (''WorkerCrashed'', ''workers''), (''WorkerTimedOut'', ''workers''),
     (''AgentRunCompleted'', ''workers''), (''WorkerCursorSaved'', ''worker_cursors''),
     (''CapabilityMinted'', ''resources''), (''CapabilityDenied'', ''denials''),
     (''SandboxProbeStarted'', ''resources''), (''SandboxProbeDenied'', ''denials''),
     (''SandboxProbePassed'', ''resources''), (''SandboxProbeFailed'', ''denials''),
     (''LeaseGranted'', ''leases''), (''LeaseReleased'', ''leases''),
     (''LeaseRecovered'', ''leases''), (''DocumentEditPrepared'', ''documents''),
     (''DocumentEdited'', ''documents''), (''DocumentEditRecovered'', ''documents''),
     (''FormalActionRecorded'', ''formal_actions''),
     (''ContributionSubmitted'', ''contributions''), (''ContributionRebased'', ''contributions''),
     (''ContributionEnqueued'', ''contributions''), (''PromotionStateChanged'', ''contributions''),
     (''PromotionPrepared'', ''contributions''),
     (''PromotionVerificationRecorded'', ''evaluations''), (''PromotionFailed'', ''contributions''),
     (''DeclarationPublished'', ''verified_declarations''),
     (''KnowledgeDeltaPublished'', ''knowledge_deltas''),
     (''KnowledgeDeltaAcknowledged'', ''knowledge_acknowledgements''),
     (''LeanRuntimeStarted'', ''resources''), (''LeanRuntimeCrashed'', ''resources''),
     (''LeanRuntimeRestarted'', ''resources''), (''LeanRuntimeStopped'', ''resources''),
     (''EnvironmentTransitionProposed'', ''project''),
     (''EnvironmentTransitionApproved'', ''project''),
     (''EnvironmentTransitionRejected'', ''project''), (''AlignmentReviewed'', ''alignment_reviews''),
     (''InterventionRecorded'', ''interventions'')] @ orchestration_event_projections"

text \<open>Evaluation looks an event type up without computing the rest of the table.\<close>

definition projection_name_at :: "string \<Rightarrow> string option" where
  "projection_name_at t = map_of event_projections t"

lemmas projection_name_at_code [code] =
  projection_name_at_def [unfolded event_projections_def orchestration_event_projections_def
    append.simps map_of_Cons_code]

lemma getr_event_projections_code [code_unfold]:
  "getr event_projections t
     = (case projection_name_at t of None \<Rightarrow> Inl (KeyError t) | Some v \<Rightarrow> Inr v)"
  by (simp add: getr_def projection_name_at_def)

definition entity_fields :: "(string \<times> string) list" where
  "entity_fields =
    [(''ResearchRecordUpdated'', ''record_id''), (''ProjectInitialized'', ''project_id''),
     (''ArtifactRegistered'', ''content_hash''),
     (''EvaluationTransitionRejected'', ''requested_hash''),
     (''ControllerConfigured'', ''controller_id''), (''WorkerRegistered'', ''worker_id''),
     (''WorkerConfigured'', ''worker_id''), (''WorkerTaskAssigned'', ''worker_id''),
     (''WorkerStarted'', ''worker_id''), (''WorkerStopped'', ''worker_id''),
     (''WorkerCrashed'', ''worker_id''), (''WorkerTimedOut'', ''worker_id''),
     (''AgentRunCompleted'', ''worker_id''), (''WorkerCursorSaved'', ''worker_id''),
     (''ScheduleProposed'', ''directive_id''), (''CapabilityDenied'', ''request_id''),
     (''SandboxProbeStarted'', ''probe_id''), (''SandboxProbeDenied'', ''probe_id''),
     (''SandboxProbePassed'', ''probe_id''), (''SandboxProbeFailed'', ''probe_id''),
     (''LeaseGranted'', ''lease_id''), (''LeaseReleased'', ''lease_id''),
     (''LeaseRecovered'', ''lease_id''), (''DocumentEditPrepared'', ''document_id''),
     (''DocumentEdited'', ''document_id''), (''DocumentEditRecovered'', ''document_id''),
     (''FormalActionRecorded'', ''action_id''), (''ContributionSubmitted'', ''contribution_id''),
     (''ContributionRebased'', ''contribution_id''), (''ContributionEnqueued'', ''contribution_id''),
     (''PromotionStateChanged'', ''contribution_id''), (''PromotionPrepared'', ''contribution_id''),
     (''PromotionVerificationRecorded'', ''contribution_id''),
     (''PromotionFailed'', ''contribution_id''), (''DeclarationPublished'', ''declaration_id''),
     (''KnowledgeDeltaPublished'', ''delta_id''),
     (''KnowledgeDeltaAcknowledged'', ''acknowledgement_id''),
     (''LeanRuntimeStarted'', ''runtime_id''), (''LeanRuntimeCrashed'', ''runtime_id''),
     (''LeanRuntimeRestarted'', ''runtime_id''), (''LeanRuntimeStopped'', ''runtime_id''),
     (''EnvironmentTransitionProposed'', ''transition_id''),
     (''EnvironmentTransitionApproved'', ''transition_id''),
     (''EnvironmentTransitionRejected'', ''transition_id''), (''AlignmentReviewed'', ''review_id''),
     (''InterventionRecorded'', ''intervention_id'')] @ orchestration_entity_fields"

definition entity_field_at :: "string \<Rightarrow> string option" where
  "entity_field_at t = map_of entity_fields t"

lemmas entity_field_at_code [code] =
  entity_field_at_def [unfolded entity_fields_def orchestration_entity_fields_def
    append.simps map_of_Cons_code]

lemma map_of_entity_fields_code [code_unfold]: "map_of entity_fields t = entity_field_at t"
  by (simp add: entity_field_at_def)


definition entity_id_of :: "event_envelope \<Rightarrow> string" where
  "entity_id_of e =
     (let value = (case map_of entity_fields (ev_type e) of
            Some field \<Rightarrow> get_str (ev_payload e) field
          | None \<Rightarrow> ev_run e);
          by_field = (case value of Some s \<Rightarrow> (if s \<noteq> [] then s else ev_id e) | None \<Rightarrow> ev_id e)
      in if ev_type e = ''ArtifactRegistered'' then
           (case (ev_run e, get_str (ev_payload e) ''relative_path'') of
             (Some run, Some relative) \<Rightarrow> run @ '':'' @ relative
           | _ \<Rightarrow> by_field)
         else by_field)"

definition next_version :: "projection list \<Rightarrow> string \<Rightarrow> string \<Rightarrow> int" where
  "next_version snapshots name entity =
     (case find_projection snapshots name entity of None \<Rightarrow> 1 | Some r \<Rightarrow> pr_version r + 1)"

definition projection_change ::
  "projection list \<Rightarrow> string \<Rightarrow> string \<Rightarrow> jdict \<Rightarrow> projection" where
  "projection_change snapshots name entity state =
     \<lparr>pr_name = name, pr_entity = entity, pr_version = next_version snapshots name entity,
      pr_state = canon (JObj state)\<rparr>"

definition complete_document_payload :: "jdict \<Rightarrow> string option" where
  "complete_document_payload payload =
     (if {''lease_id'', ''worker_id'', ''document_id'', ''relative_path'',
          ''virtual_document_namespace'', ''base_epoch'', ''knowledge_epoch'', ''version'',
          ''content_hash'', ''expires_at''} \<subseteq> keys payload
      then get_str payload ''document_id'' else None)"

definition projection_payload_of :: "projection list \<Rightarrow> event_envelope \<Rightarrow> jdict res" where
  "projection_payload_of snapshots e =
     (if ev_type e \<in> keys orchestration_event_projections
      then reduce_orchestration_payload snapshots e
      else
        let payload = ev_payload e
        in if ev_type e \<notin> {''LeaseReleased'', ''LeaseRecovered''} then Inr payload
           else
             case (case get_str payload ''lease_id'' of
                     None \<Rightarrow> None | Some l \<Rightarrow> find_projection snapshots ''leases'' l) of
               None \<Rightarrow> Inr payload
             | Some previous \<Rightarrow>
                (case pr_state previous of
                  JObj state \<Rightarrow>
                    (case map_of state ''payload'' of
                      Some (JObj prev) \<Rightarrow> Inr (dict_merge prev payload)
                    | _ \<Rightarrow> Inr payload)
                | _ \<Rightarrow> Inr payload))"

definition event_state :: "event_envelope \<Rightarrow> jdict \<Rightarrow> jdict" where
  "event_state e payload =
    [(''event_id'', JStr (ev_id e)), (''event_type'', JStr (ev_type e)),
     (''payload'', JObj payload), (''run_id'', json_of_option (ev_run e))]"

definition apply_event :: "projection list \<Rightarrow> event_envelope \<Rightarrow> projection list res" where
  "apply_event snapshots e =
     bindr (projection_payload_of snapshots e) (\<lambda>payload.
     bindr (getr event_projections (ev_type e)) (\<lambda>name.
     bindr (Inr [projection_change snapshots name (entity_id_of e) (event_state e payload)]) (\<lambda>changes.
     bindr (Inr (case complete_document_payload payload of
         Some document_id \<Rightarrow>
           if ev_type e = ''LeaseGranted''
           then changes @ [projection_change snapshots ''documents'' document_id (event_state e payload)]
           else changes
       | None \<Rightarrow> changes)) (\<lambda>changes.
     if ev_type e \<in> {''ProjectInitialized'', ''KnowledgeDeltaPublished''} then
       bindr (getr payload ''base_epoch'') (\<lambda>b.
       bindr (getr payload ''knowledge_epoch'') (\<lambda>k.
         Inr (changes @ [projection_change snapshots ''epochs'' ''global''
           [(''base_epoch'', b), (''knowledge_epoch'', k)]])))
     else Inr changes))))"

subsection \<open>The reducer and the order of keys\<close>

lemma canon_json_of_option [simp]: "canon (json_of_option v) = json_of_option v"
  by (cases v) (simp_all add: json_of_option_def)

lemma canon_event_state:
  "canon (JObj (event_state e p)) = JObj
     [(''event_id'', JStr (ev_id e)), (''event_type'', JStr (ev_type e)),
      (''payload'', JObj (canon_dict p)), (''run_id'', json_of_option (ev_run e))]"
proof -
  have "canon_dict (event_state e p) = sort_key fst
     [(''event_id'', JStr (ev_id e)), (''event_type'', JStr (ev_type e)),
      (''payload'', JObj (canon_dict p)), (''run_id'', json_of_option (ev_run e))]"
    by (simp only: canon_dict_def event_state_def list.map prod.case canon_JObj canon_json_of_option
        canon.simps)
  then show ?thesis
    unfolding canon_JObj by (simp add: sort_key_id_if_sorted less_char_def)
qed


definition wf_projection :: "projection \<Rightarrow> bool" where
  "wf_projection r \<longleftrightarrow> wf_json (pr_state r) \<and> canon (pr_state r) = pr_state r
     \<and> 0 \<le> pr_version r \<and> pr_name r \<in> set projection_names"

lemma find_projection_Some:
  "find_projection s n i = Some r \<Longrightarrow> r \<in> set s \<and> pr_name r = n \<and> pr_entity r = i"
  by (auto simp: find_projection_def find_Some_iff)

lemma find_projection_None:
  "find_projection s n i = None \<longleftrightarrow> (\<forall>r \<in> set s. \<not> (pr_name r = n \<and> pr_entity r = i))"
  by (auto simp: find_projection_def find_None_iff)

lemma previous_payload_wf:
  assumes "\<forall>r \<in> set s. wf_projection r"
    "previous_payload n (find_projection s n i) = Inr (Some p)"
  shows "wf_jdict p"
proof -
  from assms(2) obtain r d where "find_projection s n i = Some r" "pr_state r = JObj d"
    "map_of d ''payload'' = Some (JObj p)"
    by (auto simp: previous_payload_def split: option.splits json.splits)
  with assms(1) show ?thesis
    by (auto dest!: find_projection_Some simp: wf_projection_def wf_jdict_def [symmetric]
        dest: wf_json_map_of) (metis wf_jdict_def wf_json_map_of wf_projection_def)
qed

lemma canon_get_json:
  "same_payload p q \<Longrightarrow> canon (get_json p k) = canon (get_json q k)"
  using same_payload_lookups(3) [of p q k]
  by (auto simp: get_json_def split: option.splits)

lemma getr_JStr_rel:
  "same_payload p q \<Longrightarrow>
   bindr (getr p k) (\<lambda>v. bindr (case v of JStr s \<Rightarrow> Inr s | _ \<Rightarrow> Inl x) f) =
   bindr (getr q k) (\<lambda>v. bindr (case v of JStr s \<Rightarrow> Inr s | _ \<Rightarrow> Inl x) f)"
  using same_payload_lookups(3) [of p q k]
  by (cases "map_of p k"; cases "map_of q k") (auto simp: getr_def split: json.splits)

lemma require_same_execution_rel:
  "same_payload c d \<Longrightarrow> require_same_execution n t p c = require_same_execution n t p d"
  by (simp add: require_same_execution_def Let_def canon_get_json [of c d])

lemma payload_update_select:
  "ev_type (e\<lparr>ev_payload := q\<rparr>) = ev_type e" "ev_payload (e\<lparr>ev_payload := q\<rparr>) = q"
  "ev_run (e\<lparr>ev_payload := q\<rparr>) = ev_run e" "ev_id (e\<lparr>ev_payload := q\<rparr>) = ev_id e"
  by simp_all

lemma reduce_orchestration_rel:
  assumes wf: "\<forall>r \<in> set s. wf_projection r" and q: "same_payload q (ev_payload e)"
  shows "rel_sum (=) same_payload (reduce_orchestration_payload s (e\<lparr>ev_payload := q\<rparr>))
    (reduce_orchestration_payload s e)"
  unfolding reduce_orchestration_payload_def
  unfolding payload_update_select getr_JStr_rel [OF q] require_same_execution_rel [OF q]
  apply (intro bindr_rel_same)
  apply (rule bindr_rel [where A = same_payload])
  subgoal for name field v entity previous status
    using q previous_payload_wf [OF wf] same_payload_merge [OF _ q]
    by (cases previous) (auto intro!: bindr_rel_same)
  subgoal
    by (simp add: same_payload_update)
  done

lemma projection_payload_rel:
  assumes wf: "\<forall>r \<in> set s. wf_projection r" and q: "same_payload q (ev_payload e)"
  shows "rel_sum (=) same_payload (projection_payload_of s (e\<lparr>ev_payload := q\<rparr>))
    (projection_payload_of s e)"
proof -
  have merge: "same_payload (dict_merge p q) (dict_merge p (ev_payload e))"
    if "find_projection s ''leases'' l = Some r" "pr_state r = JObj d"
      "map_of d ''payload'' = Some (JObj p)" for l r d p
  proof -
    have "previous_payload ''leases'' (find_projection s ''leases'' l) = Inr (Some p)"
      using that by (simp add: previous_payload_def)
    then show ?thesis using same_payload_merge [OF previous_payload_wf [OF wf] q] by blast
  qed
  show ?thesis
    using reduce_orchestration_rel [OF wf q] q merge
    by (auto simp: projection_payload_of_def Let_def same_payload_lookups(2) [OF q]
        split: option.split json.split)
qed

lemma entity_id_of_rel:
  assumes "same_payload q (ev_payload e)"
  shows "entity_id_of (e\<lparr>ev_payload := q\<rparr>) = entity_id_of e"
proof -
  have eq: "get_str q = get_str (ev_payload e)"
    by (rule ext) (rule same_payload_lookups(2) [OF assms])
  show ?thesis
    unfolding entity_id_of_def payload_update_select eq ..
qed

lemma event_state_rel:
  "same_payload p q \<Longrightarrow>
   projection_change s n i (event_state (e\<lparr>ev_payload := r\<rparr>) p) = projection_change s n i (event_state e q)"
  using canon_event_state [of "e\<lparr>ev_payload := r\<rparr>" p] canon_event_state [of e q]
  by (simp add: projection_change_def same_payload_def del: canon.simps)

text \<open>The reducer does not see the order of the keys of a payload.\<close>

lemma apply_event_same_payload:
  assumes wf: "\<forall>r \<in> set s. wf_projection r" and q: "same_payload q (ev_payload e)"
  shows "apply_event s (e\<lparr>ev_payload := q\<rparr>) = apply_event s e"
proof (cases "projection_payload_of s e")
  case (Inl x)
  then show ?thesis
    using projection_payload_rel [OF wf q] by (auto simp: apply_event_def elim: rel_sum.cases)
next
  case (Inr p)
  then obtain p' where p': "projection_payload_of s (e\<lparr>ev_payload := q\<rparr>) = Inr p'" "same_payload p' p"
    using projection_payload_rel [OF wf q] by (auto elim: rel_sum.cases)
  have doc: "complete_document_payload p' = complete_document_payload p"
    using p'(2) by (simp add: complete_document_payload_def same_payload_lookups [OF p'(2)])
  have epochs: "bindr (getr p' k) (\<lambda>b. bindr (getr p' l) (\<lambda>v. Inr (cs @ [projection_change s n i
          [(''base_epoch'', b), (''knowledge_epoch'', v)]])))
      = bindr (getr p k) (\<lambda>b. bindr (getr p l) (\<lambda>v. Inr (cs @ [projection_change s n i
          [(''base_epoch'', b), (''knowledge_epoch'', v)]])))" for k l cs n i
    using same_payload_lookups(3) [OF p'(2), of k] same_payload_lookups(3) [OF p'(2), of l]
    by (cases "map_of p' k"; cases "map_of p k"; cases "map_of p' l"; cases "map_of p l")
       (auto simp: getr_def projection_change_def)
  show ?thesis
    unfolding apply_event_def Inr p' bindr_Inr doc epochs entity_id_of_rel [OF q]
      event_state_rel [OF p'(2)] payload_update_select ..
qed

subsection \<open>What the reducer returns\<close>

definition epoch_event :: "event_envelope \<Rightarrow> bool" where
  "epoch_event e \<longleftrightarrow> ev_type e \<in> {''ProjectInitialized'', ''KnowledgeDeltaPublished''}"

definition document_change :: "projection list \<Rightarrow> event_envelope \<Rightarrow> jdict \<Rightarrow> projection list" where
  "document_change s e p =
     (case complete_document_payload p of
       Some d \<Rightarrow> (if ev_type e = ''LeaseGranted''
                  then [projection_change s ''documents'' d (event_state e p)] else [])
     | None \<Rightarrow> [])"

lemma apply_event_Inr:
  "apply_event s e = Inr cs \<longleftrightarrow>
     (\<exists>p n. projection_payload_of s e = Inr p \<and> map_of event_projections (ev_type e) = Some n \<and>
       (if epoch_event e then
          \<exists>b k. map_of p ''base_epoch'' = Some b \<and> map_of p ''knowledge_epoch'' = Some k \<and>
            cs = projection_change s n (entity_id_of e) (event_state e p) # document_change s e p
              @ [projection_change s ''epochs'' ''global'' [(''base_epoch'', b), (''knowledge_epoch'', k)]]
        else cs = projection_change s n (entity_id_of e) (event_state e p) # document_change s e p))"
proof (cases "projection_payload_of s e")
  case (Inr p)
  show ?thesis
  proof (cases "map_of event_projections (ev_type e)")
    case (Some n)
    have doc: "(case complete_document_payload p of
         Some d \<Rightarrow> if ev_type e = ''LeaseGranted'' then [x] @ [projection_change s ''documents'' d (event_state e p)]
           else [x]
       | None \<Rightarrow> [x]) = x # document_change s e p" for x
      by (simp add: document_change_def split: option.split)
    have n: "getr event_projections (ev_type e) = Inr n" by (simp add: Some)
    show ?thesis
      unfolding apply_event_def Inr n bindr_Inr doc Some epoch_event_def
      by (auto simp: inr_simps)
  next
    case None
    then have "getr event_projections (ev_type e) = Inl (KeyError (ev_type e))"
      by (simp add: getr_def)
    then show ?thesis by (simp add: apply_event_def Inr None)
  qed
qed (simp add: apply_event_def)

lemma projection_payload_wf:
  assumes "\<forall>r \<in> set s. wf_projection r" "wf_jdict (ev_payload e)"
    "projection_payload_of s e = Inr p"
  shows "wf_jdict p"
  using projection_payload_rel [OF assms(1), of "ev_payload e" e] assms(2,3)
  by (auto simp: same_payload_def)

lemma wf_json_event_state: "wf_jdict p \<Longrightarrow> wf_json (JObj (event_state e p))"
  by (simp add: event_state_def wf_jdict_def json_of_option_def split: option.split)

lemma wf_projection_change:
  assumes "\<forall>r \<in> set s. wf_projection r" "wf_json (JObj st)" "n \<in> set projection_names"
  shows "wf_projection (projection_change s n i st)"
proof -
  have "0 \<le> next_version s n i"
    using assms(1) by (auto simp: next_version_def wf_projection_def split: option.splits
        dest!: find_projection_Some)
  moreover have "wf_json (canon (JObj st))" "canon (canon (JObj st)) = canon (JObj st)"
    using assms(2) by (simp_all only: wf_json_canon canon_idem)
  ultimately show ?thesis
    using assms(3) by (simp add: projection_change_def wf_projection_def del: canon.simps wf_json.simps)
qed

lemma event_projections_registered:
  "map_of event_projections t = Some n \<Longrightarrow> n \<in> set projection_names - {''epochs''}"
proof -
  have "list_all (\<lambda>(t, n). n \<in> set projection_names - {''epochs''}) event_projections"
    by code_simp
  then show "map_of event_projections t = Some n \<Longrightarrow> n \<in> set projection_names - {''epochs''}"
    by (auto simp: list_all_iff dest!: map_of_SomeD)
qed

text \<open>Each change is a well-formed record of a registered projection, one version on.\<close>

lemma apply_event_changes:
  assumes wf: "\<forall>r \<in> set s. wf_projection r" and p: "wf_jdict (ev_payload e)"
    and cs: "apply_event s e = Inr cs" and c: "c \<in> set cs"
  shows "wf_projection c \<and> pr_version c = next_version s (pr_name c) (pr_entity c)"
proof -
  obtain p n where p: "projection_payload_of s e = Inr p" "map_of event_projections (ev_type e) = Some n"
    and cases: "c = projection_change s n (entity_id_of e) (event_state e p)
      \<or> (\<exists>d. c = projection_change s ''documents'' d (event_state e p))
      \<or> (\<exists>b k. map_of p ''base_epoch'' = Some b \<and> map_of p ''knowledge_epoch'' = Some k
           \<and> c = projection_change s ''epochs'' ''global'' [(''base_epoch'', b), (''knowledge_epoch'', k)])"
  proof -
    from cs obtain p n where p: "projection_payload_of s e = Inr p"
      "map_of event_projections (ev_type e) = Some n"
      and "c = projection_change s n (entity_id_of e) (event_state e p) \<or> c \<in> set (document_change s e p)
        \<or> (\<exists>b k. map_of p ''base_epoch'' = Some b \<and> map_of p ''knowledge_epoch'' = Some k
           \<and> c = projection_change s ''epochs'' ''global'' [(''base_epoch'', b), (''knowledge_epoch'', k)])"
      using c unfolding apply_event_Inr by (auto split: if_splits)
    moreover from this have "c \<in> set (document_change s e p)
        \<Longrightarrow> \<exists>d. c = projection_change s ''documents'' d (event_state e p)"
      by (auto simp: document_change_def split: option.splits if_splits)
    ultimately show ?thesis using that by blast
  qed
  have "wf_jdict p" using wf \<open>wf_jdict (ev_payload e)\<close> p(1) by (rule projection_payload_wf)
  then have st: "wf_json (JObj (event_state e p))" by (rule wf_json_event_state)
  have names: "n \<in> set projection_names"
    using event_projections_registered [OF p(2)] by blast
  have names': "''documents'' \<in> set projection_names" "''epochs'' \<in> set projection_names"
    by (simp_all add: projection_names_def)
  have epochs: "wf_json (JObj [(''base_epoch'', b), (''knowledge_epoch'', k)])"
    if "map_of p ''base_epoch'' = Some b" "map_of p ''knowledge_epoch'' = Some k" for b k
    using that \<open>wf_jdict p\<close> by (auto dest: wf_json_map_of)
  from cases have "wf_projection c"
    using wf_projection_change [OF wf st] wf_projection_change [OF wf epochs] names names' by blast
  moreover from cases have "pr_version c = next_version s (pr_name c) (pr_entity c)"
    by (auto simp: projection_change_def)
  ultimately show ?thesis by blast
qed

lemma apply_event_keys_distinct:
  "apply_event s e = Inr cs \<Longrightarrow> distinct (map (\<lambda>c. (pr_name c, pr_entity c)) cs)"
proof -
  assume "apply_event s e = Inr cs"
  then obtain n where "map_of event_projections (ev_type e) = Some n"
    and "apply_event s e = Inr cs" by (auto simp: apply_event_Inr)
  moreover from this have "n \<noteq> ''epochs''" using event_projections_registered by blast
  moreover have "ev_type e = ''LeaseGranted'' \<Longrightarrow> n = ''leases''"
    using \<open>map_of event_projections (ev_type e) = Some n\<close> by (simp add: event_projections_def)
  ultimately show ?thesis
    by (auto simp: apply_event_Inr document_change_def epoch_event_def projection_change_def
        split: if_splits option.splits)
qed

subsection \<open>The reducer accepts every valid event\<close>

lemma codec_types_projected:
  "map_of codecs t = Some c \<Longrightarrow> \<exists>n. map_of event_projections t = Some n"
proof -
  have "fst ` set codecs \<subseteq> fst ` set event_projections"
    unfolding codecs_def foundation_codecs_def orchestration_codecs_def event_projections_def
      orchestration_event_projections_def
    by (simp only: set_append list.set image_Un image_insert image_empty fst_conv
        Un_insert_left Un_empty_left insert_subset insert_iff simp_thms empty_subsetI)
  then show "map_of codecs t = Some c \<Longrightarrow> \<exists>n. map_of event_projections t = Some n"
    by (metis map_of_eq_None_iff not_None_eq subsetD)
qed

lemma valid_event_codec:
  assumes "valid_event vr e" "ev_type e \<noteq> ''ResearchRecordUpdated''"
  obtains c where "map_of codecs (ev_type e) = Some c" "codec_validate c (ev_type e) (ev_payload e) = Inr ()"
  using assms by (auto simp: valid_event_def validate_payload_def split: option.splits)

lemma epoch_codecs:
  "map_of codecs ''ProjectInitialized'' = Some (codec [''project_id'', ''base_epoch'', ''knowledge_epoch'']
     [''environment_fingerprint''] [(''base_epoch'', sha256_payload),
      (''environment_fingerprint'', sha256_payload)])"
  "map_of codecs ''KnowledgeDeltaPublished'' = Some (codec [''delta_id'', ''base_epoch'',
      ''knowledge_epoch''] delta_optional [(''base_epoch'', sha256_payload),
      (''previous_base_epoch'', sha256_payload), (''previous_knowledge_epoch'',
      integer_payload), (''publication_sequence'', integer_payload), (''dependencies'',
      strings_payload), (''assumptions'', strings_payload), (''axioms'', strings_payload),
      (''evidence_links'', strings_payload)])"
  by (simp_all add: codecs_def foundation_codecs_def)

text \<open>A valid event that is not one of orchestration has changes in every state.\<close>

lemma valid_event_field:
  assumes "valid_event vr e" "map_of codecs (ev_type e) = Some c"
    "ev_type e \<noteq> ''ResearchRecordUpdated''"
  shows "k \<in> set (required c) \<Longrightarrow> \<exists>x. map_of (ev_payload e) k = Some x"
    and "map_of (ev_payload e) k = Some x \<Longrightarrow> validator_for c k x"
proof -
  have v: "codec_validate c (ev_type e) (ev_payload e) = Inr ()"
    using assms by (auto simp: valid_event_def validate_payload_def)
  show "\<exists>x. map_of (ev_payload e) k = Some x" if "k \<in> set (required c)"
    using v that by (auto simp: codec_validate_Inr in_keys_map_of [symmetric])
  show "validator_for c k x" if "map_of (ev_payload e) k = Some x"
    using v that by (auto simp: codec_validate_Inr dest!: map_of_SomeD)
qed

lemma sha256_payload_JStr: "sha256_payload v \<Longrightarrow> \<exists>s. v = JStr s \<and> is_hash s"
  by (cases v) (simp_all add: sha256_payload_def)

lemma integer_payload_JInt: "integer_payload v \<Longrightarrow> \<exists>i. v = JInt i \<and> 0 \<le> i"
  by (cases v) (simp_all add: integer_payload_def)

lemma text_payload_JStr: "text_payload v \<Longrightarrow> \<exists>s. v = JStr s \<and> s \<noteq> []"
  by (cases v) (simp_all add: text_payload_def)

lemma epoch_event_fields:
  assumes "valid_event vr e" "epoch_event e"
  shows "\<exists>b k. map_of (ev_payload e) ''base_epoch'' = Some (JStr b) \<and> is_hash b
    \<and> map_of (ev_payload e) ''knowledge_epoch'' = Some (JInt k) \<and> 0 \<le> k"
proof -
  have type: "ev_type e \<noteq> ''ResearchRecordUpdated''"
    using assms(2) by (auto simp: epoch_event_def)
  obtain c where c: "map_of codecs (ev_type e) = Some c"
    "''base_epoch'' \<in> set (required c)" "''knowledge_epoch'' \<in> set (required c)"
    "validator_for c ''base_epoch'' = sha256_payload" "validator_for c ''knowledge_epoch'' = integer_payload"
    using assms(2)
    by (auto simp: epoch_event_def epoch_codecs codec_def validator_for_def field_validators_def)
  note field = valid_event_field [OF assms(1) c(1) type]
  obtain x y where "map_of (ev_payload e) ''base_epoch'' = Some x"
    "map_of (ev_payload e) ''knowledge_epoch'' = Some y"
    using field(1) [OF c(2)] field(1) [OF c(3)] by blast
  moreover from this have "sha256_payload x" "integer_payload y"
    using field(2) c(4,5) by metis+
  ultimately show ?thesis
    using sha256_payload_JStr integer_payload_JInt by blast
qed

lemma projection_payload_plain:
  "ev_type e \<notin> keys orchestration_event_projections \<Longrightarrow> \<exists>p. projection_payload_of s e = Inr p"
  by (auto simp: projection_payload_of_def Let_def split: option.splits json.splits)

lemma projection_payload_unchanged:
  "ev_type e \<notin> keys orchestration_event_projections \<Longrightarrow>
   ev_type e \<notin> {''LeaseReleased'', ''LeaseRecovered''} \<Longrightarrow> projection_payload_of s e = Inr (ev_payload e)"
  by (simp add: projection_payload_of_def)

lemma epoch_event_plain: "epoch_event e \<Longrightarrow> projection_payload_of s e = Inr (ev_payload e)"
  by (rule projection_payload_unchanged)
     (auto simp: epoch_event_def orchestration_event_projections_def)

lemma apply_event_total:
  assumes "valid_event vr e" "ev_type e \<notin> keys orchestration_event_projections"
  shows "\<exists>cs. apply_event s e = Inr cs"
proof -
  obtain p where p: "projection_payload_of s e = Inr p"
    using projection_payload_plain [OF assms(2)] by blast
  have "\<exists>n. map_of event_projections (ev_type e) = Some n"
  proof (cases "ev_type e = ''ResearchRecordUpdated''")
    case True
    then show ?thesis by (simp add: event_projections_def)
  next
    case False
    from valid_event_codec [OF assms(1) this] show ?thesis
      using codec_types_projected by metis
  qed
  moreover have "\<exists>b k. map_of p ''base_epoch'' = Some b \<and> map_of p ''knowledge_epoch'' = Some k"
    if "epoch_event e"
    using epoch_event_fields [OF assms(1) that] epoch_event_plain [OF that, of s] p by auto
  ultimately show ?thesis
    using p unfolding apply_event_Inr by (metis (full_types))
qed

end
