(* ===== verification/Json_Text.thy ===== *)
theory Json_Text
  imports Json
begin

text \<open>
  The text of JSON values: \<open>json.dumps\<close> as \<open>domain/serialization.py\<close> calls it, and a reader
  of the texts it writes. The store keeps \<open>canonical_json(value)\<close> and reads it back with
  \<open>json.loads\<close>; \<open>read_dumps\<close> shows that the text of a value gives the value back, so the
  models of the tables hold the value in canonical form in place of its text.
\<close>

subsection \<open>\<open>json.dumps\<close>\<close>

definition hex_digit :: "nat \<Rightarrow> char" where
  "hex_digit d = (if d < 10 then digit_char d else char_of (87 + d))"

definition escape_char :: "char \<Rightarrow> string" where
  "escape_char c =
     (if c = CHR 0x22 then [CHR 0x5C, CHR 0x22]
      else if c = CHR 0x5C then [CHR 0x5C, CHR 0x5C]
      else if code c = 8 then [CHR 0x5C, CHR ''b'']
      else if code c = 12 then [CHR 0x5C, CHR ''f'']
      else if code c = 10 then [CHR 0x5C, CHR ''n'']
      else if code c = 13 then [CHR 0x5C, CHR ''r'']
      else if code c = 9 then [CHR 0x5C, CHR ''t'']
      else if code c < 32
        then [CHR 0x5C, CHR ''u'', CHR ''0'', CHR ''0'', hex_digit (code c div 16), hex_digit (code c mod 16)]
      else [c])"

definition dumps_str :: "string \<Rightarrow> string" where
  "dumps_str s = CHR 0x22 # concat (map escape_char s) @ [CHR 0x22]"

text \<open>
  \<open>json.dumps(v, ensure_ascii=False, sort_keys=True)\<close> with the separators between items and
  after keys; the keys are sorted by \<open>canon\<close> first. \<open>frepr\<close> is \<open>float.__repr__\<close>.
\<close>

fun dumps :: "(64 word \<Rightarrow> string) \<Rightarrow> string \<Rightarrow> string \<Rightarrow> json \<Rightarrow> string" where
  "dumps frepr isep ksep JNull = ''null''"
| "dumps frepr isep ksep (JBool b) = (if b then ''true'' else ''false'')"
| "dumps frepr isep ksep (JInt i) = show_int i"
| "dumps frepr isep ksep (JFloat w) = frepr w"
| "dumps frepr isep ksep (JStr s) = dumps_str s"
| "dumps frepr isep ksep (JArr xs) =
     ''['' @ join isep (map (dumps frepr isep ksep) xs) @ '']''"
| "dumps frepr isep ksep (JObj d) =
     ''{'' @ join isep (map (\<lambda>(k, v). dumps_str k @ ksep @ dumps frepr isep ksep v) d) @ ''}''"

subsection \<open>A reader of these texts\<close>

fun float_free :: "json \<Rightarrow> bool" where
  "float_free (JFloat w) = False"
| "float_free (JArr xs) = list_all float_free xs"
| "float_free (JObj d) = list_all (\<lambda>(k, v). float_free v) d"
| "float_free _ = True"

definition hex_val :: "char \<Rightarrow> nat" where
  "hex_val c = (if is_digit c then digit_val c else code c - 87)"

fun read_str :: "string \<Rightarrow> (string \<times> string) option" where
  "read_str [] = None"
| "read_str (c # s) =
     (if c = CHR 0x22 then Some ([], s)
      else if c = CHR 0x5C then
        (case s of
          [] \<Rightarrow> None
        | e # s' \<Rightarrow>
            if e = CHR ''u'' then
              (case s' of
                a # b # x # y # r \<Rightarrow>
                  map_option (\<lambda>(t, r'). (char_of (16 * hex_val x + hex_val y) # t, r')) (read_str r)
              | _ \<Rightarrow> None)
            else
              (let d = (if e = CHR ''b'' then char_of (8::nat) else if e = CHR ''f'' then char_of (12::nat)
                        else if e = CHR ''n'' then char_of (10::nat) else if e = CHR ''r'' then char_of (13::nat)
                        else if e = CHR ''t'' then char_of (9::nat) else e)
               in map_option (\<lambda>(t, r). (d # t, r)) (read_str s')))
      else map_option (\<lambda>(t, r). (c # t, r)) (read_str s))"

definition read_int :: "string \<Rightarrow> (json \<times> string) option" where
  "read_int s =
     (case s of
       [] \<Rightarrow> None
     | c # r \<Rightarrow>
         if c = CHR ''-'' then
           (if takeWhile is_digit r = [] then None
            else Some (JInt (- int (read_nat (takeWhile is_digit r))), dropWhile is_digit r))
         else if is_digit c then
           Some (JInt (int (read_nat (takeWhile is_digit s))), dropWhile is_digit s)
         else None)"

fun read_value :: "nat \<Rightarrow> string \<Rightarrow> (json \<times> string) option"
  and read_items :: "nat \<Rightarrow> string \<Rightarrow> (json list \<times> string) option"
  and read_pairs :: "nat \<Rightarrow> string \<Rightarrow> ((string \<times> json) list \<times> string) option" where
  "read_value 0 s = None"
| "read_value (Suc n) s =
     (case s of
       [] \<Rightarrow> None
     | c # r \<Rightarrow>
         if c = CHR ''n'' then Some (JNull, drop 3 r)
         else if c = CHR ''t'' then Some (JBool True, drop 3 r)
         else if c = CHR ''f'' then Some (JBool False, drop 4 r)
         else if c = CHR 0x22 then map_option (\<lambda>(t, r'). (JStr t, r')) (read_str r)
         else if c = CHR ''['' then
           (if r \<noteq> [] \<and> hd r = CHR '']'' then Some (JArr [], tl r)
            else map_option (\<lambda>(xs, r'). (JArr xs, r')) (read_items n r))
         else if c = CHR 0x7B then
           (if r \<noteq> [] \<and> hd r = CHR 0x7D then Some (JObj [], tl r)
            else map_option (\<lambda>(d, r'). (JObj d, r')) (read_pairs n r))
         else read_int s)"
| "read_items 0 s = None"
| "read_items (Suc n) s =
     (case read_value n s of
       Some (v, c # r) \<Rightarrow>
         if c = CHR '','' then map_option (\<lambda>(vs, r'). (v # vs, r')) (read_items n r)
         else if c = CHR '']'' then Some ([v], r) else None
     | _ \<Rightarrow> None)"
| "read_pairs 0 s = None"
| "read_pairs (Suc n) s =
     (case s of
       [] \<Rightarrow> None
     | q # s' \<Rightarrow>
         (case read_str s' of
           Some (k, c # r) \<Rightarrow>
             if q = CHR 0x22 \<and> c = CHR '':'' then
               (case read_value n r of
                 Some (v, c' # r') \<Rightarrow>
                   if c' = CHR '','' then map_option (\<lambda>(d, r''). ((k, v) # d, r'')) (read_pairs n r')
                   else if c' = CHR 0x7D then Some ([(k, v)], r') else None
               | _ \<Rightarrow> None)
             else None
         | _ \<Rightarrow> None))"

declare read_value.simps [simp del] read_items.simps [simp del] read_pairs.simps [simp del]

subsection \<open>Reading a text back\<close>

lemma read_str_escape:
  "read_str (escape_char c @ s) = map_option (\<lambda>(t, r). (c # t, r)) (read_str s)"
proof -
  have hex: "hex_val (hex_digit d) = d" if "d < 16" for d
    using that
    by (auto simp: hex_val_def hex_digit_def char_class_defs digit_char_def digit_val_def)
  have "char_of (16 * hex_val (hex_digit (code c div 16)) + hex_val (hex_digit (code c mod 16))) = c"
    if "code c < 32"
    using that by (simp add: hex code_def less_mult_imp_div_less)
  moreover have "char_of (n::nat) = c" if "code c = n" for n
    using that by (auto simp: code_def)
  ultimately show ?thesis
    by (auto simp: escape_char_def Let_def)
qed

lemma read_dumps_str: "read_str (concat (map escape_char s) @ CHR 0x22 # r) = Some (s, r)"
  by (induction s) (auto simp: read_str_escape)

lemma read_str_dumps_str: "read_str (tl (dumps_str s) @ r) = Some (s, r)"
  using read_dumps_str [of s r] by (simp add: dumps_str_def)

definition stops :: "string \<Rightarrow> bool" where
  "stops r \<longleftrightarrow> (r = [] \<or> \<not> is_digit (hd r))"

lemma read_int_show_int:
  assumes "stops r"
  shows "read_int (show_int i @ r) = Some (JInt i, r)"
proof -
  have tw: "takeWhile is_digit (show_nat n @ r) = show_nat n"
    and dw: "dropWhile is_digit (show_nat n @ r) = r" for n
    using assms show_nat_digits [of n]
    by (cases r; auto simp: stops_def list_all_iff takeWhile_append dropWhile_append)+
  show ?thesis
  proof (cases "i < 0")
    case True
    with tw [of "nat (- i)"] dw [of "nat (- i)"] show ?thesis
      by (simp add: read_int_def show_int_def)
  next
    case False
    obtain c t where ct: "show_nat (nat i) = c # t" "is_digit c"
      using show_nat_digits [of "nat i"] by (cases "show_nat (nat i)") auto
    then have "c \<noteq> CHR ''-''" by (auto simp: char_class_defs)
    moreover have "read_nat (c # t) = nat i" by (metis ct(1) read_show_nat)
    ultimately show ?thesis
      using False ct tw [of "nat i"] dw [of "nat i"] by (simp add: read_int_def show_int_def)
  qed
qed

fun jdepth :: "json \<Rightarrow> nat" where
  "jdepth (JArr xs) = Suc (length xs + sum_list (map jdepth xs))"
| "jdepth (JObj d) = Suc (length d + sum_list (map (\<lambda>(k, v). jdepth v) d))"
| "jdepth (JInt i) = 1"
| "jdepth (JStr s) = 1"
| "jdepth (JFloat w) = 1"
| "jdepth (JBool b) = 1"
| "jdepth JNull = 1"

lemma jdepth_pos: "0 < jdepth v"
  by (cases v) auto

abbreviation canonical_text :: "(64 word \<Rightarrow> string) \<Rightarrow> json \<Rightarrow> string" where
  "canonical_text frepr \<equiv> dumps frepr '','' '':''"

abbreviation pair_text :: "(64 word \<Rightarrow> string) \<Rightarrow> string \<times> json \<Rightarrow> string" where
  "pair_text frepr \<equiv> \<lambda>(k, v). dumps_str k @ '':'' @ canonical_text frepr v"

lemma stops_simps [simp]: "stops (CHR '','' # r)" "stops (CHR '']'' # r)" "stops (CHR 0x7D # r)"
  by (simp_all add: stops_def char_class_defs)

lemma dumps_str_Cons: "dumps_str s = CHR 0x22 # tl (dumps_str s)"
  by (simp add: dumps_str_def)

lemma read_items_dumps:
  assumes "xs \<noteq> []" "length xs + sum_list (map jdepth xs) \<le> n"
    and "\<And>v m r. v \<in> set xs \<Longrightarrow> jdepth v \<le> m \<Longrightarrow> stops r \<Longrightarrow>
          read_value m (canonical_text frepr v @ r) = Some (v, r)"
  shows "read_items n (join '','' (map (canonical_text frepr) xs) @ CHR '']'' # r) = Some (xs, r)"
  using assms
proof (induction xs arbitrary: n)
  case Nil
  then show ?case by simp
next
  case (Cons v xs)
  from Cons.prems(2) obtain m where n: "n = Suc m" by (cases n) auto
  show ?case
  proof (cases xs)
    case Nil
    with Cons.prems n show ?thesis by (simp add: read_items.simps)
  next
    case (Cons w ws)
    have "read_items m (join '','' (map (canonical_text frepr) xs) @ CHR '']'' # r) = Some (xs, r)"
      using Cons.prems n Cons by (intro Cons.IH) auto
    with Cons.prems n Cons show ?thesis by (simp add: read_items.simps)
  qed
qed

lemma read_pairs_dumps:
  assumes "d \<noteq> []" "length d + sum_list (map (\<lambda>(k, v). jdepth v) d) \<le> n"
    and "\<And>k v m r. (k, v) \<in> set d \<Longrightarrow> jdepth v \<le> m \<Longrightarrow> stops r \<Longrightarrow>
          read_value m (canonical_text frepr v @ r) = Some (v, r)"
  shows "read_pairs n (join '','' (map (pair_text frepr) d) @ CHR 0x7D # r) = Some (d, r)"
  using assms
proof (induction d arbitrary: n)
  case Nil
  then show ?case by simp
next
  case (Cons kv d)
  obtain k v where kv: "kv = (k, v)" by (cases kv)
  from Cons.prems(2) obtain m where n: "n = Suc m" by (cases n) auto
  have head: "read_pairs (Suc m) (dumps_str k @ '':'' @ canonical_text frepr v @ c # t) =
      (if c = CHR '','' then map_option (\<lambda>(d, r). ((k, v) # d, r)) (read_pairs m t)
       else if c = CHR 0x7D then Some ([(k, v)], t) else None)" if "stops (c # t)" for c t
  proof -
    have "read_value m (canonical_text frepr v @ c # t) = Some (v, c # t)"
      using that Cons.prems(2) kv n by (intro Cons.prems(3) [of k]) auto
    then show ?thesis
      using read_dumps_str [of k "CHR '':'' # canonical_text frepr v @ c # t"]
      by (simp add: read_pairs.simps dumps_str_def)
  qed
  show ?case
  proof (cases d)
    case Nil
    with n kv head [of "CHR 0x7D" r] show ?thesis by simp
  next
    case (Cons w ws)
    have "read_pairs m (join '','' (map (pair_text frepr) d) @ CHR 0x7D # r) = Some (d, r)"
      using Cons.prems n Cons by (intro Cons.IH) auto
    with n kv Cons head [of "CHR '',''" "join '','' (map (pair_text frepr) d) @ CHR 0x7D # r"]
    show ?thesis by simp
  qed
qed

lemma canonical_text_hd:
  assumes "float_free v"
  obtains c t where "canonical_text frepr v = c # t" "c \<noteq> CHR '']''"
proof (cases v)
  case (JInt i)
  obtain c t where "show_nat (nat i) = c # t" "is_digit c"
    using show_nat_digits [of "nat i"] by (cases "show_nat (nat i)") auto
  moreover from this have "c \<noteq> CHR '']''" by (auto simp: char_class_defs)
  ultimately show ?thesis using JInt that by (cases "i < 0") (auto simp: show_int_def)
next
  case (JBool b)
  then show ?thesis using that by (cases b) auto
qed (use assms that in \<open>auto simp: dumps_str_def split: if_splits\<close>)

lemma read_value_arr:
  assumes "xs \<noteq> []" "list_all float_free xs"
  shows "read_value (Suc n) (CHR ''['' # join '','' (map (canonical_text frepr) xs) @ s) =
    map_option (\<lambda>(ys, r). (JArr ys, r)) (read_items n (join '','' (map (canonical_text frepr) xs) @ s))"
proof -
  from assms obtain x ys where xs: "xs = x # ys" "float_free x" by (cases xs) auto
  obtain c t where "canonical_text frepr x = c # t" "c \<noteq> CHR '']''"
    using canonical_text_hd [OF xs(2)] by blast
  with xs have "\<exists>u. join '','' (map (canonical_text frepr) xs) = c # u"
    by (cases ys) auto
  with \<open>c \<noteq> CHR '']''\<close> show ?thesis by (auto simp: read_value.simps)
qed

lemma read_value_obj:
  assumes "d \<noteq> []"
  shows "read_value (Suc n) (CHR 0x7B # join '','' (map (pair_text frepr) d) @ s) =
    map_option (\<lambda>(d, r). (JObj d, r)) (read_pairs n (join '','' (map (pair_text frepr) d) @ s))"
proof -
  from assms obtain k v e where d: "d = (k, v) # e" by (cases d) auto
  then have "\<exists>u. join '','' (map (pair_text frepr) d) = CHR 0x22 # u"
    by (cases e) (auto simp: dumps_str_def)
  then show ?thesis by (auto simp: read_value.simps)
qed

lemma read_value_int:
  assumes "c = CHR ''-'' \<or> is_digit c"
  shows "read_value (Suc n) (c # t) = read_int (c # t)"
proof -
  have "\<not> is_digit (CHR ''n'')" "\<not> is_digit (CHR ''t'')" "\<not> is_digit (CHR ''f'')"
    "\<not> is_digit (CHR 0x22)" "\<not> is_digit (CHR ''['')" "\<not> is_digit (CHR 0x7B)"
    by (simp_all add: char_class_defs)
  with assms have "c \<noteq> CHR ''n''" "c \<noteq> CHR ''t''" "c \<noteq> CHR ''f''" "c \<noteq> CHR 0x22"
    "c \<noteq> CHR ''[''" "c \<noteq> CHR 0x7B" by auto
  then show ?thesis by (simp add: read_value.simps)
qed

lemma show_int_hd:
  obtains c t where "show_int i = c # t" "c = CHR ''-'' \<or> is_digit c"
proof (cases "i < 0")
  case True
  then show ?thesis using that by (simp add: show_int_def)
next
  case False
  obtain c t where "show_nat (nat i) = c # t" "is_digit c"
    using show_nat_digits [of "nat i"] by (cases "show_nat (nat i)") auto
  with False that show ?thesis by (simp add: show_int_def)
qed

lemma read_dumps_gen:
  "float_free v \<Longrightarrow> jdepth v \<le> n \<Longrightarrow> stops r \<Longrightarrow>
   read_value n (canonical_text frepr v @ r) = Some (v, r)"
proof (induction v arbitrary: n r rule: jdepth.induct)
  case (1 xs)
  then obtain m where n: "n = Suc m" by (cases n) auto
  show ?case
  proof (cases "xs = []")
    case True
    with n show ?thesis by (simp add: read_value.simps)
  next
    case False
    have "read_items m (join '','' (map (canonical_text frepr) xs) @ CHR '']'' # r) = Some (xs, r)"
      using 1 n False by (intro read_items_dumps) (auto simp: list_all_iff)
    then show ?thesis
      using read_value_arr [of xs m frepr "CHR '']'' # r"] False "1.prems" n by simp
  qed
next
  case (2 d)
  then obtain m where n: "n = Suc m" by (cases n) auto
  show ?case
  proof (cases "d = []")
    case True
    with n show ?thesis by (simp add: read_value.simps)
  next
    case False
    have "read_pairs m (join '','' (map (pair_text frepr) d) @ CHR 0x7D # r) = Some (d, r)"
      using 2 n False by (intro read_pairs_dumps) (auto simp: list_all_iff)
    then show ?thesis
      using read_value_obj [of d m frepr "CHR 0x7D # r"] False n by simp
  qed
next
  case (3 i)
  then obtain m where n: "n = Suc m" by (cases n) auto
  obtain c t where ct: "show_int i = c # t" "c = CHR ''-'' \<or> is_digit c"
    by (rule show_int_hd)
  with read_int_show_int [OF "3.prems"(3), of i] n read_value_int [of c m "t @ r"]
  show ?case by simp
qed (auto simp: gr0_conv_Suc Suc_le_eq read_value.simps dumps_str_def read_dumps_str)

text \<open>The text of a value gives the value back, so equal texts are texts of equal values.\<close>

definition loads :: "string \<Rightarrow> json option" where
  "loads s = (case read_value (length s) s of Some (v, []) \<Rightarrow> Some v | _ \<Rightarrow> None)"

lemma length_join1: "ws \<noteq> [] \<Longrightarrow> Suc (length (join [c] ws)) = length ws + sum_list (map length ws)"
  by (induction "[c]" ws rule: join.induct) auto

lemma sum_list_map_mono:
  "(\<And>x. x \<in> set xs \<Longrightarrow> f x \<le> (g x :: nat)) \<Longrightarrow> sum_list (map f xs) \<le> sum_list (map g xs)"
  by (induction xs) (auto intro: add_mono)

lemma jdepth_le_length: "float_free v \<Longrightarrow> jdepth v \<le> length (canonical_text frepr v)"
proof (induction v rule: jdepth.induct)
  case (1 xs)
  have "sum_list (map jdepth xs) \<le> sum_list (map (\<lambda>v. length (canonical_text frepr v)) xs)"
    using 1 by (intro sum_list_map_mono) (auto simp: list_all_iff)
  then show ?case
    using length_join1 [of "map (canonical_text frepr) xs" "CHR '',''"]
    by (cases "xs = []") (simp_all add: comp_def)
next
  case (2 d)
  have "sum_list (map (\<lambda>(k, v). jdepth v) d) \<le> sum_list (map (\<lambda>kv. length (pair_text frepr kv)) d)"
    using 2 by (intro sum_list_map_mono) (fastforce simp: list_all_iff dumps_str_def)
  then show ?case
    using length_join1 [of "map (pair_text frepr) d" "CHR '',''"]
    by (cases "d = []") (simp_all add: comp_def)
next
  case (3 i)
  obtain c t where "show_int i = c # t" by (rule show_int_hd)
  then show ?case by simp
qed (auto simp: dumps_str_def)

lemma loads_canonical_text: "float_free v \<Longrightarrow> loads (canonical_text frepr v) = Some v"
  using read_dumps_gen [of v "length (canonical_text frepr v)" "[]" frepr] jdepth_le_length
  by (simp add: loads_def stops_def)

lemma canonical_text_inject:
  "float_free v \<Longrightarrow> float_free w \<Longrightarrow>
   canonical_text frepr v = canonical_text frepr w \<longleftrightarrow> v = w"
  by (metis loads_canonical_text option.inject)

end
