(* ===== verification/Event_Store.thy ===== *)
theory Event_Store
  imports Reducers Json_Text
begin

text \<open>
  The event store: the tables of \<open>state/sql/001_foundation.sql\<close>, capability records
  (\<open>state/capabilities.py\<close>), the mutations (\<open>state/store_mutations.py\<close>) and the operations of
  \<open>_EventStore\<close> (\<open>state/store.py\<close>, \<open>state/store_contracts.py\<close>, \<open>state/store_schema.py\<close>).

  A table is the list of its rows in order of insertion; a column of JSON text holds the value the
  canonical text denotes. An operation that writes maps a database to its result and the next
  database, or to the exception it raises: the transaction is rolled back, the database stays.
  An \<open>IntegrityError\<close> of SQLite carries the column of the failed constraint.
\<close>

subsection \<open>Tables\<close>

record event_row =
  er_sequence :: nat
  er_id :: string
  er_version :: int
  er_type :: string
  er_time :: string
  er_actor :: string
  er_run :: "string option"
  er_cause :: "string option"
  er_payload :: json

record capability_row =
  cr_token_hash :: string
  cr_run :: string
  cr_worker :: string
  cr_role :: string
  cr_lease :: "string option"
  cr_operations :: json
  cr_expires_at :: string
  cr_revoked_at :: "string option"

record queue_row =
  qr_sequence :: nat
  qr_contribution :: string
  qr_state :: string
  qr_version :: int
  qr_claimed_by :: "string option"
  qr_claimed_at :: "string option"

record artifact_row =
  ar_content_hash :: string
  ar_run :: string
  ar_path :: string
  ar_media_type :: string
  ar_length :: int

record association_row =
  as_run :: string
  as_name :: string
  as_path :: string
  as_content_hash :: string
  as_media_type :: string
  as_length :: int

record db =
  db_user_version :: int
  db_metadata :: "(string \<times> string) list"
  db_events :: "event_row list"
  db_projections :: "projection list"
  db_capabilities :: "capability_row list"
  db_queue :: "queue_row list"
  db_artifacts :: "artifact_row list"
  db_associations :: "association_row list"

definition empty_db :: db where
  "empty_db =
    \<lparr>db_user_version = 0, db_metadata = [], db_events = [], db_projections = [],
     db_capabilities = [], db_queue = [], db_artifacts = [], db_associations = []\<rparr>"

text \<open>\<open>AUTOINCREMENT\<close>: one more than the greatest key so far. No row is ever deleted.\<close>

definition next_sequence :: "nat list \<Rightarrow> nat" where
  "next_sequence ks = Suc (foldr max ks 0)"

text \<open>Integers bind to 64 bits; \<open>sqlite3\<close> raises on others.\<close>

definition sqlite_integer :: "int \<Rightarrow> int res" where
  "sqlite_integer i =
     (if - (2 ^ 63) \<le> i \<and> i < 2 ^ 63 then Inr i else Inl OverflowError)"

subsection \<open>Capability records (\<open>state/capabilities.py\<close>)\<close>

record capability_record =
  cap_token_hash :: string
  cap_run :: string
  cap_worker :: string
  cap_role :: string
  cap_lease :: "string option"
  cap_operations :: "string list"
  cap_expires_at :: datetime
  cap_revoked_at :: "datetime option"

definition capability_time_text :: "datetime \<Rightarrow> string \<Rightarrow> string res" where
  "capability_time_text value field =
     bindr (ensure (is_utc value)
       (CapabilityRecordError field ''must be a timezone-aware UTC datetime'')) (\<lambda>_.
     Inr (utc_text value))"

definition parse_capability_time :: "string \<Rightarrow> string \<Rightarrow> datetime res" where
  "parse_capability_time value field =
     (case read_utc value of
       None \<Rightarrow> Inl (CapabilityRecordError field ''must be canonical UTC RFC 3339'')
     | Some d \<Rightarrow> Inr d)"

definition canonical_timestamp :: "datetime \<Rightarrow> string res" where
  "canonical_timestamp value = capability_time_text value ''timestamp''"

definition check_capability :: "capability_record \<Rightarrow> unit res" where
  "check_capability c = require_all
     [ensure (is_hash (cap_token_hash c))
        (CapabilityRecordError ''token_hash'' ''must be a lowercase SHA-256 hash''),
      ensure (cap_run c \<noteq> []) (CapabilityRecordError ''run_id'' ''must be a non-empty string''),
      ensure (cap_worker c \<noteq> []) (CapabilityRecordError ''worker_id'' ''must be a non-empty string''),
      ensure (cap_role c \<noteq> []) (CapabilityRecordError ''role'' ''must be a non-empty string''),
      ensure (cap_lease c \<noteq> Some [])
        (CapabilityRecordError ''lease_id'' ''must be a non-empty string when present''),
      ensure (cap_operations c \<noteq> [] \<and> [] \<notin> set (cap_operations c) \<and> distinct (cap_operations c))
        (CapabilityRecordError ''operations'' ''must be unique non-empty strings''),
      bindr (capability_time_text (cap_expires_at c) ''expires_at'') (\<lambda>_. Inr ()),
      (case cap_revoked_at c of
        None \<Rightarrow> Inr ()
      | Some t \<Rightarrow> bindr (capability_time_text t ''revoked_at'') (\<lambda>_. Inr ()))]"

definition mk_capability :: "capability_record \<Rightarrow> capability_record res" where
  "mk_capability c = bindr (check_capability c) (\<lambda>_. Inr c)"

definition capability_row_of :: "capability_record \<Rightarrow> capability_row res" where
  "capability_row_of c =
     bindr (capability_time_text (cap_expires_at c) ''expires_at'') (\<lambda>expires.
     bindr (case cap_revoked_at c of
         None \<Rightarrow> Inr None
       | Some t \<Rightarrow> bindr (capability_time_text t ''revoked_at'') (\<lambda>s. Inr (Some s))) (\<lambda>revoked.
     Inr \<lparr>cr_token_hash = cap_token_hash c, cr_run = cap_run c, cr_worker = cap_worker c,
          cr_role = cap_role c, cr_lease = cap_lease c,
          cr_operations = JArr (map JStr (cap_operations c)),
          cr_expires_at = expires, cr_revoked_at = revoked\<rparr>))"

definition capability_from_row :: "capability_row \<Rightarrow> capability_record res" where
  "capability_from_row r =
     bindr (case cr_operations r of
         JArr xs \<Rightarrow> mapr (\<lambda>v. case v of
             JStr s \<Rightarrow> Inr s
           | _ \<Rightarrow> Inl (CapabilityRecordError ''operations'' ''stored value must be a JSON string array'')) xs
       | _ \<Rightarrow> Inl (CapabilityRecordError ''operations'' ''stored value must be a JSON string array''))
       (\<lambda>operations.
     bindr (parse_capability_time (cr_expires_at r) ''expires_at'') (\<lambda>expires.
     bindr (case cr_revoked_at r of
         None \<Rightarrow> Inr None
       | Some s \<Rightarrow> bindr (parse_capability_time s ''revoked_at'') (\<lambda>t. Inr (Some t))) (\<lambda>revoked.
     mk_capability
       \<lparr>cap_token_hash = cr_token_hash r, cap_run = cr_run r, cap_worker = cr_worker r,
        cap_role = cr_role r, cap_lease = cr_lease r, cap_operations = operations,
        cap_expires_at = expires, cap_revoked_at = revoked\<rparr>)))"

subsection \<open>Mutations (\<open>state/store_mutations.py\<close>)\<close>

type_synonym reducer = "projection list \<Rightarrow> event_envelope \<Rightarrow> projection list res"

record event_record =
  rec_sequence :: nat
  rec_envelope :: event_envelope

definition query_projections :: "db \<Rightarrow> projection list" where
  "query_projections d = sort_key (\<lambda>r. (pr_name r, pr_entity r)) (db_projections d)"

fun upsert_projection :: "projection \<Rightarrow> projection list \<Rightarrow> projection list" where
  "upsert_projection r [] = [r]"
| "upsert_projection r (q # rows) =
     (if pr_name q = pr_name r \<and> pr_entity q = pr_entity r then r # rows
      else q # upsert_projection r rows)"

definition event_row_of :: "nat \<Rightarrow> event_envelope \<Rightarrow> event_row" where
  "event_row_of sequence e =
    \<lparr>er_sequence = sequence, er_id = ev_id e, er_version = ev_version e, er_type = ev_type e,
     er_time = utc_text (ev_time e), er_actor = ev_actor e, er_run = ev_run e, er_cause = ev_cause e,
     er_payload = canon (JObj (ev_payload e))\<rparr>"

definition insert_event :: "event_envelope \<Rightarrow> db \<Rightarrow> (nat \<times> db) res" where
  "insert_event e d =
     bindr (ensure (ev_id e \<notin> er_id ` set (db_events d)) (IntegrityError ''events.event_id'')) (\<lambda>_.
     bindr (ensure (0 < ev_version e) (IntegrityError ''schema_version > 0'')) (\<lambda>_.
     let sequence = next_sequence (map er_sequence (db_events d))
     in Inr (sequence, d\<lparr>db_events := db_events d @ [event_row_of sequence e]\<rparr>)))"

definition store_change :: "projection \<Rightarrow> db \<Rightarrow> db res" where
  "store_change change d =
     bindr (ensure (pr_name change \<in> set projection_names)
       (ProjectionAuthorityError (pr_name change) ''name is not registered'')) (\<lambda>_.
     bindr (ensure (0 \<le> pr_version change) (IntegrityError ''version >= 0'')) (\<lambda>_.
     Inr (d\<lparr>db_projections := upsert_projection change (db_projections d)\<rparr>)))"

definition apply_event_mutation ::
  "reducer \<Rightarrow> event_envelope \<Rightarrow> projection list \<Rightarrow> db \<Rightarrow> (event_record \<times> db) res" where
  "apply_event_mutation reducer e snapshots d =
     bindr (insert_event e d) (\<lambda>(sequence, d1).
     bindr (reducer snapshots e) (\<lambda>changes.
     bindr (foldr_res store_change changes d1) (\<lambda>d2.
     Inr (\<lparr>rec_sequence = sequence, rec_envelope = e\<rparr>, d2))))"

definition insert_capability :: "capability_record \<Rightarrow> db \<Rightarrow> db res" where
  "insert_capability c d =
     bindr (capability_row_of c) (\<lambda>row.
     bindr (ensure (cap_token_hash c \<notin> cr_token_hash ` set (db_capabilities d))
       (IntegrityError ''capability_tokens.token_hash'')) (\<lambda>_.
     Inr (d\<lparr>db_capabilities := db_capabilities d @ [row]\<rparr>)))"

definition artifact_text :: "string option \<Rightarrow> string res" where
  "artifact_text v =
     (case v of
       None \<Rightarrow> Inl (ProjectionAuthorityError ''artifacts'' ''artifact registration is incomplete'')
     | Some s \<Rightarrow> Inr s)"

definition artifact_integer :: "json option \<Rightarrow> int res" where
  "artifact_integer v =
     (case v of
       Some (JInt i) \<Rightarrow> Inr i
     | _ \<Rightarrow> Inl (ProjectionAuthorityError ''artifacts'' ''artifact registration is incomplete''))"

text \<open>\<open>INSERT OR IGNORE\<close>: a row that breaks a constraint of the table is not inserted.\<close>

definition insert_artifact :: "artifact_row \<Rightarrow> artifact_row list \<Rightarrow> artifact_row list" where
  "insert_artifact a rows =
     (if ar_content_hash a \<in> ar_content_hash ` set rows \<or> ar_path a \<in> ar_path ` set rows
         \<or> ar_length a < 0 then rows else rows @ [a])"

definition insert_association :: "association_row \<Rightarrow> association_row list \<Rightarrow> association_row list" where
  "insert_association a rows =
     (if (as_run a, as_path a) \<in> (\<lambda>r. (as_run r, as_path r)) ` set rows
         \<or> (as_run a, as_name a) \<in> (\<lambda>r. (as_run r, as_name r)) ` set rows
         \<or> as_length a < 0 then rows else rows @ [a])"

definition register_artifact :: "event_envelope \<Rightarrow> db \<Rightarrow> db res" where
  "register_artifact e d =
     (if ev_type e \<noteq> ''ArtifactRegistered'' then Inr d
      else
        bindr (artifact_text (ev_run e)) (\<lambda>run.
        bindr (artifact_text (get_str (ev_payload e) ''artifact_name'')) (\<lambda>name.
        bindr (artifact_text (get_str (ev_payload e) ''content_hash'')) (\<lambda>content_hash.
        bindr (artifact_text (get_str (ev_payload e) ''relative_path'')) (\<lambda>relative_path.
        bindr (artifact_text (get_str (ev_payload e) ''media_type'')) (\<lambda>media_type.
        bindr (artifact_integer (map_of (ev_payload e) ''byte_length'')) (\<lambda>byte_length.
        bindr (sqlite_integer byte_length) (\<lambda>byte_length.
        bindr (Inr (insert_artifact
            \<lparr>ar_content_hash = content_hash, ar_run = run, ar_path = relative_path,
             ar_media_type = media_type, ar_length = byte_length\<rparr> (db_artifacts d))) (\<lambda>artifacts.
        bindr (ensure
            (map_option (\<lambda>a. (ar_media_type a, ar_length a))
               (List.find (\<lambda>a. ar_content_hash a = content_hash) artifacts)
             = Some (media_type, byte_length))
            (ProjectionAuthorityError ''artifacts'' ''artifact registration conflicts with stored hash''))
          (\<lambda>_.
        bindr (Inr \<lparr>as_run = run, as_name = name, as_path = relative_path,
            as_content_hash = content_hash, as_media_type = media_type,
            as_length = byte_length\<rparr>) (\<lambda>association.
        bindr (Inr (insert_association association (db_associations d))) (\<lambda>associations.
        bindr (ensure
            (List.find (\<lambda>a. as_run a = run \<and> as_path a = relative_path) associations
             = Some association)
            (ProjectionAuthorityError ''artifacts'' ''run artifact registration conflicts''))
          (\<lambda>_.
        Inr (d\<lparr>db_artifacts := artifacts, db_associations := associations\<rparr>))))))))))))))"

definition revoke_rows :: "(capability_row \<Rightarrow> bool) \<Rightarrow> string \<Rightarrow> capability_row list \<Rightarrow> capability_row list" where
  "revoke_rows selected at rows =
     map (\<lambda>r. if selected r \<and> cr_revoked_at r = None then r\<lparr>cr_revoked_at := Some at\<rparr> else r) rows"

definition revoke_token :: "string \<Rightarrow> datetime \<Rightarrow> db \<Rightarrow> (bool \<times> db) res" where
  "revoke_token token_hash revoked_at d =
     bindr (canonical_timestamp revoked_at) (\<lambda>at.
     Inr (\<exists>r \<in> set (db_capabilities d). cr_token_hash r = token_hash \<and> cr_revoked_at r = None,
          d\<lparr>db_capabilities :=
            revoke_rows (\<lambda>r. cr_token_hash r = token_hash) at (db_capabilities d)\<rparr>))"

definition revoke_lease_capabilities :: "event_envelope \<Rightarrow> db \<Rightarrow> db res" where
  "revoke_lease_capabilities e d =
     (if ev_type e \<notin> {''LeaseReleased'', ''LeaseRecovered''} then Inr d
      else
        case ev_run e of
          None \<Rightarrow> Inl (ProjectionAuthorityError ''run_id'' ''lease terminal event requires a run'')
        | Some run \<Rightarrow>
           (case get_str (ev_payload e) ''lease_id'' of
             None \<Rightarrow> Inl (ProjectionAuthorityError ''lease_id'' ''lease terminal event requires a lease'')
           | Some lease \<Rightarrow>
              bindr (canonical_timestamp (ev_time e)) (\<lambda>at.
              Inr (d\<lparr>db_capabilities :=
                revoke_rows (\<lambda>r. cr_run r = run \<and> cr_lease r = Some lease) at (db_capabilities d)\<rparr>))))"

subsection \<open>Reading (\<open>state/store_contracts.py\<close>)\<close>

definition event_record_of :: "(jdict \<Rightarrow> bool) \<Rightarrow> event_row \<Rightarrow> event_record res" where
  "event_record_of valid_record row =
     (case er_payload row of
       JObj payload \<Rightarrow>
         bindr (upcast valid_record
            [(''event_id'', JStr (er_id row)), (''schema_version'', JInt (er_version row)),
             (''event_type'', JStr (er_type row)), (''occurred_at'', JStr (er_time row)),
             (''actor'', JStr (er_actor row)), (''run_id'', json_of_option (er_run row)),
             (''causation_id'', json_of_option (er_cause row)), (''payload'', JObj payload)])
           (\<lambda>e. Inr \<lparr>rec_sequence = er_sequence row, rec_envelope = e\<rparr>)
     | _ \<Rightarrow> Inl (EventValidationError ''payload'' ''stored payload must be a JSON object''))"

definition query_events :: "(jdict \<Rightarrow> bool) \<Rightarrow> string option \<Rightarrow> db \<Rightarrow> event_record list res" where
  "query_events valid_record run d =
     (let rows = (case run of
            None \<Rightarrow> db_events d
          | Some r \<Rightarrow> filter (\<lambda>row. er_run row = Some r) (db_events d))
      in mapr (event_record_of valid_record) (sort_key er_sequence rows))"

definition query_projection :: "string \<Rightarrow> string \<Rightarrow> db \<Rightarrow> projection option res" where
  "query_projection name entity d =
     bindr (ensure (name \<in> set projection_names)
       (ProjectionAuthorityError name ''name is not registered'')) (\<lambda>_.
     Inr (find_projection (db_projections d) name entity))"

definition store_projections :: "string option \<Rightarrow> db \<Rightarrow> projection list res" where
  "store_projections name d =
     (case name of
       None \<Rightarrow> Inr (query_projections d)
     | Some n \<Rightarrow>
         bindr (ensure (n \<in> set projection_names)
           (ProjectionAuthorityError n ''name is not registered'')) (\<lambda>_.
         Inr (filter (\<lambda>r. pr_name r = n) (query_projections d))))"

definition projection_document :: "(json \<Rightarrow> string) \<Rightarrow> projection \<Rightarrow> json" where
  "projection_document text r = JObj
     [(''entity_id'', JStr (pr_entity r)), (''projection_name'', JStr (pr_name r)),
      (''state_json'', JStr (text (pr_state r))), (''version'', JInt (pr_version r))]"

definition projection_json :: "(json \<Rightarrow> string) \<Rightarrow> projection list \<Rightarrow> string" where
  "projection_json text records = text (JArr (map (projection_document text) records))"

definition sandbox_probe_audit :: "projection \<Rightarrow> bool" where
  "sandbox_probe_audit r \<longleftrightarrow>
     pr_name r = ''resources'' \<and>
     (case pr_state r of
       JObj state \<Rightarrow> map_of state ''event_type''
         \<in> {Some (JStr ''SandboxProbeStarted''), Some (JStr ''SandboxProbePassed'')}
     | _ \<Rightarrow> False)"

definition logical_digest_of ::
  "(string \<Rightarrow> string) \<Rightarrow> (json \<Rightarrow> string) \<Rightarrow> projection list \<Rightarrow> string" where
  "logical_digest_of sha text records =
     sha (projection_json text
       (filter (\<lambda>r. pr_name r \<notin> set audit_projections \<and> \<not> sandbox_probe_audit r) records))"

definition canonical_projection_json :: "(json \<Rightarrow> string) \<Rightarrow> db \<Rightarrow> string" where
  "canonical_projection_json text d = projection_json text (query_projections d)"

definition logical_digest :: "(string \<Rightarrow> string) \<Rightarrow> (json \<Rightarrow> string) \<Rightarrow> db \<Rightarrow> string" where
  "logical_digest sha text d = logical_digest_of sha text (query_projections d)"

definition capability_record_of :: "string \<Rightarrow> db \<Rightarrow> capability_record option res" where
  "capability_record_of token_hash d =
     (case List.find (\<lambda>r. cr_token_hash r = token_hash) (db_capabilities d) of
       None \<Rightarrow> Inr None
     | Some row \<Rightarrow> bindr (capability_from_row row) (\<lambda>c. Inr (Some c)))"

subsection \<open>Opening and writing (\<open>state/store.py\<close>)\<close>

definition future_schema :: "db \<Rightarrow> int \<Rightarrow> int option" where
  "future_schema d version =
     (let later = filter (\<lambda>v. v > version) (map er_version (db_events d))
      in if later = [] then None else Some (Max (set later)))"

definition parse_int :: "string \<Rightarrow> int res" where
  "parse_int s =
     (let digits = (case s of CHR ''-'' # t \<Rightarrow> t | _ \<Rightarrow> s)
      in if digits \<noteq> [] \<and> list_all is_digit digits
         then Inr (if digits = s then int (read_nat digits) else - int (read_nat digits))
         else Inl (ValueError ''invalid literal for int()''))"

definition foundation_db :: db where
  "foundation_db = empty_db
     \<lparr>db_user_version := event_schema_version,
      db_metadata := [(''event_schema_version'', show_int event_schema_version)],
      db_projections :=
        [\<lparr>pr_name = ''epochs'', pr_entity = ''global'', pr_version = 0,
          pr_state = JObj [(''knowledge_epoch'', JInt 0)]\<rparr>]\<rparr>"

definition initialize :: "(jdict \<Rightarrow> bool) \<Rightarrow> unit res \<Rightarrow> db \<Rightarrow> db res" where
  "initialize valid_record before_initialization_commit d =
     bindr (if db_user_version d = 0 then
              bindr before_initialization_commit (\<lambda>_. Inr foundation_db)
            else if db_user_version d \<noteq> event_schema_version then
              Inl (IncompatibleEventSchemaError (db_user_version d))
            else Inr d) (\<lambda>d.
     bindr (case map_of (db_metadata d) ''event_schema_version'' of
         None \<Rightarrow> Inl (IncompatibleEventSchemaError (-1))
       | Some v \<Rightarrow>
           if v = show_int event_schema_version then Inr ()
           else bindr (parse_int v) (\<lambda>i. Inl (IncompatibleEventSchemaError i))) (\<lambda>_.
     bindr (case future_schema d event_schema_version of
         None \<Rightarrow> Inr ()
       | Some v \<Rightarrow> Inl (IncompatibleEventSchemaError v)) (\<lambda>_.
     bindr (query_events valid_record None d) (\<lambda>_.
     Inr d))))"

text \<open>The \<open>except sqlite3.IntegrityError\<close> clauses.\<close>

definition on_integrity_error :: "string \<Rightarrow> string \<Rightarrow> 'a res \<Rightarrow> 'a res" where
  "on_integrity_error event_id projection_name m =
     (case m of
       Inl (IntegrityError column) \<Rightarrow>
         Inl (if column = ''events.event_id'' then DuplicateEventError event_id
              else ProjectionAuthorityError projection_name ''database constraint rejected mutation'')
     | _ \<Rightarrow> m)"

definition store_append :: "reducer \<Rightarrow> event_envelope \<Rightarrow> db \<Rightarrow> (event_record \<times> db) res" where
  "store_append reducer e d =
     on_integrity_error (ev_id e) ''unknown''
       (bindr (apply_event_mutation reducer e (query_projections d) d) (\<lambda>(record, d1).
        bindr (register_artifact e d1) (\<lambda>d2.
        bindr (revoke_lease_capabilities e d2) (\<lambda>d3.
        Inr (record, d3)))))"

definition store_persist_capability ::
  "reducer \<Rightarrow> capability_record \<Rightarrow> event_envelope \<Rightarrow> db \<Rightarrow> (event_record \<times> db) res" where
  "store_persist_capability reducer c e d =
     on_integrity_error (ev_id e) ''capability_tokens''
       (bindr (insert_capability c d) (\<lambda>d1.
        apply_event_mutation reducer e (query_projections d1) d1))"

record replay_verification =
  rv_matched :: bool
  rv_projection_json :: string
  rv_logical_digest :: string

definition replay_append :: "reducer \<Rightarrow> event_record \<Rightarrow> db \<Rightarrow> db res" where
  "replay_append reducer r d = bindr (store_append reducer (rec_envelope r) d) (\<lambda>(_, d1). Inr d1)"

definition replay_verify ::
  "(jdict \<Rightarrow> bool) \<Rightarrow> (string \<Rightarrow> string) \<Rightarrow> (json \<Rightarrow> string) \<Rightarrow> reducer \<Rightarrow> db \<Rightarrow> replay_verification res" where
  "replay_verify valid_record sha text reducer d =
     bindr (initialize valid_record (Inr ()) empty_db) (\<lambda>replay.
     bindr (query_events valid_record None d) (\<lambda>records.
     bindr (foldr_res (replay_append reducer) records replay) (\<lambda>replay.
     let actual_json = canonical_projection_json text replay;
         actual_digest = logical_digest sha text replay
     in Inr \<lparr>rv_matched = (actual_json = canonical_projection_json text d
                          \<and> actual_digest = logical_digest sha text d),
             rv_projection_json = actual_json, rv_logical_digest = actual_digest\<rparr>)))"

end
