(* ===== verification/Event_Log.thy ===== *)
theory Event_Log
  imports Event_Store "HOL-Library.Sublist"
begin

text \<open>
  What the event store keeps: a log of valid events numbered from one, projections that are a
  function of that log, and so a replay that always matches. Every operation that writes events
  does so by steps of \<open>log_step\<close>; the theories of the operations rest on the lemmas here.
\<close>

subsection \<open>The table of projections\<close>

definition projection_key :: "projection \<Rightarrow> string \<times> string" where
  "projection_key r = (pr_name r, pr_entity r)"

definition wf_projections :: "projection list \<Rightarrow> bool" where
  "wf_projections ps \<longleftrightarrow> distinct (map projection_key ps) \<and> (\<forall>r \<in> set ps. wf_projection r)"

lemma projection_key_eq:
  "projection_key q = projection_key r \<longleftrightarrow> pr_name q = pr_name r \<and> pr_entity q = pr_entity r"
  by (simp add: projection_key_def)

lemma find_projection_eq:
  assumes "distinct (map projection_key ps)" "r \<in> set ps"
  shows "find_projection ps (pr_name r) (pr_entity r) = Some r"
proof -
  obtain q where q: "find_projection ps (pr_name r) (pr_entity r) = Some q"
    using assms(2) by (metis find_projection_None not_None_eq)
  then have "q \<in> set ps" "projection_key q = projection_key r"
    by (auto dest!: find_projection_Some simp: projection_key_def)
  with assms have "q = r" by (meson distinct_map inj_onD)
  with q show ?thesis by simp
qed

lemma find_projection_iff:
  assumes "distinct (map projection_key ps)"
  shows "find_projection ps n i = Some r \<longleftrightarrow> r \<in> set ps \<and> pr_name r = n \<and> pr_entity r = i"
  using find_projection_eq [OF assms] find_projection_Some [of ps n i r] by auto

lemma find_projection_same_set:
  assumes "distinct (map projection_key ps)" "distinct (map projection_key qs)" "set ps = set qs"
  shows "find_projection ps n i = find_projection qs n i"
  by (rule option_eqI)
     (simp only: find_projection_iff [OF assms(1)] find_projection_iff [OF assms(2)] assms(3))

lemma query_projections_set [simp]: "set (query_projections d) = set (db_projections d)"
  by (simp add: query_projections_def)

lemma query_projections_distinct:
  "distinct (map projection_key (db_projections d)) \<Longrightarrow> distinct (map projection_key (query_projections d))"
  by (simp add: query_projections_def distinct_map)

lemma find_query_projections:
  "wf_projections (db_projections d) \<Longrightarrow>
   find_projection (query_projections d) n i = find_projection (db_projections d) n i"
  by (rule find_projection_same_set) (auto simp: wf_projections_def query_projections_distinct)

lemma upsert_projection_set:
  assumes "distinct (map projection_key ps)"
  shows "set (upsert_projection r ps)
    = insert r {q \<in> set ps. projection_key q \<noteq> projection_key r}"
  using assms
proof (induction ps)
  case (Cons q ps)
  then have "projection_key q \<notin> projection_key ` set ps"
    and IH: "set (upsert_projection r ps) = insert r {q \<in> set ps. projection_key q \<noteq> projection_key r}"
    by simp_all
  then have q: "\<forall>q' \<in> set ps. projection_key q' \<noteq> projection_key q"
    by (metis image_eqI)
  show ?case
  proof (cases "projection_key q = projection_key r")
    case True
    with q show ?thesis by (auto simp: projection_key_eq)
  next
    case False
    with IH show ?thesis by (auto simp: projection_key_eq)
  qed
qed simp

lemma upsert_projection_distinct:
  assumes "distinct (map projection_key ps)"
  shows "distinct (map projection_key (upsert_projection r ps))"
  using assms
proof (induction ps)
  case (Cons q ps)
  then have "projection_key q \<notin> projection_key ` set ps"
    and "distinct (map projection_key (upsert_projection r ps))"
    and "set (upsert_projection r ps) = insert r {q \<in> set ps. projection_key q \<noteq> projection_key r}"
    using upsert_projection_set [of ps r] by simp_all
  with Cons.prems show ?case
    by (cases "projection_key q = projection_key r") (auto simp: projection_key_eq)
qed simp

lemma find_upsert_projection:
  assumes "distinct (map projection_key ps)"
  shows "find_projection (upsert_projection r ps) n i
    = (if pr_name r = n \<and> pr_entity r = i then Some r else find_projection ps n i)"
proof -
  have d: "distinct (map projection_key (upsert_projection r ps))"
    using assms by (rule upsert_projection_distinct)
  show ?thesis
  proof (cases "pr_name r = n \<and> pr_entity r = i")
    case True
    then show ?thesis
      using find_projection_eq [OF d, of r] upsert_projection_set [OF assms, of r] by auto
  next
    case False
    have "find_projection (upsert_projection r ps) n i = Some q \<longleftrightarrow> find_projection ps n i = Some q" for q
      unfolding find_projection_iff [OF d] find_projection_iff [OF assms]
        upsert_projection_set [OF assms]
      using False by (auto simp: projection_key_def)
    then have "find_projection (upsert_projection r ps) n i = find_projection ps n i"
      by (rule option_eqI)
    with False show ?thesis by auto
  qed
qed

lemma wf_projections_upsert:
  "wf_projections ps \<Longrightarrow> wf_projection r \<Longrightarrow> wf_projections (upsert_projection r ps)"
  using upsert_projection_set [of ps r] upsert_projection_distinct [of ps r]
  by (auto simp: wf_projections_def)

lemma wf_query_projections:
  "wf_projections (db_projections d) \<Longrightarrow> \<forall>r \<in> set (query_projections d). wf_projection r"
  by (simp add: wf_projections_def)

subsection \<open>The mutation of an event\<close>

lemma store_changes:
  assumes "\<forall>c \<in> set cs. wf_projection c"
  shows "foldr_res store_change cs d = Inr (d\<lparr>db_projections := fold upsert_projection cs (db_projections d)\<rparr>)"
  using assms
proof (induction cs arbitrary: d)
  case (Cons c cs)
  have "store_change c d = Inr (d\<lparr>db_projections := upsert_projection c (db_projections d)\<rparr>)"
    using Cons.prems by (simp add: store_change_def bindr_ensure wf_projection_def)
  then show ?case
    using Cons by simp
qed simp

lemma wf_projections_fold_upsert:
  "wf_projections ps \<Longrightarrow> \<forall>c \<in> set cs. wf_projection c \<Longrightarrow> wf_projections (fold upsert_projection cs ps)"
  by (induction cs arbitrary: ps) (auto intro: wf_projections_upsert)

text \<open>Lookups after the changes of an event, which are of different entities.\<close>

lemma find_fold_upsert:
  assumes "distinct (map projection_key ps)" "distinct (map projection_key cs)"
  shows "find_projection (fold upsert_projection cs ps) n i
    = (case find_projection cs n i of Some c \<Rightarrow> Some c | None \<Rightarrow> find_projection ps n i)"
  using assms
proof (induction cs arbitrary: ps)
  case (Cons c cs)
  have "find_projection (fold upsert_projection cs (upsert_projection c ps)) n i
      = (case find_projection cs n i of Some c \<Rightarrow> Some c | None \<Rightarrow> find_projection (upsert_projection c ps) n i)"
    using Cons by (intro Cons.IH) (auto simp: upsert_projection_distinct)
  moreover have "find_projection cs n i = None" if "pr_name c = n" "pr_entity c = i"
  proof -
    have "projection_key c \<notin> projection_key ` set cs"
      using Cons.prems(2) by simp
    then show ?thesis
      using that by (auto simp: find_projection_None image_iff projection_key_eq)
  qed
  ultimately show ?case
    by (auto simp: find_upsert_projection [OF Cons.prems(1)] split: option.split)
       (auto simp: find_projection_def)
qed (simp add: find_projection_def)

definition log_step :: "event_envelope \<Rightarrow> projection list \<Rightarrow> db \<Rightarrow> db" where
  "log_step e cs d =
     d\<lparr>db_events := db_events d @ [event_row_of (next_sequence (map er_sequence (db_events d))) e],
       db_projections := fold upsert_projection cs (db_projections d)\<rparr>"

lemma apply_event_mutation_Inr:
  assumes "wf_projections (db_projections d)" "wf_jdict (ev_payload e)" "ev_version e = event_schema_version"
  shows "apply_event_mutation apply_event e (query_projections d) d = Inr (r, d') \<longleftrightarrow>
    ev_id e \<notin> er_id ` set (db_events d) \<and>
    (\<exists>cs. apply_event (query_projections d) e = Inr cs \<and> d' = log_step e cs d) \<and>
    r = \<lparr>rec_sequence = next_sequence (map er_sequence (db_events d)), rec_envelope = e\<rparr>"
proof -
  have cs: "\<forall>c \<in> set cs. wf_projection c" if "apply_event (query_projections d) e = Inr cs" for cs
    using apply_event_changes [OF wf_query_projections [OF assms(1)] assms(2) that] by blast
  have "foldr_res store_change cs (d\<lparr>db_events := rows\<rparr>)
      = Inr (d\<lparr>db_events := rows, db_projections := fold upsert_projection cs (db_projections d)\<rparr>)"
    if "apply_event (query_projections d) e = Inr cs" for cs rows
    using store_changes [OF cs [OF that], of "d\<lparr>db_events := rows\<rparr>"] by simp
  moreover have "0 < ev_version e" using assms(3) by (simp add: event_schema_version_def)
  ultimately show ?thesis
    by (auto simp: apply_event_mutation_def insert_event_def inr_simps Let_def log_step_def
        split: prod.splits)
qed

lemma register_artifact_other:
  "ev_type e \<noteq> ''ArtifactRegistered'' \<Longrightarrow> register_artifact e d = Inr d"
  by (simp add: register_artifact_def)

lemma revoke_lease_capabilities_other:
  "ev_type e \<notin> {''LeaseReleased'', ''LeaseRecovered''} \<Longrightarrow> revoke_lease_capabilities e d = Inr d"
  by (simp add: revoke_lease_capabilities_def)

lemma on_integrity_error_Inr [simp]: "on_integrity_error i n m = Inr x \<longleftrightarrow> m = Inr x"
  by (auto simp: on_integrity_error_def split: sum.splits exn.splits)

lemma store_append_Inr:
  "store_append red e d = Inr (r, d') \<longleftrightarrow>
    (\<exists>d1 d2. apply_event_mutation red e (query_projections d) d = Inr (r, d1)
       \<and> register_artifact e d1 = Inr d2 \<and> revoke_lease_capabilities e d2 = Inr d')"
  by (auto simp: store_append_def inr_simps split: prod.splits)

subsection \<open>The part of a database that its log determines\<close>

definition log_part :: "db \<Rightarrow> db" where
  "log_part d = d\<lparr>db_capabilities := [], db_queue := []\<rparr>"

lemma log_part_fields [simp]:
  "db_events (log_part d) = db_events d" "db_projections (log_part d) = db_projections d"
  "db_artifacts (log_part d) = db_artifacts d" "db_associations (log_part d) = db_associations d"
  "db_user_version (log_part d) = db_user_version d" "db_metadata (log_part d) = db_metadata d"
  "query_projections (log_part d) = query_projections d"
  by (simp_all add: log_part_def query_projections_def)

lemma log_part_log_step: "log_part (log_step e cs d) = log_step e cs (log_part d)"
  by (simp add: log_part_def log_step_def)

lemma register_artifact_log_part:
  "register_artifact e d = Inr d' \<Longrightarrow> register_artifact e (log_part d) = Inr (log_part d')"
  by (auto simp: register_artifact_def inr_simps log_part_def split: if_splits)

lemma register_artifact_capabilities:
  "register_artifact e d = Inr d' \<Longrightarrow> db_capabilities d' = db_capabilities d \<and> db_queue d' = db_queue d
     \<and> db_events d' = db_events d \<and> db_projections d' = db_projections d
     \<and> db_user_version d' = db_user_version d \<and> db_metadata d' = db_metadata d"
  by (auto simp: register_artifact_def inr_simps split: if_splits)

lemma revoke_lease_log_part:
  "revoke_lease_capabilities e d = Inr d' \<Longrightarrow>
   log_part d' = log_part d \<and> revoke_lease_capabilities e (log_part d) = Inr (log_part d)"
  by (auto simp: revoke_lease_capabilities_def inr_simps log_part_def revoke_rows_def
      split: if_splits option.splits)

lemma store_append_log_part:
  assumes "wf_projections (db_projections d)" "wf_jdict (ev_payload e)" "ev_version e = event_schema_version"
    and m: "apply_event_mutation apply_event e (query_projections d) d = Inr (r, d1)"
    and a: "register_artifact e d1 = Inr d2" and l: "revoke_lease_capabilities e d2 = Inr d3"
  shows "store_append apply_event e (log_part d) = Inr (r, log_part d3)"
proof -
  from m obtain cs where id: "ev_id e \<notin> er_id ` set (db_events d)"
    and cs: "apply_event (query_projections d) e = Inr cs" "d1 = log_step e cs d"
    and r: "r = \<lparr>rec_sequence = next_sequence (map er_sequence (db_events d)), rec_envelope = e\<rparr>"
    by (auto simp: apply_event_mutation_Inr [OF assms(1-3)])
  have "apply_event_mutation apply_event e (query_projections (log_part d)) (log_part d) = Inr (r, log_part d1)"
    using id cs r by (subst apply_event_mutation_Inr) (auto simp: assms log_part_log_step)
  with register_artifact_log_part [OF a] revoke_lease_log_part [OF l] show ?thesis
    unfolding store_append_Inr by auto
qed


subsection \<open>The log\<close>

definition order_blind :: "(jdict \<Rightarrow> bool) \<Rightarrow> bool" where
  "order_blind valid_record \<longleftrightarrow>
     (\<forall>p. wf_jdict p \<longrightarrow> valid_record (canon_dict p) = valid_record p)"

definition stored_event :: "(jdict \<Rightarrow> bool) \<Rightarrow> event_envelope \<Rightarrow> bool" where
  "stored_event valid_record e \<longleftrightarrow>
     valid_event valid_record e \<and> typed_event e \<and> canon_dict (ev_payload e) = ev_payload e"

definition canonical_event :: "event_envelope \<Rightarrow> event_envelope" where
  "canonical_event e = e\<lparr>ev_payload := canon_dict (ev_payload e)\<rparr>"

lemma canonical_event_fields [simp]:
  "ev_id (canonical_event e) = ev_id e" "ev_type (canonical_event e) = ev_type e"
  "ev_run (canonical_event e) = ev_run e" "ev_time (canonical_event e) = ev_time e"
  "ev_version (canonical_event e) = ev_version e" "ev_cause (canonical_event e) = ev_cause e"
  "ev_payload (canonical_event e) = canon_dict (ev_payload e)"
  by (simp_all add: canonical_event_def)

lemma stored_canonical_event:
  "order_blind vr \<Longrightarrow> valid_event vr e \<Longrightarrow> typed_event e \<Longrightarrow> stored_event vr (canonical_event e)"
  using valid_event_canon [of vr e]
  by (simp add: stored_event_def canonical_event_def typed_event_def order_blind_def)

lemma same_payload_canonical:
  "wf_jdict (ev_payload e) \<Longrightarrow> same_payload (canon_dict (ev_payload e)) (ev_payload e)"
  by (simp add: same_payload_def)

lemma apply_event_canonical:
  "\<forall>r \<in> set s. wf_projection r \<Longrightarrow> wf_jdict (ev_payload e) \<Longrightarrow>
   apply_event s (canonical_event e) = apply_event s e"
  unfolding canonical_event_def by (rule apply_event_same_payload [OF _ same_payload_canonical])

lemma event_row_canonical [simp]: "event_row_of n (canonical_event e) = event_row_of n e"
  using canon_idem [of "JObj (ev_payload e)"]
  by (simp add: event_row_of_def canonical_event_def canon_JObj del: canon.simps canon_idem)

lemma log_step_canonical [simp]: "log_step (canonical_event e) cs d = log_step e cs d"
  by (simp add: log_step_def)

lemma register_artifact_canonical:
  "wf_jdict (ev_payload e) \<Longrightarrow> register_artifact (canonical_event e) d = register_artifact e d"
proof -
  assume "wf_jdict (ev_payload e)"
  then have wf: "wf_dict (ev_payload e)" by (rule wf_jdict_wf_dict)
  have "artifact_integer (map_of (canon_dict (ev_payload e)) k) = artifact_integer (map_of (ev_payload e) k)" for k
    using map_of_canon_dict [OF wf, of k]
    by (auto simp: artifact_integer_def split: option.splits json.splits)
  then show ?thesis
    unfolding register_artifact_def canonical_event_fields by (simp only: get_str_canon_dict [OF wf])
qed

lemma revoke_lease_canonical:
  "wf_jdict (ev_payload e) \<Longrightarrow>
   revoke_lease_capabilities (canonical_event e) d = revoke_lease_capabilities e d"
  unfolding revoke_lease_capabilities_def canonical_event_fields
  by (simp only: get_str_canon_dict [OF wf_jdict_wf_dict])

lemma store_append_canonical:
  assumes "wf_projections (db_projections d)" "wf_jdict (ev_payload e)" "ev_version e = event_schema_version"
    and "store_append apply_event e d = Inr (r, d')"
  shows "store_append apply_event (canonical_event e) d
    = Inr (\<lparr>rec_sequence = rec_sequence r, rec_envelope = canonical_event e\<rparr>, d')"
proof -
  from assms(4) obtain d1 d2 where m: "apply_event_mutation apply_event e (query_projections d) d = Inr (r, d1)"
    and ar: "register_artifact e d1 = Inr d2" and rv: "revoke_lease_capabilities e d2 = Inr d'"
    unfolding store_append_Inr by blast
  have "apply_event_mutation apply_event (canonical_event e) (query_projections d) d
      = Inr (\<lparr>rec_sequence = rec_sequence r, rec_envelope = canonical_event e\<rparr>, d1)"
    using m assms(2) wf_query_projections [OF assms(1)]
    by (auto simp: apply_event_mutation_Inr assms apply_event_canonical)
  with ar rv show ?thesis
    unfolding store_append_Inr
    by (simp add: register_artifact_canonical assms(2) revoke_lease_canonical)
qed

definition log_rows :: "event_envelope list \<Rightarrow> event_row list" where
  "log_rows es = map2 event_row_of (map Suc [0..<length es]) es"

lemma log_rows_Nil [simp]: "log_rows [] = []"
  by (simp add: log_rows_def)

lemma log_rows_snoc: "log_rows (es @ [e]) = log_rows es @ [event_row_of (Suc (length es)) e]"
  by (simp add: log_rows_def)

lemma length_log_rows [simp]: "length (log_rows es) = length es"
  by (simp add: log_rows_def)

lemma log_rows_sequences: "map er_sequence (log_rows es) = map Suc [0..<length es]"
  by (induction es rule: rev_induct) (simp_all add: log_rows_snoc event_row_of_def)

lemma log_rows_ids: "er_id ` set (log_rows es) = ev_id ` set es"
  by (induction es rule: rev_induct) (simp_all add: log_rows_snoc event_row_of_def)

lemma log_rows_types: "map er_type (log_rows es) = map ev_type es"
  by (induction es rule: rev_induct) (simp_all add: log_rows_snoc event_row_of_def)

lemma foldr_max_snoc: "foldr max (xs @ [n]) 0 = max (foldr max xs 0) (n :: nat)"
  by (induction xs) auto

lemma foldr_max_upt: "foldr max (map Suc [0..<n]) 0 = n"
  by (induction n) (simp_all add: foldr_max_snoc del: foldr_append)

lemma next_sequence_log_rows [simp]: "next_sequence (map er_sequence (log_rows es)) = Suc (length es)"
  unfolding next_sequence_def log_rows_sequences foldr_max_upt ..

lemma log_step_log_rows:
  "db_events d = log_rows es \<Longrightarrow> db_events (log_step e cs d) = log_rows (es @ [e])"
  by (simp add: log_step_def log_rows_snoc)

lemma event_record_of_row:
  assumes "stored_event vr e"
  shows "event_record_of vr (event_row_of n e) = Inr \<lparr>rec_sequence = n, rec_envelope = e\<rparr>"
proof -
  have ok: "valid_event vr e" "valid_datetime (ev_time e)" "canon_dict (ev_payload e) = ev_payload e"
    using assms by (auto simp: stored_event_def typed_event_def)
  then have v: "ev_version e = event_schema_version" by (simp add: valid_event_def)
  let ?d = "[(''event_id'', JStr (ev_id e)), (''schema_version'', JInt 1),
     (''event_type'', JStr (ev_type e)), (''occurred_at'', JStr (utc_text (ev_time e))),
     (''actor'', JStr (ev_actor e)), (''run_id'', json_of_option (ev_run e)),
     (''causation_id'', json_of_option (ev_cause e)), (''payload'', JObj (ev_payload e))]"
  have "upcast_v1 vr ?d = Inr e"
    by (rule upcast_v1_complete [where p = "ev_payload e" and i = "ev_id e" and t = "ev_type e"
          and w = "ev_time e" and a = "ev_actor e" and r = "ev_run e" and c = "ev_cause e"])
       (use ok v in \<open>simp_all add: event_field_names_def\<close>)
  then show ?thesis
    using ok v
    by (simp add: event_record_of_def event_row_of_def canon_JObj upcast_def event_schema_version_def
        del: canon.simps)
qed

definition log_records :: "event_envelope list \<Rightarrow> event_record list" where
  "log_records es = map2 event_record.make (map Suc [0..<length es]) es"

lemma log_records_snoc:
  "log_records (es @ [e]) = log_records es @ [\<lparr>rec_sequence = Suc (length es), rec_envelope = e\<rparr>]"
  by (simp add: log_records_def event_record.make_def)

lemma log_records_envelopes [simp]: "map rec_envelope (log_records es) = es"
proof (induction es rule: rev_induct)
  case (snoc e es)
  then show ?case by (simp only: log_records_snoc map_append list.map event_record.select_convs)
qed (simp add: log_records_def)

lemma mapr_log_rows:
  "\<forall>e \<in> set es. stored_event vr e \<Longrightarrow> mapr (event_record_of vr) (log_rows es) = Inr (log_records es)"
proof (induction es rule: rev_induct)
  case Nil
  then show ?case by (simp add: log_records_def)
next
  case (snoc e es)
  then show ?case
    by (simp add: log_rows_snoc log_records_snoc mapr_append event_record_of_row)
qed

lemma sort_log_rows: "sort_key er_sequence (log_rows es) = log_rows es"
proof (rule sort_key_id_if_sorted)
  show "sorted (map er_sequence (log_rows es))"
    unfolding log_rows_sequences by (simp add: sorted_map sorted_wrt_map)
qed

lemma query_events_log_rows:
  "db_events d = log_rows es \<Longrightarrow> \<forall>e \<in> set es. stored_event vr e \<Longrightarrow>
   query_events vr None d = Inr (log_records es)"
  by (simp add: query_events_def sort_log_rows mapr_log_rows)

subsection \<open>Journals\<close>

text \<open>
  \<open>replay_log es\<close> appends the events to a fresh store. A database is a journal of \<open>es\<close> when its
  events table holds them, numbered from one with distinct identifiers, and the part of the
  database the log determines is what their replay gives.
\<close>

definition replay_log :: "event_envelope list \<Rightarrow> db res" where
  "replay_log es =
     foldr_res (\<lambda>e d. bindr (store_append apply_event e d) (\<lambda>(_, d1). Inr d1)) es foundation_db"

definition journal :: "(jdict \<Rightarrow> bool) \<Rightarrow> event_envelope list \<Rightarrow> db \<Rightarrow> bool" where
  "journal valid_record es d \<longleftrightarrow>
     db_events d = log_rows es \<and> distinct (map ev_id es)
     \<and> (\<forall>e \<in> set es. stored_event valid_record e)
     \<and> wf_projections (db_projections d) \<and> replay_log es = Inr (log_part d)"

lemma journal_foundation: "journal vr [] foundation_db"
  by (simp add: journal_def replay_log_def foundation_db_def empty_db_def log_part_def
      wf_projections_def wf_projection_def projection_names_def)

lemma replay_log_snoc:
  "replay_log (es @ [e]) = bindr (replay_log es) (\<lambda>d. bindr (store_append apply_event e d) (\<lambda>(_, d1). Inr d1))"
  unfolding replay_log_def foldr_res_append foldr_res_single ..

text \<open>
  One event: a mutation together with the registration of an artifact and the revocation of the
  capabilities of a lease, where the event asks for them.
\<close>

lemma journal_step:
  assumes j: "journal vr es d" and blind: "order_blind vr"
    and e: "valid_event vr e" "typed_event e"
    and m: "apply_event_mutation apply_event e (query_projections d) d = Inr (r, d1)"
    and a: "register_artifact e d1 = Inr d2" and l: "revoke_lease_capabilities e d2 = Inr d3"
  shows "journal vr (es @ [canonical_event e]) d3"
    and "rec_sequence r = Suc (length es)" "rec_envelope r = e"
proof -
  have wf: "wf_projections (db_projections d)" "wf_jdict (ev_payload e)"
    "ev_version e = event_schema_version" and rows: "db_events d = log_rows es"
    using j e by (auto simp: journal_def typed_event_def valid_event_def)
  obtain cs where id: "ev_id e \<notin> er_id ` set (db_events d)"
    and cs: "apply_event (query_projections d) e = Inr cs" "d1 = log_step e cs d"
    and r: "r = \<lparr>rec_sequence = next_sequence (map er_sequence (db_events d)), rec_envelope = e\<rparr>"
    using m by (auto simp: apply_event_mutation_Inr [OF wf])
  then show "rec_sequence r = Suc (length es)" "rec_envelope r = e"
    by (simp_all add: rows)
  have "\<forall>c \<in> set cs. wf_projection c"
    using apply_event_changes [OF wf_query_projections [OF wf(1)] wf(2) cs(1)] by blast
  then have wf1: "wf_projections (db_projections d1)"
    using wf(1) by (simp add: cs(2) log_step_def wf_projections_fold_upsert)
  have same: "db_events d3 = db_events d1" "db_projections d3 = db_projections d1"
  proof -
    have "db_events (log_part d3) = db_events (log_part d2)"
      "db_projections (log_part d3) = db_projections (log_part d2)"
      using revoke_lease_log_part [OF l] by simp_all
    then show "db_events d3 = db_events d1" "db_projections d3 = db_projections d1"
      using register_artifact_capabilities [OF a] by simp_all
  qed
  have "store_append apply_event e (log_part d) = Inr (r, log_part d3)"
    by (rule store_append_log_part [OF wf m a l])
  then have "store_append apply_event (canonical_event e) (log_part d)
      = Inr (\<lparr>rec_sequence = rec_sequence r, rec_envelope = canonical_event e\<rparr>, log_part d3)"
    using wf by (intro store_append_canonical) simp_all
  moreover have "replay_log es = Inr (log_part d)"
    using j by (simp add: journal_def)
  ultimately have "replay_log (es @ [canonical_event e]) = Inr (log_part d3)"
    by (simp add: replay_log_snoc)
  moreover have "db_events d3 = log_rows (es @ [canonical_event e])"
    using rows by (simp add: same cs(2) log_step_def log_rows_snoc)
  moreover have "distinct (map ev_id (es @ [canonical_event e]))"
    using id j by (auto simp: journal_def log_rows_ids)
  moreover have "\<forall>x \<in> set (es @ [canonical_event e]). stored_event vr x"
    using j stored_canonical_event [OF blind e] by (auto simp: journal_def)
  ultimately show "journal vr (es @ [canonical_event e]) d3"
    using wf1 by (simp add: journal_def same)
qed

lemma journal_append:
  assumes "journal vr es d" "order_blind vr" "valid_event vr e" "typed_event e"
    "store_append apply_event e d = Inr (r, d')"
  shows "journal vr (es @ [canonical_event e]) d'" "rec_sequence r = Suc (length es)" "rec_envelope r = e"
  using assms(5) journal_step [OF assms(1-4)] unfolding store_append_Inr by blast+

lemma journal_mutation_revoke:
  assumes "journal vr es d" "order_blind vr" "valid_event vr e" "typed_event e"
    and "ev_type e \<noteq> ''ArtifactRegistered''"
    and "apply_event_mutation apply_event e (query_projections d) d = Inr (r, d1)"
    and "revoke_lease_capabilities e d1 = Inr d2"
  shows "journal vr (es @ [canonical_event e]) d2"
  using journal_step(1) [OF assms(1-4,6) register_artifact_other [OF assms(5)] assms(7)] .

lemma journal_mutation:
  assumes "journal vr es d" "order_blind vr" "valid_event vr e" "typed_event e"
    and "ev_type e \<noteq> ''ArtifactRegistered''" "ev_type e \<notin> {''LeaseReleased'', ''LeaseRecovered''}"
    and "apply_event_mutation apply_event e (query_projections d) d = Inr (r, d1)"
  shows "journal vr (es @ [canonical_event e]) d1"
  using journal_mutation_revoke [OF assms(1-5,7) revoke_lease_capabilities_other [OF assms(6)]] .

text \<open>Tables outside the log may change freely.\<close>

lemma journal_log_part: "journal vr es d \<Longrightarrow> log_part d' = log_part d \<Longrightarrow> journal vr es d'"
  unfolding journal_def by (metis log_part_fields(1,2))

lemma insert_capability_log_part: "insert_capability c d = Inr d' \<Longrightarrow> log_part d' = log_part d"
  by (auto simp: insert_capability_def inr_simps log_part_def)

lemma journal_persist_capability:
  assumes "journal vr es d" "order_blind vr" "valid_event vr e" "typed_event e"
    and "ev_type e = ''CapabilityMinted''" "store_persist_capability apply_event c e d = Inr (r, d')"
  shows "journal vr (es @ [canonical_event e]) d'"
proof -
  from assms(6) obtain d1 where "insert_capability c d = Inr d1"
    and m: "apply_event_mutation apply_event e (query_projections d1) d1 = Inr (r, d')"
    by (auto simp: store_persist_capability_def inr_simps)
  then have "journal vr es d1"
    using assms(1) insert_capability_log_part journal_log_part by blast
  from journal_mutation [OF this assms(2-4) _ _ m] show ?thesis
    by (simp add: assms(5))
qed

lemma revoke_token_log_part: "revoke_token h t d = Inr (b, d') \<Longrightarrow> log_part d' = log_part d"
  by (auto simp: revoke_token_def inr_simps log_part_def)

subsection \<open>Replay\<close>

lemma initialize_empty: "initialize vr (Inr ()) empty_db = Inr foundation_db"
  by (simp add: initialize_def empty_db_def foundation_db_def event_schema_version_def
      future_schema_def query_events_def)

lemma foldr_res_map: "foldr_res f (map g xs) s = foldr_res (f \<circ> g) xs s"
  by (induction xs arbitrary: s) (auto intro: arg_cong2 [where f = bindr])

lemma replay_records:
  "foldr_res (replay_append apply_event) (log_records es) foundation_db = replay_log es"
proof -
  have step: "replay_append apply_event
      = (\<lambda>e d. bindr (store_append apply_event e d) (\<lambda>(_, d1). Inr d1)) \<circ> rec_envelope"
    by (intro ext) (simp add: replay_append_def)
  have "foldr_res (replay_append apply_event) (log_records es) foundation_db
      = foldr_res (\<lambda>e d. bindr (store_append apply_event e d) (\<lambda>(_, d1). Inr d1))
          (map rec_envelope (log_records es)) foundation_db"
    unfolding foldr_res_map step ..
  then show ?thesis by (simp add: replay_log_def)
qed

lemma journal_replay_verify:
  assumes "journal vr es d"
  shows "replay_verify vr sha text apply_event d = Inr
    \<lparr>rv_matched = True, rv_projection_json = canonical_projection_json text d,
     rv_logical_digest = logical_digest sha text d\<rparr>"
proof -
  have "query_events vr None d = Inr (log_records es)" "replay_log es = Inr (log_part d)"
    using assms by (auto simp: journal_def intro: query_events_log_rows)
  then show ?thesis
    by (simp add: replay_verify_def initialize_empty replay_records Let_def
        canonical_projection_json_def logical_digest_def)
qed

subsection \<open>Systems that only ever add to their log\<close>

text \<open>
  What a caller may rely on: an operation, permitted in the sense of the system, keeps the
  invariant and leaves a log that starts with the old one.
\<close>

locale append_only_system =
  fixes step :: "'op \<Rightarrow> 's \<Rightarrow> 's" and permitted :: "'op \<Rightarrow> bool"
    and inv :: "'s \<Rightarrow> bool" and entries :: "'s \<Rightarrow> 'e list"
  assumes step_inv: "inv s \<Longrightarrow> permitted a \<Longrightarrow> inv (step a s)"
    and step_entries: "inv s \<Longrightarrow> permitted a \<Longrightarrow> prefix (entries s) (entries (step a s))"
begin

lemma run_inv: "inv s \<Longrightarrow> list_all permitted ops \<Longrightarrow> inv (fold step ops s)"
  by (induction ops arbitrary: s) (auto intro: step_inv)

lemma run_entries:
  "inv s \<Longrightarrow> list_all permitted ops \<Longrightarrow> prefix (entries s) (entries (fold step ops s))"
proof (induction ops arbitrary: s)
  case (Cons a ops)
  then have "prefix (entries s) (entries (step a s))" "inv (step a s)"
    by (auto intro: step_inv step_entries)
  with Cons show ?case by (auto intro: prefix_order.trans)
qed simp

lemma run_entry_kept:
  assumes "inv s" "list_all permitted ops" "i < length (entries s)"
  shows "entries (fold step ops s) ! i = entries s ! i"
  using run_entries [OF assms(1,2)] assms(3) by (auto simp: prefix_def nth_append)

end

definition append_step :: "event_envelope \<Rightarrow> db \<Rightarrow> db" where
  "append_step e d = (case store_append apply_event e d of Inl _ \<Rightarrow> d | Inr (_, d') \<Rightarrow> d')"

interpretation store_log: append_only_system append_step
  "\<lambda>e. valid_event vr e \<and> typed_event e" "\<lambda>d. order_blind vr \<and> (\<exists>es. journal vr es d)" db_events
  for vr
proof
  fix d e
  assume inv: "order_blind vr \<and> (\<exists>es. journal vr es d)" and e: "valid_event vr e \<and> typed_event e"
  then obtain es where es: "journal vr es d" and blind: "order_blind vr" by blast
  have step: "journal vr (es @ [canonical_event e]) d'" if "store_append apply_event e d = Inr (r, d')" for r d'
    using journal_append(1) [OF es blind _ _ that] e by blast
  show "order_blind vr \<and> (\<exists>es. journal vr es (append_step e d))"
    using step inv by (auto simp: append_step_def split: sum.split)
  show "prefix (db_events d) (db_events (append_step e d))"
    using step es by (auto simp: append_step_def journal_def log_rows_snoc split: sum.split)
qed

end
