(* ===== verification/Capabilities.thy ===== *)
theory Capabilities
  imports Event_Log
begin

text \<open>
  Capability records in the store: what is persisted is read back, a revocation is never undone or
  moved, and the event that ends a lease revokes every capability bound to it.
\<close>

subsection \<open>Rows and records\<close>

lemma capability_time_text_Inr [simp]:
  "capability_time_text d f = Inr s \<longleftrightarrow> is_utc d \<and> s = utc_text d"
  by (auto simp: capability_time_text_def inr_simps)

lemma parse_capability_time_text:
  "valid_datetime d \<Longrightarrow> is_utc d \<Longrightarrow> parse_capability_time (utc_text d) f = Inr d"
  by (simp add: parse_capability_time_def read_utc_text)

definition typed_capability :: "capability_record \<Rightarrow> bool" where
  "typed_capability c \<longleftrightarrow> valid_datetime (cap_expires_at c)
     \<and> (\<forall>t. cap_revoked_at c = Some t \<longrightarrow> valid_datetime t)"

lemma check_capability_Inr:
  "check_capability c = Inr () \<longleftrightarrow>
     is_hash (cap_token_hash c) \<and> cap_run c \<noteq> [] \<and> cap_worker c \<noteq> [] \<and> cap_role c \<noteq> []
     \<and> cap_lease c \<noteq> Some [] \<and> cap_operations c \<noteq> [] \<and> [] \<notin> set (cap_operations c)
     \<and> distinct (cap_operations c) \<and> is_utc (cap_expires_at c)
     \<and> (\<forall>t. cap_revoked_at c = Some t \<longrightarrow> is_utc t)"
  by (auto simp: check_capability_def inr_simps split: option.splits)

lemma mapr_JStr:
  "mapr (\<lambda>v. case v of JStr s \<Rightarrow> Inr s | _ \<Rightarrow> Inl x) (map JStr ss) = Inr ss"
  by (induction ss) auto

lemma capability_from_row_of:
  assumes "check_capability c = Inr ()" "typed_capability c" "capability_row_of c = Inr row"
  shows "capability_from_row row = Inr c"
proof (cases "cap_revoked_at c")
  case None
  with assms show ?thesis
    by (auto simp: check_capability_Inr typed_capability_def capability_row_of_def inr_simps
        capability_from_row_def mapr_JStr parse_capability_time_text mk_capability_def)
next
  case (Some t)
  with assms show ?thesis
    by (auto simp: check_capability_Inr typed_capability_def capability_row_of_def inr_simps
        capability_from_row_def mapr_JStr parse_capability_time_text mk_capability_def)
qed

lemma capability_row_exists:
  "check_capability c = Inr () \<Longrightarrow> \<exists>row. capability_row_of c = Inr row \<and> cr_token_hash row = cap_token_hash c"
  by (cases "cap_revoked_at c") (auto simp: check_capability_Inr capability_row_of_def inr_simps)

lemma find_snoc:
  "(\<forall>x \<in> set xs. \<not> P x) \<Longrightarrow> List.find P (xs @ [y]) = (if P y then Some y else None)"
  by (induction xs) auto

lemma apply_event_mutation_capabilities:
  "apply_event_mutation red e s d = Inr (r, d') \<Longrightarrow> db_capabilities d' = db_capabilities d \<and> db_queue d' = db_queue d"
proof -
  have "db_capabilities d' = db_capabilities d \<and> db_queue d' = db_queue d"
    if "foldr_res store_change cs d = Inr d'" for cs d d'
    using that by (induction cs arbitrary: d) (auto simp: inr_simps store_change_def)
  then show "apply_event_mutation red e s d = Inr (r, d') \<Longrightarrow> ?thesis"
    by (fastforce simp: apply_event_mutation_def inr_simps insert_event_def Let_def)
qed

text \<open>
  C27. A capability that is persisted can be looked up by its token hash, and the record that is
  read back from the row is the record that was persisted.
\<close>

theorem persisted_capability_is_found:
  assumes "mk_capability c = Inr c" "typed_capability c"
    and "store_persist_capability reducer c e d = Inr (r, d')"
  shows "capability_record_of (cap_token_hash c) d' = Inr (Some c)"
proof -
  from assms(1) have check: "check_capability c = Inr ()"
    by (auto simp: mk_capability_def inr_simps)
  from assms(3) obtain d1 where ins: "insert_capability c d = Inr d1"
    and m: "apply_event_mutation reducer e (query_projections d1) d1 = Inr (r, d')"
    by (auto simp: store_persist_capability_def inr_simps)
  from ins obtain row where row: "capability_row_of c = Inr row"
    "cap_token_hash c \<notin> cr_token_hash ` set (db_capabilities d)"
    "db_capabilities d1 = db_capabilities d @ [row]"
    by (auto simp: insert_capability_def inr_simps)
  moreover have "cr_token_hash row = cap_token_hash c"
    using capability_row_exists [OF check] row(1) by auto
  moreover have "\<forall>x \<in> set (db_capabilities d). \<not> cr_token_hash x = cap_token_hash c"
    using row(2) by force
  ultimately have "List.find (\<lambda>r. cr_token_hash r = cap_token_hash c) (db_capabilities d') = Some row"
    using apply_event_mutation_capabilities [OF m] by (simp add: find_snoc)
  then show ?thesis
    using capability_from_row_of [OF check assms(2) row(1)]
    by (simp add: capability_record_of_def)
qed

subsection \<open>Revocation\<close>

lemma revoke_lease_capabilities_Inr:
  assumes "ev_type e \<in> {''LeaseReleased'', ''LeaseRecovered''}"
  shows "revoke_lease_capabilities e d = Inr d' \<longleftrightarrow>
    (\<exists>run lease. ev_run e = Some run \<and> get_str (ev_payload e) ''lease_id'' = Some lease
      \<and> is_utc (ev_time e)
      \<and> d' = d\<lparr>db_capabilities := revoke_rows (\<lambda>c. cr_run c = run \<and> cr_lease c = Some lease)
            (utc_text (ev_time e)) (db_capabilities d)\<rparr>)"
proof (cases "ev_run e")
  case (Some run)
  with assms show ?thesis
    by (cases "get_str (ev_payload e) ''lease_id''")
       (auto simp: revoke_lease_capabilities_def canonical_timestamp_def inr_simps)
qed (use assms in \<open>auto simp: revoke_lease_capabilities_def\<close>)

text \<open>How a table of capabilities may change: rows are added and unrevoked rows are revoked.\<close>

definition revoked_more :: "capability_row list \<Rightarrow> capability_row list \<Rightarrow> bool" where
  "revoked_more rows rows' \<longleftrightarrow>
     list_all2 (\<lambda>r r'. r' = r \<or> cr_revoked_at r = None \<and> (\<exists>t. r' = r\<lparr>cr_revoked_at := Some t\<rparr>))
       rows (take (length rows) rows')"

lemma revoke_rows_more: "revoked_more rows (revoke_rows P t rows)"
  by (auto simp: revoked_more_def revoke_rows_def list_all2_conv_all_nth)

lemma revoked_more_refl [simp]: "revoked_more rows rows"
  by (simp add: revoked_more_def list_all2_conv_all_nth)

lemma revoked_more_append [simp]: "revoked_more rows (rows @ new)"
  by (simp add: revoked_more_def list_all2_conv_all_nth)

text \<open>
  C21. The event that releases or recovers a lease revokes every capability of its run bound to the
  lease, in the same transaction: none is left unrevoked, those revoked before keep their time, and
  the capabilities of other leases stay as they are.
\<close>

theorem lease_end_revokes_capabilities:
  assumes "store_append reducer e d = Inr (r, d')"
    and "ev_type e \<in> {''LeaseReleased'', ''LeaseRecovered''}"
  shows "\<exists>run lease. ev_run e = Some run \<and> get_str (ev_payload e) ''lease_id'' = Some lease
    \<and> (\<forall>c \<in> set (db_capabilities d'). cr_run c = run \<and> cr_lease c = Some lease \<longrightarrow> cr_revoked_at c \<noteq> None)
    \<and> list_all2 (\<lambda>c c'. if cr_run c = run \<and> cr_lease c = Some lease \<and> cr_revoked_at c = None
          then c' = c\<lparr>cr_revoked_at := Some (utc_text (ev_time e))\<rparr> else c' = c)
        (db_capabilities d) (db_capabilities d')"
proof -
  from assms(1) obtain d1 d2 where
    m: "apply_event_mutation reducer e (query_projections d) d = Inr (r, d1)"
    and a: "register_artifact e d1 = Inr d2" and l: "revoke_lease_capabilities e d2 = Inr d'"
    unfolding store_append_Inr by blast
  have caps: "db_capabilities d2 = db_capabilities d"
    using apply_event_mutation_capabilities [OF m] register_artifact_capabilities [OF a] by simp
  from l obtain run lease where rl: "ev_run e = Some run"
    "get_str (ev_payload e) ''lease_id'' = Some lease"
    and eq: "d' = d2\<lparr>db_capabilities := revoke_rows (\<lambda>c. cr_run c = run \<and> cr_lease c = Some lease)
      (utc_text (ev_time e)) (db_capabilities d2)\<rparr>"
    unfolding revoke_lease_capabilities_Inr [OF assms(2)] by blast
  have d': "db_capabilities d' = revoke_rows (\<lambda>c. cr_run c = run \<and> cr_lease c = Some lease)
      (utc_text (ev_time e)) (db_capabilities d)"
    by (simp add: eq caps)
  have revoked: "\<forall>c \<in> set (db_capabilities d'). cr_run c = run \<and> cr_lease c = Some lease \<longrightarrow> cr_revoked_at c \<noteq> None"
    unfolding d' revoke_rows_def list.set_map ball_simps by (simp split: if_split)
  have rows: "list_all2 (\<lambda>c c'. if cr_run c = run \<and> cr_lease c = Some lease \<and> cr_revoked_at c = None
      then c' = c\<lparr>cr_revoked_at := Some (utc_text (ev_time e))\<rparr> else c' = c)
    (db_capabilities d) (db_capabilities d')"
    unfolding d' revoke_rows_def list.rel_map by (rule list.rel_refl_strong) simp
  show ?thesis
    by (intro exI [of _ run] exI [of _ lease] conjI rl revoked rows)
qed

end
