(* ===== verification/Documents.thy ===== *)
theory Documents
  imports Event_Log
begin

text \<open>
  Document leases: the records of \<open>state/documents.py\<close>, the operations of
  \<open>state/document_operations.py\<close>, their execution on the store (\<open>state/store_documents.py\<close>) and
  the methods of the service that build the events (\<open>state/document_service.py\<close>). A
  \<open>PurePosixPath\<close> is its text, as \<open>as_posix\<close> writes it.
\<close>

subsection \<open>Reading projections (\<open>state/documents.py\<close>)\<close>

abbreviation invalid_document :: "'a res" where
  "invalid_document \<equiv> Inl (DocumentStateError ''INVALID_DOCUMENT_STATE'')"

definition canonical_document_timestamp :: "datetime \<Rightarrow> string res" where
  "canonical_document_timestamp value = (if is_utc value then Inr (utc_text value) else invalid_document)"

definition document_timestamp :: "json option \<Rightarrow> datetime res" where
  "document_timestamp value =
     (case value of
       Some (JStr s) \<Rightarrow> (case read_utc s of Some t \<Rightarrow> Inr t | None \<Rightarrow> invalid_document)
     | _ \<Rightarrow> invalid_document)"

definition document_text :: "jdict \<Rightarrow> string \<Rightarrow> string res" where
  "document_text payload name =
     (case map_of payload name of
       Some (JStr s) \<Rightarrow> (if s \<noteq> [] then Inr s else invalid_document)
     | _ \<Rightarrow> invalid_document)"

definition document_integer :: "jdict \<Rightarrow> string \<Rightarrow> int res" where
  "document_integer payload name =
     (case map_of payload name of
       Some (JInt i) \<Rightarrow> (if 0 \<le> i then Inr i else invalid_document)
     | _ \<Rightarrow> invalid_document)"

definition document_hash :: "jdict \<Rightarrow> string \<Rightarrow> string res" where
  "document_hash payload name = bindr (document_text payload name) (\<lambda>value.
     if is_hash value then Inr value else invalid_document)"

record lease_state =
  ls_lease :: string
  ls_worker :: string
  ls_run :: string
  ls_document :: string
  ls_path :: string
  ls_namespace :: string
  ls_epoch :: epoch_pair
  ls_version :: int
  ls_hash :: string
  ls_expires_at :: datetime
  ls_active :: bool

definition validate_access ::
  "lease_state \<Rightarrow> string \<Rightarrow> string \<Rightarrow> string \<Rightarrow> datetime \<Rightarrow> epoch_pair \<Rightarrow> unit res" where
  "validate_access l run worker document now epoch = require_all
     [ensure (is_utc now) (DocumentStateError ''INVALID_DOCUMENT_TIME''),
      ensure (ls_active l) (DocumentStateError ''LEASE_INACTIVE''),
      ensure (ls_run l = run) (DocumentStateError ''LEASE_RUN_MISMATCH''),
      ensure (ls_worker l = worker) (DocumentStateError ''LEASE_OWNER_MISMATCH''),
      ensure (ls_document l = document) (DocumentStateError ''LEASE_DOCUMENT_MISMATCH''),
      ensure (now < ls_expires_at l) (DocumentStateError ''LEASE_EXPIRED''),
      ensure (ls_epoch l = epoch) (DocumentStateError ''EPOCH_MISMATCH'')]"

definition lease_state_payload :: "lease_state \<Rightarrow> jdict res" where
  "lease_state_payload l = bindr (canonical_document_timestamp (ls_expires_at l)) (\<lambda>expires.
     Inr [(''lease_id'', JStr (ls_lease l)), (''worker_id'', JStr (ls_worker l)),
          (''document_id'', JStr (ls_document l)), (''relative_path'', JStr (ls_path l)),
          (''virtual_document_namespace'', JStr (ls_namespace l)),
          (''base_epoch'', JStr (base_epoch (ls_epoch l))),
          (''knowledge_epoch'', JInt (knowledge_epoch (ls_epoch l))),
          (''version'', JInt (ls_version l)), (''content_hash'', JStr (ls_hash l)),
          (''expires_at'', JStr expires)])"

record document_state =
  ds_document :: string
  ds_run :: string
  ds_worker :: string
  ds_lease :: string
  ds_path :: string
  ds_namespace :: string
  ds_epoch :: epoch_pair
  ds_version :: int
  ds_hash :: string
  ds_expires_at :: datetime
  ds_prepared :: "string option"

definition validate_expected :: "document_state \<Rightarrow> int \<Rightarrow> string \<Rightarrow> unit res" where
  "validate_expected s version content_hash = require_all
     [ensure (ds_version s = version) (DocumentStateError ''DOCUMENT_VERSION_MISMATCH''),
      ensure (ds_hash s = content_hash) (DocumentStateError ''DOCUMENT_HASH_MISMATCH'')]"

definition document_payload :: "document_state \<Rightarrow> jdict res" where
  "document_payload s = lease_state_payload
     \<lparr>ls_lease = ds_lease s, ls_worker = ds_worker s, ls_run = ds_run s, ls_document = ds_document s,
      ls_path = ds_path s, ls_namespace = ds_namespace s, ls_epoch = ds_epoch s,
      ls_version = ds_version s, ls_hash = ds_hash s, ls_expires_at = ds_expires_at s,
      ls_active = True\<rparr>"

record document_preparation =
  dp_preparation :: string
  dp_document :: document_state

definition document_projection :: "projection \<Rightarrow> (string \<times> string option \<times> jdict) res" where
  "document_projection r =
     (case pr_state r of
       JObj raw \<Rightarrow>
         (case (map_of raw ''event_type'', map_of raw ''run_id'', map_of raw ''payload'') of
           (Some (JStr t), run, Some (JObj payload)) \<Rightarrow>
             (case run of
               None \<Rightarrow> Inr (t, None, payload)
             | Some JNull \<Rightarrow> Inr (t, None, payload)
             | Some (JStr s) \<Rightarrow> Inr (t, Some s, payload)
             | _ \<Rightarrow> invalid_document)
         | _ \<Rightarrow> invalid_document)
     | _ \<Rightarrow> invalid_document)"

definition document_state_event_types :: "string set" where
  "document_state_event_types =
     {''LeaseGranted'', ''DocumentEditPrepared'', ''DocumentEdited'', ''DocumentEditRecovered''}"

definition is_document_state_projection :: "projection \<Rightarrow> bool res" where
  "is_document_state_projection r =
     bindr (document_projection r) (\<lambda>(t, _, _). Inr (t \<in> document_state_event_types))"

definition is_active_document_lease :: "projection \<Rightarrow> bool res" where
  "is_active_document_lease r = bindr (document_projection r) (\<lambda>(t, _, _). Inr (t = ''LeaseGranted''))"

definition lease_from_projection :: "projection \<Rightarrow> lease_state res" where
  "lease_from_projection r =
     bindr (document_projection r) (\<lambda>(event_type, run, p).
     case run of
       None \<Rightarrow> invalid_document
     | Some run \<Rightarrow>
        bindr (document_text p ''lease_id'') (\<lambda>lease.
        bindr (document_text p ''worker_id'') (\<lambda>worker.
        bindr (document_text p ''document_id'') (\<lambda>document.
        bindr (document_text p ''relative_path'') (\<lambda>path.
        bindr (document_text p ''virtual_document_namespace'') (\<lambda>namespace.
        bindr (document_hash p ''base_epoch'') (\<lambda>base.
        bindr (document_integer p ''knowledge_epoch'') (\<lambda>knowledge.
        bindr (new_epoch_pair base knowledge) (\<lambda>epoch.
        bindr (document_integer p ''version'') (\<lambda>version.
        bindr (document_hash p ''content_hash'') (\<lambda>hash.
        bindr (document_timestamp (map_of p ''expires_at'')) (\<lambda>expires.
        Inr \<lparr>ls_lease = lease, ls_worker = worker, ls_run = run, ls_document = document,
             ls_path = as_posix path, ls_namespace = namespace, ls_epoch = epoch,
             ls_version = version, ls_hash = hash, ls_expires_at = expires,
             ls_active = (event_type = ''LeaseGranted'')\<rparr>))))))))))))"

definition document_from_projection :: "projection \<Rightarrow> document_state res" where
  "document_from_projection r =
     bindr (document_projection r) (\<lambda>(event_type, run, p).
     case run of
       None \<Rightarrow> invalid_document
     | Some run \<Rightarrow>
        bindr (case pr_state r of
            JObj raw \<Rightarrow> (case map_of raw ''event_id'' of Some (JStr i) \<Rightarrow> Inr i | _ \<Rightarrow> invalid_document)
          | _ \<Rightarrow> invalid_document) (\<lambda>event_id.
        bindr (document_text p ''document_id'') (\<lambda>document.
        bindr (document_text p ''worker_id'') (\<lambda>worker.
        bindr (document_text p ''lease_id'') (\<lambda>lease.
        bindr (document_text p ''relative_path'') (\<lambda>path.
        bindr (document_text p ''virtual_document_namespace'') (\<lambda>namespace.
        bindr (document_hash p ''base_epoch'') (\<lambda>base.
        bindr (document_integer p ''knowledge_epoch'') (\<lambda>knowledge.
        bindr (new_epoch_pair base knowledge) (\<lambda>epoch.
        bindr (document_integer p ''version'') (\<lambda>version.
        bindr (document_hash p ''content_hash'') (\<lambda>hash.
        bindr (document_timestamp (map_of p ''expires_at'')) (\<lambda>expires.
        Inr \<lparr>ds_document = document, ds_run = run, ds_worker = worker, ds_lease = lease,
             ds_path = as_posix path, ds_namespace = namespace, ds_epoch = epoch,
             ds_version = version, ds_hash = hash, ds_expires_at = expires,
             ds_prepared = (if event_type = ''DocumentEditPrepared'' then Some event_id else None)\<rparr>)))))))))))))"

definition epoch_from_projection :: "projection \<Rightarrow> epoch_pair res" where
  "epoch_from_projection r =
     (case pr_state r of
       JObj raw \<Rightarrow>
         (case (map_of raw ''base_epoch'', map_of raw ''knowledge_epoch'') of
           (Some (JStr b), Some (JInt k)) \<Rightarrow>
             (case new_epoch_pair b k of
               Inr e \<Rightarrow> Inr e
             | Inl _ \<Rightarrow> Inl (DocumentStateError ''EPOCH_MISMATCH''))
         | _ \<Rightarrow> Inl (DocumentStateError ''EPOCH_MISMATCH''))
     | _ \<Rightarrow> Inl (DocumentStateError ''EPOCH_MISMATCH''))"

definition lease_payload :: "file_lease \<Rightarrow> string \<Rightarrow> jdict res" where
  "lease_payload l relative_path = lease_state_payload
     \<lparr>ls_lease = fl_lease_id l, ls_worker = fl_worker_id l, ls_run = fl_run_id l,
      ls_document = fl_document_id l, ls_path = as_posix relative_path,
      ls_namespace = fl_namespace l, ls_epoch = fl_epoch_pair l, ls_version = fl_file_version l,
      ls_hash = fl_content_hash l, ls_expires_at = fl_expires_at l, ls_active = True\<rparr>"

subsection \<open>Operations (\<open>state/document_operations.py\<close>, \<open>state/store_documents.py\<close>)\<close>

record document_access =
  ad_run :: string
  ad_worker :: string
  ad_lease :: string
  ad_document :: string
  ad_now :: datetime

datatype document_operation =
    GrantLease file_lease string datetime event_envelope
  | AccessDocument document_access
  | PrepareEdit document_access int string event_envelope
  | CommitEdit string datetime event_envelope
  | RecoverEdit string event_envelope
  | TerminateLease string "string option" string event_envelope
  | ActiveLeases
  | PreparedDocuments

datatype document_result =
    DocumentRecord event_record
  | DocumentFound document_state
  | DocumentPrepared document_preparation
  | LeasesFound "lease_state list"
  | DocumentsFound "document_state list"

definition current_epoch :: "projection list \<Rightarrow> epoch_pair res" where
  "current_epoch s =
     (case find_projection s ''epochs'' ''global'' of
       None \<Rightarrow> Inl (DocumentStateError ''EPOCH_MISMATCH'')
     | Some r \<Rightarrow> epoch_from_projection r)"

definition find_lease :: "projection list \<Rightarrow> string \<Rightarrow> lease_state res" where
  "find_lease s lease =
     (case find_projection s ''leases'' lease of
       None \<Rightarrow> Inl (DocumentStateError ''LEASE_NOT_FOUND'')
     | Some r \<Rightarrow> lease_from_projection r)"

definition find_document :: "projection list \<Rightarrow> string \<Rightarrow> document_state res" where
  "find_document s document =
     (case find_projection s ''documents'' document of
       None \<Rightarrow> Inl (DocumentStateError ''DOCUMENT_NOT_FOUND'')
     | Some r \<Rightarrow> document_from_projection r)"

definition access_document :: "projection list \<Rightarrow> document_access \<Rightarrow> document_state res" where
  "access_document s a =
     bindr (find_lease s (ad_lease a)) (\<lambda>lease.
     bindr (current_epoch s) (\<lambda>epoch.
     bindr (validate_access lease (ad_run a) (ad_worker a) (ad_document a) (ad_now a) epoch) (\<lambda>_.
     bindr (find_document s (ad_document a)) (\<lambda>document.
     bindr (ensure (ds_prepared document = None) (DocumentStateError ''DOCUMENT_EDIT_IN_PROGRESS'')) (\<lambda>_.
     bindr (ensure (ds_lease document = ls_lease lease)
       (DocumentStateError ''LEASE_DOCUMENT_MISMATCH'')) (\<lambda>_.
     Inr document))))))"

fun active_leases_in :: "projection list \<Rightarrow> lease_state list res" where
  "active_leases_in [] = Inr []"
| "active_leases_in (r # rs) =
     (if pr_name r \<noteq> ''leases'' then active_leases_in rs
      else bindr (is_active_document_lease r) (\<lambda>active.
        if \<not> active then active_leases_in rs
        else bindr (lease_from_projection r) (\<lambda>l.
             bindr (active_leases_in rs) (\<lambda>ls. Inr (l # ls)))))"

fun documents_in :: "projection list \<Rightarrow> document_state list res" where
  "documents_in [] = Inr []"
| "documents_in (r # rs) =
     (if pr_name r \<noteq> ''documents'' then documents_in rs
      else bindr (is_document_state_projection r) (\<lambda>state.
        if \<not> state then documents_in rs
        else bindr (document_from_projection r) (\<lambda>d.
             bindr (documents_in rs) (\<lambda>ds. Inr (d # ds)))))"

text \<open>\<open>_prepared\<close> reads the documents only up to the one it finds.\<close>

fun prepared_document :: "projection list \<Rightarrow> string \<Rightarrow> document_state res" where
  "prepared_document [] i = Inl (DocumentStateError ''DOCUMENT_PREPARATION_MISMATCH'')"
| "prepared_document (r # rs) i =
     (if pr_name r \<noteq> ''documents'' then prepared_document rs i
      else bindr (is_document_state_projection r) (\<lambda>state.
        if \<not> state then prepared_document rs i
        else bindr (document_from_projection r) (\<lambda>d.
             if ds_prepared d = Some i then Inr d else prepared_document rs i)))"

definition validate_grant ::
  "projection list \<Rightarrow> file_lease \<Rightarrow> string \<Rightarrow> datetime \<Rightarrow> event_envelope \<Rightarrow> unit res" where
  "validate_grant s lease relative_path now e =
     bindr (ensure (fl_physical_file lease = None) (DocumentStateError ''INVALID_DOCUMENT_STATE'')) (\<lambda>_.
     bindr (current_epoch s) (\<lambda>epoch.
     bindr (ensure (fl_epoch_pair lease = epoch) (DocumentStateError ''EPOCH_MISMATCH'')) (\<lambda>_.
     bindr (ensure (now < fl_expires_at lease) (DocumentStateError ''LEASE_EXPIRED'')) (\<lambda>_.
     bindr (ensure (ev_run e = Some (fl_run_id lease)) (DocumentStateError ''LEASE_RUN_MISMATCH'')) (\<lambda>_.
     bindr (active_leases_in s) (\<lambda>active.
     bindr (ensure (fl_lease_id lease \<notin> ls_lease ` set active)
       (DocumentStateError ''LEASE_ID_COLLISION'')) (\<lambda>_.
     bindr (ensure (fl_document_id lease \<notin> ls_document ` set active)
       (DocumentStateError ''DOCUMENT_ALREADY_LEASED'')) (\<lambda>_.
     bindr (ensure (relative_path \<notin> ls_path ` set active)
       (DocumentStateError ''DOCUMENT_ALREADY_LEASED'')) (\<lambda>_.
     bindr (ensure (find_projection s ''documents'' (fl_document_id lease) = None)
       (DocumentStateError ''DOCUMENT_ID_COLLISION'')) (\<lambda>_.
     bindr (lease_payload lease relative_path) (\<lambda>expected.
     ensure (dict_eq (ev_payload e) expected) (DocumentStateError ''INVALID_DOCUMENT_STATE''))))))))))))"

definition validate_document_lease ::
  "projection list \<Rightarrow> document_state \<Rightarrow> datetime \<Rightarrow> unit res" where
  "validate_document_lease s document now =
     bindr (find_lease s (ds_lease document)) (\<lambda>lease.
     bindr (current_epoch s) (\<lambda>epoch.
     validate_access lease (ds_run document) (ds_worker document) (ds_document document) now epoch))"

definition event_matches ::
  "document_state \<Rightarrow> event_envelope \<Rightarrow> int \<Rightarrow> string option \<Rightarrow> unit res" where
  "event_matches document e version content_hash =
     bindr (case content_hash of
         Some h \<Rightarrow> Inr h
       | None \<Rightarrow> (case map_of (ev_payload e) ''content_hash'' of
           Some (JStr h) \<Rightarrow> Inr h | _ \<Rightarrow> invalid_document)) (\<lambda>candidate.
     bindr (document_payload document) (\<lambda>payload.
     let expected = AList.update ''content_hash'' (JStr candidate)
           (AList.update ''version'' (JInt version) payload);
         expected = (if ev_type e = ''DocumentEditPrepared''
           then AList.update ''expected_hash'' (JStr candidate)
                  (AList.update ''expected_version'' (JInt version) expected)
           else expected)
     in ensure (ev_run e = Some (ds_run document) \<and> dict_eq (ev_payload e) expected)
          (DocumentStateError ''INVALID_DOCUMENT_STATE'')))"

definition document_append ::
  "reducer \<Rightarrow> projection list \<Rightarrow> event_envelope \<Rightarrow> db \<Rightarrow> (event_record \<times> db) res" where
  "document_append reducer s e d = apply_event_mutation reducer e s d"

fun operation_event :: "document_operation \<Rightarrow> event_envelope option" where
  "operation_event (GrantLease _ _ _ e) = Some e"
| "operation_event (PrepareEdit _ _ _ e) = Some e"
| "operation_event (CommitEdit _ _ e) = Some e"
| "operation_event (RecoverEdit _ e) = Some e"
| "operation_event (TerminateLease _ _ _ e) = Some e"
| "operation_event _ = None"

fun mutate_documents ::
  "reducer \<Rightarrow> document_operation \<Rightarrow> projection list \<Rightarrow> db \<Rightarrow> (document_result \<times> db) res" where
  "mutate_documents reducer (GrantLease lease relative_path now e) s d =
     bindr (validate_grant s lease relative_path now e) (\<lambda>_.
     bindr (document_append reducer s e d) (\<lambda>(r, d1).
     bindr (revoke_lease_capabilities e d1) (\<lambda>d2. Inr (DocumentRecord r, d2))))"
| "mutate_documents reducer (PrepareEdit access expected_version expected_hash e) s d =
     bindr (access_document s access) (\<lambda>document.
     bindr (validate_expected document expected_version expected_hash) (\<lambda>_.
     bindr (event_matches document e (ds_version document) (Some (ds_hash document))) (\<lambda>_.
     bindr (document_append reducer s e d) (\<lambda>(r, d1).
     bindr (revoke_lease_capabilities e d1) (\<lambda>d2.
       Inr (DocumentPrepared \<lparr>dp_preparation = ev_id e, dp_document = document\<rparr>, d2))))))"
| "mutate_documents reducer (CommitEdit preparation now e) s d =
     bindr (prepared_document s preparation) (\<lambda>document.
     bindr (ensure (ev_cause e = Some preparation)
       (DocumentStateError ''DOCUMENT_PREPARATION_MISMATCH'')) (\<lambda>_.
     bindr (validate_document_lease s document now) (\<lambda>_.
     bindr (event_matches document e (ds_version document + 1) None) (\<lambda>_.
     bindr (document_append reducer s e d) (\<lambda>(r, d1).
     bindr (revoke_lease_capabilities e d1) (\<lambda>d2. Inr (DocumentRecord r, d2)))))))"
| "mutate_documents reducer (RecoverEdit preparation e) s d =
     bindr (prepared_document s preparation) (\<lambda>document.
     bindr (ensure (ev_cause e = Some preparation)
       (DocumentStateError ''DOCUMENT_PREPARATION_MISMATCH'')) (\<lambda>_.
     bindr (event_matches document e (ds_version document) (Some (ds_hash document))) (\<lambda>_.
     bindr (document_append reducer s e d) (\<lambda>(r, d1).
     bindr (revoke_lease_capabilities e d1) (\<lambda>d2. Inr (DocumentRecord r, d2))))))"
| "mutate_documents reducer (TerminateLease run worker lease_id e) s d =
     bindr (find_lease s lease_id) (\<lambda>lease.
     bindr (ensure (ls_active lease) (DocumentStateError ''LEASE_INACTIVE'')) (\<lambda>_.
     bindr (ensure (ls_run lease = run) (DocumentStateError ''LEASE_RUN_MISMATCH'')) (\<lambda>_.
     bindr (ensure (worker = None \<or> worker = Some (ls_worker lease))
       (DocumentStateError ''LEASE_OWNER_MISMATCH'')) (\<lambda>_.
     bindr (document_append reducer s e d) (\<lambda>(r, d1).
     bindr (revoke_lease_capabilities e d1) (\<lambda>d2. Inr (DocumentRecord r, d2)))))))"
| "mutate_documents reducer _ s d = Inl (DocumentStateError ''INVALID_DOCUMENT_OPERATION'')"

definition execute_document_operation ::
  "reducer \<Rightarrow> document_operation \<Rightarrow> db \<Rightarrow> (document_result \<times> db) res" where
  "execute_document_operation reducer operation d =
     (case operation of
       AccessDocument a \<Rightarrow>
         bindr (access_document (query_projections d) a) (\<lambda>s. Inr (DocumentFound s, d))
     | ActiveLeases \<Rightarrow> bindr (active_leases_in (query_projections d)) (\<lambda>ls. Inr (LeasesFound ls, d))
     | PreparedDocuments \<Rightarrow>
         bindr (documents_in (query_projections d)) (\<lambda>ds.
           Inr (DocumentsFound (filter (\<lambda>s. ds_prepared s \<notin> {None, Some []}) ds), d))
     | _ \<Rightarrow> mutate_documents reducer operation (query_projections d) d)"

end
