(* ===== verification/Service_Events.thy ===== *)
theory Service_Events
  imports Event_Log
begin

text \<open>
  Commands and the events the state service makes of them (\<open>AppendEventCommand\<close> of
  \<open>state/operations.py\<close>, \<open>StateService._event\<close> of \<open>state/service.py\<close>). What the service asks
  its environment for, the next identifier and the time, is a \<open>tick\<close>: the values
  \<open>event_ids()\<close> and \<open>clock()\<close> return for one event.
\<close>

record append_command =
  cmd_type :: string
  cmd_actor :: string
  cmd_run :: "string option"
  cmd_cause :: "string option"
  cmd_payload :: jdict

definition command ::
  "string \<Rightarrow> string \<Rightarrow> string option \<Rightarrow> string option \<Rightarrow> jdict \<Rightarrow> append_command" where
  "command event_type actor run cause payload =
     \<lparr>cmd_type = event_type, cmd_actor = actor, cmd_run = run, cmd_cause = cause,
      cmd_payload = thaw_payload (freeze_payload payload)\<rparr>"

type_synonym tick = "string \<times> datetime"

definition service_event ::
  "(jdict \<Rightarrow> bool) \<Rightarrow> tick \<Rightarrow> append_command \<Rightarrow> event_envelope res" where
  "service_event valid_record t c =
     mk_event valid_record (fst t) event_schema_version (cmd_type c) (snd t) (cmd_actor c) (cmd_run c)
       (cmd_cause c) (cmd_payload c)"

lemma command_select [simp]:
  "cmd_type (command t a r c p) = t" "cmd_actor (command t a r c p) = a"
  "cmd_run (command t a r c p) = r" "cmd_cause (command t a r c p) = c"
  "cmd_payload (command t a r c p) = p"
  by (simp_all add: command_def thaw_freeze_payload)

text \<open>What Python's types give: the clock is a real time, payloads are dictionaries.\<close>

definition typed_tick :: "tick \<Rightarrow> bool" where
  "typed_tick t \<longleftrightarrow> valid_datetime (snd t)"

definition typed_command :: "append_command \<Rightarrow> bool" where
  "typed_command c \<longleftrightarrow> wf_jdict (cmd_payload c)"

lemma service_event_Inr:
  "service_event vr t c = Inr e \<longleftrightarrow>
     e = \<lparr>ev_id = fst t, ev_version = event_schema_version, ev_type = cmd_type c, ev_time = snd t,
          ev_actor = cmd_actor c, ev_run = cmd_run c, ev_cause = cmd_cause c,
          ev_payload = cmd_payload c\<rparr> \<and> valid_event vr e"
  by (simp add: service_event_def mk_event_Inr)

lemma service_event_valid:
  assumes "service_event vr t c = Inr e"
  shows "valid_event vr e" "ev_type e = cmd_type c" "ev_run e = cmd_run c" "ev_cause e = cmd_cause c"
    "ev_payload e = cmd_payload c" "ev_time e = snd t" "ev_id e = fst t" "ev_actor e = cmd_actor c"
    and "typed_tick t \<Longrightarrow> typed_command c \<Longrightarrow> typed_event e"
  using assms by (auto simp: service_event_Inr typed_event_def typed_tick_def typed_command_def)

end
