(* ===== verification/Document_Service.thy ===== *)
theory Document_Service
  imports Documents Service_Events
begin

text \<open>
  The document methods of the state service (\<open>state/document_service.py\<close>): each builds its event
  and executes one operation on the store. The times of \<open>_document_now\<close> are arguments beside the
  ticks of the events.
\<close>

definition record_result :: "(document_result \<times> db) res \<Rightarrow> (event_record \<times> db) res" where
  "record_result m = bindr m (\<lambda>(r, d). case r of
     DocumentRecord x \<Rightarrow> Inr (x, d) | _ \<Rightarrow> Inl (DocumentStateError ''INVALID_DOCUMENT_OPERATION''))"

definition prepared_result :: "(document_result \<times> db) res \<Rightarrow> (document_preparation \<times> db) res" where
  "prepared_result m = bindr m (\<lambda>(r, d). case r of
     DocumentPrepared x \<Rightarrow> Inr (x, d) | _ \<Rightarrow> Inl (DocumentStateError ''INVALID_DOCUMENT_OPERATION''))"

definition grant_document_lease ::
  "(jdict \<Rightarrow> bool) \<Rightarrow> tick \<Rightarrow> file_lease \<Rightarrow> string \<Rightarrow> db \<Rightarrow> (event_record \<times> db) res" where
  "grant_document_lease vr t lease relative_path d =
     bindr (lease_payload lease (as_posix relative_path)) (\<lambda>payload.
     bindr (service_event vr t (command ''LeaseGranted'' ''document_broker''
       (Some (fl_run_id lease)) None payload)) (\<lambda>e.
     record_result (execute_document_operation apply_event
       (GrantLease lease (as_posix relative_path) (ev_time e) e) d)))"

definition document_for ::
  "string \<Rightarrow> string \<Rightarrow> string \<Rightarrow> string \<Rightarrow> datetime \<Rightarrow> db \<Rightarrow> document_state res" where
  "document_for run worker lease document now d =
     bindr (execute_document_operation apply_event
       (AccessDocument \<lparr>ad_run = run, ad_worker = worker, ad_lease = lease, ad_document = document,
          ad_now = now\<rparr>) d) (\<lambda>(r, _).
     case r of DocumentFound s \<Rightarrow> Inr s
     | _ \<Rightarrow> Inl (DocumentStateError ''INVALID_DOCUMENT_OPERATION''))"

definition prepare_document_edit ::
  "(jdict \<Rightarrow> bool) \<Rightarrow> datetime \<Rightarrow> tick \<Rightarrow> string \<Rightarrow> string \<Rightarrow> string \<Rightarrow> string \<Rightarrow> int \<Rightarrow> string \<Rightarrow> db
     \<Rightarrow> (document_preparation \<times> db) res" where
  "prepare_document_edit vr now t run worker lease document expected_version expected_hash d =
     bindr (document_for run worker lease document now d) (\<lambda>s.
     bindr (document_payload s) (\<lambda>payload.
     bindr (service_event vr t (command ''DocumentEditPrepared'' ''document_broker'' (Some run) None
       (AList.update ''expected_hash'' (JStr expected_hash)
          (AList.update ''expected_version'' (JInt expected_version) payload)))) (\<lambda>e.
     prepared_result (execute_document_operation apply_event
       (PrepareEdit \<lparr>ad_run = run, ad_worker = worker, ad_lease = lease, ad_document = document,
          ad_now = now\<rparr> expected_version expected_hash e) d))))"

definition commit_document_edit ::
  "(jdict \<Rightarrow> bool) \<Rightarrow> tick \<Rightarrow> datetime \<Rightarrow> document_preparation \<Rightarrow> string \<Rightarrow> db \<Rightarrow> (event_record \<times> db) res" where
  "commit_document_edit vr t now preparation replacement_hash d =
     (let document = dp_document preparation in
      bindr (document_payload document) (\<lambda>payload.
      bindr (service_event vr t (command ''DocumentEdited'' ''document_broker'' (Some (ds_run document))
        (Some (dp_preparation preparation))
        (AList.update ''content_hash'' (JStr replacement_hash)
           (AList.update ''version'' (JInt (ds_version document + 1)) payload)))) (\<lambda>e.
      record_result (execute_document_operation apply_event
        (CommitEdit (dp_preparation preparation) now e) d))))"

definition recover_document_edit ::
  "(jdict \<Rightarrow> bool) \<Rightarrow> tick \<Rightarrow> document_preparation \<Rightarrow> db \<Rightarrow> (event_record \<times> db) res" where
  "recover_document_edit vr t preparation d =
     (let document = dp_document preparation in
      bindr (document_payload document) (\<lambda>payload.
      bindr (service_event vr t (command ''DocumentEditRecovered'' ''document_broker''
        (Some (ds_run document)) (Some (dp_preparation preparation)) payload)) (\<lambda>e.
      record_result (execute_document_operation apply_event
        (RecoverEdit (dp_preparation preparation) e) d))))"

definition release_document_lease ::
  "(jdict \<Rightarrow> bool) \<Rightarrow> tick \<Rightarrow> string \<Rightarrow> string \<Rightarrow> string \<Rightarrow> db \<Rightarrow> (event_record \<times> db) res" where
  "release_document_lease vr t run worker lease d =
     bindr (service_event vr t (command ''LeaseReleased'' ''document_broker'' (Some run) None
       [(''lease_id'', JStr lease), (''reason_code'', JStr ''RELEASED'')])) (\<lambda>e.
     record_result (execute_document_operation apply_event
       (TerminateLease run (Some worker) lease e) d))"

definition recover_document_lease ::
  "(jdict \<Rightarrow> bool) \<Rightarrow> tick \<Rightarrow> lease_state \<Rightarrow> db \<Rightarrow> (event_record \<times> db) res" where
  "recover_document_lease vr t lease d =
     bindr (service_event vr t (command ''LeaseRecovered'' ''document_broker'' (Some (ls_run lease)) None
       [(''lease_id'', JStr (ls_lease lease)), (''reason_code'', JStr ''BROKER_RECOVERY'')])) (\<lambda>e.
     record_result (execute_document_operation apply_event
       (TerminateLease (ls_run lease) None (ls_lease lease) e) d))"

definition active_document_leases :: "db \<Rightarrow> lease_state list res" where
  "active_document_leases d =
     bindr (execute_document_operation apply_event ActiveLeases d) (\<lambda>(r, _).
     case r of LeasesFound ls \<Rightarrow> Inr ls
     | _ \<Rightarrow> Inl (DocumentStateError ''INVALID_DOCUMENT_OPERATION''))"

definition prepared_documents :: "db \<Rightarrow> document_state list res" where
  "prepared_documents d =
     bindr (execute_document_operation apply_event PreparedDocuments d) (\<lambda>(r, _).
     case r of DocumentsFound ds \<Rightarrow> Inr ds
     | _ \<Rightarrow> Inl (DocumentStateError ''INVALID_DOCUMENT_OPERATION''))"

end
