(* ===== verification/Sample_Project.thy ===== *)
theory Sample_Project
  imports Document_Service
begin

text \<open>
  A small project, run through the operations of the service: the witnesses of the properties
  evaluate them on its databases. The databases are written out; the lemmas at the end evaluate the
  operations that lead from one to the next.
\<close>

definition sample_hash :: "char \<Rightarrow> string" where
  "sample_hash c = replicate 64 c"

definition sample_time :: "nat \<Rightarrow> datetime" where
  "sample_time m = Datetime 2025 1 2 3 m 0 0 (Some 0)"

definition sample_tick :: "char \<Rightarrow> tick" where
  "sample_tick c = (c # replicate 25 (CHR ''0''), sample_time 4)"

lemma sample_hash_code [code]:
  "sample_hash c =
   [c, c, c, c, c, c, c, c, c, c, c, c, c, c, c, c,
    c, c, c, c, c, c, c, c, c, c, c, c, c, c, c, c,
    c, c, c, c, c, c, c, c, c, c, c, c, c, c, c, c,
    c, c, c, c, c, c, c, c, c, c, c, c, c, c, c, c]"
  by (simp add: sample_hash_def eval_nat_numeral)

lemma sample_tick_code [code]:
  "sample_tick c = (c # ''0000000000000000000000000'', sample_time 4)"
  by (simp add: sample_tick_def eval_nat_numeral)

definition db_after :: "('a \<times> db) res \<Rightarrow> db" where
  "db_after m = (case m of Inl _ \<Rightarrow> empty_db | Inr (_, d) \<Rightarrow> d)"

definition succeeds :: "'a res \<Rightarrow> bool" where
  "succeeds m = (case m of Inl _ \<Rightarrow> False | Inr _ \<Rightarrow> True)"

definition leads_to :: "('a \<times> db) res \<Rightarrow> db \<Rightarrow> bool" where
  "leads_to m d = (case m of Inl _ \<Rightarrow> False | Inr (_, d') \<Rightarrow> d' = d)"

lemma succeeds_db_after: "succeeds m \<Longrightarrow> \<exists>r. m = Inr (r, db_after m)"
  by (cases m) (auto simp: succeeds_def db_after_def)

lemma leads_to_Inr: "leads_to m d \<longleftrightarrow> (\<exists>r. m = Inr (r, d))"
  by (cases m) (auto simp: leads_to_def)

definition sample_row ::
  "nat \<Rightarrow> char \<Rightarrow> string \<Rightarrow> string \<Rightarrow> string option \<Rightarrow> string option \<Rightarrow> jdict \<Rightarrow> event_row" where
  "sample_row n c t a run cause p =
     \<lparr>er_sequence = n, er_id = fst (sample_tick c), er_version = 1, er_type = t,
      er_time = ''2025-01-02T03:04:00Z'', er_actor = a, er_run = run, er_cause = cause,
      er_payload = JObj p\<rparr>"

definition sample_record ::
  "string \<Rightarrow> string \<Rightarrow> int \<Rightarrow> char \<Rightarrow> string \<Rightarrow> string option \<Rightarrow> jdict \<Rightarrow> projection" where
  "sample_record n i v c t run p =
     \<lparr>pr_name = n, pr_entity = i, pr_version = v, pr_state = JObj
       [(''event_id'', JStr (fst (sample_tick c))), (''event_type'', JStr t), (''payload'', JObj p),
        (''run_id'', json_of_option run)]\<rparr>"

subsection \<open>The project\<close>

definition sample_project :: jdict where
  "sample_project =
     [(''base_epoch'', JStr (sample_hash (CHR ''a''))), (''knowledge_epoch'', JInt 0),
      (''project_id'', JStr ''p'')]"

definition project_db :: db where
  "project_db = foundation_db
     \<lparr>db_events := [sample_row 1 (CHR ''1'') ''ProjectInitialized'' ''system'' None None sample_project],
      db_projections :=
       [\<lparr>pr_name = ''epochs'', pr_entity = ''global'', pr_version = 1, pr_state = JObj
          [(''base_epoch'', JStr (sample_hash (CHR ''a''))), (''knowledge_epoch'', JInt 0)]\<rparr>,
        sample_record ''project'' ''p'' 1 (CHR ''1'') ''ProjectInitialized'' None sample_project]\<rparr>"

subsection \<open>A lease and an edit of its document\<close>

definition sample_lease :: file_lease where
  "sample_lease =
     \<lparr>fl_lease_id = ''l'', fl_worker_id = ''w'', fl_run_id = ''r'', fl_document_id = ''d'',
      fl_namespace = ''N'', fl_epoch_pair = \<lparr>base_epoch = sample_hash (CHR ''a''), knowledge_epoch = 0\<rparr>,
      fl_file_version = 1, fl_content_hash = sample_hash (CHR ''b''),
      fl_expires_at = sample_time 30, fl_physical_file = None, fl_recovery_metadata = []\<rparr>"

definition sample_granting :: "(event_record \<times> db) res" where
  "sample_granting =
     grant_document_lease (\<lambda>_. True) (sample_tick (CHR ''2'')) sample_lease ''A.lean'' project_db"

definition sample_document :: jdict where
  "sample_document =
     [(''base_epoch'', JStr (sample_hash (CHR ''a''))), (''content_hash'', JStr (sample_hash (CHR ''b''))),
      (''document_id'', JStr ''d''), (''expires_at'', JStr ''2025-01-02T03:30:00Z''),
      (''knowledge_epoch'', JInt 0), (''lease_id'', JStr ''l''), (''relative_path'', JStr ''A.lean''),
      (''version'', JInt 1), (''virtual_document_namespace'', JStr ''N''), (''worker_id'', JStr ''w'')]"

definition leased_db :: db where
  "leased_db = project_db
     \<lparr>db_events := db_events project_db
       @ [sample_row 2 (CHR ''2'') ''LeaseGranted'' ''document_broker'' (Some ''r'') None sample_document],
      db_projections := db_projections project_db
       @ [sample_record ''leases'' ''l'' 1 (CHR ''2'') ''LeaseGranted'' (Some ''r'') sample_document,
          sample_record ''documents'' ''d'' 1 (CHR ''2'') ''LeaseGranted'' (Some ''r'') sample_document]\<rparr>"

definition sample_preparing :: "(document_preparation \<times> db) res" where
  "sample_preparing =
     prepare_document_edit (\<lambda>_. True) (sample_time 6) (sample_tick (CHR ''3'')) ''r'' ''w'' ''l'' ''d'' 1
       (sample_hash (CHR ''b'')) leased_db"

definition sample_preparation :: document_preparation where
  "sample_preparation =
     \<lparr>dp_preparation = fst (sample_tick (CHR ''3'')),
      dp_document = \<lparr>ds_document = ''d'', ds_run = ''r'', ds_worker = ''w'', ds_lease = ''l'',
        ds_path = ''A.lean'', ds_namespace = ''N'', ds_epoch = fl_epoch_pair sample_lease, ds_version = 1,
        ds_hash = sample_hash (CHR ''b''), ds_expires_at = sample_time 30, ds_prepared = None\<rparr>\<rparr>"

definition sample_edit :: jdict where
  "sample_edit = take 3 sample_document
     @ [(''expected_hash'', JStr (sample_hash (CHR ''b''))), (''expected_version'', JInt 1)]
     @ drop 3 sample_document"

definition prepared_db :: db where
  "prepared_db = leased_db
     \<lparr>db_events := db_events leased_db
       @ [sample_row 3 (CHR ''3'') ''DocumentEditPrepared'' ''document_broker'' (Some ''r'') None sample_edit],
      db_projections := take 3 (db_projections leased_db)
       @ [sample_record ''documents'' ''d'' 2 (CHR ''3'') ''DocumentEditPrepared'' (Some ''r'') sample_edit]\<rparr>"

definition sample_committing :: "(event_record \<times> db) res" where
  "sample_committing = commit_document_edit (\<lambda>_. True) (sample_tick (CHR ''4'')) (sample_time 7)
     sample_preparation (sample_hash (CHR ''c'')) prepared_db"

definition sample_recovering :: "(event_record \<times> db) res" where
  "sample_recovering =
     recover_document_edit (\<lambda>_. True) (sample_tick (CHR ''4'')) sample_preparation prepared_db"

definition sample_releasing :: "(event_record \<times> db) res" where
  "sample_releasing =
     release_document_lease (\<lambda>_. True) (sample_tick (CHR ''4'')) ''r'' ''w'' ''l'' leased_db"

subsection \<open>The runs\<close>

definition sample_initializing :: "(event_record \<times> db) res" where
  "sample_initializing =
     bindr (service_event (\<lambda>_. True) (sample_tick (CHR ''1''))
       (command ''ProjectInitialized'' ''system'' None None sample_project)) (\<lambda>e.
     store_append apply_event e foundation_db)"

lemma sample_initializing_run: "leads_to sample_initializing project_db"
  by code_simp

lemma sample_granting_run: "leads_to sample_granting leased_db"
  by code_simp

lemma sample_preparing_run: "sample_preparing = Inr (sample_preparation, prepared_db)"
  by code_simp

lemma sample_committing_run: "succeeds sample_committing"
  by code_simp

lemma sample_recovering_run: "succeeds sample_recovering"
  by code_simp

lemma sample_releasing_run: "succeeds sample_releasing"
  by code_simp

end
