(* ===== verification/Sample_Capability.thy ===== *)
theory Sample_Capability
  imports Capabilities Sample_Project
begin

text \<open>
  A capability bound to the lease of the sample project, minted and then revoked with the lease.
\<close>

definition sample_capability :: capability_record where
  "sample_capability =
     \<lparr>cap_token_hash = sample_hash (CHR ''f''), cap_run = ''r'', cap_worker = ''w'', cap_role = ''worker'',
      cap_lease = Some ''l'', cap_operations = [''read'', ''write''], cap_expires_at = sample_time 30,
      cap_revoked_at = None\<rparr>"

definition sample_minted :: jdict where
  "sample_minted = [(''role'', JStr ''worker''), (''worker_id'', JStr ''w'')]"

definition sample_minting :: event_envelope where
  "sample_minting =
     \<lparr>ev_id = fst (sample_tick (CHR ''4'')), ev_version = 1, ev_type = ''CapabilityMinted'',
      ev_time = sample_time 4, ev_actor = ''capability_issuer'', ev_run = Some ''r'', ev_cause = None,
      ev_payload = sample_minted\<rparr>"

definition capability_db :: db where
  "capability_db = leased_db
     \<lparr>db_events := db_events leased_db
        @ [sample_row 3 (CHR ''4'') ''CapabilityMinted'' ''capability_issuer'' (Some ''r'') None sample_minted],
      db_projections := db_projections leased_db
        @ [sample_record ''resources'' ''r'' 1 (CHR ''4'') ''CapabilityMinted'' (Some ''r'') sample_minted],
      db_capabilities :=
        [\<lparr>cr_token_hash = sample_hash (CHR ''f''), cr_run = ''r'', cr_worker = ''w'', cr_role = ''worker'',
          cr_lease = Some ''l'', cr_operations = JArr [JStr ''read'', JStr ''write''],
          cr_expires_at = ''2025-01-02T03:30:00Z'', cr_revoked_at = None\<rparr>]\<rparr>"

definition sample_release :: event_envelope where
  "sample_release =
     \<lparr>ev_id = fst (sample_tick (CHR ''5'')), ev_version = 1, ev_type = ''LeaseReleased'',
      ev_time = sample_time 4, ev_actor = ''document_broker'', ev_run = Some ''r'', ev_cause = None,
      ev_payload = [(''lease_id'', JStr ''l''), (''reason_code'', JStr ''RELEASED'')]\<rparr>"

lemma sample_capability_checks: "mk_capability sample_capability = Inr sample_capability"
  by code_simp

lemma sample_persisting_run:
  "leads_to (store_persist_capability apply_event sample_capability sample_minting leased_db) capability_db"
  by code_simp

lemma sample_ending_run: "succeeds (store_append apply_event sample_release capability_db)"
  by code_simp

lemma sample_capability_typed: "typed_capability sample_capability"
  by (simp add: typed_capability_def sample_capability_def sample_time_def valid_datetime_def
      days_in_month_def)

theorem persisted_capability_is_found_witness:
  "capability_record_of (sample_hash (CHR ''f'')) capability_db = Inr (Some sample_capability)"
proof -
  obtain r where
    "store_persist_capability apply_event sample_capability sample_minting leased_db = Inr (r, capability_db)"
    using sample_persisting_run unfolding leads_to_Inr ..
  from persisted_capability_is_found [OF sample_capability_checks sample_capability_typed this]
  show ?thesis by (simp add: sample_capability_def)
qed

theorem lease_end_revokes_capabilities_witness:
  "map cr_revoked_at (db_capabilities (db_after (store_append apply_event sample_release capability_db)))
    = [Some (utc_text (sample_time 4))]"
proof -
  obtain r where "store_append apply_event sample_release capability_db
      = Inr (r, db_after (store_append apply_event sample_release capability_db))"
    using succeeds_db_after [OF sample_ending_run] ..
  from lease_end_revokes_capabilities [OF this] show ?thesis
    by (auto simp: sample_release_def capability_db_def list_all2_Cons1)
qed

end
