(* ===== verification/Lease_Table.thy ===== *)
theory Lease_Table
  imports Document_Service
begin

text \<open>
  What the document operations promise. The projections of leases and documents are an
  implementation of a table of leases and a table of documents; each operation that succeeds is the
  obvious update of the tables, and the leases that are active never share a document or a path.
\<close>

subsection \<open>Reading the fields of a document payload\<close>

definition reads :: "jdict \<Rightarrow> lease_state \<Rightarrow> bool" where
  "reads p l \<longleftrightarrow>
     document_text p ''lease_id'' = Inr (ls_lease l) \<and> document_text p ''worker_id'' = Inr (ls_worker l)
     \<and> document_text p ''document_id'' = Inr (ls_document l)
     \<and> (\<exists>path. document_text p ''relative_path'' = Inr path \<and> ls_path l = as_posix path)
     \<and> document_text p ''virtual_document_namespace'' = Inr (ls_namespace l)
     \<and> document_hash p ''base_epoch'' = Inr (base_epoch (ls_epoch l))
     \<and> document_integer p ''knowledge_epoch'' = Inr (knowledge_epoch (ls_epoch l))
     \<and> document_integer p ''version'' = Inr (ls_version l)
     \<and> document_hash p ''content_hash'' = Inr (ls_hash l)
     \<and> document_timestamp (map_of p ''expires_at'') = Inr (ls_expires_at l)"

lemma document_text_Inr [simp]:
  "document_text p k = Inr s \<longleftrightarrow> map_of p k = Some (JStr s) \<and> s \<noteq> []"
  by (auto simp: document_text_def split: option.splits json.splits)

lemma document_integer_Inr [simp]:
  "document_integer p k = Inr i \<longleftrightarrow> map_of p k = Some (JInt i) \<and> 0 \<le> i"
  by (auto simp: document_integer_def split: option.splits json.splits if_splits)

lemma document_hash_Inr [simp]:
  "document_hash p k = Inr s \<longleftrightarrow> map_of p k = Some (JStr s) \<and> is_hash s"
  by (auto simp: document_hash_def inr_simps is_hash_nonempty split: if_splits)

lemma document_timestamp_Inr:
  "document_timestamp v = Inr t \<longleftrightarrow> (\<exists>s. v = Some (JStr s) \<and> read_utc s = Some t)"
  by (auto simp: document_timestamp_def split: option.splits json.splits)

definition lease_of_document :: "document_state \<Rightarrow> lease_state" where
  "lease_of_document s =
     \<lparr>ls_lease = ds_lease s, ls_worker = ds_worker s, ls_run = ds_run s, ls_document = ds_document s,
      ls_path = ds_path s, ls_namespace = ds_namespace s, ls_epoch = ds_epoch s,
      ls_version = ds_version s, ls_hash = ds_hash s, ls_expires_at = ds_expires_at s,
      ls_active = True\<rparr>"

lemma document_payload_lease: "document_payload s = lease_state_payload (lease_of_document s)"
  by (simp add: document_payload_def lease_of_document_def)

lemma lease_from_projection_Inr:
  assumes "document_projection r = Inr (t, Some run, p)"
  shows "lease_from_projection r = Inr l \<longleftrightarrow>
    reads p l \<and> ls_run l = run \<and> (ls_active l \<longleftrightarrow> t = ''LeaseGranted'')"
proof -
  have "new_epoch_pair (base_epoch e) (knowledge_epoch e) = Inr e'
      \<longleftrightarrow> is_hash (base_epoch e) \<and> 0 \<le> knowledge_epoch e \<and> e' = e" for e e'
    by (auto simp del: new_epoch_pair_Inr simp add: new_epoch_pair_Inr)
  show ?thesis
    unfolding lease_from_projection_def assms bindr_Inr prod.case option.case
    by (cases l; cases "ls_epoch l") (auto simp: inr_simps reads_def)
qed

lemma document_from_projection_Inr:
  assumes "document_projection r = Inr (t, Some run, p)" "pr_state r = JObj raw"
    "map_of raw ''event_id'' = Some (JStr i)"
  shows "document_from_projection r = Inr s \<longleftrightarrow>
    reads p (lease_of_document s) \<and> ds_run s = run
    \<and> ds_prepared s = (if t = ''DocumentEditPrepared'' then Some i else None)"
  unfolding document_from_projection_def assms bindr_Inr prod.case option.case json.case
  by (cases s; cases "ds_epoch s") (auto simp: inr_simps reads_def lease_of_document_def)

lemma reads_canon:
  assumes "wf_dict p"
  shows "reads (canon_dict p) l = reads p l"
proof -
  have "map_of (canon_dict p) k = Some (JStr s) \<longleftrightarrow> map_of p k = Some (JStr s)"
    "map_of (canon_dict p) k = Some (JInt i) \<longleftrightarrow> map_of p k = Some (JInt i)" for k s i
    using map_of_canon_dict [OF assms] by auto
  then show ?thesis by (simp add: reads_def document_timestamp_Inr)
qed

lemma reads_dict_eq:
  assumes "dict_eq p q" "wf_dict p" "wf_dict q"
  shows "reads p l = reads q l"
  using assms reads_canon [of p l] reads_canon [of q l] by (simp add: dict_eq_def)

lemma reads_unique:
  assumes "reads p l" "reads p m" "ls_run l = ls_run m" "ls_active l = ls_active m"
  shows "l = m"
  using assms by (cases l; cases m; cases "ls_epoch l"; cases "ls_epoch m")
    (auto simp: reads_def document_timestamp_Inr)

text \<open>The payload a lease writes reads back as that lease.\<close>

lemma lease_state_payload_Inr:
  "lease_state_payload l = Inr p \<longleftrightarrow> is_utc (ls_expires_at l) \<and> p =
     [(''lease_id'', JStr (ls_lease l)), (''worker_id'', JStr (ls_worker l)),
      (''document_id'', JStr (ls_document l)), (''relative_path'', JStr (ls_path l)),
      (''virtual_document_namespace'', JStr (ls_namespace l)),
      (''base_epoch'', JStr (base_epoch (ls_epoch l))),
      (''knowledge_epoch'', JInt (knowledge_epoch (ls_epoch l))),
      (''version'', JInt (ls_version l)), (''content_hash'', JStr (ls_hash l)),
      (''expires_at'', JStr (utc_text (ls_expires_at l)))]"
  by (auto simp: lease_state_payload_def canonical_document_timestamp_def)

lemma lease_state_payload_wf: "lease_state_payload l = Inr p \<Longrightarrow> wf_jdict p"
  by (auto simp: lease_state_payload_Inr wf_jdict_def)

subsection \<open>Events about documents\<close>

lemma document_codecs:
  "map_of codecs ''LeaseGranted'' = Some (codec document_fields [] document_validators)"
  "map_of codecs ''DocumentEdited'' = Some (codec document_fields [] document_validators)"
  "map_of codecs ''DocumentEditRecovered'' = Some (codec document_fields [] document_validators)"
  "map_of codecs ''DocumentEditPrepared'' = Some (codec
     (document_fields @ [''expected_version'', ''expected_hash'']) []
     ((''expected_hash'', sha256_payload) # document_validators))"
  by (simp_all add: codecs_def foundation_codecs_def)

lemma timestamp_payload_JStr: "timestamp_payload v \<Longrightarrow> \<exists>s t. v = JStr s \<and> read_utc s = Some t"
  by (cases v) (auto simp: timestamp_payload_def)

lemma document_validators_for:
  assumes "c = codec document_fields [] document_validators \<or>
    c = codec (document_fields @ [''expected_version'', ''expected_hash'']) []
     ((''expected_hash'', sha256_payload) # document_validators)"
  shows "validator_for c ''lease_id'' = text_payload" "validator_for c ''worker_id'' = text_payload"
    "validator_for c ''document_id'' = text_payload" "validator_for c ''relative_path'' = text_payload"
    "validator_for c ''virtual_document_namespace'' = text_payload"
    "validator_for c ''base_epoch'' = sha256_payload" "validator_for c ''content_hash'' = sha256_payload"
    "validator_for c ''knowledge_epoch'' = integer_payload" "validator_for c ''version'' = integer_payload"
    "validator_for c ''expires_at'' = timestamp_payload" "set document_fields \<subseteq> set (required c)"
  using assms
  by (auto simp: validator_for_def codec_def document_validators_def field_validators_def)

lemma valid_document_event_reads:
  assumes "valid_event vr e" "ev_type e \<in> document_state_event_types"
  shows "\<exists>l. reads (ev_payload e) l \<and> ls_run l = run \<and> ls_active l = a"
proof -
  obtain c where c: "map_of codecs (ev_type e) = Some c" and
    dc: "c = codec document_fields [] document_validators \<or>
    c = codec (document_fields @ [''expected_version'', ''expected_hash'']) []
     ((''expected_hash'', sha256_payload) # document_validators)"
    using assms(2) by (auto simp: document_state_event_types_def document_codecs)
  have type: "ev_type e \<noteq> ''ResearchRecordUpdated''"
    using assms(2) by (auto simp: document_state_event_types_def)
  note v = document_validators_for [OF dc]
  have get: "\<exists>x. map_of (ev_payload e) k = Some x \<and> validator_for c k x" if "k \<in> set document_fields" for k
    using valid_event_field [OF assms(1) c type, of k] v(11) that by blast
  have k: "''lease_id'' \<in> set document_fields" "''worker_id'' \<in> set document_fields"
    "''document_id'' \<in> set document_fields" "''relative_path'' \<in> set document_fields"
    "''virtual_document_namespace'' \<in> set document_fields" "''base_epoch'' \<in> set document_fields"
    "''content_hash'' \<in> set document_fields" "''knowledge_epoch'' \<in> set document_fields"
    "''version'' \<in> set document_fields" "''expires_at'' \<in> set document_fields"
    by (simp_all add: document_fields_def)
  obtain a1 where 1: "map_of (ev_payload e) ''lease_id'' = Some (JStr a1)" "a1 \<noteq> []"
    using get [OF k(1)] v(1) text_payload_JStr by metis
  obtain a2 where 2: "map_of (ev_payload e) ''worker_id'' = Some (JStr a2)" "a2 \<noteq> []"
    using get [OF k(2)] v(2) text_payload_JStr by metis
  obtain a3 where 3: "map_of (ev_payload e) ''document_id'' = Some (JStr a3)" "a3 \<noteq> []"
    using get [OF k(3)] v(3) text_payload_JStr by metis
  obtain a4 where 4: "map_of (ev_payload e) ''relative_path'' = Some (JStr a4)" "a4 \<noteq> []"
    using get [OF k(4)] v(4) text_payload_JStr by metis
  obtain a5 where 5: "map_of (ev_payload e) ''virtual_document_namespace'' = Some (JStr a5)" "a5 \<noteq> []"
    using get [OF k(5)] v(5) text_payload_JStr by metis
  obtain a6 where 6: "map_of (ev_payload e) ''base_epoch'' = Some (JStr a6)" "is_hash a6"
    using get [OF k(6)] v(6) sha256_payload_JStr by metis
  obtain a7 where 7: "map_of (ev_payload e) ''content_hash'' = Some (JStr a7)" "is_hash a7"
    using get [OF k(7)] v(7) sha256_payload_JStr by metis
  obtain a8 where 8: "map_of (ev_payload e) ''knowledge_epoch'' = Some (JInt a8)" "0 \<le> a8"
    using get [OF k(8)] v(8) integer_payload_JInt by metis
  obtain a9 where 9: "map_of (ev_payload e) ''version'' = Some (JInt a9)" "0 \<le> a9"
    using get [OF k(9)] v(9) integer_payload_JInt by metis
  obtain s a10 where 10: "map_of (ev_payload e) ''expires_at'' = Some (JStr s)" "read_utc s = Some a10"
    using get [OF k(10)] v(10) timestamp_payload_JStr by metis
  show ?thesis
    by (rule exI [of _ "\<lparr>ls_lease = a1, ls_worker = a2, ls_run = run, ls_document = a3,
        ls_path = as_posix a4, ls_namespace = a5, ls_epoch = \<lparr>base_epoch = a6, knowledge_epoch = a8\<rparr>,
        ls_version = a9, ls_hash = a7, ls_expires_at = a10, ls_active = a\<rparr>"])
       (simp add: reads_def document_timestamp_Inr 1 2 3 4 5 6 7 8 9 10)
qed

lemma document_projection_change:
  "document_projection (projection_change s n i (event_state e p)) = Inr (ev_type e, ev_run e, canon_dict p)"
  unfolding document_projection_def projection_change_def projection.select_convs canon_event_state
  by (cases "ev_run e") (simp_all add: json_of_option_def)

lemma projection_change_select [simp]:
  "pr_name (projection_change s n i st) = n" "pr_entity (projection_change s n i st) = i"
  by (simp_all add: projection_change_def)

lemma lease_from_change:
  assumes "ev_run e = Some run" "wf_dict p"
  shows "lease_from_projection (projection_change s n i (event_state e p)) = Inr l \<longleftrightarrow>
    reads p l \<and> ls_run l = run \<and> (ls_active l \<longleftrightarrow> ev_type e = ''LeaseGranted'')"
  using lease_from_projection_Inr [OF document_projection_change [of s n i e p, unfolded assms(1)]]
    reads_canon [OF assms(2)] by simp

lemma document_from_change:
  assumes "ev_run e = Some run" "wf_dict p"
  shows "document_from_projection (projection_change s n i (event_state e p)) = Inr d \<longleftrightarrow>
    reads p (lease_of_document d) \<and> ds_run d = run
    \<and> ds_prepared d = (if ev_type e = ''DocumentEditPrepared'' then Some (ev_id e) else None)"
proof -
  let ?c = "projection_change s n i (event_state e p)"
  have "pr_state ?c = JObj [(''event_id'', JStr (ev_id e)), (''event_type'', JStr (ev_type e)),
      (''payload'', JObj (canon_dict p)), (''run_id'', json_of_option (ev_run e))]"
    unfolding projection_change_def projection.select_convs canon_event_state ..
  from document_from_projection_Inr [OF document_projection_change [of s n i e p, unfolded assms(1)] this]
  show ?thesis by (simp add: reads_canon [OF assms(2)])
qed

subsection \<open>The changes an event makes to leases and documents\<close>

lemma leases_projection:
  "map_of event_projections t = Some n \<Longrightarrow> n \<in> {''leases'', ''documents''} \<Longrightarrow>
   t \<in> document_state_event_types \<union> {''LeaseReleased'', ''LeaseRecovered''}"
proof -
  have "list_all (\<lambda>(t, n). n \<in> {''leases'', ''documents''} \<longrightarrow>
      t \<in> document_state_event_types \<union> {''LeaseReleased'', ''LeaseRecovered''}) event_projections"
    unfolding document_state_event_types_def by code_simp
  then show "map_of event_projections t = Some n \<Longrightarrow> n \<in> {''leases'', ''documents''} \<Longrightarrow>
     t \<in> document_state_event_types \<union> {''LeaseReleased'', ''LeaseRecovered''}"
    by (auto simp: list_all_iff dest!: map_of_SomeD)
qed

lemma other_event_changes:
  assumes "apply_event s e = Inr cs" "c \<in> set cs"
    and "ev_type e \<notin> document_state_event_types \<union> {''LeaseReleased'', ''LeaseRecovered''}"
  shows "pr_name c \<notin> {''leases'', ''documents''}"
proof -
  have "document_change s e p = []" for p
    using assms(3) by (auto simp: document_change_def document_state_event_types_def split: option.split)
  moreover obtain n where "map_of event_projections (ev_type e) = Some n"
    using assms(1) by (auto simp: apply_event_Inr)
  moreover from this have "n \<notin> {''leases'', ''documents''}"
    using leases_projection assms(3) by blast
  ultimately show ?thesis
    using assms(1,2) by (auto simp: apply_event_Inr split: if_splits)
qed

lemma reads_keys:
  assumes "reads p l"
  shows "{''lease_id'', ''worker_id'', ''document_id'', ''relative_path'',
          ''virtual_document_namespace'', ''base_epoch'', ''knowledge_epoch'', ''version'',
          ''content_hash'', ''expires_at''} \<subseteq> keys p"
  using assms by (auto simp: reads_def in_keys_map_of document_timestamp_Inr)

lemma reads_get_str:
  assumes "reads p l"
  shows "get_str p ''lease_id'' = Some (ls_lease l)" "ls_lease l \<noteq> []"
    "get_str p ''document_id'' = Some (ls_document l)" "ls_document l \<noteq> []"
  using assms by (auto simp: reads_def)

lemma complete_document_payload_reads:
  "reads p l \<Longrightarrow> complete_document_payload p = Some (ls_document l)"
  unfolding complete_document_payload_def using reads_keys [of p l] reads_get_str(3) [of p l] by simp

lemma document_event_tables:
  "map_of event_projections ''LeaseGranted'' = Some ''leases''"
  "map_of event_projections ''LeaseReleased'' = Some ''leases''"
  "map_of event_projections ''LeaseRecovered'' = Some ''leases''"
  "map_of event_projections ''DocumentEditPrepared'' = Some ''documents''"
  "map_of event_projections ''DocumentEdited'' = Some ''documents''"
  "map_of event_projections ''DocumentEditRecovered'' = Some ''documents''"
  "map_of entity_fields ''LeaseGranted'' = Some ''lease_id''"
  "map_of entity_fields ''LeaseReleased'' = Some ''lease_id''"
  "map_of entity_fields ''LeaseRecovered'' = Some ''lease_id''"
  "map_of entity_fields ''DocumentEditPrepared'' = Some ''document_id''"
  "map_of entity_fields ''DocumentEdited'' = Some ''document_id''"
  "map_of entity_fields ''DocumentEditRecovered'' = Some ''document_id''"
  by (simp_all add: event_projections_def entity_fields_def)

lemma not_orchestration:
  "t \<in> document_state_event_types \<union> {''LeaseReleased'', ''LeaseRecovered''} \<Longrightarrow>
   t \<notin> keys orchestration_event_projections"
  by (auto simp: document_state_event_types_def orchestration_event_projections_def)

lemma granted_changes:
  assumes "apply_event s e = Inr cs" "ev_type e = ''LeaseGranted''" "reads (ev_payload e) l"
  shows "cs = [projection_change s ''leases'' (ls_lease l) (event_state e (ev_payload e)),
    projection_change s ''documents'' (ls_document l) (event_state e (ev_payload e))]"
proof -
  have "projection_payload_of s e = Inr (ev_payload e)"
    using assms(2) not_orchestration [of "ev_type e"]
    by (intro projection_payload_unchanged) (auto simp: document_state_event_types_def)
  moreover have "entity_id_of e = ls_lease l"
    using reads_get_str [OF assms(3)] by (simp add: entity_id_of_def assms(2) document_event_tables)
  moreover have "document_change s e (ev_payload e)
      = [projection_change s ''documents'' (ls_document l) (event_state e (ev_payload e))]"
    by (simp add: document_change_def complete_document_payload_reads [OF assms(3)] assms(2))
  ultimately show ?thesis
    using assms(1) by (simp add: apply_event_Inr epoch_event_def assms(2) document_event_tables)
qed

lemma edited_changes:
  assumes "apply_event s e = Inr cs" "reads (ev_payload e) l"
    and "ev_type e \<in> {''DocumentEditPrepared'', ''DocumentEdited'', ''DocumentEditRecovered''}"
  shows "cs = [projection_change s ''documents'' (ls_document l) (event_state e (ev_payload e))]"
proof -
  have "projection_payload_of s e = Inr (ev_payload e)"
    using assms(3) not_orchestration [of "ev_type e"]
    by (intro projection_payload_unchanged) (auto simp: document_state_event_types_def)
  moreover have "entity_id_of e = ls_document l"
    using reads_get_str [OF assms(2)] assms(3) by (auto simp: entity_id_of_def document_event_tables)
  moreover have "document_change s e (ev_payload e) = []"
    using assms(3) by (auto simp: document_change_def split: option.split)
  ultimately show ?thesis
    using assms(1,3) by (auto simp: apply_event_Inr epoch_event_def document_event_tables)
qed

lemma ended_changes:
  assumes "apply_event s e = Inr cs" "get_str (ev_payload e) ''lease_id'' = Some i" "i \<noteq> []"
    and "ev_type e \<in> {''LeaseReleased'', ''LeaseRecovered''}"
    and "find_projection s ''leases'' i = Some r" "pr_state r = JObj st"
    "map_of st ''payload'' = Some (JObj prev)"
  shows "cs = [projection_change s ''leases'' i (event_state e (dict_merge prev (ev_payload e)))]"
proof -
  have "ev_type e \<notin> keys orchestration_event_projections"
    using assms(4) by (intro not_orchestration) auto
  then have "projection_payload_of s e = Inr (dict_merge prev (ev_payload e))"
    using assms(2,4-7) by (auto simp: projection_payload_of_def Let_def)
  moreover have "entity_id_of e = i"
    using assms(2-4) by (auto simp: entity_id_of_def document_event_tables)
  moreover have "document_change s e p = []" for p
    using assms(4) by (auto simp: document_change_def split: option.split)
  ultimately show ?thesis
    using assms(1,4) by (auto simp: apply_event_Inr epoch_event_def document_event_tables)
qed

subsection \<open>The tables\<close>

record lease_table =
  lt_leases :: "string \<Rightarrow> lease_state option"
  lt_documents :: "string \<Rightarrow> document_state option"

definition result_option :: "'a res \<Rightarrow> 'a option" where
  "result_option m = (case m of Inl _ \<Rightarrow> None | Inr x \<Rightarrow> Some x)"

definition lease_table_of :: "db \<Rightarrow> lease_table" where
  "lease_table_of d =
    \<lparr>lt_leases = (\<lambda>i. Option.bind (find_projection (db_projections d) ''leases'' i)
        (\<lambda>r. result_option (lease_from_projection r))),
     lt_documents = (\<lambda>i. Option.bind (find_projection (db_projections d) ''documents'' i)
        (\<lambda>r. result_option (document_from_projection r)))\<rparr>"

definition wf_lease_record :: "projection \<Rightarrow> bool" where
  "wf_lease_record r \<longleftrightarrow> (\<exists>t run p l. document_projection r = Inr (t, Some run, p)
     \<and> t \<in> {''LeaseGranted'', ''LeaseReleased'', ''LeaseRecovered''}
     \<and> lease_from_projection r = Inr l \<and> ls_lease l = pr_entity r)"

definition wf_document_record :: "projection \<Rightarrow> bool" where
  "wf_document_record r \<longleftrightarrow> (\<exists>t run p s. document_projection r = Inr (t, Some run, p)
     \<and> t \<in> document_state_event_types
     \<and> document_from_projection r = Inr s \<and> ds_document s = pr_entity r)"

definition wf_leases :: "db \<Rightarrow> bool" where
  "wf_leases d \<longleftrightarrow> wf_projections (db_projections d)
     \<and> (\<forall>r \<in> set (db_projections d). pr_name r = ''leases'' \<longrightarrow> wf_lease_record r)
     \<and> (\<forall>r \<in> set (db_projections d). pr_name r = ''documents'' \<longrightarrow> wf_document_record r)"

lemma lookup_log_step:
  assumes "wf_projections (db_projections d)" "apply_event (query_projections d) e = Inr cs"
  shows "find_projection (db_projections (log_step e cs d)) n i
    = (case find_projection cs n i of Some c \<Rightarrow> Some c | None \<Rightarrow> find_projection (db_projections d) n i)"
proof -
  have "distinct (map projection_key cs)"
    using apply_event_keys_distinct [OF assms(2)] by (simp add: projection_key_def [abs_def])
  then show ?thesis
    using assms(1) by (simp add: log_step_def find_fold_upsert wf_projections_def)
qed

lemma upsert_projection_subset: "set (upsert_projection c ps) \<subseteq> insert c (set ps)"
  by (induction c ps rule: upsert_projection.induct) auto

lemma fold_upsert_members: "r \<in> set (fold upsert_projection cs ps) \<Longrightarrow> r \<in> set ps \<or> r \<in> set cs"
proof (induction cs arbitrary: ps)
  case (Cons c cs)
  then have "r \<in> set (upsert_projection c ps) \<or> r \<in> set cs" by simp
  then show ?case using upsert_projection_subset [of c ps] by auto
qed simp

text \<open>An event that is not about documents leaves the tables as they are.\<close>

lemma lease_table_cong:
  assumes "\<And>i. find_projection (db_projections d') ''leases'' i = find_projection (db_projections d) ''leases'' i"
    "\<And>i. find_projection (db_projections d') ''documents'' i = find_projection (db_projections d) ''documents'' i"
  shows "lease_table_of d' = lease_table_of d"
  by (simp add: lease_table_of_def assms)

lemma wf_leases_log_step:
  assumes "wf_leases d" "apply_event (query_projections d) e = Inr cs" "wf_jdict (ev_payload e)"
    and "\<And>c. c \<in> set cs \<Longrightarrow> pr_name c = ''leases'' \<Longrightarrow> wf_lease_record c"
    and "\<And>c. c \<in> set cs \<Longrightarrow> pr_name c = ''documents'' \<Longrightarrow> wf_document_record c"
  shows "wf_leases (log_step e cs d)"
proof -
  have wf: "wf_projections (db_projections d)" using assms(1) by (simp add: wf_leases_def)
  have "\<forall>c \<in> set cs. wf_projection c"
    using apply_event_changes [OF wf_query_projections [OF wf] assms(3,2)] by blast
  then have "wf_projections (db_projections (log_step e cs d))"
    using wf by (simp add: log_step_def wf_projections_fold_upsert)
  moreover have "r \<in> set (db_projections d) \<or> r \<in> set cs" if "r \<in> set (db_projections (log_step e cs d))" for r
    using that by (auto simp: log_step_def dest: fold_upsert_members)
  ultimately show ?thesis
    using assms(1,4,5) unfolding wf_leases_def by blast
qed

lemma other_event_tables:
  assumes "wf_leases d" "apply_event (query_projections d) e = Inr cs" "wf_jdict (ev_payload e)"
    and "ev_type e \<notin> document_state_event_types \<union> {''LeaseReleased'', ''LeaseRecovered''}"
  shows "wf_leases (log_step e cs d) \<and> lease_table_of (log_step e cs d) = lease_table_of d"
proof
  have wf: "wf_projections (db_projections d)" using assms(1) by (simp add: wf_leases_def)
  have c: "pr_name c \<notin> {''leases'', ''documents''}" if "c \<in> set cs" for c
    using other_event_changes [OF assms(2) that assms(4)] .
  then show "wf_leases (log_step e cs d)"
    using wf_leases_log_step [OF assms(1-3)] by blast
  have "find_projection cs n i = None" if "n \<in> {''leases'', ''documents''}" for n i
    using c that by (auto simp: find_projection_None)
  then show "lease_table_of (log_step e cs d) = lease_table_of d"
    by (intro lease_table_cong) (simp_all add: lookup_log_step [OF wf assms(2)])
qed

lemma wf_lease_change:
  assumes "ev_run e = Some run" "wf_dict p" "reads p l"
    "ev_type e \<in> {''LeaseGranted'', ''LeaseReleased'', ''LeaseRecovered''}"
  shows "wf_lease_record (projection_change s n (ls_lease l) (event_state e p))"
proof -
  let ?m = "l\<lparr>ls_run := run, ls_active := (ev_type e = ''LeaseGranted'')\<rparr>"
  have "reads p ?m" using assms(3) by (simp add: reads_def)
  then have "lease_from_projection (projection_change s n (ls_lease l) (event_state e p)) = Inr ?m"
    by (simp add: lease_from_change [OF assms(1,2)])
  then show ?thesis
    using document_projection_change [of s n "ls_lease l" e p] assms(1,4)
    unfolding wf_lease_record_def by (intro exI [of _ "ev_type e"] exI [of _ run]) auto
qed

definition document_of_lease :: "lease_state \<Rightarrow> string \<Rightarrow> string option \<Rightarrow> document_state" where
  "document_of_lease l run prepared =
     \<lparr>ds_document = ls_document l, ds_run = run, ds_worker = ls_worker l, ds_lease = ls_lease l,
      ds_path = ls_path l, ds_namespace = ls_namespace l, ds_epoch = ls_epoch l,
      ds_version = ls_version l, ds_hash = ls_hash l, ds_expires_at = ls_expires_at l,
      ds_prepared = prepared\<rparr>"

lemma lease_of_document_of_lease:
  "lease_of_document (document_of_lease l run i) = l\<lparr>ls_run := run, ls_active := True\<rparr>"
  by (simp add: lease_of_document_def document_of_lease_def)

lemma document_change_value:
  assumes "ev_run e = Some run" "wf_dict p" "reads p l"
  shows "document_from_projection (projection_change s n i (event_state e p)) = Inr (document_of_lease l run
    (if ev_type e = ''DocumentEditPrepared'' then Some (ev_id e) else None))"
proof -
  have "reads p (l\<lparr>ls_run := run, ls_active := True\<rparr>)" using assms(3) by (simp add: reads_def)
  then show ?thesis
    unfolding document_from_change [OF assms(1,2)] lease_of_document_of_lease
    by (simp add: document_of_lease_def)
qed

lemma wf_document_change:
  assumes "ev_run e = Some run" "wf_dict p" "reads p l" "ev_type e \<in> document_state_event_types"
  shows "wf_document_record (projection_change s n (ls_document l) (event_state e p))"
  using document_change_value [OF assms(1-3), of s n "ls_document l"]
    document_projection_change [of s n "ls_document l" e p] assms(1,4)
  unfolding wf_document_record_def
  by (intro exI [of _ "ev_type e"] exI [of _ run]) (auto simp: document_of_lease_def)

subsection \<open>Each operation updates the tables\<close>

lemma document_step:
  assumes "wf_leases d" "valid_event vr e" "typed_event e"
    "apply_event_mutation apply_event e (query_projections d) d = Inr (r, d1)"
    "revoke_lease_capabilities e d1 = Inr d2"
  obtains cs where "apply_event (query_projections d) e = Inr cs"
    "lease_table_of d2 = lease_table_of (log_step e cs d)" "wf_leases d2 = wf_leases (log_step e cs d)"
    "rec_envelope r = e"
proof -
  have "wf_projections (db_projections d)" "wf_jdict (ev_payload e)" "ev_version e = event_schema_version"
    using assms(1-3) by (auto simp: wf_leases_def typed_event_def valid_event_def)
  from assms(4) [unfolded apply_event_mutation_Inr [OF this]] obtain cs where
    cs: "apply_event (query_projections d) e = Inr cs" "d1 = log_step e cs d" "rec_envelope r = e" by auto
  have "db_projections d2 = db_projections d1"
    using revoke_lease_log_part [OF assms(5)] by (metis log_part_fields(2))
  then show thesis
    using that [OF cs(1)] cs by (simp add: lease_table_of_def wf_leases_def)
qed

lemma result_option_Inr [simp]: "result_option (Inr x) = Some x"
  by (simp add: result_option_def)

lemma wf_leases_find:
  assumes "wf_leases d" "find_projection (query_projections d) ''leases'' i = Some r"
  shows "\<exists>t run p l. document_projection r = Inr (t, Some run, p)
     \<and> t \<in> {''LeaseGranted'', ''LeaseReleased'', ''LeaseRecovered''}
     \<and> lease_from_projection r = Inr l \<and> ls_lease l = i \<and> lt_leases (lease_table_of d) i = Some l"
proof -
  have f: "find_projection (db_projections d) ''leases'' i = Some r"
    using assms by (simp add: find_query_projections wf_leases_def)
  then have "r \<in> set (db_projections d)" "pr_name r = ''leases''" "pr_entity r = i"
    by (auto dest: find_projection_Some)
  then show ?thesis
    using assms(1) f by (fastforce simp: wf_leases_def wf_lease_record_def lease_table_of_def)
qed

lemma find_lease_Inr:
  assumes "wf_leases d"
  shows "find_lease (query_projections d) i = Inr l \<longleftrightarrow> lt_leases (lease_table_of d) i = Some l"
proof (cases "find_projection (query_projections d) ''leases'' i")
  case None
  then show ?thesis
    using assms by (simp add: find_lease_def lease_table_of_def find_query_projections wf_leases_def)
next
  case (Some r)
  with wf_leases_find [OF assms Some] show ?thesis by (auto simp: find_lease_def)
qed

lemma wf_documents_find:
  assumes "wf_leases d" "find_projection (query_projections d) ''documents'' i = Some r"
  shows "\<exists>t run p s. document_projection r = Inr (t, Some run, p)
     \<and> t \<in> document_state_event_types
     \<and> document_from_projection r = Inr s \<and> ds_document s = i \<and> lt_documents (lease_table_of d) i = Some s"
proof -
  have f: "find_projection (db_projections d) ''documents'' i = Some r"
    using assms by (simp add: find_query_projections wf_leases_def)
  then have "r \<in> set (db_projections d)" "pr_name r = ''documents''" "pr_entity r = i"
    by (auto dest: find_projection_Some)
  then show ?thesis
    using assms(1) f by (fastforce simp: wf_leases_def wf_document_record_def lease_table_of_def)
qed

lemma find_document_Inr:
  assumes "wf_leases d"
  shows "find_document (query_projections d) i = Inr s \<longleftrightarrow> lt_documents (lease_table_of d) i = Some s"
proof (cases "find_projection (query_projections d) ''documents'' i")
  case None
  then show ?thesis
    using assms by (simp add: find_document_def lease_table_of_def find_query_projections wf_leases_def)
next
  case (Some r)
  with wf_documents_find [OF assms Some] show ?thesis by (auto simp: find_document_def)
qed

lemma no_document:
  assumes "wf_leases d"
  shows "find_projection (query_projections d) ''documents'' i = None \<longleftrightarrow> lt_documents (lease_table_of d) i = None"
  using assms wf_documents_find [OF assms, of i]
  by (cases "find_projection (query_projections d) ''documents'' i")
     (auto simp: lease_table_of_def find_query_projections wf_leases_def)

lemma active_leases_sublist:
  assumes "\<forall>r \<in> set rs. pr_name r = ''leases'' \<longrightarrow> wf_lease_record r"
  shows "\<exists>ls. active_leases_in rs = Inr ls \<and>
    set ls = {l. ls_active l \<and> (\<exists>r \<in> set rs. pr_name r = ''leases'' \<and> lease_from_projection r = Inr l)}"
  using assms
proof (induction rs)
  case (Cons r rs)
  then obtain ls where ls: "active_leases_in rs = Inr ls"
    "set ls = {l. ls_active l \<and> (\<exists>r \<in> set rs. pr_name r = ''leases'' \<and> lease_from_projection r = Inr l)}"
    by auto
  show ?case
  proof (cases "pr_name r = ''leases''")
    case True
    with Cons.prems obtain t run p l where r: "document_projection r = Inr (t, Some run, p)"
      "lease_from_projection r = Inr l"
      by (auto simp: wf_lease_record_def)
    then have "ls_active l \<longleftrightarrow> t = ''LeaseGranted''"
      using lease_from_projection_Inr [OF r(1)] by simp
    with r ls True show ?thesis
      by (auto simp: is_active_document_lease_def)
  next
    case False
    with ls show ?thesis by auto
  qed
qed simp

lemma active_leases_table:
  assumes "wf_leases d" "active_leases_in (query_projections d) = Inr ls"
  shows "set ls = {l. ls_active l \<and> (\<exists>i. lt_leases (lease_table_of d) i = Some l)}"
proof -
  have "\<forall>r \<in> set (query_projections d). pr_name r = ''leases'' \<longrightarrow> wf_lease_record r"
    using assms(1) by (simp add: wf_leases_def)
  from active_leases_sublist [OF this] assms(2) have
    "set ls = {l. ls_active l \<and> (\<exists>r \<in> set (db_projections d). pr_name r = ''leases'' \<and> lease_from_projection r = Inr l)}"
    by simp
  moreover have "(\<exists>r \<in> set (db_projections d). pr_name r = ''leases'' \<and> lease_from_projection r = Inr l)
      \<longleftrightarrow> (\<exists>i. lt_leases (lease_table_of d) i = Some l)" for l
  proof
    assume "\<exists>r \<in> set (db_projections d). pr_name r = ''leases'' \<and> lease_from_projection r = Inr l"
    then obtain r where r: "r \<in> set (db_projections d)" "pr_name r = ''leases''" "lease_from_projection r = Inr l"
      by blast
    then have "find_projection (db_projections d) ''leases'' (pr_entity r) = Some r"
      using find_projection_eq [of "db_projections d" r] assms(1)
      by (simp add: wf_leases_def wf_projections_def)
    with r have "lt_leases (lease_table_of d) (pr_entity r) = Some l"
      by (simp add: lease_table_of_def)
    then show "\<exists>i. lt_leases (lease_table_of d) i = Some l" ..
  next
    assume "\<exists>i. lt_leases (lease_table_of d) i = Some l"
    then obtain i r where "find_projection (db_projections d) ''leases'' i = Some r"
      "result_option (lease_from_projection r) = Some l"
      by (auto simp: lease_table_of_def bind_eq_Some_conv)
    then show "\<exists>r \<in> set (db_projections d). pr_name r = ''leases'' \<and> lease_from_projection r = Inr l"
      by (auto simp: result_option_def split: sum.splits dest!: find_projection_Some)
  qed
  ultimately show ?thesis by simp
qed


subsection \<open>Granting a lease\<close>

definition granted_lease :: "file_lease \<Rightarrow> string \<Rightarrow> lease_state" where
  "granted_lease l path =
     \<lparr>ls_lease = fl_lease_id l, ls_worker = fl_worker_id l, ls_run = fl_run_id l,
      ls_document = fl_document_id l, ls_path = as_posix path,
      ls_namespace = fl_namespace l, ls_epoch = fl_epoch_pair l, ls_version = fl_file_version l,
      ls_hash = fl_content_hash l, ls_expires_at = fl_expires_at l, ls_active = True\<rparr>"

definition add_lease :: "lease_state \<Rightarrow> lease_table \<Rightarrow> lease_table" where
  "add_lease l T = T\<lparr>lt_leases := (lt_leases T)(ls_lease l \<mapsto> l),
     lt_documents := (lt_documents T)(ls_document l \<mapsto> document_of_lease l (ls_run l) None)\<rparr>"

lemma lease_payload_granted: "lease_payload l path = lease_state_payload (granted_lease l path)"
  by (simp add: lease_payload_def granted_lease_def)

lemma reads_of_lease_payload:
  assumes "lease_state_payload l = Inr q" "dict_eq p q" "wf_dict p" "reads p m"
    "ls_path l = as_posix (ls_path l)" "valid_datetime (ls_expires_at l)"
  shows "reads p l"
proof -
  have q: "wf_dict q" using lease_state_payload_wf [OF assms(1)] by (rule wf_jdict_wf_dict)
  have m: "reads q m" using reads_dict_eq [OF assms(2,3) q] assms(4) by simp
  have "read_utc (utc_text (ls_expires_at l)) = Some (ls_expires_at l)"
    using assms(1,6) by (simp add: lease_state_payload_Inr read_utc_text)
  then have "reads q l"
    using m assms(1,5) unfolding lease_state_payload_Inr
    by (auto simp: reads_def document_timestamp_Inr)
  then show ?thesis using reads_dict_eq [OF assms(2,3) q] by simp
qed

lemma validate_grant_Inr:
  assumes "validate_grant s l path now e = Inr ()"
  shows "fl_physical_file l = None" "current_epoch s = Inr (fl_epoch_pair l)" "now < fl_expires_at l"
    "ev_run e = Some (fl_run_id l)"
    "\<exists>ls. active_leases_in s = Inr ls \<and> fl_lease_id l \<notin> ls_lease ` set ls
       \<and> fl_document_id l \<notin> ls_document ` set ls \<and> path \<notin> ls_path ` set ls"
    "find_projection s ''documents'' (fl_document_id l) = None"
    "\<exists>q. lease_state_payload (granted_lease l path) = Inr q \<and> dict_eq (ev_payload e) q"
  using assms by (auto simp: validate_grant_def inr_simps lease_payload_granted)

lemma grant_tables:
  assumes wf: "wf_leases d" and e: "valid_event vr e" "typed_event e" "ev_type e = ''LeaseGranted''"
    and t: "valid_datetime (fl_expires_at l)"
    and g: "mutate_documents apply_event (GrantLease l path now e) (query_projections d) d = Inr (r, d')"
  shows "wf_leases d'" "lease_table_of d' = add_lease (granted_lease l path) (lease_table_of d)"
    "r = DocumentRecord \<lparr>rec_sequence = next_sequence (map er_sequence (db_events d)), rec_envelope = e\<rparr>"
proof -
  let ?s = "query_projections d" let ?l = "granted_lease l path"
  from g obtain rr d1 where v: "validate_grant ?s l path now e = Inr ()"
    and m: "apply_event_mutation apply_event e ?s d = Inr (rr, d1)"
    and rv: "revoke_lease_capabilities e d1 = Inr d'" and r: "r = DocumentRecord rr"
    by (auto simp: inr_simps document_append_def)
  note v = validate_grant_Inr [OF v]
  have p: "wf_jdict (ev_payload e)" "wf_dict (ev_payload e)"
    using e(2) by (simp_all add: typed_event_def wf_jdict_wf_dict)
  obtain m' where m': "reads (ev_payload e) m'"
    using valid_document_event_reads [OF e(1)] e(3) by (auto simp: document_state_event_types_def)
  have reads: "reads (ev_payload e) ?l"
    using v(7) reads_of_lease_payload [OF _ _ p(2) m', of ?l] t
    by (auto simp: granted_lease_def as_posix_idem)
  obtain cs where cs: "apply_event ?s e = Inr cs" and d': "lease_table_of d' = lease_table_of (log_step e cs d)"
    "wf_leases d' = wf_leases (log_step e cs d)"
    using document_step [OF wf e(1,2) m rv] by metis
  have cs_eq: "cs = [projection_change ?s ''leases'' (ls_lease ?l) (event_state e (ev_payload e)),
      projection_change ?s ''documents'' (ls_document ?l) (event_state e (ev_payload e))]"
    by (rule granted_changes [OF cs e(3) reads])
  note run = v(4)
  show "wf_leases d'"
    unfolding d' using wf cs p(1)
  proof (rule wf_leases_log_step)
    show "wf_lease_record c" if "c \<in> set cs" "pr_name c = ''leases''" for c
      using that wf_lease_change [OF run p(2) reads] e(3) by (auto simp: cs_eq)
    show "wf_document_record c" if "c \<in> set cs" "pr_name c = ''documents''" for c
      using that wf_document_change [OF run p(2) reads] e(3)
      by (auto simp: cs_eq document_state_event_types_def)
  qed
  have lease: "lease_from_projection (projection_change ?s ''leases'' (ls_lease ?l) (event_state e (ev_payload e))) = Inr ?l"
    using reads by (simp add: lease_from_change [OF run p(2)] e(3)) (simp add: granted_lease_def)
  have document: "document_from_projection (projection_change ?s ''documents'' (ls_document ?l) (event_state e (ev_payload e)))
      = Inr (document_of_lease ?l (ls_run ?l) None)"
    using document_change_value [OF run p(2) reads] e(3) by (simp add: granted_lease_def)
  show "lease_table_of d' = add_lease ?l (lease_table_of d)"
    unfolding d' add_lease_def
    using wf lookup_log_step [OF _ cs] lease document
    by (auto simp: lease_table_of_def wf_leases_def cs_eq find_projection_def fun_eq_iff)
  show "r = DocumentRecord \<lparr>rec_sequence = next_sequence (map er_sequence (db_events d)), rec_envelope = e\<rparr>"
    using m wf p(1) e(1) by (auto simp: r apply_event_mutation_Inr wf_leases_def valid_event_def)
qed

subsection \<open>Edits\<close>

definition set_document :: "document_state \<Rightarrow> lease_table \<Rightarrow> lease_table" where
  "set_document s T = T\<lparr>lt_documents := (lt_documents T)(ds_document s \<mapsto> s)\<rparr>"

lemma reads_of_lookups:
  assumes "lease_state_payload l = Inr q0" "\<forall>k \<in> set document_fields. map_of q k = map_of q0 k"
    "dict_eq p q" "wf_dict p" "wf_dict q" "reads p m"
    "ls_path l = as_posix (ls_path l)" "valid_datetime (ls_expires_at l)"
  shows "reads p l"
proof -
  have m: "reads q m" using reads_dict_eq [OF assms(3-5)] assms(6) by simp
  have "read_utc (utc_text (ls_expires_at l)) = Some (ls_expires_at l)"
    using assms(1,8) by (simp add: lease_state_payload_Inr read_utc_text)
  then have "reads q l"
    using m assms(1,2,7) unfolding lease_state_payload_Inr
    by (auto simp: reads_def document_timestamp_Inr document_fields_def)
  then show ?thesis using reads_dict_eq [OF assms(3-5)] by simp
qed

lemma reads_typed:
  assumes "reads p l"
  shows "ls_path l = as_posix (ls_path l)" "valid_datetime (ls_expires_at l)" "is_utc (ls_expires_at l)"
  using assms by (auto simp: reads_def as_posix_idem document_timestamp_Inr dest: read_utc_Some)

lemma table_document_reads:
  assumes "wf_leases d" "lt_documents (lease_table_of d) i = Some s"
  shows "\<exists>p. reads p (lease_of_document s)" "ds_document s = i"
proof -
  have "find_document (query_projections d) i = Inr s"
    using assms find_document_Inr by blast
  then obtain r where r: "find_projection (query_projections d) ''documents'' i = Some r"
    "document_from_projection r = Inr s"
    by (auto simp: find_document_def split: option.splits)
  from wf_documents_find [OF assms(1) r(1)] r(2) obtain t run p where
    dp: "document_projection r = Inr (t, Some run, p)" and id: "ds_document s = i" by auto
  show "ds_document s = i" by (rule id)
  obtain raw where raw: "pr_state r = JObj raw" and
    ev: "\<exists>i. map_of raw ''event_id'' = Some (JStr i)"
    using r(2) unfolding document_from_projection_def dp bindr_Inr prod.case option.case
    by (auto simp: inr_simps split: json.splits option.splits)
  then show "\<exists>p. reads p (lease_of_document s)"
    using document_from_projection_Inr [OF dp raw] r(2) by auto
qed

lemma event_matches_Inr:
  assumes "event_matches s e v h = Inr ()"
  shows "ev_run e = Some (ds_run s)"
    and "\<exists>q0 c. document_payload s = Inr q0
      \<and> (case h of Some x \<Rightarrow> c = x | None \<Rightarrow> map_of (ev_payload e) ''content_hash'' = Some (JStr c))
      \<and> (\<exists>q. dict_eq (ev_payload e) q \<and> wf_dict q
           \<and> (\<forall>k \<in> set document_fields. map_of q k =
               map_of (AList.update ''content_hash'' (JStr c) (AList.update ''version'' (JInt v) q0)) k))"
proof -
  from assms obtain c q0 where c: "(case h of Some x \<Rightarrow> c = x | None \<Rightarrow> map_of (ev_payload e) ''content_hash'' = Some (JStr c))"
    and q0: "document_payload s = Inr q0" and run: "ev_run e = Some (ds_run s)"
    and eq: "dict_eq (ev_payload e) (if ev_type e = ''DocumentEditPrepared''
           then AList.update ''expected_hash'' (JStr c)
                  (AList.update ''expected_version'' (JInt v)
                    (AList.update ''content_hash'' (JStr c) (AList.update ''version'' (JInt v) q0)))
           else AList.update ''content_hash'' (JStr c) (AList.update ''version'' (JInt v) q0))"
    unfolding event_matches_def bindr_eq_Inr Let_def ensure_eq_Inr
    by (cases h) (auto split: option.splits json.splits)
  have "wf_dict q0"
    using q0 lease_state_payload_wf wf_jdict_wf_dict by (auto simp: document_payload_lease)
  with eq have "\<exists>q. dict_eq (ev_payload e) q \<and> wf_dict q
           \<and> (\<forall>k \<in> set document_fields. map_of q k =
               map_of (AList.update ''content_hash'' (JStr c) (AList.update ''version'' (JInt v) q0)) k)"
    by (intro exI conjI) (assumption, auto simp: wf_dict_update map_of_update document_fields_def)
  with c q0 show "\<exists>q0 c. document_payload s = Inr q0
      \<and> (case h of Some x \<Rightarrow> c = x | None \<Rightarrow> map_of (ev_payload e) ''content_hash'' = Some (JStr c))
      \<and> (\<exists>q. dict_eq (ev_payload e) q \<and> wf_dict q
           \<and> (\<forall>k \<in> set document_fields. map_of q k =
               map_of (AList.update ''content_hash'' (JStr c) (AList.update ''version'' (JInt v) q0)) k))"
    by blast
  show "ev_run e = Some (ds_run s)" by (rule run)
qed

lemma edit_tables:
  assumes wf: "wf_leases d" and s: "lt_documents (lease_table_of d) i = Some s"
    and e: "valid_event vr e" "typed_event e"
      "ev_type e \<in> {''DocumentEditPrepared'', ''DocumentEdited'', ''DocumentEditRecovered''}"
    and match: "event_matches s e v h = Inr ()"
    and m: "apply_event_mutation apply_event e (query_projections d) d = Inr (r, d1)"
    and rv: "revoke_lease_capabilities e d1 = Inr d'"
  shows "wf_leases d' \<and> (\<exists>c. (case h of Some x \<Rightarrow> c = x | None \<Rightarrow> map_of (ev_payload e) ''content_hash'' = Some (JStr c))
    \<and> lease_table_of d' = set_document (s\<lparr>ds_version := v, ds_hash := c,
        ds_prepared := if ev_type e = ''DocumentEditPrepared'' then Some (ev_id e) else None\<rparr>) (lease_table_of d))"
proof -
  let ?s = "query_projections d"
  have p: "wf_jdict (ev_payload e)" "wf_dict (ev_payload e)"
    using e(2) by (simp_all add: typed_event_def wf_jdict_wf_dict)
  note run = event_matches_Inr(1) [OF match]
  from event_matches_Inr(2) [OF match] obtain q0 c q where q0: "document_payload s = Inr q0"
    and c: "(case h of Some x \<Rightarrow> c = x | None \<Rightarrow> map_of (ev_payload e) ''content_hash'' = Some (JStr c))"
    and q: "dict_eq (ev_payload e) q" "wf_dict q" "\<forall>k \<in> set document_fields. map_of q k =
       map_of (AList.update ''content_hash'' (JStr c) (AList.update ''version'' (JInt v) q0)) k" by blast
  let ?t = "s\<lparr>ds_version := v, ds_hash := c\<rparr>"
  have typed: "ds_path s = as_posix (ds_path s)" "valid_datetime (ds_expires_at s)" "is_utc (ds_expires_at s)"
    and id: "ds_document s = i"
    using table_document_reads [OF wf s] reads_typed [of _ "lease_of_document s"]
    by (auto simp: lease_of_document_def)
  obtain q1 where q1: "lease_state_payload (lease_of_document ?t) = Inr q1"
    using typed(3) by (simp add: lease_state_payload_Inr lease_of_document_def)
  have lookups: "\<forall>k \<in> set document_fields. map_of q k = map_of q1 k"
    using q(3) q0 q1 unfolding document_payload_lease lease_state_payload_Inr
    by (auto simp: map_of_update lease_of_document_def document_fields_def)
  obtain m' where m': "reads (ev_payload e) m'"
    using valid_document_event_reads [OF e(1)] e(3) by (auto simp: document_state_event_types_def)
  have reads: "reads (ev_payload e) (lease_of_document ?t)"
    using typed by (intro reads_of_lookups [OF q1 lookups q(1) p(2) q(2) m'])
      (simp_all add: lease_of_document_def)
  obtain cs where cs: "apply_event ?s e = Inr cs" and d': "lease_table_of d' = lease_table_of (log_step e cs d)"
    "wf_leases d' = wf_leases (log_step e cs d)"
    using document_step [OF wf e(1,2) m rv] by metis
  have cs_eq: "cs = [projection_change ?s ''documents'' i (event_state e (ev_payload e))]"
    using edited_changes [OF cs reads e(3)] by (simp add: lease_of_document_def id)
  have "wf_leases d'"
    unfolding d' using wf cs p(1)
  proof (rule wf_leases_log_step)
    show "wf_document_record c" if "c \<in> set cs" "pr_name c = ''documents''" for c
      using that wf_document_change [OF run p(2) reads, of ?s "''documents''"] e(3)
      by (auto simp: cs_eq document_state_event_types_def lease_of_document_def id)
  qed (auto simp: cs_eq)
  moreover have "document_from_projection (projection_change ?s ''documents'' i (event_state e (ev_payload e)))
      = Inr (?t\<lparr>ds_prepared := if ev_type e = ''DocumentEditPrepared'' then Some (ev_id e) else None\<rparr>)"
    unfolding document_change_value [OF run p(2) reads]
    by (simp add: document_of_lease_def lease_of_document_def)
  then have "lease_table_of d' = set_document (?t\<lparr>ds_prepared := if ev_type e = ''DocumentEditPrepared''
      then Some (ev_id e) else None\<rparr>) (lease_table_of d)"
    unfolding d' set_document_def
    using wf lookup_log_step [OF _ cs]
    by (auto simp: lease_table_of_def wf_leases_def cs_eq find_projection_def fun_eq_iff id)
  ultimately show ?thesis using c by auto
qed

subsection \<open>Ending a lease\<close>

definition end_lease :: "string \<Rightarrow> lease_table \<Rightarrow> lease_table" where
  "end_lease i T = T\<lparr>lt_leases := (lt_leases T)(i := map_option (\<lambda>l. l\<lparr>ls_active := False\<rparr>) (lt_leases T i))\<rparr>"

lemma document_projection_payload:
  assumes "document_projection r = Inr (t, run, p)"
  shows "\<exists>raw. pr_state r = JObj raw \<and> map_of raw ''payload'' = Some (JObj p)"
  using assms by (auto simp: document_projection_def split: json.splits option.splits)

lemma document_projection_wf:
  assumes "wf_projection r" "document_projection r = Inr (t, run, p)"
  shows "wf_jdict p"
proof -
  obtain raw where raw: "pr_state r = JObj raw" "map_of raw ''payload'' = Some (JObj p)"
    using document_projection_payload [OF assms(2)] by blast
  have "wf_jdict raw" using assms(1) raw(1) by (simp add: wf_projection_def wf_jdict_def)
  from wf_json_map_of [OF this raw(2)] show ?thesis by (simp add: wf_jdict_def)
qed

lemma reads_merge:
  assumes "reads p l" "wf_dict q" "keys q \<subseteq> {''lease_id'', ''reason_code''}"
    "map_of q ''lease_id'' = Some (JStr (ls_lease l))"
  shows "reads (dict_merge p q) l"
proof -
  have other: "map_of (dict_merge p q) k = map_of p k" if "k \<notin> {''lease_id'', ''reason_code''}" for k
  proof -
    have "map_of q k = None" using assms(3) that by (auto simp: map_of_eq_None_keys)
    then show ?thesis using assms(2) by (simp add: map_of_dict_merge)
  qed
  have "map_of (dict_merge p q) ''lease_id'' = Some (JStr (ls_lease l))"
    using assms(2,4) by (simp add: map_of_dict_merge)
  then show ?thesis
    using assms(1) by (simp add: reads_def other)
qed

lemma terminate_tables:
  assumes wf: "wf_leases d" and e: "valid_event vr e" "typed_event e"
      "ev_type e \<in> {''LeaseReleased'', ''LeaseRecovered''}"
    and ev: "ev_run e = Some run" "get_str (ev_payload e) ''lease_id'' = Some i"
      "keys (ev_payload e) \<subseteq> {''lease_id'', ''reason_code''}"
    and g: "mutate_documents apply_event (TerminateLease run worker i e) (query_projections d) d = Inr (r, d')"
  shows "wf_leases d'" "lease_table_of d' = end_lease i (lease_table_of d)"
    "\<exists>l. lt_leases (lease_table_of d) i = Some l \<and> ls_active l \<and> ls_run l = run
       \<and> (worker = None \<or> worker = Some (ls_worker l))"
proof -
  let ?s = "query_projections d"
  have p: "wf_jdict (ev_payload e)" "wf_dict (ev_payload e)"
    using e(2) by (simp_all add: typed_event_def wf_jdict_wf_dict)
  from g obtain l rr d1 where l: "find_lease ?s i = Inr l" "ls_active l" "ls_run l = run"
      "worker = None \<or> worker = Some (ls_worker l)"
    and m: "apply_event_mutation apply_event e ?s d = Inr (rr, d1)"
    and rv: "revoke_lease_capabilities e d1 = Inr d'"
    by (auto simp: inr_simps document_append_def)
  then have tab: "lt_leases (lease_table_of d) i = Some l"
    using find_lease_Inr [OF wf] by blast
  with l show "\<exists>l. lt_leases (lease_table_of d) i = Some l \<and> ls_active l \<and> ls_run l = run
       \<and> (worker = None \<or> worker = Some (ls_worker l))" by blast
  obtain pr where pr: "find_projection ?s ''leases'' i = Some pr"
    using l(1) by (auto simp: find_lease_def split: option.splits)
  from wf_leases_find [OF wf pr] tab obtain t run0 q where
    dp: "document_projection pr = Inr (t, Some run0, q)" and lp: "lease_from_projection pr = Inr l"
    and id: "ls_lease l = i" by auto
  have q: "reads q l" "ls_run l = run0"
    using lp lease_from_projection_Inr [OF dp] by auto
  obtain raw where raw: "pr_state pr = JObj raw" "map_of raw ''payload'' = Some (JObj q)"
    using document_projection_payload [OF dp] by blast
  have "wf_projection pr"
    using find_projection_Some [OF pr] wf by (simp add: wf_leases_def wf_projections_def)
  then have wq: "wf_jdict q" using dp by (rule document_projection_wf)
  let ?m = "dict_merge q (ev_payload e)"
  have wm: "wf_dict ?m" using wf_jdict_merge [OF wq p(1)] by (rule wf_jdict_wf_dict)
  have reads: "reads ?m l" using reads_merge [OF q(1) p(2) ev(3)] ev(2) id by simp
  obtain cs where cs: "apply_event ?s e = Inr cs" and d': "lease_table_of d' = lease_table_of (log_step e cs d)"
    "wf_leases d' = wf_leases (log_step e cs d)"
    using document_step [OF wf e(1,2) m rv] by metis
  have "i \<noteq> []" using reads_get_str(2) [OF q(1)] id by simp
  from ended_changes [OF cs ev(2) this e(3) pr raw]
  have cs_eq: "cs = [projection_change ?s ''leases'' i (event_state e ?m)]" .
  show "wf_leases d'"
    unfolding d' using wf cs p(1)
  proof (rule wf_leases_log_step)
    show "wf_lease_record c" if "c \<in> set cs" "pr_name c = ''leases''" for c
      using that wf_lease_change [OF ev(1) wm reads, of ?s "''leases''"] e(3) by (auto simp: cs_eq id)
  qed (auto simp: cs_eq)
  have "reads ?m (l\<lparr>ls_active := False\<rparr>)" using reads by (simp add: reads_def)
  then have "lease_from_projection (projection_change ?s ''leases'' i (event_state e ?m)) = Inr (l\<lparr>ls_active := False\<rparr>)"
    using e(3) l(3) by (subst lease_from_change [OF ev(1) wm]) auto
  then show "lease_table_of d' = end_lease i (lease_table_of d)"
    unfolding d' end_lease_def
    using wf lookup_log_step [OF _ cs] tab
    by (auto simp: lease_table_of_def wf_leases_def cs_eq find_projection_def fun_eq_iff)
qed

subsection \<open>The methods of the service\<close>

lemma record_result_Inr: "record_result m = Inr (r, d) \<longleftrightarrow> m = Inr (DocumentRecord r, d)"
  by (cases m) (auto simp: record_result_def split: document_result.splits)

lemma typed_command_lease: "lease_state_payload l = Inr p \<Longrightarrow> typed_command (command t a r c p)"
  by (simp add: typed_command_def lease_state_payload_wf)

lemma prepared_result_Inr: "prepared_result m = Inr (r, d) \<longleftrightarrow> m = Inr (DocumentPrepared r, d)"
  by (cases m) (auto simp: prepared_result_def split: document_result.splits)

text \<open>
  C18. Granting a lease through the service refines the table: it succeeds only for a lease of the
  current epochs that has not expired, with a lease identifier, a document and a path no active
  lease has and a document identifier never used, and it adds the lease and its document.
\<close>

theorem grant_refines_table:
  assumes wf: "wf_leases d" and t: "typed_tick t" "valid_datetime (fl_expires_at l)"
    and g: "grant_document_lease vr t l path d = Inr (r, d')"
  shows "wf_leases d' \<and> lease_table_of d' = add_lease (granted_lease l path) (lease_table_of d)
    \<and> current_epoch (query_projections d) = Inr (fl_epoch_pair l) \<and> snd t < fl_expires_at l
    \<and> lt_documents (lease_table_of d) (fl_document_id l) = None
    \<and> (\<forall>i m. lt_leases (lease_table_of d) i = Some m \<and> ls_active m \<longrightarrow>
         ls_lease m \<noteq> fl_lease_id l \<and> ls_document m \<noteq> fl_document_id l \<and> ls_path m \<noteq> as_posix path)"
proof -
  from g obtain q e where q: "lease_payload l (as_posix path) = Inr q"
    and e: "service_event vr t (command ''LeaseGranted'' ''document_broker'' (Some (fl_run_id l)) None q) = Inr e"
    and x: "mutate_documents apply_event (GrantLease l (as_posix path) (ev_time e) e) (query_projections d) d
      = Inr (DocumentRecord r, d')"
    by (auto simp: grant_document_lease_def inr_simps record_result_Inr execute_document_operation_def)
  have tc: "typed_command (command ''LeaseGranted'' ''document_broker'' (Some (fl_run_id l)) None q)"
    using q typed_command_lease by (auto simp: lease_payload_granted)
  note ev = service_event_valid [OF e]
  have path: "granted_lease l (as_posix path) = granted_lease l path"
    by (simp add: granted_lease_def as_posix_idem)
  have type: "ev_type e = ''LeaseGranted''" using ev(2) by simp
  note tab = grant_tables [OF wf ev(1) ev(9) [OF t(1) tc] type t(2) x]
  from x have v: "validate_grant (query_projections d) l (as_posix path) (ev_time e) e = Inr ()"
    by (auto simp: inr_simps)
  note v = validate_grant_Inr [OF v]
  from v(5) obtain ls where ls: "active_leases_in (query_projections d) = Inr ls"
    "fl_lease_id l \<notin> ls_lease ` set ls" "fl_document_id l \<notin> ls_document ` set ls"
    "as_posix path \<notin> ls_path ` set ls" by blast
  have "m \<in> set ls" if "lt_leases (lease_table_of d) i = Some m \<and> ls_active m" for i m
    using active_leases_table [OF wf ls(1)] that by auto
  then have free: "\<forall>i m. lt_leases (lease_table_of d) i = Some m \<and> ls_active m \<longrightarrow>
      ls_lease m \<noteq> fl_lease_id l \<and> ls_document m \<noteq> fl_document_id l \<and> ls_path m \<noteq> as_posix path"
    using ls(2-4) by (metis image_eqI)
  have "snd t < fl_expires_at l" "lt_documents (lease_table_of d) (fl_document_id l) = None"
    using v(3,6) ev(6) no_document [OF wf] by simp_all
  with tab(1,2) v(2) free show ?thesis by (simp only: path simp_thms)
qed


text \<open>What a holder of an active lease may do with its document.\<close>

lemma access_document_Inr:
  assumes "wf_leases d" "access_document (query_projections d) a = Inr s"
  shows "lt_documents (lease_table_of d) (ad_document a) = Some s" "ds_prepared s = None"
    "\<exists>l. lt_leases (lease_table_of d) (ad_lease a) = Some l \<and> ls_active l \<and> ls_run l = ad_run a
       \<and> ls_worker l = ad_worker a \<and> ls_document l = ad_document a \<and> ad_now a < ls_expires_at l
       \<and> current_epoch (query_projections d) = Inr (ls_epoch l) \<and> ds_lease s = ls_lease l"
proof -
  from assms(2) obtain l epoch where "find_lease (query_projections d) (ad_lease a) = Inr l"
    "current_epoch (query_projections d) = Inr epoch"
    "validate_access l (ad_run a) (ad_worker a) (ad_document a) (ad_now a) epoch = Inr ()"
    "find_document (query_projections d) (ad_document a) = Inr s"
    "ds_prepared s = None" "ds_lease s = ls_lease l"
    unfolding access_document_def bindr_eq_Inr ensure_eq_Inr by auto
  then show "lt_documents (lease_table_of d) (ad_document a) = Some s" "ds_prepared s = None"
    "\<exists>l. lt_leases (lease_table_of d) (ad_lease a) = Some l \<and> ls_active l \<and> ls_run l = ad_run a
       \<and> ls_worker l = ad_worker a \<and> ls_document l = ad_document a \<and> ad_now a < ls_expires_at l
       \<and> current_epoch (query_projections d) = Inr (ls_epoch l) \<and> ds_lease s = ls_lease l"
    by (auto simp: find_lease_Inr [OF assms(1)] find_document_Inr [OF assms(1)] validate_access_def inr_simps)
qed

lemma document_for_Inr:
  "document_for run worker lease document now d = Inr s \<longleftrightarrow>
   access_document (query_projections d) \<lparr>ad_run = run, ad_worker = worker, ad_lease = lease,
     ad_document = document, ad_now = now\<rparr> = Inr s"
  by (auto simp: document_for_def execute_document_operation_def inr_simps)

lemma document_payload_wf: "document_payload s = Inr p \<Longrightarrow> wf_jdict p"
  using lease_state_payload_wf by (auto simp: document_payload_lease)

text \<open>
  C19. Preparing an edit needs an active lease of the caller on the document, unexpired and of the
  current epochs, the version and the hash the caller expects, and no edit in progress. It marks the
  document as prepared by the new event and changes nothing else of the tables.
\<close>

theorem prepare_refines_table:
  assumes wf: "wf_leases d" and t: "typed_tick t"
    and g: "prepare_document_edit vr now t run worker lease document version hash d = Inr (p, d')"
  shows "wf_leases d' \<and> dp_preparation p = fst t
    \<and> lt_documents (lease_table_of d) document = Some (dp_document p)
    \<and> ds_prepared (dp_document p) = None \<and> ds_version (dp_document p) = version \<and> ds_hash (dp_document p) = hash
    \<and> (\<exists>l. lt_leases (lease_table_of d) lease = Some l \<and> ls_active l \<and> ls_run l = run \<and> ls_worker l = worker
        \<and> ls_document l = document \<and> now < ls_expires_at l
        \<and> current_epoch (query_projections d) = Inr (ls_epoch l))
    \<and> lease_table_of d' = set_document ((dp_document p)\<lparr>ds_prepared := Some (fst t)\<rparr>) (lease_table_of d)"
proof -
  let ?a = "\<lparr>ad_run = run, ad_worker = worker, ad_lease = lease, ad_document = document, ad_now = now\<rparr>"
  from g obtain s q e where s: "access_document (query_projections d) ?a = Inr s"
    and q: "document_payload s = Inr q"
    and e: "service_event vr t (command ''DocumentEditPrepared'' ''document_broker'' (Some run) None
       (AList.update ''expected_hash'' (JStr hash)
          (AList.update ''expected_version'' (JInt version) q))) = Inr e"
    and x: "mutate_documents apply_event (PrepareEdit ?a version hash e) (query_projections d) d
      = Inr (DocumentPrepared p, d')"
    unfolding prepare_document_edit_def bindr_eq_Inr document_for_Inr prepared_result_Inr
    by (auto simp: execute_document_operation_def simp del: mutate_documents.simps)
  have tc: "typed_command (command ''DocumentEditPrepared'' ''document_broker'' (Some run) None
       (AList.update ''expected_hash'' (JStr hash) (AList.update ''expected_version'' (JInt version) q)))"
    using document_payload_wf [OF q] by (simp add: typed_command_def wf_jdict_update)
  note ev = service_event_valid [OF e]
  from x s obtain rr d1 where ex: "validate_expected s version hash = Inr ()"
    and m: "event_matches s e (ds_version s) (Some (ds_hash s)) = Inr ()"
    and mu: "apply_event_mutation apply_event e (query_projections d) d = Inr (rr, d1)"
    and rv: "revoke_lease_capabilities e d1 = Inr d'"
    and p: "p = \<lparr>dp_preparation = ev_id e, dp_document = s\<rparr>"
    unfolding mutate_documents.simps bindr_eq_Inr document_append_def by (auto simp: inr_simps)
  note acc = access_document_Inr [OF wf s]
  have type: "ev_type e = ''DocumentEditPrepared''" using ev(2) by simp
  have tab: "lt_documents (lease_table_of d) document = Some s" using acc(1) by simp
  from edit_tables [OF wf tab ev(1) ev(9) [OF t tc] _ m mu rv] type
  have "wf_leases d'" and "lease_table_of d' = set_document (s\<lparr>ds_version := ds_version s, ds_hash := ds_hash s,
        ds_prepared := Some (ev_id e)\<rparr>) (lease_table_of d)"
    by auto
  then show ?thesis
    using acc ex ev(7) tab by (auto simp: p validate_expected_def inr_simps)
qed


text \<open>The preparation that a commit or a recovery finds.\<close>

lemma prepared_document_Inr:
  assumes "wf_leases d" "prepared_document (query_projections d) i = Inr s"
  shows "lt_documents (lease_table_of d) (ds_document s) = Some s" "ds_prepared s = Some i"
proof -
  have "\<exists>r \<in> set rs. pr_name r = ''documents'' \<and> document_from_projection r = Inr s \<and> ds_prepared s = Some i"
    if "prepared_document rs i = Inr s" for rs
    using that by (induction rs) (auto simp: inr_simps split: if_splits)
  with assms(2) obtain r where r: "r \<in> set (db_projections d)" "pr_name r = ''documents''"
    "document_from_projection r = Inr s" and i: "ds_prepared s = Some i" by force
  show "ds_prepared s = Some i" by (rule i)
  have "ds_document s = pr_entity r"
    using assms(1) r by (auto simp: wf_leases_def wf_document_record_def)
  moreover have "find_projection (db_projections d) ''documents'' (pr_entity r) = Some r"
    using find_projection_eq [of "db_projections d" r] assms(1) r
    by (simp add: wf_leases_def wf_projections_def)
  ultimately show "lt_documents (lease_table_of d) (ds_document s) = Some s"
    using r(3) by (simp add: lease_table_of_def)
qed

text \<open>
  C17. Committing a preparation: the document in the table was prepared by it, its lease still gives
  access, and it gets the next version, the new hash and no preparation; nothing else changes.
\<close>

theorem commit_refines_table:
  assumes wf: "wf_leases d" and t: "typed_tick t"
    and g: "commit_document_edit vr t now p hash d = Inr (r, d')"
  shows "wf_leases d' \<and> (\<exists>s l. lt_documents (lease_table_of d) (ds_document s) = Some s
      \<and> ds_prepared s = Some (dp_preparation p)
      \<and> lt_leases (lease_table_of d) (ds_lease s) = Some l \<and> ls_active l \<and> now < ls_expires_at l
      \<and> current_epoch (query_projections d) = Inr (ls_epoch l)
      \<and> lease_table_of d' = set_document
          (s\<lparr>ds_version := ds_version s + 1, ds_hash := hash, ds_prepared := None\<rparr>) (lease_table_of d))"
proof -
  let ?c = "command ''DocumentEdited'' ''document_broker'' (Some (ds_run (dp_document p)))
     (Some (dp_preparation p))"
  from g obtain q e where q: "document_payload (dp_document p) = Inr q"
    and e: "service_event vr t (?c (AList.update ''content_hash'' (JStr hash)
       (AList.update ''version'' (JInt (ds_version (dp_document p) + 1)) q))) = Inr e"
    and x: "mutate_documents apply_event (CommitEdit (dp_preparation p) now e) (query_projections d) d
      = Inr (DocumentRecord r, d')"
    unfolding commit_document_edit_def Let_def bindr_eq_Inr record_result_Inr
    by (auto simp: execute_document_operation_def simp del: mutate_documents.simps)
  have tc: "typed_command (?c (AList.update ''content_hash'' (JStr hash)
       (AList.update ''version'' (JInt (ds_version (dp_document p) + 1)) q)))"
    using document_payload_wf [OF q] by (simp add: typed_command_def wf_jdict_update)
  note ev = service_event_valid [OF e]
  from x obtain s rr d1 where s: "prepared_document (query_projections d) (dp_preparation p) = Inr s"
    and acc: "validate_document_lease (query_projections d) s now = Inr ()"
    and m: "event_matches s e (ds_version s + 1) None = Inr ()"
    and mu: "apply_event_mutation apply_event e (query_projections d) d = Inr (rr, d1)"
    and rv: "revoke_lease_capabilities e d1 = Inr d'"
    unfolding mutate_documents.simps bindr_eq_Inr document_append_def by (auto simp: inr_simps)
  note prep = prepared_document_Inr [OF wf s]
  have type: "ev_type e = ''DocumentEdited''" using ev(2) by simp
  have hash: "map_of (ev_payload e) ''content_hash'' = Some (JStr hash)"
    using ev(5) by (simp add: map_of_update)
  from acc obtain l where l: "lt_leases (lease_table_of d) (ds_lease s) = Some l" "ls_active l"
    "now < ls_expires_at l" "current_epoch (query_projections d) = Inr (ls_epoch l)"
    by (auto simp: validate_document_lease_def validate_access_def inr_simps find_lease_Inr [OF wf])
  from edit_tables [OF wf prep(1) ev(1) ev(9) [OF t tc] _ m mu rv] type hash
  have "wf_leases d'" "lease_table_of d' = set_document
      (s\<lparr>ds_version := ds_version s + 1, ds_hash := hash, ds_prepared := None\<rparr>) (lease_table_of d)"
    by auto
  with prep l show ?thesis by blast
qed

text \<open>
  C28. Recovering a preparation takes the preparation away and leaves the version, the hash and
  everything else of the document as they were; no lease is asked for.
\<close>

theorem recover_refines_table:
  assumes wf: "wf_leases d" and t: "typed_tick t"
    and g: "recover_document_edit vr t p d = Inr (r, d')"
  shows "wf_leases d' \<and> (\<exists>s. lt_documents (lease_table_of d) (ds_document s) = Some s
      \<and> ds_prepared s = Some (dp_preparation p)
      \<and> lease_table_of d' = set_document (s\<lparr>ds_prepared := None\<rparr>) (lease_table_of d))"
proof -
  let ?c = "command ''DocumentEditRecovered'' ''document_broker'' (Some (ds_run (dp_document p)))
     (Some (dp_preparation p))"
  from g obtain q e where q: "document_payload (dp_document p) = Inr q"
    and e: "service_event vr t (?c q) = Inr e"
    and x: "mutate_documents apply_event (RecoverEdit (dp_preparation p) e) (query_projections d) d
      = Inr (DocumentRecord r, d')"
    unfolding recover_document_edit_def Let_def bindr_eq_Inr record_result_Inr
    by (auto simp: execute_document_operation_def simp del: mutate_documents.simps)
  have tc: "typed_command (?c q)"
    using document_payload_wf [OF q] by (simp add: typed_command_def)
  note ev = service_event_valid [OF e]
  from x obtain s rr d1 where s: "prepared_document (query_projections d) (dp_preparation p) = Inr s"
    and m: "event_matches s e (ds_version s) (Some (ds_hash s)) = Inr ()"
    and mu: "apply_event_mutation apply_event e (query_projections d) d = Inr (rr, d1)"
    and rv: "revoke_lease_capabilities e d1 = Inr d'"
    unfolding mutate_documents.simps bindr_eq_Inr document_append_def by (auto simp: inr_simps)
  note prep = prepared_document_Inr [OF wf s]
  have type: "ev_type e = ''DocumentEditRecovered''" using ev(2) by simp
  from edit_tables [OF wf prep(1) ev(1) ev(9) [OF t tc] _ m mu rv] type
  have "wf_leases d'" "lease_table_of d' = set_document
      (s\<lparr>ds_version := ds_version s, ds_hash := ds_hash s, ds_prepared := None\<rparr>) (lease_table_of d)"
    by auto
  with prep show ?thesis by auto
qed

text \<open>
  C29. Releasing a lease needs an active lease of the run and the worker and marks it inactive; no
  other lease and no document of the tables changes. What it does to the capabilities of the lease
  is \<open>lease_end_revokes_capabilities\<close>.
\<close>

theorem release_refines_table:
  assumes wf: "wf_leases d" and t: "typed_tick t"
    and g: "release_document_lease vr t run worker i d = Inr (r, d')"
  shows "wf_leases d' \<and> lease_table_of d' = end_lease i (lease_table_of d)
    \<and> (\<exists>l. lt_leases (lease_table_of d) i = Some l \<and> ls_active l \<and> ls_run l = run \<and> ls_worker l = worker)"
proof -
  let ?c = "command ''LeaseReleased'' ''document_broker'' (Some run) None
     [(''lease_id'', JStr i), (''reason_code'', JStr ''RELEASED'')]"
  from g obtain e where e: "service_event vr t ?c = Inr e"
    and x: "mutate_documents apply_event (TerminateLease run (Some worker) i e) (query_projections d) d
      = Inr (DocumentRecord r, d')"
    unfolding release_document_lease_def bindr_eq_Inr record_result_Inr
    by (auto simp: execute_document_operation_def simp del: mutate_documents.simps)
  note ev = service_event_valid [OF e]
  have tc: "typed_command ?c" by (simp add: typed_command_def wf_jdict_def)
  show ?thesis
    using terminate_tables [OF wf ev(1) ev(9) [OF t tc] _ _ _ _ x] ev by auto
qed

lemma recover_lease_refines_table:
  assumes wf: "wf_leases d" and t: "typed_tick t"
    and g: "recover_document_lease vr t l d = Inr (r, d')"
  shows "wf_leases d' \<and> lease_table_of d' = end_lease (ls_lease l) (lease_table_of d)"
proof -
  let ?c = "command ''LeaseRecovered'' ''document_broker'' (Some (ls_run l)) None
     [(''lease_id'', JStr (ls_lease l)), (''reason_code'', JStr ''BROKER_RECOVERY'')]"
  from g obtain e where e: "service_event vr t ?c = Inr e"
    and x: "mutate_documents apply_event (TerminateLease (ls_run l) None (ls_lease l) e) (query_projections d) d
      = Inr (DocumentRecord r, d')"
    unfolding recover_document_lease_def bindr_eq_Inr record_result_Inr
    by (auto simp: execute_document_operation_def simp del: mutate_documents.simps)
  note ev = service_event_valid [OF e]
  have tc: "typed_command ?c" by (simp add: typed_command_def wf_jdict_def)
  show ?thesis
    using terminate_tables [OF wf ev(1) ev(9) [OF t tc] _ _ _ _ x] ev by auto
qed

end
