(* ===== verification/Document_Examples.thy ===== *)
theory Document_Examples
  imports Lease_Table Sample_Project
begin

text \<open>
  The properties of the document operations on the sample project.
\<close>

lemma wf_lease_record_code [code]:
  "wf_lease_record r \<longleftrightarrow> (case document_projection r of
     Inr (t, Some run, p) \<Rightarrow> t \<in> {''LeaseGranted'', ''LeaseReleased'', ''LeaseRecovered''}
       \<and> (case lease_from_projection r of Inr l \<Rightarrow> ls_lease l = pr_entity r | _ \<Rightarrow> False)
   | _ \<Rightarrow> False)"
  unfolding wf_lease_record_def by (auto split: sum.splits option.splits)

lemma wf_document_record_code [code]:
  "wf_document_record r \<longleftrightarrow> (case document_projection r of
     Inr (t, Some run, p) \<Rightarrow> t \<in> document_state_event_types
       \<and> (case document_from_projection r of Inr s \<Rightarrow> ds_document s = pr_entity r | _ \<Rightarrow> False)
   | _ \<Rightarrow> False)"
  unfolding wf_document_record_def by (auto split: sum.splits option.splits)

lemma wf_leases_samples: "wf_leases project_db" "wf_leases leased_db" "wf_leases prepared_db"
  by code_simp+

lemma sample_typed: "typed_tick (sample_tick c)" "valid_datetime (fl_expires_at sample_lease)"
  by (simp_all add: typed_tick_def sample_tick_def sample_time_def sample_lease_def valid_datetime_def
      days_in_month_def)

theorem grant_refines_table_witness:
  "wf_leases leased_db
    \<and> lease_table_of leased_db = add_lease (granted_lease sample_lease ''A.lean'') (lease_table_of project_db)
    \<and> lt_documents (lease_table_of project_db) ''d'' = None"
proof -
  obtain r where "sample_granting = Inr (r, leased_db)"
    using sample_granting_run unfolding leads_to_Inr ..
  from grant_refines_table [OF wf_leases_samples(1) sample_typed this [unfolded sample_granting_def]]
  show ?thesis by (simp add: sample_lease_def)
qed

theorem prepare_refines_table_witness:
  "wf_leases prepared_db \<and> lt_documents (lease_table_of leased_db) ''d'' = Some (dp_document sample_preparation)
    \<and> lease_table_of prepared_db =
        set_document ((dp_document sample_preparation)\<lparr>ds_prepared := Some (''3'' @ replicate 25 (CHR ''0''))\<rparr>)
          (lease_table_of leased_db)"
  using prepare_refines_table
    [OF wf_leases_samples(2) sample_typed(1) sample_preparing_run [unfolded sample_preparing_def]]
  by (simp add: sample_tick_def)

theorem commit_refines_table_witness:
  "\<exists>s. lt_documents (lease_table_of prepared_db) (ds_document s) = Some s
     \<and> lease_table_of (db_after sample_committing) = set_document
         (s\<lparr>ds_version := ds_version s + 1, ds_hash := sample_hash (CHR ''c''), ds_prepared := None\<rparr>)
         (lease_table_of prepared_db)"
proof -
  obtain r where "sample_committing = Inr (r, db_after sample_committing)"
    using succeeds_db_after [OF sample_committing_run] ..
  then have "commit_document_edit (\<lambda>_. True) (sample_tick (CHR ''4'')) (sample_time 7) sample_preparation
      (sample_hash (CHR ''c'')) prepared_db = Inr (r, db_after sample_committing)"
    by (simp only: sample_committing_def [symmetric])
  from commit_refines_table
    [OF wf_leases_samples(3) sample_typed(1) this]
  show ?thesis by blast
qed

theorem recover_refines_table_witness:
  "\<exists>s. lt_documents (lease_table_of prepared_db) (ds_document s) = Some s
     \<and> lease_table_of (db_after sample_recovering) = set_document (s\<lparr>ds_prepared := None\<rparr>)
         (lease_table_of prepared_db)"
proof -
  obtain r where "sample_recovering = Inr (r, db_after sample_recovering)"
    using succeeds_db_after [OF sample_recovering_run] ..
  then have "recover_document_edit (\<lambda>_. True) (sample_tick (CHR ''4'')) sample_preparation prepared_db
      = Inr (r, db_after sample_recovering)" by (simp only: sample_recovering_def [symmetric])
  from recover_refines_table [OF wf_leases_samples(3) sample_typed(1) this]
  show ?thesis by blast
qed

theorem release_refines_table_witness:
  "lease_table_of (db_after sample_releasing) = end_lease ''l'' (lease_table_of leased_db)"
proof -
  obtain r where "sample_releasing = Inr (r, db_after sample_releasing)"
    using succeeds_db_after [OF sample_releasing_run] ..
  then have "release_document_lease (\<lambda>_. True) (sample_tick (CHR ''4'')) ''r'' ''w'' ''l'' leased_db
      = Inr (r, db_after sample_releasing)" by (simp only: sample_releasing_def [symmetric])
  from release_refines_table [OF wf_leases_samples(2) sample_typed(1) this]
  show ?thesis by blast
qed

end
