(* ===== verification/State_Service.thy ===== *)
theory State_Service
  imports Document_Service
begin

text \<open>
  The event and capability methods of the state service (\<open>state/service.py\<close>): each builds one
  event and hands it to the store. \<open>human\<close> is the configured callback that tells whether a
  reviewer is an authenticated human.
\<close>

definition append_event ::
  "(jdict \<Rightarrow> bool) \<Rightarrow> tick \<Rightarrow> append_command \<Rightarrow> db \<Rightarrow> (event_record \<times> db) res" where
  "append_event vr t c d =
     bindr (ensure (cmd_type c \<noteq> ''EnvironmentTransitionApproved'')
       (EventValidationError ''event_type'' ''use approve_environment_transition'')) (\<lambda>_.
     bindr (service_event vr t c) (\<lambda>e.
     store_append apply_event e d))"

definition approve_environment_transition ::
  "(jdict \<Rightarrow> bool) \<Rightarrow> (string \<Rightarrow> string \<Rightarrow> bool) \<Rightarrow> tick \<Rightarrow> string \<Rightarrow> string \<Rightarrow> string \<Rightarrow> string \<Rightarrow> string
     \<Rightarrow> string \<Rightarrow> string \<Rightarrow> db \<Rightarrow> (event_record \<times> db) res" where
  "approve_environment_transition vr human t run_id reviewer proposal_event_id transition_id
       old_fingerprint new_fingerprint reason d =
     bindr (ensure ([] \<notin> set [run_id, reviewer, proposal_event_id, transition_id, old_fingerprint,
         new_fingerprint, reason])
       (EventValidationError ''environment_transition'' ''requires complete approval data'')) (\<lambda>_.
     bindr (ensure (human run_id reviewer)
       (EventValidationError ''reviewer'' ''is not an authenticated human'')) (\<lambda>_.
     bindr (service_event vr t (command ''EnvironmentTransitionApproved'' reviewer (Some run_id)
         (Some proposal_event_id)
         [(''transition_id'', JStr transition_id), (''old_fingerprint'', JStr old_fingerprint),
          (''new_fingerprint'', JStr new_fingerprint), (''reason'', JStr reason),
          (''reviewer'', JStr reviewer)])) (\<lambda>e.
     store_append apply_event e d)))"

definition persist_capability ::
  "(jdict \<Rightarrow> bool) \<Rightarrow> tick \<Rightarrow> capability_record \<Rightarrow> db \<Rightarrow> (event_record \<times> db) res" where
  "persist_capability vr t c d =
     bindr (canonical_timestamp (cap_expires_at c)) (\<lambda>expires.
     let payload = [(''worker_id'', JStr (cap_worker c)), (''role'', JStr (cap_role c)),
           (''operations'', JArr (map JStr (cap_operations c))), (''expires_at'', JStr expires)];
         payload = (case cap_lease c of
             None \<Rightarrow> payload | Some l \<Rightarrow> AList.update ''lease_id'' (JStr l) payload)
     in bindr (service_event vr t
          (command ''CapabilityMinted'' ''capability_issuer'' (Some (cap_run c)) None payload)) (\<lambda>e.
        store_persist_capability apply_event c e d))"

definition revoke_capability :: "datetime \<Rightarrow> string \<Rightarrow> db \<Rightarrow> (bool \<times> db) res" where
  "revoke_capability now token_hash d = revoke_token token_hash now d"

subsection \<open>What the methods keep of the log\<close>

lemma journal_append_event:
  assumes j: "journal vr es d" and "order_blind vr" "typed_tick t" "typed_command c"
    and "append_event vr t c d = Inr (r, d')"
  obtains e where "journal vr (es @ [canonical_event e]) d'" "ev_type e = cmd_type c"
    "rec_sequence r = Suc (length es)" "rec_envelope r = e"
proof -
  from assms(5) obtain e where e: "service_event vr t c = Inr e"
    and s: "store_append apply_event e d = Inr (r, d')"
    by (auto simp: append_event_def inr_simps)
  note ev = service_event_valid [OF e]
  note step = journal_append [OF j assms(2) ev(1) ev(9) [OF assms(3,4)] s]
  show ?thesis by (rule that [OF step(1) ev(2) step(2,3)])
qed

lemma journal_approve:
  assumes j: "journal vr es d" and "order_blind vr" "typed_tick t"
    and "approve_environment_transition vr human t run reviewer prop tr old new reason d = Inr (r, d')"
  obtains e where "journal vr (es @ [canonical_event e]) d'" "human run reviewer" "ev_actor e = reviewer"
proof -
  from assms(4) obtain e where h: "human run reviewer"
    and e: "service_event vr t (command ''EnvironmentTransitionApproved'' reviewer (Some run) (Some prop)
         [(''transition_id'', JStr tr), (''old_fingerprint'', JStr old),
          (''new_fingerprint'', JStr new), (''reason'', JStr reason), (''reviewer'', JStr reviewer)]) = Inr e"
    and s: "store_append apply_event e d = Inr (r, d')"
    unfolding approve_environment_transition_def by (auto simp: inr_simps)
  note ev = service_event_valid [OF e]
  have "typed_event e"
    by (rule ev(9) [OF assms(3)]) (simp add: typed_command_def wf_jdict_def)
  from journal_append(1) [OF j assms(2) ev(1) this s] h ev(8) show ?thesis
    by (intro that) simp_all
qed

lemma persist_capability_Inr:
  assumes "persist_capability vr t c d = Inr (r, d')"
  obtains e p where "service_event vr t (command ''CapabilityMinted'' ''capability_issuer''
      (Some (cap_run c)) None p) = Inr e" "wf_jdict p" "is_utc (cap_expires_at c)"
    "store_persist_capability apply_event c e d = Inr (r, d')"
proof -
  define p where "p = (let payload = [(''worker_id'', JStr (cap_worker c)), (''role'', JStr (cap_role c)),
           (''operations'', JArr (map JStr (cap_operations c))),
           (''expires_at'', JStr (utc_text (cap_expires_at c)))]
     in case cap_lease c of None \<Rightarrow> payload | Some l \<Rightarrow> AList.update ''lease_id'' (JStr l) payload)"
  have "wf_jdict p"
    by (simp add: p_def Let_def wf_jdict_def list_all_iff split: option.split)
  moreover from assms obtain e where "is_utc (cap_expires_at c)"
    "service_event vr t (command ''CapabilityMinted'' ''capability_issuer'' (Some (cap_run c)) None p) = Inr e"
    "store_persist_capability apply_event c e d = Inr (r, d')"
    by (auto simp: persist_capability_def canonical_timestamp_def capability_time_text_def p_def Let_def inr_simps)
  ultimately show ?thesis using that by blast
qed

lemma journal_persist:
  assumes j: "journal vr es d" and "order_blind vr" "typed_tick t"
    and p: "persist_capability vr t c d = Inr (r, d')"
  obtains e where "journal vr (es @ [canonical_event e]) d'"
proof -
  from p obtain e p where e: "service_event vr t (command ''CapabilityMinted'' ''capability_issuer''
      (Some (cap_run c)) None p) = Inr e" "wf_jdict p"
    and s: "store_persist_capability apply_event c e d = Inr (r, d')"
    by (rule persist_capability_Inr)
  note ev = service_event_valid [OF e(1)]
  have "typed_event e" by (rule ev(9) [OF assms(3)]) (simp add: typed_command_def e(2))
  from journal_persist_capability [OF j assms(2) ev(1) this _ s] ev(2) show ?thesis
    by (intro that) simp
qed

lemma journal_revoke: "journal vr es d \<Longrightarrow> revoke_capability now h d = Inr (b, d') \<Longrightarrow> journal vr es d'"
  unfolding revoke_capability_def using journal_log_part revoke_token_log_part by blast

end
