(* ===== verification/Publication_Queue.thy ===== *)
theory Publication_Queue
  imports State_Service
begin

text \<open>
  The publication queue: its states (\<open>state/publications.py\<close>), the operations on its table
  (\<open>state/store_publication.py\<close>, \<open>store_publication_lease.py\<close>,
  \<open>store_publication_prepare.py\<close>, \<open>store_publication_methods.py\<close>) and the methods of the
  service that build their events (\<open>state/promotion_state.py\<close>). \<open>BEGIN\<close>, \<open>COMMIT\<close> and
  \<open>ROLLBACK\<close> are the results: an operation that raises leaves the database as it was.
\<close>

subsection \<open>States and entries (\<open>state/publications.py\<close>)\<close>

datatype queue_state = Queued | Staged | Verified | Materialized | Published | Quarantined

fun queue_state_text :: "queue_state \<Rightarrow> string" where
  "queue_state_text Queued = ''queued''"
| "queue_state_text Staged = ''staged''"
| "queue_state_text Verified = ''verified''"
| "queue_state_text Materialized = ''materialized''"
| "queue_state_text Published = ''published''"
| "queue_state_text Quarantined = ''quarantined''"

definition queue_states :: "queue_state list" where
  "queue_states = [Queued, Staged, Verified, Materialized, Published, Quarantined]"

definition read_queue_state :: "string \<Rightarrow> queue_state option" where
  "read_queue_state s = List.find (\<lambda>q. queue_state_text q = s) queue_states"

definition next_states :: "(queue_state \<times> queue_state list) list" where
  "next_states =
     [(Staged, [Verified, Quarantined]),
      (Verified, [Materialized, Quarantined]),
      (Materialized, [Published, Quarantined])]"

definition can_transition :: "queue_state \<Rightarrow> queue_state \<Rightarrow> bool" where
  "can_transition current target \<longleftrightarrow>
     (case map_of next_states current of None \<Rightarrow> False | Some ts \<Rightarrow> target \<in> set ts)"

record queue_entry =
  qe_contribution :: string
  qe_sequence :: nat
  qe_state :: queue_state
  qe_version :: int
  qe_claimed_by :: "string option"
  qe_claimed_at :: "datetime option"

definition check_queue_entry :: "queue_entry \<Rightarrow> unit res" where
  "check_queue_entry q =
     (let bad = ValueError ''INVALID_PUBLICATION_ENTRY''
      in require_all
        [ensure (qe_contribution q \<noteq> []) bad,
         ensure (1 \<le> qe_sequence q) bad,
         ensure (0 \<le> qe_version q) bad,
         ensure (qe_claimed_by q \<noteq> Some []) bad,
         ensure (case qe_claimed_at q of None \<Rightarrow> True | Some t \<Rightarrow> is_utc t) bad])"

definition mk_queue_entry :: "queue_entry \<Rightarrow> queue_entry res" where
  "mk_queue_entry q = bindr (check_queue_entry q) (\<lambda>_. Inr q)"

subsection \<open>Reading and writing rows (\<open>state/store_publication.py\<close>)\<close>

type_synonym event_factory =
  "string \<Rightarrow> queue_state \<Rightarrow> int \<Rightarrow> string option \<Rightarrow> string option \<Rightarrow> event_envelope res"

text \<open>Only \<open>_update\<close> writes \<open>claimed_at\<close>, as the text of a UTC time.\<close>

definition parse_claimed_at :: "string \<Rightarrow> datetime res" where
  "parse_claimed_at value =
     (case fromisoformat (removesuffix ''Z'' value @ ''+00:00'') of
       None \<Rightarrow> Inl (ValueError ''Invalid isoformat string'')
     | Some t \<Rightarrow> Inr t)"

definition entry_of_row :: "queue_row \<Rightarrow> queue_entry res" where
  "entry_of_row r =
     (case read_queue_state (qr_state r) of
       None \<Rightarrow> Inl (ProjectionAuthorityError ''publication_queue'' ''invalid state'')
     | Some state \<Rightarrow>
         bindr (case qr_claimed_at r of
             None \<Rightarrow> Inr None
           | Some s \<Rightarrow> bindr (parse_claimed_at s) (\<lambda>t. Inr (Some t))) (\<lambda>claimed.
         mk_queue_entry \<lparr>qe_contribution = qr_contribution r, qe_sequence = qr_sequence r,
           qe_state = state, qe_version = qr_version r, qe_claimed_by = qr_claimed_by r,
           qe_claimed_at = claimed\<rparr>))"

definition find_row :: "string \<Rightarrow> db \<Rightarrow> queue_row option" where
  "find_row contribution d = List.find (\<lambda>r. qr_contribution r = contribution) (db_queue d)"

definition current_entry :: "string \<Rightarrow> db \<Rightarrow> queue_entry res" where
  "current_entry contribution d =
     (case find_row contribution d of
       None \<Rightarrow> Inl (ValueError ''PROMOTION_NOT_FOUND'')
     | Some r \<Rightarrow> entry_of_row r)"

definition active_states :: "queue_state list" where
  "active_states = [Staged, Verified, Materialized]"

definition active_row :: "queue_row \<Rightarrow> bool" where
  "active_row r \<longleftrightarrow>
     qr_claimed_by r \<noteq> None \<and> qr_state r \<in> set (map queue_state_text active_states)"

definition queue_append :: "reducer \<Rightarrow> event_envelope \<Rightarrow> db \<Rightarrow> db res" where
  "queue_append reducer e d =
     bindr (apply_event_mutation reducer e (query_projections d) d) (\<lambda>(_, d1).
     revoke_lease_capabilities e d1)"

definition contribution_id_of :: "string \<Rightarrow> event_envelope \<Rightarrow> string res" where
  "contribution_id_of reason e =
     (case get_str (ev_payload e) ''contribution_id'' of
       Some s \<Rightarrow> if s \<noteq> [] then Inr s else Inl (ValueError reason)
     | None \<Rightarrow> Inl (ValueError reason))"

definition insert_queued :: "string \<Rightarrow> db \<Rightarrow> (nat \<times> db) res" where
  "insert_queued contribution d =
     bindr (ensure (contribution \<notin> qr_contribution ` set (db_queue d))
       (IntegrityError ''publication_queue.contribution_id'')) (\<lambda>_.
     let sequence = next_sequence (map qr_sequence (db_queue d))
     in Inr (sequence, d\<lparr>db_queue := db_queue d @
          [\<lparr>qr_sequence = sequence, qr_contribution = contribution,
            qr_state = queue_state_text Queued, qr_version = 0, qr_claimed_by = None,
            qr_claimed_at = None\<rparr>]\<rparr>))"

definition queue_update ::
  "queue_entry \<Rightarrow> string \<Rightarrow> datetime \<Rightarrow> queue_state \<Rightarrow> db \<Rightarrow> (queue_entry \<times> db) res" where
  "queue_update current owner at target d =
     (let version = qe_version current + 1;
          selected = (\<lambda>r. qr_contribution r = qe_contribution current \<and> qr_version r = qe_version current);
          rows = map (\<lambda>r. if selected r
             then r\<lparr>qr_state := queue_state_text target, qr_version := version,
                    qr_claimed_by := Some owner, qr_claimed_at := Some (utc_text at)\<rparr>
             else r) (db_queue d)
      in bindr (ensure (length (filter selected (db_queue d)) = 1)
           (ValueError ''PROMOTION_CLAIM_DENIED'')) (\<lambda>_.
         bindr (mk_queue_entry \<lparr>qe_contribution = qe_contribution current,
             qe_sequence = qe_sequence current, qe_state = target, qe_version = version,
             qe_claimed_by = Some owner, qe_claimed_at = Some at\<rparr>) (\<lambda>entry.
         Inr (entry, d\<lparr>db_queue := rows\<rparr>))))"

definition submission_run :: "string \<Rightarrow> db \<Rightarrow> string option res" where
  "submission_run contribution d =
     (case List.find (\<lambda>r. er_type r = ''ContributionSubmitted''
          \<and> (case er_payload r of JObj p \<Rightarrow> map_of p ''contribution_id'' = Some (JStr contribution)
             | _ \<Rightarrow> False)) (sort_key er_sequence (db_events d)) of
       None \<Rightarrow> Inl (ValueError ''PROMOTION_NOT_FOUND'')
     | Some r \<Rightarrow> Inr (er_run r))"

definition same_submission :: "event_envelope \<Rightarrow> db \<Rightarrow> bool" where
  "same_submission submitted d =
     (case List.find (\<lambda>r. er_type r = ''ContributionSubmitted''
          \<and> er_payload r = canon (JObj (ev_payload submitted))) (db_events d) of
       None \<Rightarrow> False
     | Some r \<Rightarrow> er_run r = ev_run submitted)"

subsection \<open>Operations of the store\<close>

definition enqueue :: "reducer \<Rightarrow> event_envelope \<Rightarrow> event_envelope \<Rightarrow> db \<Rightarrow> (queue_entry \<times> db) res" where
  "enqueue reducer submitted queued d =
     bindr (contribution_id_of ''INVALID_CONTRIBUTION_ENQUEUE'' submitted) (\<lambda>contribution.
     bindr (ensure (ev_type queued = ''ContributionEnqueued'')
       (ValueError ''INVALID_CONTRIBUTION_ENQUEUE'')) (\<lambda>_.
     bindr (contribution_id_of ''INVALID_CONTRIBUTION_ENQUEUE'' queued) (\<lambda>q.
     bindr (ensure (q = contribution) (ValueError ''INVALID_CONTRIBUTION_ENQUEUE'')) (\<lambda>_.
     case find_row contribution d of
       Some existing \<Rightarrow>
         bindr (ensure (same_submission submitted d)
           (ValueError ''DUPLICATE_CONTRIBUTION_MISMATCH'')) (\<lambda>_.
         bindr (entry_of_row existing) (\<lambda>entry. Inr (entry, d)))
     | None \<Rightarrow>
         bindr (queue_append reducer submitted d) (\<lambda>d1.
         bindr (insert_queued contribution d1) (\<lambda>(sequence, d2).
         bindr (queue_append reducer queued d2) (\<lambda>d3.
         bindr (mk_queue_entry \<lparr>qe_contribution = contribution, qe_sequence = sequence,
           qe_state = Queued, qe_version = 0, qe_claimed_by = None, qe_claimed_at = None\<rparr>) (\<lambda>entry.
         Inr (entry, d3)))))))))"

text \<open>The event of a change, for the entry after it.\<close>

definition append_change ::
  "reducer \<Rightarrow> event_factory \<Rightarrow> queue_entry \<Rightarrow> string option \<Rightarrow> db \<Rightarrow> db res" where
  "append_change reducer event entry former d =
     bindr (submission_run (qe_contribution entry) d) (\<lambda>run.
     bindr (event (qe_contribution entry) (qe_state entry) (qe_version entry) run former) (\<lambda>e.
     queue_append reducer e d))"

definition claim_next ::
  "reducer \<Rightarrow> string \<Rightarrow> datetime \<Rightarrow> event_factory \<Rightarrow> db \<Rightarrow> (queue_entry option \<times> db) res" where
  "claim_next reducer owner claimed_at event d =
     (if \<exists>r \<in> set (db_queue d). active_row r then Inr (None, d)
      else
        case filter (\<lambda>r. qr_state r = queue_state_text Queued)
            (sort_key (\<lambda>r. (qr_sequence r, qr_contribution r)) (db_queue d)) of
          [] \<Rightarrow> Inr (None, d)
        | row # _ \<Rightarrow>
            bindr (entry_of_row row) (\<lambda>current.
            bindr (queue_update current owner claimed_at Staged d) (\<lambda>(claimed, d1).
            bindr (append_change reducer event claimed None d1) (\<lambda>d2.
            Inr (Some claimed, d2)))))"

definition advance ::
  "reducer \<Rightarrow> string \<Rightarrow> string \<Rightarrow> queue_state \<Rightarrow> datetime \<Rightarrow> event_factory \<Rightarrow> db
     \<Rightarrow> (queue_entry \<times> db) res" where
  "advance reducer contribution owner target changed_at event d =
     bindr (ensure (target \<noteq> Published) (ValueError ''PUBLISHED_REQUIRES_PREPARATION'')) (\<lambda>_.
     bindr (current_entry contribution d) (\<lambda>current.
     bindr (ensure (qe_claimed_by current = Some owner) (ValueError ''PROMOTION_CLAIM_DENIED'')) (\<lambda>_.
     bindr (ensure (can_transition (qe_state current) target)
       (ValueError ''INVALID_PROMOTION_TRANSITION'')) (\<lambda>_.
     bindr (queue_update current owner changed_at target d) (\<lambda>(changed, d1).
     bindr (append_change reducer event changed None d1) (\<lambda>d2.
     Inr (changed, d2)))))))"

definition heartbeat ::
  "reducer \<Rightarrow> string \<Rightarrow> string \<Rightarrow> datetime \<Rightarrow> event_factory \<Rightarrow> db \<Rightarrow> (queue_entry \<times> db) res" where
  "heartbeat reducer contribution owner changed_at event d =
     bindr (current_entry contribution d) (\<lambda>current.
     bindr (ensure (qe_claimed_by current = Some owner \<and> qe_state current \<in> set active_states)
       (ValueError ''PROMOTION_CLAIM_DENIED'')) (\<lambda>_.
     bindr (queue_update current owner changed_at (qe_state current) d) (\<lambda>(refreshed, d1).
     bindr (append_change reducer event refreshed None d1) (\<lambda>d2.
     Inr (refreshed, d2)))))"

text \<open>\<open>expected\<close> takes \<open>None\<close>, here \<open>null\<close>, for a field an event does not have.\<close>

definition field_or_null :: "event_envelope \<Rightarrow> string \<Rightarrow> json" where
  "field_or_null e k = (case map_of (ev_payload e) k of None \<Rightarrow> JNull | Some v \<Rightarrow> v)"

definition preparations :: "db \<Rightarrow> json list" where
  "preparations d = map er_payload (filter (\<lambda>r. er_type r = ''PromotionPrepared'') (db_events d))"

definition require_prepared ::
  "string \<Rightarrow> event_envelope \<Rightarrow> event_envelope \<Rightarrow> db \<Rightarrow> unit res" where
  "require_prepared contribution declaration delta d =
     (let expected =
        [(''contribution_id'', JStr contribution),
         (''module'', field_or_null declaration ''module''),
         (''content_hash'', field_or_null declaration ''content_hash''),
         (''base_epoch'', field_or_null delta ''base_epoch''),
         (''knowledge_epoch'', field_or_null delta ''knowledge_epoch''),
         (''declaration_id'', field_or_null declaration ''declaration_id''),
         (''delta_id'', field_or_null delta ''delta_id'')]
      in ensure (\<exists>p \<in> set (preparations d). canon p = canon (JObj expected))
           (ValueError ''PROMOTION_NOT_PREPARED''))"

definition prepare ::
  "reducer \<Rightarrow> string \<Rightarrow> string \<Rightarrow> event_envelope \<Rightarrow> db \<Rightarrow> (queue_entry \<times> db) res" where
  "prepare reducer contribution owner prepared d =
     bindr (current_entry contribution d) (\<lambda>current.
     bindr (ensure (qe_claimed_by current = Some owner \<and> qe_state current = Materialized)
       (ValueError ''INVALID_PROMOTION_TRANSITION'')) (\<lambda>_.
     bindr (ensure (ev_type prepared = ''PromotionPrepared''
         \<and> map_of (ev_payload prepared) ''contribution_id'' = Some (JStr contribution))
       (ValueError ''INVALID_PROMOTION_PREPARATION'')) (\<lambda>_.
     case List.find (\<lambda>p. case p of JObj q \<Rightarrow> map_of q ''contribution_id'' = Some (JStr contribution)
          | _ \<Rightarrow> False) (preparations d) of
       None \<Rightarrow> bindr (queue_append reducer prepared d) (\<lambda>d1. Inr (current, d1))
     | Some existing \<Rightarrow>
         bindr (ensure (existing = canon (JObj (ev_payload prepared)))
           (ValueError ''PROMOTION_PREPARATION_MISMATCH'')) (\<lambda>_.
         Inr (current, d)))))"

definition publish ::
  "reducer \<Rightarrow> string \<Rightarrow> string \<Rightarrow> datetime \<Rightarrow> event_envelope \<Rightarrow> event_envelope \<Rightarrow> event_factory \<Rightarrow> db
     \<Rightarrow> (queue_entry \<times> db) res" where
  "publish reducer contribution owner changed_at declaration delta event d =
     bindr (current_entry contribution d) (\<lambda>current.
     bindr (ensure (qe_claimed_by current = Some owner \<and> can_transition (qe_state current) Published)
       (ValueError ''INVALID_PROMOTION_TRANSITION'')) (\<lambda>_.
     bindr (require_prepared contribution declaration delta d) (\<lambda>_.
     bindr (queue_update current owner changed_at Published d) (\<lambda>(published, d1).
     bindr (queue_append reducer declaration d1) (\<lambda>d2.
     bindr (queue_append reducer delta d2) (\<lambda>d3.
     bindr (event (qe_contribution published) (qe_state published) (qe_version published)
       (ev_run declaration) None) (\<lambda>e.
     bindr (queue_append reducer e d3) (\<lambda>d4.
     Inr (published, d4)))))))))"

definition fail_promotion ::
  "reducer \<Rightarrow> string \<Rightarrow> string \<Rightarrow> datetime \<Rightarrow> event_envelope \<Rightarrow> event_factory \<Rightarrow> db
     \<Rightarrow> (queue_entry \<times> db) res" where
  "fail_promotion reducer contribution owner changed_at failure event d =
     bindr (current_entry contribution d) (\<lambda>current.
     bindr (ensure (qe_claimed_by current = Some owner \<and> can_transition (qe_state current) Quarantined)
       (ValueError ''INVALID_PROMOTION_TRANSITION'')) (\<lambda>_.
     bindr (queue_update current owner changed_at Quarantined d) (\<lambda>(quarantined, d1).
     bindr (queue_append reducer failure d1) (\<lambda>d2.
     bindr (event (qe_contribution quarantined) (qe_state quarantined) (qe_version quarantined)
       (ev_run failure) None) (\<lambda>e.
     bindr (queue_append reducer e d2) (\<lambda>d3.
     Inr (quarantined, d3)))))))"

text \<open>\<open>claimed_at < ?\<close> compares the texts.\<close>

definition expired_rows :: "datetime \<Rightarrow> db \<Rightarrow> queue_row list" where
  "expired_rows stale_before d =
     filter (\<lambda>r. qr_claimed_by r \<noteq> None
         \<and> (case qr_claimed_at r of None \<Rightarrow> False | Some s \<Rightarrow> s < utc_text stale_before)
         \<and> qr_state r \<in> set (map queue_state_text active_states))
       (sort_key (\<lambda>r. (qr_sequence r, qr_contribution r)) (db_queue d))"

definition recover_expired ::
  "reducer \<Rightarrow> string \<Rightarrow> datetime \<Rightarrow> datetime \<Rightarrow> event_factory \<Rightarrow> db \<Rightarrow> (queue_entry option \<times> db) res" where
  "recover_expired reducer owner now stale_before event d =
     (case expired_rows stale_before d of
       [] \<Rightarrow> Inr (None, d)
     | row # _ \<Rightarrow>
         bindr (entry_of_row row) (\<lambda>current.
         bindr (queue_update current owner now (qe_state current) d) (\<lambda>(recovered, d1).
         bindr (append_change reducer event recovered (qe_claimed_by current) d1) (\<lambda>d2.
         Inr (Some recovered, d2)))))"

definition rebase ::
  "reducer \<Rightarrow> string \<Rightarrow> string \<Rightarrow> datetime \<Rightarrow> event_envelope \<Rightarrow> event_envelope \<Rightarrow> event_envelope
     \<Rightarrow> event_factory \<Rightarrow> db \<Rightarrow> ((queue_entry \<times> queue_entry) \<times> db) res" where
  "rebase reducer contribution owner changed_at submitted queued rebased event d =
     bindr (current_entry contribution d) (\<lambda>current.
     bindr (contribution_id_of ''INVALID_PROMOTION_REBASE'' submitted) (\<lambda>new_id.
     bindr (ensure (qe_claimed_by current = Some owner \<and> qe_state current \<in> set active_states
         \<and> ev_type queued = ''ContributionEnqueued'') (ValueError ''INVALID_PROMOTION_REBASE'')) (\<lambda>_.
     bindr (contribution_id_of ''INVALID_PROMOTION_REBASE'' queued) (\<lambda>queued_id.
     bindr (ensure (queued_id = new_id \<and> ev_type rebased = ''ContributionRebased''
         \<and> map_of (ev_payload rebased) ''contribution_id'' = Some (JStr new_id)
         \<and> map_of (ev_payload rebased) ''source_contribution_id'' = Some (JStr contribution))
       (ValueError ''INVALID_PROMOTION_REBASE'')) (\<lambda>_.
     bindr (ensure (find_row new_id d = None) (ValueError ''DUPLICATE_CONTRIBUTION_MISMATCH'')) (\<lambda>_.
     bindr (queue_update current owner changed_at Quarantined d) (\<lambda>(quarantined, d1).
     bindr (append_change reducer event quarantined None d1) (\<lambda>d2.
     bindr (queue_append reducer submitted d2) (\<lambda>d3.
     bindr (insert_queued new_id d3) (\<lambda>(sequence, d4).
     bindr (queue_append reducer queued d4) (\<lambda>d5.
     bindr (queue_append reducer rebased d5) (\<lambda>d6.
     bindr (mk_queue_entry \<lparr>qe_contribution = new_id, qe_sequence = sequence, qe_state = Queued,
       qe_version = 0, qe_claimed_by = None, qe_claimed_at = None\<rparr>) (\<lambda>replacement.
     Inr ((quarantined, replacement), d6))))))))))))))"

end
