(* ===== verification/Promotion_Service.thy ===== *)
theory Promotion_Service
  imports Publication_Queue
begin

text \<open>
  The promotion methods of the state service (\<open>state/promotion_state.py\<close>). The ticks are what the
  events ask of the environment, in the order the events are made; \<open>now\<close> is \<open>_promotion_now()\<close>.
\<close>

definition promotion_event :: "(jdict \<Rightarrow> bool) \<Rightarrow> tick \<Rightarrow> event_factory" where
  "promotion_event vr t contribution state version run former_owner =
     (let payload = [(''contribution_id'', JStr contribution),
            (''state'', JStr (queue_state_text state)), (''state_version'', JInt version)];
          payload = (case former_owner of
             None \<Rightarrow> payload | Some owner \<Rightarrow> AList.update ''former_owner'' (JStr owner) payload)
      in service_event vr t (command ''PromotionStateChanged'' ''promotion_service'' run None payload))"

definition event_of_type ::
  "(jdict \<Rightarrow> bool) \<Rightarrow> tick \<Rightarrow> append_command \<Rightarrow> string \<Rightarrow> string \<Rightarrow> event_envelope res" where
  "event_of_type vr t c event_type reason =
     bindr (service_event vr t c) (\<lambda>e.
     bindr (ensure (ev_type e = event_type) (EventValidationError ''event_type'' reason)) (\<lambda>_.
     Inr e))"

definition enqueued_command :: "string \<Rightarrow> event_envelope \<Rightarrow> string \<Rightarrow> append_command" where
  "enqueued_command actor submitted contribution =
     command ''ContributionEnqueued'' actor (ev_run submitted) (Some (ev_id submitted))
       [(''contribution_id'', JStr contribution), (''state'', JStr ''queued'')]"

definition enqueue_contribution ::
  "(jdict \<Rightarrow> bool) \<Rightarrow> tick \<Rightarrow> tick \<Rightarrow> append_command \<Rightarrow> db \<Rightarrow> (queue_entry \<times> db) res" where
  "enqueue_contribution vr t1 t2 submitted d =
     bindr (event_of_type vr t1 submitted ''ContributionSubmitted'' ''must submit a contribution'') (\<lambda>e.
     case get_str (ev_payload e) ''contribution_id'' of
       None \<Rightarrow> Inl (EventValidationError ''contribution_id'' ''must be a non-empty string'')
     | Some contribution \<Rightarrow>
         bindr (service_event vr t2 (enqueued_command ''contribution_service'' e contribution)) (\<lambda>queued.
         enqueue apply_event e queued d))"

definition claim_next_promotion ::
  "(jdict \<Rightarrow> bool) \<Rightarrow> datetime \<Rightarrow> tick \<Rightarrow> string \<Rightarrow> db \<Rightarrow> (queue_entry option \<times> db) res" where
  "claim_next_promotion vr now t owner d =
     claim_next apply_event owner now (promotion_event vr t) d"

definition advance_promotion ::
  "(jdict \<Rightarrow> bool) \<Rightarrow> datetime \<Rightarrow> tick \<Rightarrow> string \<Rightarrow> string \<Rightarrow> queue_state \<Rightarrow> db
     \<Rightarrow> (queue_entry \<times> db) res" where
  "advance_promotion vr now t contribution owner target d =
     advance apply_event contribution owner target now (promotion_event vr t) d"

definition heartbeat_promotion ::
  "(jdict \<Rightarrow> bool) \<Rightarrow> datetime \<Rightarrow> tick \<Rightarrow> string \<Rightarrow> string \<Rightarrow> db \<Rightarrow> (queue_entry \<times> db) res" where
  "heartbeat_promotion vr now t contribution owner d =
     heartbeat apply_event contribution owner now (promotion_event vr t) d"

text \<open>\<open>payload.get("contribution_id") != contribution_id\<close> with the message of the caller.\<close>

definition same_contribution :: "event_envelope \<Rightarrow> string \<Rightarrow> string \<Rightarrow> unit res" where
  "same_contribution e contribution reason =
     ensure (map_of (ev_payload e) ''contribution_id'' = Some (JStr contribution))
       (EventValidationError ''contribution_id'' reason)"

definition prepare_promotion ::
  "(jdict \<Rightarrow> bool) \<Rightarrow> tick \<Rightarrow> string \<Rightarrow> string \<Rightarrow> append_command \<Rightarrow> db \<Rightarrow> (queue_entry \<times> db) res" where
  "prepare_promotion vr t contribution owner prepared d =
     bindr (event_of_type vr t prepared ''PromotionPrepared'' ''must prepare a promotion'') (\<lambda>e.
     bindr (same_contribution e contribution ''must match the promotion'') (\<lambda>_.
     prepare apply_event contribution owner e d))"

definition publish_promotion ::
  "(jdict \<Rightarrow> bool) \<Rightarrow> tick \<Rightarrow> tick \<Rightarrow> datetime \<Rightarrow> tick \<Rightarrow> string \<Rightarrow> string \<Rightarrow> append_command \<Rightarrow> append_command
     \<Rightarrow> db \<Rightarrow> (queue_entry \<times> db) res" where
  "publish_promotion vr t1 t2 now t3 contribution owner declaration delta d =
     bindr (service_event vr t1 declaration) (\<lambda>e1.
     bindr (service_event vr t2 delta) (\<lambda>e2.
     bindr (ensure (ev_type e1 = ''DeclarationPublished'')
       (EventValidationError ''event_type'' ''must publish a declaration'')) (\<lambda>_.
     bindr (ensure (ev_type e2 = ''KnowledgeDeltaPublished'')
       (EventValidationError ''event_type'' ''must publish a knowledge delta'')) (\<lambda>_.
     bindr (same_contribution e1 contribution ''must match the declaration'') (\<lambda>_.
     bindr (same_contribution e2 contribution ''must match the delta'') (\<lambda>_.
     publish apply_event contribution owner now e1 e2 (promotion_event vr t3) d))))))"

definition fail_promotion_service ::
  "(jdict \<Rightarrow> bool) \<Rightarrow> tick \<Rightarrow> datetime \<Rightarrow> tick \<Rightarrow> string \<Rightarrow> string \<Rightarrow> append_command \<Rightarrow> db
     \<Rightarrow> (queue_entry \<times> db) res" where
  "fail_promotion_service vr t1 now t2 contribution owner failure d =
     bindr (event_of_type vr t1 failure ''PromotionFailed'' ''must record a promotion failure'') (\<lambda>e.
     bindr (same_contribution e contribution ''must match the promotion failure'') (\<lambda>_.
     fail_promotion apply_event contribution owner now e (promotion_event vr t2) d))"

text \<open>\<open>claim_timeout\<close> is the duration in microseconds.\<close>

definition recover_expired_promotion ::
  "(jdict \<Rightarrow> bool) \<Rightarrow> datetime \<Rightarrow> tick \<Rightarrow> string \<Rightarrow> int \<Rightarrow> db \<Rightarrow> (queue_entry option \<times> db) res" where
  "recover_expired_promotion vr now t owner claim_timeout d =
     bindr (ensure (0 < claim_timeout)
       (EventValidationError ''claim_timeout'' ''must be a positive duration'')) (\<lambda>_.
     case minus_microseconds now claim_timeout of
       None \<Rightarrow> Inl OverflowError
     | Some stale_before \<Rightarrow>
         recover_expired apply_event owner now stale_before (promotion_event vr t) d)"

definition rebase_promotion ::
  "(jdict \<Rightarrow> bool) \<Rightarrow> tick \<Rightarrow> tick \<Rightarrow> tick \<Rightarrow> datetime \<Rightarrow> tick \<Rightarrow> string \<Rightarrow> string \<Rightarrow> append_command
     \<Rightarrow> append_command \<Rightarrow> db \<Rightarrow> ((queue_entry \<times> queue_entry) \<times> db) res" where
  "rebase_promotion vr t1 t2 t3 now t4 contribution owner submitted rebased d =
     bindr (service_event vr t1 submitted) (\<lambda>e1.
     bindr (service_event vr t2 rebased) (\<lambda>e2.
     bindr (ensure (ev_type e1 = ''ContributionSubmitted'')
       (EventValidationError ''event_type'' ''must submit a rebased contribution'')) (\<lambda>_.
     case get_str (ev_payload e1) ''contribution_id'' of
       None \<Rightarrow> Inl (EventValidationError ''contribution_id'' ''must be a non-empty string'')
     | Some replacement \<Rightarrow>
         bindr (ensure (replacement \<noteq> [])
           (EventValidationError ''contribution_id'' ''must be a non-empty string'')) (\<lambda>_.
         bindr (service_event vr t3 (enqueued_command ''promotion_service'' e1 replacement)) (\<lambda>queued.
         rebase apply_event contribution owner now e1 queued e2 (promotion_event vr t4) d)))))"

end
