(* ===== verification/Exclusive_Holders.thy ===== *)
theory Exclusive_Holders
  imports Main
begin

text \<open>
  The contract of what at most one party may hold at a time in the program: the promotion that is in
  progress and the execution a worker is busy with. Both are interpretations of the locale below.
\<close>

text \<open>
  A system whose steps drop holders, or add one that conflicts with none of the others, never has
  two holders in conflict.
\<close>

locale exclusive_holders =
  fixes step :: "'s \<Rightarrow> 's \<Rightarrow> bool" and holders :: "'s \<Rightarrow> 'h set" and conflict :: "'h \<Rightarrow> 'h \<Rightarrow> bool"
    and inv :: "'s \<Rightarrow> bool"
  assumes step_inv: "inv s \<Longrightarrow> step s s' \<Longrightarrow> inv s'"
    and step_holders: "inv s \<Longrightarrow> step s s' \<Longrightarrow> holders s' \<subseteq> holders s
      \<or> (\<exists>h. holders s' \<subseteq> insert h (holders s) \<and> (\<forall>g \<in> holders s. \<not> conflict g h \<and> \<not> conflict h g))"
begin

definition exclusive :: "'s \<Rightarrow> bool" where
  "exclusive s \<longleftrightarrow> pairwise (\<lambda>g h. \<not> conflict g h) (holders s)"

lemma step_exclusive: "inv s \<Longrightarrow> exclusive s \<Longrightarrow> step s s' \<Longrightarrow> exclusive s'"
proof -
  assume "inv s" and ex: "exclusive s" and "step s s'"
  from step_holders [OF this(1,3)] show "exclusive s'"
  proof
    assume "holders s' \<subseteq> holders s"
    with ex show ?thesis unfolding exclusive_def by (rule pairwise_subset)
  next
    assume "\<exists>h. holders s' \<subseteq> insert h (holders s) \<and> (\<forall>g \<in> holders s. \<not> conflict g h \<and> \<not> conflict h g)"
    then obtain h where h: "holders s' \<subseteq> insert h (holders s)"
      "\<forall>g \<in> holders s. \<not> conflict g h \<and> \<not> conflict h g" by blast
    with ex have "pairwise (\<lambda>g h. \<not> conflict g h) (insert h (holders s))"
      by (simp add: exclusive_def pairwise_insert)
    then show ?thesis unfolding exclusive_def using h(1) by (rule pairwise_subset)
  qed
qed

lemma run_exclusive: "step\<^sup>*\<^sup>* s s' \<Longrightarrow> inv s \<Longrightarrow> exclusive s \<Longrightarrow> inv s' \<and> exclusive s'"
  by (induction rule: rtranclp_induct) (auto intro: step_inv step_exclusive)

end

end
