(* ===== verification/Queue_Spec.thy ===== *)
theory Queue_Spec
  imports Promotion_Service Capabilities Exclusive_Holders
begin

text \<open>
  What the publication queue promises: a list of entries in order of submission, of which at most
  one is being promoted, changed by a small set of steps. The rows of the table represent such a
  list, and every promotion method of the service is a sequence of steps on it.
\<close>

subsection \<open>The abstract queue\<close>

definition new_entry :: "string \<Rightarrow> nat \<Rightarrow> queue_entry" where
  "new_entry c n = \<lparr>qe_contribution = c, qe_sequence = n, qe_state = Queued, qe_version = 0,
     qe_claimed_by = None, qe_claimed_at = None\<rparr>"

definition touch :: "queue_entry \<Rightarrow> queue_state \<Rightarrow> string \<Rightarrow> datetime \<Rightarrow> queue_entry" where
  "touch e s owner t = e\<lparr>qe_state := s, qe_version := qe_version e + 1,
     qe_claimed_by := Some owner, qe_claimed_at := Some t\<rparr>"

lemma touch_select [simp]:
  "qe_contribution (touch e s owner t) = qe_contribution e" "qe_sequence (touch e s owner t) = qe_sequence e"
  "qe_state (touch e s owner t) = s" "qe_version (touch e s owner t) = qe_version e + 1"
  "qe_claimed_by (touch e s owner t) = Some owner" "qe_claimed_at (touch e s owner t) = Some t"
  by (simp_all add: touch_def)

lemma new_entry_select [simp]:
  "qe_contribution (new_entry c n) = c" "qe_sequence (new_entry c n) = n"
  "qe_state (new_entry c n) = Queued" "qe_version (new_entry c n) = 0"
  "qe_claimed_by (new_entry c n) = None" "qe_claimed_at (new_entry c n) = None"
  by (simp_all add: new_entry_def)

definition in_promotion :: "queue_entry \<Rightarrow> bool" where
  "in_promotion e \<longleftrightarrow> qe_state e \<in> set active_states"

definition claimable :: "string \<Rightarrow> datetime \<Rightarrow> bool" where
  "claimable owner t \<longleftrightarrow> owner \<noteq> [] \<and> is_utc t \<and> valid_datetime t"

inductive queue_step :: "queue_entry list \<Rightarrow> queue_entry list \<Rightarrow> bool" where
  enqueued: "c \<noteq> [] \<Longrightarrow> c \<notin> qe_contribution ` set q
     \<Longrightarrow> queue_step q (q @ [new_entry c (Suc (length q))])"
| claimed: "\<forall>e \<in> set q. \<not> in_promotion e \<Longrightarrow> i < length q \<Longrightarrow> qe_state (q ! i) = Queued
     \<Longrightarrow> \<forall>j < i. qe_state (q ! j) \<noteq> Queued \<Longrightarrow> claimable owner t
     \<Longrightarrow> queue_step q (q[i := touch (q ! i) Staged owner t])"
| moved: "i < length q \<Longrightarrow> qe_claimed_by (q ! i) = Some owner \<Longrightarrow> can_transition (qe_state (q ! i)) s
     \<Longrightarrow> claimable owner t \<Longrightarrow> queue_step q (q[i := touch (q ! i) s owner t])"
| renewed: "i < length q \<Longrightarrow> qe_claimed_by (q ! i) = Some owner \<Longrightarrow> in_promotion (q ! i)
     \<Longrightarrow> claimable owner t \<Longrightarrow> queue_step q (q[i := touch (q ! i) (qe_state (q ! i)) owner t])"
| taken_over: "i < length q \<Longrightarrow> qe_claimed_at (q ! i) = Some at \<Longrightarrow> utc_text at < utc_text stale
     \<Longrightarrow> in_promotion (q ! i) \<Longrightarrow> claimable owner t
     \<Longrightarrow> queue_step q (q[i := touch (q ! i) (qe_state (q ! i)) owner t])"

definition wf_entry :: "queue_entry \<Rightarrow> bool" where
  "wf_entry e \<longleftrightarrow> qe_contribution e \<noteq> [] \<and> 1 \<le> qe_sequence e \<and> 0 \<le> qe_version e
     \<and> (if qe_state e = Queued then qe_version e = 0 \<and> qe_claimed_by e = None \<and> qe_claimed_at e = None
        else 0 < qe_version e
          \<and> (\<exists>owner t. qe_claimed_by e = Some owner \<and> qe_claimed_at e = Some t \<and> claimable owner t))"

definition wf_queue :: "queue_entry list \<Rightarrow> bool" where
  "wf_queue q \<longleftrightarrow> map qe_sequence q = map Suc [0..<length q] \<and> distinct (map qe_contribution q)
     \<and> list_all wf_entry q"

definition active_entries :: "queue_entry list \<Rightarrow> string set" where
  "active_entries q = qe_contribution ` {e \<in> set q. in_promotion e}"

lemma can_transition_cases:
  "can_transition s t \<longleftrightarrow> s = Staged \<and> t \<in> {Verified, Quarantined}
     \<or> s = Verified \<and> t \<in> {Materialized, Quarantined} \<or> s = Materialized \<and> t \<in> {Published, Quarantined}"
  by (cases s; cases t) (simp_all add: can_transition_def next_states_def)

lemma can_transition_active: "can_transition s t \<Longrightarrow> s \<in> set active_states"
  by (auto simp: can_transition_cases active_states_def)

lemma wf_queue_Nil [simp]: "wf_queue []"
  by (simp add: wf_queue_def)

lemma wf_touch:
  assumes "wf_entry e" "claimable owner t" "s \<noteq> Queued"
  shows "wf_entry (touch e s owner t)"
  using assms by (auto simp: wf_entry_def split: if_splits)

lemma map_touch:
  assumes "f (touch (q ! i) s owner t) = f (q ! i)"
  shows "map f (q[i := touch (q ! i) s owner t]) = map f q"
  using assms by (metis list_update_id map_update)

lemma wf_queue_touch:
  assumes wf: "wf_queue q" and "i < length q" "claimable owner t" "s \<noteq> Queued"
  shows "wf_queue (q[i := touch (q ! i) s owner t])"
proof -
  have "wf_entry (touch (q ! i) s owner t)"
    using wf_touch [of "q ! i"] assms by (simp add: wf_queue_def list_all_length)
  then show ?thesis
    using wf assms(2) by (auto simp: wf_queue_def list_all_length nth_list_update map_touch)
qed

lemma wf_queue_append: "wf_queue q \<Longrightarrow> c \<noteq> [] \<Longrightarrow> c \<notin> qe_contribution ` set q
    \<Longrightarrow> wf_queue (q @ [new_entry c (Suc (length q))])"
  by (auto simp: wf_queue_def wf_entry_def)

lemma queue_step_wf: "queue_step q q' \<Longrightarrow> wf_queue q \<Longrightarrow> wf_queue q'"
proof (induction rule: queue_step.induct)
  case enqueued
  then show ?case by (intro wf_queue_append)
next
  case claimed
  then show ?case by (intro wf_queue_touch) simp_all
next
  case moved
  then show ?case by (intro wf_queue_touch) (auto simp: can_transition_cases)
next
  case renewed
  then show ?case by (intro wf_queue_touch) (auto simp: in_promotion_def active_states_def)
next
  case taken_over
  then show ?case by (intro wf_queue_touch) (auto simp: in_promotion_def active_states_def)
qed

subsection \<open>At most one entry in promotion\<close>

text \<open>In the queue, any two entries in promotion conflict.\<close>

lemma active_entries_update:
  assumes "i < length q"
  shows "active_entries (q[i := touch (q ! i) s owner t]) \<subseteq> insert (qe_contribution (q ! i)) (active_entries q)"
  using assms set_update_subset_insert [of q i "touch (q ! i) s owner t"]
  by (auto simp: active_entries_def)

lemma active_entries_kept:
  assumes "i < length q" "in_promotion (q ! i)"
  shows "active_entries (q[i := touch (q ! i) s owner t]) \<subseteq> active_entries q"
  using active_entries_update [OF assms(1)] assms by (fastforce simp: active_entries_def)

lemma queue_step_active:
  assumes "queue_step q q'"
  shows "active_entries q' \<subseteq> active_entries q \<or> (active_entries q = {} \<and> (\<exists>c. active_entries q' \<subseteq> {c}))"
  using assms
proof cases
  case enqueued
  then show ?thesis by (auto simp: active_entries_def in_promotion_def active_states_def)
next
  case (claimed i owner t)
  then have "active_entries q = {}" by (auto simp: active_entries_def)
  with claimed(1) active_entries_update [OF claimed(3)] show ?thesis by blast
next
  case (moved i owner s t)
  then show ?thesis using active_entries_kept can_transition_active in_promotion_def by metis
next
  case (renewed i owner t)
  then show ?thesis using active_entries_kept by metis
next
  case (taken_over i at stale owner t)
  then show ?thesis using active_entries_kept by metis
qed

interpretation promotions: exclusive_holders queue_step active_entries "(\<noteq>)" wf_queue
proof
  show "wf_queue q'" if "wf_queue q" "queue_step q q'" for q q'
    using queue_step_wf that by blast
  show "active_entries q' \<subseteq> active_entries q
      \<or> (\<exists>h. active_entries q' \<subseteq> insert h (active_entries q) \<and> (\<forall>g \<in> active_entries q. \<not> g \<noteq> h \<and> \<not> h \<noteq> g))"
    if "queue_step q q'" for q q'
    using queue_step_active [OF that] by blast
qed

subsection \<open>Settled entries\<close>

definition settled :: "queue_entry \<Rightarrow> bool" where
  "settled e \<longleftrightarrow> qe_state e \<in> {Published, Quarantined}"

definition entry_extends :: "queue_entry \<Rightarrow> queue_entry \<Rightarrow> bool" where
  "entry_extends e e' \<longleftrightarrow> qe_contribution e' = qe_contribution e \<and> (settled e \<longrightarrow> e' = e)
     \<and> (e' \<noteq> e \<longrightarrow> qe_version e < qe_version e')"

definition queue_extends :: "queue_entry list \<Rightarrow> queue_entry list \<Rightarrow> bool" where
  "queue_extends q q' \<longleftrightarrow> length q \<le> length q' \<and> (\<forall>i < length q. entry_extends (q ! i) (q' ! i))"

lemma entry_extends_refl [simp]: "entry_extends e e"
  by (simp add: entry_extends_def)

lemma entry_extends_trans: "entry_extends a b \<Longrightarrow> entry_extends b c \<Longrightarrow> entry_extends a c"
  by (cases "b = a"; cases "c = b") (auto simp: entry_extends_def)

lemma queue_extends_refl [simp]: "queue_extends q q"
  by (simp add: queue_extends_def)

lemma queue_extends_trans: "queue_extends p q \<Longrightarrow> queue_extends q r \<Longrightarrow> queue_extends p r"
  unfolding queue_extends_def by (auto intro: entry_extends_trans order.strict_trans2)

lemma queue_extends_update:
  assumes "i < length q" "\<not> settled (q ! i)"
  shows "queue_extends q (q[i := touch (q ! i) s owner t])"
  using assms by (simp add: queue_extends_def nth_list_update entry_extends_def)

lemma queue_step_extends: "queue_step q q' \<Longrightarrow> queue_extends q q'"
proof (induction rule: queue_step.induct)
  case (enqueued c q)
  then show ?case by (auto simp: queue_extends_def nth_append)
next
  case (moved i q owner s t)
  then show ?case by (intro queue_extends_update) (auto simp: settled_def can_transition_cases)
qed (auto intro!: queue_extends_update simp: settled_def in_promotion_def active_states_def)

lemma queue_run_extends: "queue_step\<^sup>*\<^sup>* q q' \<Longrightarrow> queue_extends q q'"
  by (induction rule: rtranclp_induct) (auto intro: queue_extends_trans queue_step_extends)

subsection \<open>The table represents a queue\<close>

definition row_of_entry :: "queue_entry \<Rightarrow> queue_row" where
  "row_of_entry e = \<lparr>qr_sequence = qe_sequence e, qr_contribution = qe_contribution e,
     qr_state = queue_state_text (qe_state e), qr_version = qe_version e,
     qr_claimed_by = qe_claimed_by e, qr_claimed_at = map_option utc_text (qe_claimed_at e)\<rparr>"

definition represents :: "queue_entry list \<Rightarrow> db \<Rightarrow> bool" where
  "represents q d \<longleftrightarrow> wf_queue q \<and> db_queue d = map row_of_entry q"

lemma row_of_entry_select [simp]:
  "qr_sequence (row_of_entry e) = qe_sequence e" "qr_contribution (row_of_entry e) = qe_contribution e"
  "qr_state (row_of_entry e) = queue_state_text (qe_state e)" "qr_version (row_of_entry e) = qe_version e"
  "qr_claimed_by (row_of_entry e) = qe_claimed_by e"
  "qr_claimed_at (row_of_entry e) = map_option utc_text (qe_claimed_at e)"
  by (simp_all add: row_of_entry_def)

lemma queue_state_text_inject [simp]: "queue_state_text s = queue_state_text t \<longleftrightarrow> s = t"
  by (cases s; cases t) simp_all

lemma read_queue_state_text [simp]: "read_queue_state (queue_state_text s) = Some s"
  by (cases s) (simp_all add: read_queue_state_def queue_states_def)

lemma parse_claimed_at_text: "is_utc t \<Longrightarrow> valid_datetime t \<Longrightarrow> parse_claimed_at (utc_text t) = Inr t"
  by (simp add: parse_claimed_at_def utc_text_eq fromisoformat_naive_text)

lemma check_queue_entry_Inr:
  "check_queue_entry q = Inr () \<longleftrightarrow> qe_contribution q \<noteq> [] \<and> 1 \<le> qe_sequence q \<and> 0 \<le> qe_version q
     \<and> qe_claimed_by q \<noteq> Some [] \<and> (\<forall>t. qe_claimed_at q = Some t \<longrightarrow> is_utc t)"
  unfolding check_queue_entry_def Let_def require_all_Inr by (auto split: option.splits)

lemma entry_of_row_of_entry:
  assumes "wf_entry e"
  shows "entry_of_row (row_of_entry e) = Inr e"
proof -
  have "check_queue_entry e = Inr ()"
    using assms by (auto simp: check_queue_entry_Inr wf_entry_def claimable_def split: if_splits)
  then show ?thesis
    using assms by (cases e)
      (auto simp: entry_of_row_def mk_queue_entry_def wf_entry_def claimable_def parse_claimed_at_text
        split: if_splits)
qed

lemma queue_append_queue: "queue_append red e d = Inr d' \<Longrightarrow> db_queue d' = db_queue d"
  using apply_event_mutation_capabilities
  by (fastforce simp: queue_append_def inr_simps revoke_lease_capabilities_def split: if_splits option.splits)

lemma append_change_queue: "append_change red ev e former d = Inr d' \<Longrightarrow> db_queue d' = db_queue d"
  by (auto simp: append_change_def inr_simps dest: queue_append_queue)

lemma represents_queue: "represents q d \<Longrightarrow> db_queue d' = db_queue d \<Longrightarrow> represents q d'"
  by (simp add: represents_def)

lemma wf_queue_nth: "wf_queue q \<Longrightarrow> i < length q \<Longrightarrow> wf_entry (q ! i)"
  by (simp add: wf_queue_def list_all_length)

lemma current_entry_Inr:
  assumes "represents q d" "current_entry c d = Inr e"
  obtains i where "i < length q" "e = q ! i" "qe_contribution e = c"
proof -
  from assms(2) obtain r where r: "find_row c d = Some r" "entry_of_row r = Inr e"
    by (auto simp: current_entry_def split: option.splits)
  then obtain i where i: "i < length (db_queue d)" "r = db_queue d ! i" "qr_contribution r = c"
    by (auto simp: find_row_def find_Some_iff)
  then have "r = row_of_entry (q ! i)" "i < length q"
    using assms(1) by (auto simp: represents_def)
  moreover from this have "e = q ! i"
    using r(2) entry_of_row_of_entry wf_queue_nth assms(1) by (auto simp: represents_def)
  ultimately show ?thesis using that i(3) by simp
qed

lemma filter_one_distinct:
  assumes "distinct (map f q)" "i < length q" "P (q ! i)" "\<And>x. P x \<Longrightarrow> f x = f (q ! i)"
  shows "map (\<lambda>x. if P x then g x else h x) q = (map h q)[i := g (q ! i)]"
proof (rule nth_equalityI)
  fix k assume "k < length (map (\<lambda>x. if P x then g x else h x) q)"
  then have k: "k < length q" by simp
  have "k = i" if "P (q ! k)"
    using assms(1,2) assms(4) [OF that] k by (simp add: distinct_conv_nth) metis
  then show "map (\<lambda>x. if P x then g x else h x) q ! k = (map h q)[i := g (q ! i)] ! k"
    using k assms(2,3) by (auto simp: nth_list_update)
qed simp

lemma touch_fields:
  "touch e s owner t = \<lparr>qe_contribution = qe_contribution e, qe_sequence = qe_sequence e, qe_state = s,
     qe_version = qe_version e + 1, qe_claimed_by = Some owner, qe_claimed_at = Some t\<rparr>"
  by (cases e) (simp add: touch_def)

lemma queue_update_Inr:
  "queue_update c owner t s d = Inr (e, d') \<longleftrightarrow>
     length (filter (\<lambda>r. qr_contribution r = qe_contribution c \<and> qr_version r = qe_version c) (db_queue d)) = 1
     \<and> e = touch c s owner t \<and> check_queue_entry e = Inr ()
     \<and> d' = d\<lparr>db_queue := map (\<lambda>r. if qr_contribution r = qe_contribution c \<and> qr_version r = qe_version c
             then r\<lparr>qr_state := queue_state_text s, qr_version := qe_version c + 1,
                    qr_claimed_by := Some owner, qr_claimed_at := Some (utc_text t)\<rparr>
             else r) (db_queue d)\<rparr>"
  unfolding queue_update_def Let_def mk_queue_entry_def touch_fields by (auto simp: inr_simps)

lemma queue_update_represents:
  assumes rep: "represents q d" and i: "i < length q" and t: "valid_datetime t" "s \<noteq> Queued"
    and u: "queue_update (q ! i) owner t s d = Inr (e, d')"
  shows "claimable owner t" "e = touch (q ! i) s owner t"
    "represents (q[i := touch (q ! i) s owner t]) d'" "log_part d' = log_part d"
proof -
  let ?sel = "\<lambda>r. qr_contribution r = qe_contribution (q ! i) \<and> qr_version r = qe_version (q ! i)"
  from u have e: "e = touch (q ! i) s owner t" and check: "check_queue_entry e = Inr ()"
    and d': "d' = d\<lparr>db_queue := map (\<lambda>r. if ?sel r
             then r\<lparr>qr_state := queue_state_text s, qr_version := qe_version (q ! i) + 1,
                    qr_claimed_by := Some owner, qr_claimed_at := Some (utc_text t)\<rparr>
             else r) (db_queue d)\<rparr>"
    unfolding queue_update_Inr by blast+
  show c: "claimable owner t" "e = touch (q ! i) s owner t" "log_part d' = log_part d"
    using check t by (simp_all add: check_queue_entry_Inr claimable_def log_part_def d' e)
  have wf: "wf_queue q" and rows: "db_queue d = map row_of_entry q"
    using rep by (auto simp: represents_def)
  have "db_queue d' = map (\<lambda>x. if qe_contribution x = qe_contribution (q ! i) \<and> qe_version x = qe_version (q ! i)
      then row_of_entry (touch x s owner t) else row_of_entry x) q"
    by (auto simp: d' rows row_of_entry_def)
  also have "\<dots> = (map row_of_entry q)[i := row_of_entry (touch (q ! i) s owner t)]"
    using wf i by (intro filter_one_distinct [where f = qe_contribution]) (auto simp: wf_queue_def)
  finally have "db_queue d' = map row_of_entry (q[i := touch (q ! i) s owner t])"
    by (simp add: map_update)
  then show "represents (q[i := touch (q ! i) s owner t]) d'"
    using wf_queue_touch [OF wf i c(1) t(2)] by (simp add: represents_def)
qed

lemma insert_queued_represents:
  assumes rep: "represents q d" and c: "c \<noteq> []" and u: "insert_queued c d = Inr (n, d')"
  shows "represents (q @ [new_entry c (Suc (length q))]) d'" "n = Suc (length q)"
    "queue_step q (q @ [new_entry c (Suc (length q))])" "log_part d' = log_part d"
proof -
  have wf: "wf_queue q" and rows: "db_queue d = map row_of_entry q"
    using rep by (auto simp: represents_def)
  have "map qr_sequence (db_queue d) = map Suc [0..<length q]"
    using wf rows by (simp add: wf_queue_def o_def)
  then have n: "next_sequence (map qr_sequence (map row_of_entry q)) = Suc (length q)"
    unfolding next_sequence_def rows by (simp only: foldr_max_upt)
  have ids: "qr_contribution ` set (map row_of_entry q) = qe_contribution ` set q"
    by (simp add: image_image)
  from u have fresh: "c \<notin> qe_contribution ` set q" and res: "n = Suc (length q)"
    "d' = d\<lparr>db_queue := db_queue d @ [row_of_entry (new_entry c (Suc (length q)))]\<rparr>"
    unfolding insert_queued_def Let_def rows ids n by (auto simp: inr_simps row_of_entry_def new_entry_def)
  show "queue_step q (q @ [new_entry c (Suc (length q))])" "n = Suc (length q)" "log_part d' = log_part d"
    using res enqueued [OF c fresh] by (auto simp: log_part_def)
  show "represents (q @ [new_entry c (Suc (length q))]) d'"
    using wf_queue_append [OF wf c fresh] rows by (simp add: represents_def res(2))
qed

lemma sort_rows:
  assumes "represents q d"
  shows "sort_key (\<lambda>r. (qr_sequence r, qr_contribution r)) (db_queue d) = map row_of_entry q"
proof -
  have "sorted_wrt (<) (map qe_sequence q)"
    using assms by (simp add: represents_def wf_queue_def sorted_wrt_map)
  then have "sorted (map (\<lambda>e. (qe_sequence e, qe_contribution e)) q)"
    by (simp add: sorted_wrt_map sorted_map) (rule sorted_wrt_mono_rel, auto)
  then show ?thesis
    using assms by (simp add: represents_def sort_key_id_if_sorted o_def)
qed

subsection \<open>Every operation is a sequence of steps\<close>

definition simulated :: "queue_entry list \<Rightarrow> db \<Rightarrow> bool" where
  "simulated q d \<longleftrightarrow> (\<exists>q'. queue_step\<^sup>*\<^sup>* q q' \<and> represents q' d)"

lemma simulated_refl: "represents q d \<Longrightarrow> simulated q d"
  by (auto simp: simulated_def)

lemma simulated_step: "queue_step q q' \<Longrightarrow> represents q' d \<Longrightarrow> simulated q d"
  by (auto simp: simulated_def)

lemma simulated_trans: "queue_step\<^sup>*\<^sup>* p q \<Longrightarrow> simulated q d \<Longrightarrow> simulated p d"
  by (auto simp: simulated_def intro: rtranclp_trans)

lemma simulated_queue: "simulated q d \<Longrightarrow> db_queue d' = db_queue d \<Longrightarrow> simulated q d'"
  by (auto simp: simulated_def intro: represents_queue)

lemma contribution_id_of_Inr:
  "contribution_id_of r e = Inr c \<longleftrightarrow> map_of (ev_payload e) ''contribution_id'' = Some (JStr c) \<and> c \<noteq> []"
  by (auto simp: contribution_id_of_def split: option.splits if_splits)

lemma enqueue_Inr:
  assumes "enqueue red submitted queued d = Inr (e, d')"
  obtains c where "contribution_id_of ''INVALID_CONTRIBUTION_ENQUEUE'' submitted = Inr c"
      "contribution_id_of ''INVALID_CONTRIBUTION_ENQUEUE'' queued = Inr c" "ev_type queued = ''ContributionEnqueued''"
      "find_row c d \<noteq> None" "same_submission submitted d" "d' = d"
  | c n d1 d2 where "contribution_id_of ''INVALID_CONTRIBUTION_ENQUEUE'' submitted = Inr c"
      "contribution_id_of ''INVALID_CONTRIBUTION_ENQUEUE'' queued = Inr c" "ev_type queued = ''ContributionEnqueued''"
      "find_row c d = None" "queue_append red submitted d = Inr d1" "insert_queued c d1 = Inr (n, d2)"
      "queue_append red queued d2 = Inr d'" "e = new_entry c n"
proof -
  from assms obtain c where c: "contribution_id_of ''INVALID_CONTRIBUTION_ENQUEUE'' submitted = Inr c"
      "contribution_id_of ''INVALID_CONTRIBUTION_ENQUEUE'' queued = Inr c" "ev_type queued = ''ContributionEnqueued''"
    by (auto simp: enqueue_def inr_simps)
  show ?thesis
  proof (cases "find_row c d")
    case None
    from assms obtain n d1 d2 where "queue_append red submitted d = Inr d1"
      "insert_queued c d1 = Inr (n, d2)" "queue_append red queued d2 = Inr d'" "e = new_entry c n"
      unfolding enqueue_def c mk_queue_entry_def new_entry_def bindr_Inr
      by (auto simp: inr_simps None split: option.splits)
    with None c that(2) show ?thesis by blast
  next
    case (Some row)
    from assms have "same_submission submitted d" "d' = d"
      unfolding enqueue_def c bindr_Inr by (auto simp: inr_simps Some split: option.splits)
    with Some c that(1) show ?thesis by blast
  qed
qed

lemma enqueue_simulated:
  assumes rep: "represents q d" and x: "enqueue red submitted queued d = Inr (e, d')"
  shows "simulated q d'"
  using x
proof (cases rule: enqueue_Inr)
  case 1
  with rep show ?thesis by (simp add: simulated_refl)
next
  case (2 c n d1 d2)
  have "represents q d1" using rep queue_append_queue [OF 2(5)] by (rule represents_queue)
  note ins = insert_queued_represents [OF this _ 2(6)]
  have "c \<noteq> []" using 2(1) by (simp add: contribution_id_of_Inr)
  from simulated_step [OF ins(3) [OF this] ins(1) [OF this]] show ?thesis
    by (rule simulated_queue) (rule queue_append_queue [OF 2(7)])
qed

lemma in_promotion_active_row: "in_promotion e \<Longrightarrow> wf_entry e \<Longrightarrow> active_row (row_of_entry e)"
  by (auto simp: in_promotion_def active_row_def wf_entry_def active_states_def)

lemma claim_next_Inr:
  assumes rep: "represents q d" and x: "claim_next red owner t ev d = Inr (r, d')"
  obtains "r = None" "d' = d"
  | i d1 e where "\<forall>e \<in> set q. \<not> in_promotion e" "i < length q" "qe_state (q ! i) = Queued"
      "\<forall>j < i. qe_state (q ! j) \<noteq> Queued" "queue_update (q ! i) owner t Staged d = Inr (e, d1)"
      "append_change red ev e None d1 = Inr d'" "r = Some e"
proof (cases "\<exists>r \<in> set (db_queue d). active_row r")
  case True
  with x that(1) show ?thesis by (simp add: claim_next_def)
next
  case False
  have wf: "list_all wf_entry q" and rows: "db_queue d = map row_of_entry q"
    using rep by (auto simp: represents_def wf_queue_def)
  have idle: "\<forall>e \<in> set q. \<not> in_promotion e"
    using False wf by (auto simp: rows list_all_iff dest: in_promotion_active_row)
  let ?sorted = "filter (\<lambda>r. qr_state r = queue_state_text Queued) (map row_of_entry q)"
  have sorted: "?sorted = map row_of_entry (filter (\<lambda>e. qe_state e = Queued) q)"
    unfolding filter_map o_def row_of_entry_select queue_state_text_inject ..
  have x': "(case ?sorted of [] \<Rightarrow> Inr (None, d)
        | row # _ \<Rightarrow> bindr (entry_of_row row) (\<lambda>current.
            bindr (queue_update current owner t Staged d) (\<lambda>(claimed, d1).
            bindr (append_change red ev claimed None d1) (\<lambda>d2. Inr (Some claimed, d2))))) = Inr (r, d')"
    using x unfolding claim_next_def sort_rows [OF rep] if_not_P [OF False] .
  show ?thesis
  proof (cases "filter (\<lambda>e. qe_state e = Queued) q")
    case Nil
    with x' that(1) show ?thesis by (simp only: sorted list.map list.case) auto
  next
    case (Cons e es)
    then obtain us vs where q: "q = us @ e # vs" "\<forall>u \<in> set us. qe_state u \<noteq> Queued" "qe_state e = Queued"
      by (auto simp: filter_eq_Cons_iff)
    have e: "entry_of_row (row_of_entry e) = Inr e"
      using wf q(1) by (intro entry_of_row_of_entry) simp
    from x' obtain c d1 where "queue_update e owner t Staged d = Inr (c, d1)"
      "append_change red ev c None d1 = Inr d'" "r = Some c"
      by (simp only: sorted Cons list.map list.case e bindr_Inr) (auto simp: inr_simps)
    then show ?thesis
      using that(2) [of "length us" c d1] idle q by (auto simp: nth_append)
  qed
qed

lemma update_simulated:
  assumes rep: "represents q d" and i: "i < length q" and t: "valid_datetime t" "s \<noteq> Queued"
    and u: "queue_update (q ! i) owner t s d = Inr (e, d1)"
    and step: "claimable owner t \<Longrightarrow> queue_step q (q[i := touch (q ! i) s owner t])"
    and rest: "db_queue d' = db_queue d1"
  shows "simulated q d'"
proof -
  note up = queue_update_represents [OF rep i t u]
  from simulated_step [OF step [OF up(1)] up(3)] show ?thesis by (rule simulated_queue) (rule rest)
qed

lemma claim_next_simulated:
  assumes rep: "represents q d" and t: "valid_datetime t" and x: "claim_next red owner t ev d = Inr (r, d')"
  shows "simulated q d'"
  using rep x
proof (cases rule: claim_next_Inr)
  case 1
  with rep show ?thesis by (simp add: simulated_refl)
next
  case (2 i d1 e)
  show ?thesis
    by (rule update_simulated [OF rep 2(2) t _ 2(5) claimed [OF 2(1-4)] append_change_queue [OF 2(6)]])
      simp_all
qed

lemma advance_simulated:
  assumes rep: "represents q d" and t: "valid_datetime t" and x: "advance red c owner s t ev d = Inr (e, d')"
  shows "simulated q d'"
proof -
  from x obtain cur d1 where cur: "current_entry c d = Inr cur" "qe_claimed_by cur = Some owner"
    "can_transition (qe_state cur) s" and u: "queue_update cur owner t s d = Inr (e, d1)"
    and a: "append_change red ev e None d1 = Inr d'"
    by (auto simp: advance_def inr_simps)
  from rep cur(1) obtain i where i: "i < length q" "cur = q ! i" by (rule current_entry_Inr)
  show ?thesis
    by (rule update_simulated [OF rep i(1) t _ u [unfolded i(2)]])
      (use cur i in \<open>auto simp: can_transition_cases intro: moved append_change_queue [OF a]\<close>)
qed

lemma heartbeat_simulated:
  assumes rep: "represents q d" and t: "valid_datetime t" and x: "heartbeat red c owner t ev d = Inr (e, d')"
  shows "simulated q d'"
proof -
  from x obtain cur d1 where cur: "current_entry c d = Inr cur" "qe_claimed_by cur = Some owner"
    "qe_state cur \<in> set active_states" and u: "queue_update cur owner t (qe_state cur) d = Inr (e, d1)"
    and a: "append_change red ev e None d1 = Inr d'"
    by (auto simp: heartbeat_def inr_simps)
  from rep cur(1) obtain i where i: "i < length q" "cur = q ! i" by (rule current_entry_Inr)
  show ?thesis
    by (rule update_simulated [OF rep i(1) t _ u [unfolded i(2)]])
      (use cur i in \<open>auto simp: in_promotion_def active_states_def intro: renewed append_change_queue [OF a]\<close>)
qed

lemma prepare_simulated:
  assumes rep: "represents q d" and x: "prepare red c owner p d = Inr (e, d')"
  shows "simulated q d'"
proof (rule simulated_queue [OF simulated_refl [OF rep]])
  show "db_queue d' = db_queue d"
    using x by (auto simp: prepare_def inr_simps dest: queue_append_queue split: option.splits)
qed

lemma settle_simulated:
  assumes rep: "represents q d" and t: "valid_datetime t"
    and cur: "current_entry c d = Inr cur" "qe_claimed_by cur = Some owner" "can_transition (qe_state cur) s"
    and u: "queue_update cur owner t s d = Inr (e, d1)" and a: "db_queue d' = db_queue d1"
  shows "simulated q d'"
proof -
  from rep cur(1) obtain i where i: "i < length q" "cur = q ! i" by (rule current_entry_Inr)
  show ?thesis
    by (rule update_simulated [OF rep i(1) t _ u [unfolded i(2)] _ a])
      (use cur i in \<open>auto simp: can_transition_cases intro: moved\<close>)
qed

lemma publish_simulated:
  assumes rep: "represents q d" and t: "valid_datetime t"
    and x: "publish red c owner t decl delta ev d = Inr (e, d')"
  shows "simulated q d'"
proof -
  from x obtain cur d1 d2 d3 f where cur: "current_entry c d = Inr cur" "qe_claimed_by cur = Some owner"
    "can_transition (qe_state cur) Published" and u: "queue_update cur owner t Published d = Inr (e, d1)"
    and a: "queue_append red decl d1 = Inr d2" "queue_append red delta d2 = Inr d3"
      "queue_append red f d3 = Inr d'"
    by (auto simp: publish_def inr_simps)
  show ?thesis
    by (rule settle_simulated [OF rep t cur u]) (simp add: a [THEN queue_append_queue])
qed

lemma fail_simulated:
  assumes rep: "represents q d" and t: "valid_datetime t"
    and x: "fail_promotion red c owner t failure ev d = Inr (e, d')"
  shows "simulated q d'"
proof -
  from x obtain cur d1 d2 f where cur: "current_entry c d = Inr cur" "qe_claimed_by cur = Some owner"
    "can_transition (qe_state cur) Quarantined" and u: "queue_update cur owner t Quarantined d = Inr (e, d1)"
    and a: "queue_append red failure d1 = Inr d2" "queue_append red f d2 = Inr d'"
    by (auto simp: fail_promotion_def inr_simps)
  show ?thesis
    by (rule settle_simulated [OF rep t cur u]) (simp add: a [THEN queue_append_queue])
qed

lemma recover_expired_Inr:
  assumes rep: "represents q d" and x: "recover_expired red owner now stale ev d = Inr (r, d')"
  obtains "r = None" "d' = d"
  | i at d1 e where "i < length q" "in_promotion (q ! i)" "qe_claimed_at (q ! i) = Some at"
      "utc_text at < utc_text stale" "queue_update (q ! i) owner now (qe_state (q ! i)) d = Inr (e, d1)"
      "append_change red ev e (qe_claimed_by (q ! i)) d1 = Inr d'" "r = Some e"
proof -
  have wf: "list_all wf_entry q" and rows: "db_queue d = map row_of_entry q"
    using rep by (auto simp: represents_def wf_queue_def)
  show ?thesis
  proof (cases "expired_rows stale d")
    case Nil
    with x that(1) show ?thesis by (simp add: recover_expired_def)
  next
    case (Cons row rest)
    then have "row \<in> set (expired_rows stale d)" by simp
    then obtain e at where e: "e \<in> set q" "row = row_of_entry e" "qe_claimed_at e = Some at"
      "utc_text at < utc_text stale" "in_promotion e"
      unfolding expired_rows_def sort_rows [OF rep]
      by (auto simp: in_promotion_def split: option.splits)
    then obtain i where i: "i < length q" "e = q ! i" by (auto simp: in_set_conv_nth)
    have "entry_of_row row = Inr e"
      unfolding e(2) using wf e(1) by (intro entry_of_row_of_entry) (simp add: list_all_iff)
    with x Cons obtain c d1 where "queue_update e owner now (qe_state e) d = Inr (c, d1)"
      "append_change red ev c (qe_claimed_by e) d1 = Inr d'" "r = Some c"
      by (auto simp: recover_expired_def inr_simps)
    with that(2) e i show ?thesis by metis
  qed
qed

lemma recover_expired_simulated:
  assumes rep: "represents q d" and t: "valid_datetime now"
    and x: "recover_expired red owner now stale ev d = Inr (r, d')"
  shows "simulated q d'"
  using rep x
proof (cases rule: recover_expired_Inr)
  case 1
  with rep show ?thesis by (simp add: simulated_refl)
next
  case (2 i at d1 e)
  show ?thesis
    by (rule update_simulated [OF rep 2(1) t _ 2(5)])
      (use 2 in \<open>auto simp: in_promotion_def active_states_def intro: taken_over append_change_queue\<close>)
qed

lemma active_can_quarantine: "s \<in> set active_states \<Longrightarrow> can_transition s Quarantined"
  by (auto simp: active_states_def can_transition_cases)

lemma rebase_simulated:
  assumes rep: "represents q d" and t: "valid_datetime t"
    and x: "rebase red c owner t submitted queued rebased ev d = Inr (r, d')"
  shows "simulated q d'"
proof -
  from x obtain cur new e n d1 d2 d3 d4 d5 where cur: "current_entry c d = Inr cur"
    "qe_claimed_by cur = Some owner" "qe_state cur \<in> set active_states"
    and new: "contribution_id_of ''INVALID_PROMOTION_REBASE'' submitted = Inr new"
    and u: "queue_update cur owner t Quarantined d = Inr (e, d1)"
    and a: "append_change red ev e None d1 = Inr d2" "queue_append red submitted d2 = Inr d3"
      "insert_queued new d3 = Inr (n, d4)" "queue_append red queued d4 = Inr d5"
      "queue_append red rebased d5 = Inr d'"
    by (auto simp: rebase_def inr_simps)
  from rep cur(1) obtain i where i: "i < length q" "cur = q ! i" by (rule current_entry_Inr)
  note up = queue_update_represents [OF rep i(1) t _ u [unfolded i(2)]]
  let ?q = "q[i := touch (q ! i) Quarantined owner t]"
  have step: "queue_step q ?q"
    using moved [OF i(1) _ _ up(1), of Quarantined] cur i active_can_quarantine by simp
  have "represents ?q d3"
    using up(3) append_change_queue [OF a(1)] queue_append_queue [OF a(2)] by (simp add: represents_def)
  note ins = insert_queued_represents [OF this _ a(3)]
  have "new \<noteq> []" using new by (simp add: contribution_id_of_Inr)
  then have "simulated ?q d4" using simulated_step [OF ins(3,1)] by blast
  then have "simulated q d4" using simulated_trans step by blast
  then show ?thesis
    by (rule simulated_queue) (simp add: a(4,5) [THEN queue_append_queue])
qed

end
