(* ===== verification/Event_Updates.thy ===== *)
theory Event_Updates
  imports Lease_Table State_Service
begin

text \<open>
  What one appended event does to the stored projections and to the log: the facts the components
  above the store share. \<open>log_extends\<close> says that an operation only adds to the log.
\<close>

subsection \<open>Operations that extend the log\<close>

definition log_extends :: "(jdict \<Rightarrow> bool) \<Rightarrow> db \<Rightarrow> db \<Rightarrow> bool" where
  "log_extends vr d d' \<longleftrightarrow> (\<forall>es. journal vr es d \<longrightarrow> (\<exists>es'. journal vr (es @ es') d'))"

definition loggable :: "(jdict \<Rightarrow> bool) \<Rightarrow> event_envelope \<Rightarrow> bool" where
  "loggable vr e \<longleftrightarrow> valid_event vr e \<and> typed_event e \<and> ev_type e \<noteq> ''ArtifactRegistered''"

lemma log_extends_refl [simp]: "log_extends vr d d"
  by (auto simp: log_extends_def intro: exI [of _ "[]"])

lemma log_extends_trans [trans]: "log_extends vr a b \<Longrightarrow> log_extends vr b c \<Longrightarrow> log_extends vr a c"
  unfolding log_extends_def by (metis append.assoc)

lemma log_extends_log_part: "log_part d' = log_part d \<Longrightarrow> log_extends vr d d'"
  unfolding log_extends_def using journal_log_part [of vr _ d d'] by (metis append.right_neutral)

lemma log_extends_mutation:
  assumes "order_blind vr" "loggable vr e"
    and "apply_event_mutation apply_event e (query_projections d) d = Inr (r, d1)"
    and "revoke_lease_capabilities e d1 = Inr d2"
  shows "log_extends vr d d2"
  using assms journal_mutation_revoke [of vr _ d e r d1 d2]
  by (auto simp: log_extends_def loggable_def)

lemma service_event_loggable:
  assumes "service_event vr t c = Inr e" "typed_tick t" "typed_command c"
    and "cmd_type c \<noteq> ''ArtifactRegistered''"
  shows "loggable vr e"
  using service_event_valid [OF assms(1)] assms(2-4) by (simp add: loggable_def)

lemma append_event_log:
  assumes "order_blind vr" "typed_tick t" "typed_command c" "append_event vr t c d = Inr (r, d')"
  shows "log_extends vr d d'"
  unfolding log_extends_def using journal_append_event [OF _ assms] by blast

lemma journal_projections: "journal vr es d \<Longrightarrow> wf_projections (db_projections d)"
  by (simp add: journal_def)

subsection \<open>Lookups after an appended event\<close>

text \<open>The events whose only change is a record of their own projection.\<close>

definition plain_type :: "string \<Rightarrow> bool" where
  "plain_type t \<longleftrightarrow> t \<notin> {''LeaseGranted'', ''LeaseReleased'', ''LeaseRecovered'', ''ArtifactRegistered'',
     ''ProjectInitialized'', ''KnowledgeDeltaPublished''}"

lemma plain_type_changes:
  assumes "plain_type (ev_type e)"
  shows "apply_event s e = Inr cs \<longleftrightarrow>
    (\<exists>p n. projection_payload_of s e = Inr p \<and> map_of event_projections (ev_type e) = Some n
       \<and> cs = [projection_change s n (entity_id_of e) (event_state e p)])"
  using assms
  by (auto simp: apply_event_Inr plain_type_def epoch_event_def document_change_def split: option.split)

lemma store_append_plain:
  assumes wf: "wf_projections (db_projections d)" and p: "plain_type (ev_type e)"
    and e: "wf_jdict (ev_payload e)" "ev_version e = event_schema_version"
    and a: "store_append apply_event e d = Inr (r, d')"
  obtains p n where "projection_payload_of (query_projections d) e = Inr p"
    "map_of event_projections (ev_type e) = Some n"
    "d' = log_step e [projection_change (query_projections d) n (entity_id_of e) (event_state e p)] d"
    "ev_id e \<notin> er_id ` set (db_events d)" "rec_envelope r = e"
proof -
  from a obtain d1 d2 where m: "apply_event_mutation apply_event e (query_projections d) d = Inr (r, d1)"
    and "register_artifact e d1 = Inr d2" "revoke_lease_capabilities e d2 = Inr d'"
    by (auto simp: store_append_Inr)
  then have "d' = d1"
    using p by (auto simp: plain_type_def register_artifact_other revoke_lease_capabilities_other)
  with m show ?thesis
    using that unfolding apply_event_mutation_Inr [OF wf e] plain_type_changes [OF p]
    by (metis event_record.select_convs(2))
qed

text \<open>An event makes one record new and leaves the others.\<close>

lemma find_log_step_single:
  assumes "wf_projections (db_projections d)"
  shows "find_projection (db_projections (log_step e [c] d)) n i
    = (if pr_name c = n \<and> pr_entity c = i then Some c else find_projection (db_projections d) n i)"
  using assms by (simp add: log_step_def find_upsert_projection wf_projections_def)

lemma next_version_query:
  "wf_projections (db_projections d) \<Longrightarrow>
   next_version (query_projections d) n i = next_version (db_projections d) n i"
  by (simp add: next_version_def find_query_projections)

text \<open>The record of projection \<open>n\<close> and entity \<open>i\<close> that an event \<open>e\<close> with payload \<open>p\<close> leaves.\<close>

definition new_record :: "db \<Rightarrow> string \<Rightarrow> string \<Rightarrow> event_envelope \<Rightarrow> jdict \<Rightarrow> projection" where
  "new_record d n i e p =
     \<lparr>pr_name = n, pr_entity = i, pr_version = next_version (db_projections d) n i,
      pr_state = JObj [(''event_id'', JStr (ev_id e)), (''event_type'', JStr (ev_type e)),
        (''payload'', JObj (canon_dict p)), (''run_id'', json_of_option (ev_run e))]\<rparr>"

lemma new_record_select [simp]:
  "pr_name (new_record d n i e p) = n" "pr_entity (new_record d n i e p) = i"
  "pr_version (new_record d n i e p) = next_version (db_projections d) n i"
  by (simp_all add: new_record_def)

lemma projection_change_new_record:
  "wf_projections (db_projections d) \<Longrightarrow>
   projection_change (query_projections d) n i (event_state e p) = new_record d n i e p"
  by (simp add: projection_change_def new_record_def canon_event_state next_version_query del: canon.simps)

lemma append_event_plain:
  assumes wf: "wf_projections (db_projections d)" and t: "typed_tick t" "typed_command c"
    and p: "plain_type (cmd_type c)" and a: "append_event vr t c d = Inr (r, d')"
  obtains e p n where "service_event vr t c = Inr e" "valid_event vr e"
    "projection_payload_of (query_projections d) e = Inr p" "wf_jdict p"
    "map_of event_projections (cmd_type c) = Some n"
    "d' = log_step e [new_record d n (entity_id_of e) e p] d"
    "wf_projections (db_projections d')"
proof -
  from a obtain e where e: "service_event vr t c = Inr e"
    and s: "store_append apply_event e d = Inr (r, d')"
    by (auto simp: append_event_def inr_simps)
  note ev = service_event_valid [OF e]
  have ty: "wf_jdict (ev_payload e)" "ev_version e = event_schema_version"
    using ev(1) ev(9) [OF t] by (auto simp: valid_event_def typed_event_def)
  from store_append_plain [OF wf _ ty s] ev(2) p obtain q n where q:
    "projection_payload_of (query_projections d) e = Inr q" "map_of event_projections (cmd_type c) = Some n"
    "d' = log_step e [projection_change (query_projections d) n (entity_id_of e) (event_state e q)] d"
    by metis
  have "wf_jdict q" by (rule projection_payload_wf [OF wf_query_projections [OF wf] ty(1) q(1)])
  moreover have "n \<in> set projection_names" using event_projections_registered [OF q(2)] by blast
  ultimately have "wf_projection (projection_change (query_projections d) n (entity_id_of e) (event_state e q))"
    by (intro wf_projection_change [OF wf_query_projections [OF wf]] wf_json_event_state)
  then have "wf_projections (db_projections d')"
    using wf q(3) by (simp add: log_step_def wf_projections_upsert)
  with q \<open>wf_jdict q\<close> show ?thesis
    using that [OF e ev(1) q(1) _ q(2)] projection_change_new_record [OF wf] by auto
qed

lemma query_projection_Inr:
  "query_projection n i d = Inr r \<longleftrightarrow> n \<in> set projection_names \<and> r = find_projection (db_projections d) n i"
  by (auto simp: query_projection_def inr_simps)

lemma map_of_canon_atom:
  assumes "wf_dict p"
  shows "map_of (canon_dict p) k = Some (JStr s) \<longleftrightarrow> map_of p k = Some (JStr s)"
    "map_of (canon_dict p) k = Some (JInt i) \<longleftrightarrow> map_of p k = Some (JInt i)"
    "map_of (canon_dict p) k = Some (JBool b) \<longleftrightarrow> map_of p k = Some (JBool b)"
    "map_of (canon_dict p) k = Some JNull \<longleftrightarrow> map_of p k = Some JNull"
    "map_of (canon_dict p) k = None \<longleftrightarrow> map_of p k = None"
  using map_of_canon_dict [OF assms, of k] by auto

subsection \<open>Changes of orchestration\<close>

lemma reduce_orchestration_Inr:
  assumes "reduce_orchestration_payload s e = Inr q"
    and "map_of orchestration_event_projections (ev_type e) = Some n"
    and "map_of orchestration_entity_fields (ev_type e) = Some f"
    and "map_of target_statuses (ev_type e) = Some target"
    and "map_of allowed_previous (ev_type e) = Some allowed"
  obtains (first) i where "map_of (ev_payload e) f = Some (JStr i)" "find_projection s n i = None"
      "None \<in> set allowed" "q = AList.update ''status'' (JStr target) (ev_payload e)"
  | (later) i r st prev where "map_of (ev_payload e) f = Some (JStr i)" "find_projection s n i = Some r"
      "pr_state r = JObj st" "map_of st ''payload'' = Some (JObj prev)"
      "get_json prev ''status'' \<in> json_of_option ` set allowed"
      "require_same_execution n (ev_type e) prev (ev_payload e) = Inr ()"
      "q = AList.update ''status'' (JStr target) (dict_merge prev (ev_payload e))"
proof -
  from assms obtain v where v: "map_of (ev_payload e) f = Some v"
    and r1: "bindr (case v of JStr s \<Rightarrow> Inr s | _ \<Rightarrow> Inl (ProjectionAuthorityError n ''entity identifier is invalid''))
      (\<lambda>entity_id. bindr (previous_payload n (find_projection s n entity_id)) (\<lambda>previous.
        bindr (ensure (hashable (case previous of None \<Rightarrow> JNull | Some p \<Rightarrow> get_json p ''status''))
          (TypeError ''unhashable type'')) (\<lambda>_.
        bindr (ensure ((case previous of None \<Rightarrow> JNull | Some p \<Rightarrow> get_json p ''status'')
             \<in> set (map json_of_option allowed))
           (ProjectionAuthorityError n
             (''transition from '' @ repr_json (case previous of None \<Rightarrow> JNull | Some p \<Rightarrow> get_json p ''status'')
                @ '' to '' @ py_repr target @ '' is not allowed''))) (\<lambda>_.
        bindr (case previous of None \<Rightarrow> Inr (ev_payload e)
          | Some p \<Rightarrow> bindr (require_same_execution n (ev_type e) p (ev_payload e)) (\<lambda>_.
              Inr (dict_merge p (ev_payload e)))) (\<lambda>payload.
        Inr (AList.update ''status'' (JStr target) payload)))))) = Inr q"
    by (auto simp: reduce_orchestration_payload_def getr_def split: option.splits)
  from r1 obtain i where i: "v = JStr i" by (cases v) auto
  from r1 obtain previous where prev: "previous_payload n (find_projection s n i) = Inr previous"
    and r2: "(case previous of None \<Rightarrow> JNull | Some p \<Rightarrow> get_json p ''status'') \<in> set (map json_of_option allowed)"
    and r3: "bindr (case previous of None \<Rightarrow> Inr (ev_payload e)
          | Some p \<Rightarrow> bindr (require_same_execution n (ev_type e) p (ev_payload e)) (\<lambda>_.
              Inr (dict_merge p (ev_payload e)))) (\<lambda>payload.
        Inr (AList.update ''status'' (JStr target) payload)) = Inr q"
    unfolding i by (auto simp: inr_simps)
  show ?thesis
  proof (cases "find_projection s n i")
    case None
    with prev have "previous = None" by (simp add: previous_payload_def)
    with r2 r3 show ?thesis
      by (intro first [OF v [unfolded i] None]) (auto simp: eq_commute [of JNull])
  next
    case (Some r)
    with prev obtain st p where st: "pr_state r = JObj st" "map_of st ''payload'' = Some (JObj p)"
      and p: "previous = Some p"
      by (auto simp: previous_payload_def split: json.splits option.splits)
    from r3 have "require_same_execution n (ev_type e) p (ev_payload e) = Inr ()"
      "q = AList.update ''status'' (JStr target) (dict_merge p (ev_payload e))"
      unfolding p by (auto simp: inr_simps)
    with r2 show ?thesis unfolding p
      by (intro later [OF v [unfolded i] Some st]) auto
  qed
qed

end
