(* ===== verification/Promotion_Runs.thy ===== *)
theory Promotion_Runs
  imports Queue_Spec Event_Updates
begin

text \<open>
  The promotion methods as one set of operations: each keeps the log a log (\<open>log_extends\<close>) and is
  a sequence of steps of the abstract queue, so that what holds of the steps holds of every run.
\<close>

subsection \<open>The events of the queue\<close>

lemma queue_append_log:
  assumes "order_blind vr" "loggable vr e" "queue_append apply_event e d = Inr d'"
  shows "log_extends vr d d'"
  using assms(3) log_extends_mutation [OF assms(1,2)] by (auto simp: queue_append_def inr_simps)

definition loggable_factory :: "(jdict \<Rightarrow> bool) \<Rightarrow> event_factory \<Rightarrow> bool" where
  "loggable_factory vr ev \<longleftrightarrow> (\<forall>c s v r f e. ev c s v r f = Inr e \<longrightarrow> loggable vr e)"

lemma promotion_event_loggable:
  assumes "typed_tick t"
  shows "loggable_factory vr (promotion_event vr t)"
  unfolding loggable_factory_def promotion_event_def Let_def
  by (intro allI impI, erule service_event_loggable)
    (use assms in \<open>auto simp: typed_command_def wf_jdict_def split: option.splits\<close>)

lemma append_change_log:
  assumes "order_blind vr" "loggable_factory vr ev" "append_change apply_event ev e f d = Inr d'"
  shows "log_extends vr d d'"
  using assms queue_append_log unfolding append_change_def loggable_factory_def bindr_eq_Inr by blast

lemma queue_update_log: "queue_update c owner t s d = Inr (e, d') \<Longrightarrow> log_extends vr d d'"
  by (rule log_extends_log_part) (auto simp: queue_update_Inr log_part_def)

lemma insert_queued_log: "insert_queued c d = Inr (n, d') \<Longrightarrow> log_extends vr d d'"
  by (rule log_extends_log_part) (auto simp: insert_queued_def inr_simps Let_def log_part_def)

lemmas queue_logs = queue_update_log insert_queued_log append_change_log queue_append_log

subsection \<open>The operations of the store\<close>

lemma enqueue_log:
  assumes "order_blind vr" "loggable vr submitted" "loggable vr queued"
    and "enqueue apply_event submitted queued d = Inr (e, d')"
  shows "log_extends vr d d'"
  using assms(4)
proof (cases rule: enqueue_Inr)
  case (2 c n d1 d2)
  show ?thesis
    by (rule log_extends_trans [OF queue_append_log [OF assms(1,2) 2(5)]
          log_extends_trans [OF insert_queued_log [OF 2(6)] queue_append_log [OF assms(1,3) 2(7)]]])
qed simp

lemma changed_log:
  assumes "order_blind vr" "loggable_factory vr ev"
    and "queue_update c owner t s d = Inr (e, d1)" "append_change apply_event ev e f d1 = Inr d'"
  shows "log_extends vr d d'"
  by (rule log_extends_trans [OF queue_update_log [OF assms(3)] append_change_log [OF assms(1,2,4)]])

lemma claim_next_log:
  assumes "order_blind vr" "loggable_factory vr ev" "claim_next apply_event owner t ev d = Inr (r, d')"
  shows "log_extends vr d d'"
  using assms(3)
  by (auto simp: claim_next_def inr_simps split: if_splits list.splits intro: changed_log [OF assms(1,2)])

lemma advance_log:
  assumes "order_blind vr" "loggable_factory vr ev" "advance apply_event c owner s t ev d = Inr (e, d')"
  shows "log_extends vr d d'"
  using assms(3) by (auto simp: advance_def inr_simps intro: changed_log [OF assms(1,2)])

lemma heartbeat_log:
  assumes "order_blind vr" "loggable_factory vr ev" "heartbeat apply_event c owner t ev d = Inr (e, d')"
  shows "log_extends vr d d'"
  using assms(3) by (auto simp: heartbeat_def inr_simps intro: changed_log [OF assms(1,2)])

lemma recover_expired_log:
  assumes "order_blind vr" "loggable_factory vr ev"
    and "recover_expired apply_event owner now stale ev d = Inr (r, d')"
  shows "log_extends vr d d'"
  using assms(3)
  by (auto simp: recover_expired_def inr_simps split: list.splits intro: changed_log [OF assms(1,2)])

lemma prepare_log:
  assumes "order_blind vr" "loggable vr p" "prepare apply_event c owner p d = Inr (e, d')"
  shows "log_extends vr d d'"
  using assms(3)
  by (auto simp: prepare_def inr_simps split: option.splits intro: queue_append_log [OF assms(1,2)])

lemma settled_log:
  assumes "order_blind vr" "loggable_factory vr ev" "ev c s v r f = Inr e" "queue_append apply_event e d = Inr d'"
  shows "log_extends vr d d'"
  using assms(2,3) by (intro queue_append_log [OF assms(1) _ assms(4)]) (auto simp: loggable_factory_def)

lemma publish_log:
  assumes blind: "order_blind vr" and ev: "loggable_factory vr ev" and ok: "loggable vr decl" "loggable vr delta"
    and x: "publish apply_event c owner t decl delta ev d = Inr (e, d')"
  shows "log_extends vr d d'"
proof -
  from x obtain cur d1 d2 d3 f where u: "queue_update cur owner t Published d = Inr (e, d1)"
    and a: "queue_append apply_event decl d1 = Inr d2" "queue_append apply_event delta d2 = Inr d3"
    and f: "ev (qe_contribution e) (qe_state e) (qe_version e) (ev_run decl) None = Inr f"
      "queue_append apply_event f d3 = Inr d'"
    by (auto simp: publish_def inr_simps)
  have "log_extends vr d d1" by (rule queue_update_log [OF u])
  also have "log_extends vr d1 d2" by (rule queue_append_log [OF blind ok(1) a(1)])
  also have "log_extends vr d2 d3" by (rule queue_append_log [OF blind ok(2) a(2)])
  also have "log_extends vr d3 d'" by (rule settled_log [OF blind ev f])
  finally show ?thesis .
qed

lemma fail_log:
  assumes blind: "order_blind vr" and ev: "loggable_factory vr ev" and ok: "loggable vr failure"
    and x: "fail_promotion apply_event c owner t failure ev d = Inr (e, d')"
  shows "log_extends vr d d'"
proof -
  from x obtain cur d1 d2 f where u: "queue_update cur owner t Quarantined d = Inr (e, d1)"
    and a: "queue_append apply_event failure d1 = Inr d2"
    and f: "ev (qe_contribution e) (qe_state e) (qe_version e) (ev_run failure) None = Inr f"
      "queue_append apply_event f d2 = Inr d'"
    by (auto simp: fail_promotion_def inr_simps)
  have "log_extends vr d d1" by (rule queue_update_log [OF u])
  also have "log_extends vr d1 d2" by (rule queue_append_log [OF blind ok a])
  also have "log_extends vr d2 d'" by (rule settled_log [OF blind ev f])
  finally show ?thesis .
qed

lemma rebase_log:
  assumes blind: "order_blind vr" and ev: "loggable_factory vr ev"
    and ok: "loggable vr submitted" "loggable vr queued" "loggable vr rebased"
    and x: "rebase apply_event c owner t submitted queued rebased ev d = Inr (r, d')"
  shows "log_extends vr d d'"
proof -
  from x obtain cur new e n d1 d2 d3 d4 d5 where
    u: "queue_update cur owner t Quarantined d = Inr (e, d1)"
    and a: "append_change apply_event ev e None d1 = Inr d2" "queue_append apply_event submitted d2 = Inr d3"
      "insert_queued new d3 = Inr (n, d4)" "queue_append apply_event queued d4 = Inr d5"
      "queue_append apply_event rebased d5 = Inr d'"
    by (auto simp: rebase_def inr_simps)
  have "log_extends vr d d2" by (rule changed_log [OF blind ev u a(1)])
  also have "log_extends vr d2 d3" by (rule queue_append_log [OF blind ok(1) a(2)])
  also have "log_extends vr d3 d4" by (rule insert_queued_log [OF a(3)])
  also have "log_extends vr d4 d5" by (rule queue_append_log [OF blind ok(2) a(4)])
  also have "log_extends vr d5 d'" by (rule queue_append_log [OF blind ok(3) a(5)])
  finally show ?thesis .
qed

subsection \<open>The methods of the service\<close>

datatype promotion_op =
    Enqueue_Contribution tick tick append_command
  | Claim_Next datetime tick string
  | Advance_Promotion datetime tick string string queue_state
  | Heartbeat_Promotion datetime tick string string
  | Prepare_Promotion tick string string append_command
  | Publish_Promotion tick tick datetime tick string string append_command append_command
  | Fail_Promotion tick datetime tick string string append_command
  | Recover_Expired datetime tick string int
  | Rebase_Promotion tick tick tick datetime tick string string append_command append_command

definition next_db :: "('a \<times> db) res \<Rightarrow> db res" where
  "next_db m = bindr m (\<lambda>(_, d). Inr d)"

lemma next_db_Inr [simp]: "next_db m = Inr d \<longleftrightarrow> (\<exists>r. m = Inr (r, d))"
  by (auto simp: next_db_def inr_simps)

fun run_promotion :: "(jdict \<Rightarrow> bool) \<Rightarrow> promotion_op \<Rightarrow> db \<Rightarrow> db res" where
  "run_promotion vr (Enqueue_Contribution t1 t2 c) d = next_db (enqueue_contribution vr t1 t2 c d)"
| "run_promotion vr (Claim_Next now t owner) d = next_db (claim_next_promotion vr now t owner d)"
| "run_promotion vr (Advance_Promotion now t i owner s) d = next_db (advance_promotion vr now t i owner s d)"
| "run_promotion vr (Heartbeat_Promotion now t i owner) d = next_db (heartbeat_promotion vr now t i owner d)"
| "run_promotion vr (Prepare_Promotion t i owner c) d = next_db (prepare_promotion vr t i owner c d)"
| "run_promotion vr (Publish_Promotion t1 t2 now t3 i owner c1 c2) d =
     next_db (publish_promotion vr t1 t2 now t3 i owner c1 c2 d)"
| "run_promotion vr (Fail_Promotion t1 now t2 i owner c) d =
     next_db (fail_promotion_service vr t1 now t2 i owner c d)"
| "run_promotion vr (Recover_Expired now t owner timeout) d =
     next_db (recover_expired_promotion vr now t owner timeout d)"
| "run_promotion vr (Rebase_Promotion t1 t2 t3 now t4 i owner c1 c2) d =
     next_db (rebase_promotion vr t1 t2 t3 now t4 i owner c1 c2 d)"

fun typed_promotion :: "promotion_op \<Rightarrow> bool" where
  "typed_promotion (Enqueue_Contribution t1 t2 c) \<longleftrightarrow> typed_tick t1 \<and> typed_tick t2 \<and> typed_command c"
| "typed_promotion (Claim_Next now t _) \<longleftrightarrow> valid_datetime now \<and> typed_tick t"
| "typed_promotion (Advance_Promotion now t _ _ _) \<longleftrightarrow> valid_datetime now \<and> typed_tick t"
| "typed_promotion (Heartbeat_Promotion now t _ _) \<longleftrightarrow> valid_datetime now \<and> typed_tick t"
| "typed_promotion (Prepare_Promotion t _ _ c) \<longleftrightarrow> typed_tick t \<and> typed_command c"
| "typed_promotion (Publish_Promotion t1 t2 now t3 _ _ c1 c2) \<longleftrightarrow> valid_datetime now
     \<and> typed_tick t1 \<and> typed_tick t2 \<and> typed_tick t3 \<and> typed_command c1 \<and> typed_command c2"
| "typed_promotion (Fail_Promotion t1 now t2 _ _ c) \<longleftrightarrow> valid_datetime now
     \<and> typed_tick t1 \<and> typed_tick t2 \<and> typed_command c"
| "typed_promotion (Recover_Expired now t _ _) \<longleftrightarrow> valid_datetime now \<and> typed_tick t"
| "typed_promotion (Rebase_Promotion t1 t2 t3 now t4 _ _ c1 c2) \<longleftrightarrow> valid_datetime now
     \<and> typed_tick t1 \<and> typed_tick t2 \<and> typed_tick t3 \<and> typed_tick t4 \<and> typed_command c1 \<and> typed_command c2"

lemma event_of_type_Inr:
  "event_of_type vr t c ty r = Inr e \<longleftrightarrow> service_event vr t c = Inr e \<and> ev_type e = ty"
  by (auto simp: event_of_type_def inr_simps)

lemma typed_enqueued_command: "typed_command (enqueued_command a e c)"
  by (simp add: enqueued_command_def typed_command_def wf_jdict_def)

lemma enqueue_contribution_Inr:
  assumes "enqueue_contribution vr t1 t2 c d = Inr (r, d')"
  obtains e q i where "service_event vr t1 c = Inr e" "ev_type e = ''ContributionSubmitted''"
    "service_event vr t2 (enqueued_command ''contribution_service'' e i) = Inr q"
    "enqueue apply_event e q d = Inr (r, d')"
  using assms by (auto simp: enqueue_contribution_def inr_simps event_of_type_Inr split: option.splits)

lemma rebase_promotion_Inr:
  assumes "rebase_promotion vr t1 t2 t3 now t4 i owner c1 c2 d = Inr (r, d')"
  obtains e1 e2 q n where "service_event vr t1 c1 = Inr e1" "service_event vr t2 c2 = Inr e2"
    "ev_type e1 = ''ContributionSubmitted''"
    "service_event vr t3 (enqueued_command ''promotion_service'' e1 n) = Inr q"
    "rebase apply_event i owner now e1 q e2 (promotion_event vr t4) d = Inr (r, d')"
  using assms unfolding rebase_promotion_def
  by (auto simp: inr_simps split: option.splits list.splits)

lemma run_promotion_simulated:
  assumes "typed_promotion a" "represents q d" "run_promotion vr a d = Inr d'"
  shows "simulated q d'"
proof (cases a)
  case Enqueue_Contribution
  with assms show ?thesis by (auto elim!: enqueue_contribution_Inr intro: enqueue_simulated)
next
  case Claim_Next
  with assms show ?thesis by (auto simp: claim_next_promotion_def intro: claim_next_simulated)
next
  case Advance_Promotion
  with assms show ?thesis by (auto simp: advance_promotion_def intro: advance_simulated)
next
  case Heartbeat_Promotion
  with assms show ?thesis by (auto simp: heartbeat_promotion_def intro: heartbeat_simulated)
next
  case Prepare_Promotion
  with assms show ?thesis by (auto simp: prepare_promotion_def inr_simps intro: prepare_simulated)
next
  case Publish_Promotion
  with assms show ?thesis by (auto simp: publish_promotion_def inr_simps intro: publish_simulated)
next
  case Fail_Promotion
  with assms show ?thesis by (auto simp: fail_promotion_service_def inr_simps intro: fail_simulated)
next
  case Recover_Expired
  with assms show ?thesis
    by (auto simp: recover_expired_promotion_def inr_simps split: option.splits intro: recover_expired_simulated)
next
  case Rebase_Promotion
  with assms show ?thesis by (auto elim!: rebase_promotion_Inr intro: rebase_simulated)
qed

lemma service_event_type: "service_event vr t c = Inr e \<Longrightarrow> ev_type e = cmd_type c"
  by (simp add: service_event_Inr)

lemma rebase_type:
  "rebase red c owner t submitted queued rebased ev d = Inr x \<Longrightarrow> ev_type rebased = ''ContributionRebased''"
  by (auto simp: rebase_def inr_simps)

lemma enqueued_command_type [simp]: "cmd_type (enqueued_command a e c) = ''ContributionEnqueued''"
  by (simp add: enqueued_command_def)

lemma run_promotion_log:
  assumes blind: "order_blind vr" and t: "typed_promotion a" and x: "run_promotion vr a d = Inr d'"
  shows "log_extends vr d d'"
proof (cases a)
  case (Enqueue_Contribution t1 t2 c)
  with x obtain r where "enqueue_contribution vr t1 t2 c d = Inr (r, d')" by auto
  then show ?thesis
  proof (rule enqueue_contribution_Inr)
    fix e q i
    assume e: "service_event vr t1 c = Inr e" "ev_type e = ''ContributionSubmitted''"
      "service_event vr t2 (enqueued_command ''contribution_service'' e i) = Inr q"
      and "enqueue apply_event e q d = Inr (r, d')"
    moreover have "loggable vr e" "loggable vr q"
      using t Enqueue_Contribution service_event_type [OF e(1)] e
      by (auto intro!: service_event_loggable [OF e(1)] service_event_loggable [OF e(3)]
          typed_enqueued_command)
    ultimately show ?thesis by (intro enqueue_log [OF blind])
  qed
next
  case (Claim_Next now t owner)
  with assms show ?thesis
    by (auto simp: claim_next_promotion_def intro: claim_next_log promotion_event_loggable)
next
  case Advance_Promotion
  with assms show ?thesis
    by (auto simp: advance_promotion_def intro: advance_log promotion_event_loggable)
next
  case Heartbeat_Promotion
  with assms show ?thesis
    by (auto simp: heartbeat_promotion_def intro: heartbeat_log promotion_event_loggable)
next
  case (Prepare_Promotion t1 i owner c)
  with x obtain e r where e: "service_event vr t1 c = Inr e" "ev_type e = ''PromotionPrepared''"
    and y: "prepare apply_event i owner e d = Inr (r, d')"
    by (auto simp: prepare_promotion_def inr_simps event_of_type_Inr)
  have "loggable vr e"
    using t Prepare_Promotion service_event_type [OF e(1)] e
    by (auto intro!: service_event_loggable [OF e(1)])
  then show ?thesis by (rule prepare_log [OF blind _ y])
next
  case (Publish_Promotion t1 t2 now t3 i owner c1 c2)
  with x obtain e1 e2 r where e: "service_event vr t1 c1 = Inr e1" "service_event vr t2 c2 = Inr e2"
    "ev_type e1 = ''DeclarationPublished''" "ev_type e2 = ''KnowledgeDeltaPublished''"
    and y: "publish apply_event i owner now e1 e2 (promotion_event vr t3) d = Inr (r, d')"
    by (auto simp: publish_promotion_def inr_simps)
  have "loggable vr e1" "loggable vr e2"
    using t Publish_Promotion service_event_type [OF e(1)] service_event_type [OF e(2)] e
    by (auto intro!: service_event_loggable [OF e(1)] service_event_loggable [OF e(2)])
  then show ?thesis
    using t Publish_Promotion by (intro publish_log [OF blind _ _ _ y] promotion_event_loggable) auto
next
  case (Fail_Promotion t1 now t2 i owner c)
  with x obtain e r where e: "service_event vr t1 c = Inr e" "ev_type e = ''PromotionFailed''"
    and y: "fail_promotion apply_event i owner now e (promotion_event vr t2) d = Inr (r, d')"
    by (auto simp: fail_promotion_service_def inr_simps event_of_type_Inr)
  have "loggable vr e"
    using t Fail_Promotion service_event_type [OF e(1)] e by (auto intro!: service_event_loggable [OF e(1)])
  then show ?thesis
    using t Fail_Promotion by (intro fail_log [OF blind _ _ y] promotion_event_loggable) auto
next
  case Recover_Expired
  with assms show ?thesis
    by (auto simp: recover_expired_promotion_def inr_simps split: option.splits
        intro: recover_expired_log promotion_event_loggable)
next
  case (Rebase_Promotion t1 t2 t3 now t4 i owner c1 c2)
  with x obtain r where "rebase_promotion vr t1 t2 t3 now t4 i owner c1 c2 d = Inr (r, d')" by auto
  then show ?thesis
  proof (rule rebase_promotion_Inr)
    fix e1 e2 q n
    assume e: "service_event vr t1 c1 = Inr e1" "service_event vr t2 c2 = Inr e2"
      "ev_type e1 = ''ContributionSubmitted''"
      "service_event vr t3 (enqueued_command ''promotion_service'' e1 n) = Inr q"
      and y: "rebase apply_event i owner now e1 q e2 (promotion_event vr t4) d = Inr (r, d')"
    have "loggable vr e1" "loggable vr e2" "loggable vr q"
      using t Rebase_Promotion service_event_type [OF e(1)] service_event_type [OF e(2)] e rebase_type [OF y]
      by (auto intro!: service_event_loggable [OF e(1)] service_event_loggable [OF e(2)]
          service_event_loggable [OF e(4)] typed_enqueued_command)
    then show ?thesis
      using t Rebase_Promotion by (intro rebase_log [OF blind _ _ _ _ y] promotion_event_loggable) auto
  qed
qed

subsection \<open>Rows of the log\<close>

lemma queue_append_events:
  assumes "queue_append red e d = Inr d'"
  shows "db_events d' = db_events d @ [event_row_of (next_sequence (map er_sequence (db_events d))) e]"
proof -
  from assms obtain r d1 where m: "apply_event_mutation red e (query_projections d) d = Inr (r, d1)"
    and l: "revoke_lease_capabilities e d1 = Inr d'"
    by (auto simp: queue_append_def inr_simps)
  have "db_events d2 = db_events d1" if "foldr_res store_change cs d1 = Inr d2" for cs d1 d2
    using that by (induction cs arbitrary: d1) (auto simp: inr_simps store_change_def)
  with m have "db_events d1 = db_events d @ [event_row_of (next_sequence (map er_sequence (db_events d))) e]"
    by (fastforce simp: apply_event_mutation_def inr_simps insert_event_def Let_def)
  with l show ?thesis
    by (auto simp: revoke_lease_capabilities_def inr_simps split: if_splits option.splits)
qed

lemma event_row_type [simp]: "er_type (event_row_of n e) = ev_type e"
  by (simp add: event_row_of_def)

end
