(* ===== verification/Sample_Promotion.thy ===== *)
theory Sample_Promotion
  imports Promotion_Runs Sample_Project
begin

text \<open>
  A contribution of the sample project on its way through the queue, up to the state where it can
  be published.
\<close>

definition sample_submission :: append_command where
  "sample_submission =
     command ''ContributionSubmitted'' ''w'' (Some ''r'') None [(''contribution_id'', JStr ''c'')]"

definition sample_declaration :: append_command where
  "sample_declaration = command ''DeclarationPublished'' ''promotion_service'' (Some ''r'') None
     [(''declaration_id'', JStr ''n''), (''content_hash'', JStr (sample_hash (CHR ''d''))),
      (''contribution_id'', JStr ''c''), (''module'', JStr ''M'')]"

definition sample_delta :: append_command where
  "sample_delta = command ''KnowledgeDeltaPublished'' ''promotion_service'' (Some ''r'') None
     [(''delta_id'', JStr ''k''), (''base_epoch'', JStr (sample_hash (CHR ''e''))),
      (''knowledge_epoch'', JInt 1), (''contribution_id'', JStr ''c'')]"

definition sample_prepared :: jdict where
  "sample_prepared =
     [(''base_epoch'', JStr (sample_hash (CHR ''e''))), (''content_hash'', JStr (sample_hash (CHR ''d''))),
      (''contribution_id'', JStr ''c''), (''declaration_id'', JStr ''n''), (''delta_id'', JStr ''k''),
      (''knowledge_epoch'', JInt 1), (''module'', JStr ''M'')]"

definition sample_queue_row :: "queue_state \<Rightarrow> int \<Rightarrow> string option \<Rightarrow> string option \<Rightarrow> queue_row" where
  "sample_queue_row s v owner at = \<lparr>qr_sequence = 1, qr_contribution = ''c'',
     qr_state = queue_state_text s, qr_version = v, qr_claimed_by = owner, qr_claimed_at = at\<rparr>"

definition sample_change :: "queue_state \<Rightarrow> int \<Rightarrow> jdict" where
  "sample_change s v = [(''contribution_id'', JStr ''c''), (''state'', JStr (queue_state_text s)),
     (''state_version'', JInt v)]"

text \<open>The database after one more event about the contribution.\<close>

definition sample_next :: "db \<Rightarrow> nat \<Rightarrow> char \<Rightarrow> string \<Rightarrow> jdict \<Rightarrow> queue_row \<Rightarrow> db" where
  "sample_next d n c t p q = d
     \<lparr>db_events := db_events d @ [sample_row n c t ''promotion_service'' (Some ''r'') None p],
      db_projections := take 2 (db_projections d)
        @ [sample_record ''contributions'' ''c'' (int n - 1) c t (Some ''r'') p],
      db_queue := [q]\<rparr>"

definition queued_db :: db where
  "queued_db = project_db
     \<lparr>db_events := db_events project_db
       @ [sample_row 2 (CHR ''2'') ''ContributionSubmitted'' ''w'' (Some ''r'') None
            [(''contribution_id'', JStr ''c'')],
          sample_row 3 (CHR ''3'') ''ContributionEnqueued'' ''contribution_service'' (Some ''r'')
            (Some (fst (sample_tick (CHR ''2''))))
            [(''contribution_id'', JStr ''c''), (''state'', JStr ''queued'')]],
      db_projections := db_projections project_db
       @ [sample_record ''contributions'' ''c'' 2 (CHR ''3'') ''ContributionEnqueued'' (Some ''r'')
            [(''contribution_id'', JStr ''c''), (''state'', JStr ''queued'')]],
      db_queue := [sample_queue_row Queued 0 None None]\<rparr>"

definition sample_claim :: promotion_op where
  "sample_claim = Claim_Next (sample_time 5) (sample_tick (CHR ''4'')) ''o''"

definition sample_verify :: promotion_op where
  "sample_verify = Advance_Promotion (sample_time 6) (sample_tick (CHR ''5'')) ''c'' ''o'' Verified"

definition sample_materialize :: promotion_op where
  "sample_materialize =
     Advance_Promotion (sample_time 7) (sample_tick (CHR ''6'')) ''c'' ''o'' Materialized"

definition sample_prepare :: promotion_op where
  "sample_prepare = Prepare_Promotion (sample_tick (CHR ''7'')) ''c'' ''o''
     (command ''PromotionPrepared'' ''promotion_service'' (Some ''r'') None sample_prepared)"

definition claimed_db :: db where
  "claimed_db = sample_next queued_db 4 (CHR ''4'') ''PromotionStateChanged'' (sample_change Staged 1)
     (sample_queue_row Staged 1 (Some ''o'') (Some ''2025-01-02T03:05:00Z''))"

definition verified_db :: db where
  "verified_db = sample_next claimed_db 5 (CHR ''5'') ''PromotionStateChanged'' (sample_change Verified 2)
     (sample_queue_row Verified 2 (Some ''o'') (Some ''2025-01-02T03:06:00Z''))"

definition materialized_db :: db where
  "materialized_db =
     sample_next verified_db 6 (CHR ''6'') ''PromotionStateChanged'' (sample_change Materialized 3)
       (sample_queue_row Materialized 3 (Some ''o'') (Some ''2025-01-02T03:07:00Z''))"

definition promoted_db :: db where
  "promoted_db = sample_next materialized_db 7 (CHR ''7'') ''PromotionPrepared'' sample_prepared
     (sample_queue_row Materialized 3 (Some ''o'') (Some ''2025-01-02T03:07:00Z''))"

definition sample_enqueue :: promotion_op where
  "sample_enqueue =
     Enqueue_Contribution (sample_tick (CHR ''2'')) (sample_tick (CHR ''3'')) sample_submission"

definition sample_publishing :: "(queue_entry \<times> db) res" where
  "sample_publishing = publish_promotion (\<lambda>_. True) (sample_tick (CHR ''8'')) (sample_tick (CHR ''9''))
     (sample_time 8) (sample_tick (CHR ''A'')) ''c'' ''o'' sample_declaration sample_delta promoted_db"

lemma sample_enqueue_run: "run_promotion (\<lambda>_. True) sample_enqueue project_db = Inr queued_db"
  by code_simp

lemma sample_promotion_runs:
  "run_promotion (\<lambda>_. True) sample_claim queued_db = Inr claimed_db"
  "run_promotion (\<lambda>_. True) sample_verify claimed_db = Inr verified_db"
  "run_promotion (\<lambda>_. True) sample_materialize verified_db = Inr materialized_db"
  "run_promotion (\<lambda>_. True) sample_prepare materialized_db = Inr promoted_db"
  by code_simp+

lemma sample_publishing_succeeds: "succeeds sample_publishing"
  by code_simp

end
