(* ===== verification/Store_Runs.thy ===== *)
theory Store_Runs
  imports Promotion_Runs
begin

text \<open>
  Runs of all the operations that write to the store, and two things that hold along them. The table
  of capabilities only gets new rows and revocations (\<open>revoked_more\<close>), so the row of a revoked token
  stays the revoked one. And every contribution in the queue was submitted in the log.
\<close>

subsection \<open>What the methods of the queue are made of\<close>

text \<open>
  A relation between databases that holds across a change of a row and across an appended event holds
  across every method that does not add to the queue.
\<close>

locale queue_relation =
  fixes R :: "db \<Rightarrow> db \<Rightarrow> bool"
  assumes refl: "R d d"
    and trans: "R d d1 \<Longrightarrow> R d1 d2 \<Longrightarrow> R d d2"
    and update: "queue_update c owner t s d = Inr (e, d') \<Longrightarrow> R d d'"
    and append: "queue_append red ev d = Inr d' \<Longrightarrow> R d d'"
begin

lemma change: "append_change red ev e f d = Inr d' \<Longrightarrow> R d d'"
  unfolding append_change_def bindr_eq_Inr using append by blast

lemma changed: "queue_update c owner t s d = Inr (e, d1) \<Longrightarrow> append_change red ev e f d1 = Inr d' \<Longrightarrow> R d d'"
  using update change trans by blast

lemma claim: "claim_next red owner t ev d = Inr (r, d') \<Longrightarrow> R d d'"
  by (auto simp: claim_next_def inr_simps split: if_splits list.splits intro: changed refl)

lemma advances: "advance red c owner s t ev d = Inr (e, d') \<Longrightarrow> R d d'"
  by (auto simp: advance_def inr_simps intro: changed)

lemma beats: "heartbeat red c owner t ev d = Inr (e, d') \<Longrightarrow> R d d'"
  by (auto simp: heartbeat_def inr_simps intro: changed)

lemma recovers: "recover_expired red owner now stale ev d = Inr (r, d') \<Longrightarrow> R d d'"
  by (auto simp: recover_expired_def inr_simps split: list.splits intro: changed refl)

lemma prepares: "prepare red c owner p d = Inr (e, d') \<Longrightarrow> R d d'"
  by (auto simp: prepare_def inr_simps split: option.splits intro: append refl)

lemma publishes:
  assumes "publish red c owner t decl delta ev d = Inr (e, d')"
  shows "R d d'"
proof -
  from assms obtain cur d1 d2 d3 f where u: "queue_update cur owner t Published d = Inr (e, d1)"
    and a: "queue_append red decl d1 = Inr d2" "queue_append red delta d2 = Inr d3" "queue_append red f d3 = Inr d'"
    by (auto simp: publish_def inr_simps)
  show ?thesis by (rule trans [OF update [OF u] trans [OF append [OF a(1)] trans [OF append [OF a(2)] append [OF a(3)]]]])
qed

lemma fails:
  assumes "fail_promotion red c owner t failure ev d = Inr (e, d')"
  shows "R d d'"
proof -
  from assms obtain cur d1 d2 f where u: "queue_update cur owner t Quarantined d = Inr (e, d1)"
    and a: "queue_append red failure d1 = Inr d2" "queue_append red f d2 = Inr d'"
    by (auto simp: fail_promotion_def inr_simps)
  show ?thesis by (rule trans [OF update [OF u] trans [OF append [OF a(1)] append [OF a(2)]]])
qed

text \<open>The two methods that add a contribution append its submission first.\<close>

lemma enqueues:
  assumes "enqueue red submitted queued d = Inr (e, d')"
    and "\<And>c n d1 d2. contribution_id_of ''INVALID_CONTRIBUTION_ENQUEUE'' submitted = Inr c
      \<Longrightarrow> queue_append red submitted d = Inr d1 \<Longrightarrow> insert_queued c d1 = Inr (n, d2) \<Longrightarrow> R d1 d2"
  shows "R d d'"
  using assms(1)
proof (cases rule: enqueue_Inr)
  case (1 c)
  then show ?thesis by (simp add: refl)
next
  case (2 c n d1 d2)
  show ?thesis by (rule trans [OF append [OF 2(5)] trans [OF assms(2) [OF 2(1,5,6)] append [OF 2(7)]]])
qed

lemma rebases:
  assumes "rebase red c owner t submitted queued rebased ev d = Inr (r, d')"
    and "\<And>new n d2 d3 d4. contribution_id_of ''INVALID_PROMOTION_REBASE'' submitted = Inr new
      \<Longrightarrow> queue_append red submitted d2 = Inr d3 \<Longrightarrow> insert_queued new d3 = Inr (n, d4) \<Longrightarrow> R d3 d4"
  shows "R d d'"
proof -
  from assms(1) obtain cur new e n d1 d2 d3 d4 d5 where
    u: "queue_update cur owner t Quarantined d = Inr (e, d1)" "append_change red ev e None d1 = Inr d2"
    and new: "contribution_id_of ''INVALID_PROMOTION_REBASE'' submitted = Inr new"
    and a: "queue_append red submitted d2 = Inr d3"
      "insert_queued new d3 = Inr (n, d4)" "queue_append red queued d4 = Inr d5"
      "queue_append red rebased d5 = Inr d'"
    by (auto simp: rebase_def inr_simps)
  show ?thesis
    by (rule trans [OF changed [OF u] trans [OF append [OF a(1)]
          trans [OF assms(2) [OF new a(1,2)] trans [OF append [OF a(3)] append [OF a(4)]]]]])
qed

lemma runs:
  assumes "run_promotion vr a d = Inr d'"
    and enq: "\<And>t1 t2 s submitted queued r. a = Enqueue_Contribution t1 t2 s \<Longrightarrow> service_event vr t1 s = Inr submitted
      \<Longrightarrow> ev_type submitted = ''ContributionSubmitted''
      \<Longrightarrow> enqueue apply_event submitted queued d = Inr (r, d') \<Longrightarrow> R d d'"
    and reb: "\<And>t1 t2 t3 now t4 i owner s1 s2 submitted queued rebased r. a = Rebase_Promotion t1 t2 t3 now t4 i owner s1 s2
      \<Longrightarrow> service_event vr t1 s1 = Inr submitted \<Longrightarrow> ev_type submitted = ''ContributionSubmitted''
      \<Longrightarrow> rebase apply_event i owner now submitted queued rebased (promotion_event vr t4) d = Inr (r, d') \<Longrightarrow> R d d'"
  shows "R d d'"
proof (cases a)
  case (Enqueue_Contribution t1 t2 c)
  with assms(1) obtain r where "enqueue_contribution vr t1 t2 c d = Inr (r, d')" by auto
  then show ?thesis by (rule enqueue_contribution_Inr) (rule enq [OF Enqueue_Contribution])
next
  case (Rebase_Promotion t1 t2 t3 now t4 i owner c1 c2)
  with assms(1) obtain r where "rebase_promotion vr t1 t2 t3 now t4 i owner c1 c2 d = Inr (r, d')" by auto
  then show ?thesis by (rule rebase_promotion_Inr) (rule reb [OF Rebase_Promotion])
next
  case Claim_Next
  with assms(1) show ?thesis by (auto simp: claim_next_promotion_def intro: claim)
next
  case Advance_Promotion
  with assms(1) show ?thesis by (auto simp: advance_promotion_def intro: advances)
next
  case Heartbeat_Promotion
  with assms(1) show ?thesis by (auto simp: heartbeat_promotion_def intro: beats)
next
  case Prepare_Promotion
  with assms(1) show ?thesis by (auto simp: prepare_promotion_def inr_simps intro: prepares)
next
  case Publish_Promotion
  with assms(1) show ?thesis by (auto simp: publish_promotion_def inr_simps intro: publishes)
next
  case Fail_Promotion
  with assms(1) show ?thesis by (auto simp: fail_promotion_service_def inr_simps intro: fails)
next
  case Recover_Expired
  with assms(1) show ?thesis
    by (auto simp: recover_expired_promotion_def inr_simps split: option.splits intro: recovers)
qed

end

subsection \<open>Later tables of capabilities\<close>

abbreviation caps_later :: "db \<Rightarrow> db \<Rightarrow> bool" where
  "caps_later d d' \<equiv> revoked_more (db_capabilities d) (db_capabilities d')"

lemma revoked_more_iff:
  "revoked_more rows rows' \<longleftrightarrow> length rows \<le> length rows' \<and> (\<forall>i < length rows. rows' ! i = rows ! i
     \<or> cr_revoked_at (rows ! i) = None \<and> (\<exists>t. rows' ! i = (rows ! i)\<lparr>cr_revoked_at := Some t\<rparr>))"
  by (auto simp: revoked_more_def list_all2_conv_all_nth min_def)

lemma revoked_more_trans [trans]:
  assumes "revoked_more a b" "revoked_more b c"
  shows "revoked_more a c"
  unfolding revoked_more_iff
proof (intro conjI allI impI)
  show "length a \<le> length c" using assms by (simp add: revoked_more_iff)
  fix i assume i: "i < length a"
  with assms(1) have "i < length b" by (simp add: revoked_more_iff)
  then have "c ! i = b ! i \<or> cr_revoked_at (b ! i) = None \<and> (\<exists>t. c ! i = (b ! i)\<lparr>cr_revoked_at := Some t\<rparr>)"
    using assms(2) unfolding revoked_more_iff by blast
  moreover have "b ! i = a ! i \<or> cr_revoked_at (a ! i) = None \<and> (\<exists>t. b ! i = (a ! i)\<lparr>cr_revoked_at := Some t\<rparr>)"
    using assms(1) i unfolding revoked_more_iff by blast
  ultimately show "c ! i = a ! i
      \<or> cr_revoked_at (a ! i) = None \<and> (\<exists>t. c ! i = (a ! i)\<lparr>cr_revoked_at := Some t\<rparr>)"
    by (elim disjE exE conjE) auto
qed

lemma revoke_rows_unrevoked:
  "row \<in> set (revoke_rows P t rows) \<Longrightarrow> cr_revoked_at row = None \<Longrightarrow> \<not> P row"
  by (auto simp: revoke_rows_def split: if_splits)

text \<open>The row of a token, in any later table.\<close>

lemma find_later:
  assumes "revoked_more rows rows'" "List.find (\<lambda>r. cr_token_hash r = h) rows = Some row"
  shows "\<exists>row'. List.find (\<lambda>r. cr_token_hash r = h) rows' = Some row'
    \<and> (row' = row \<or> cr_revoked_at row = None \<and> (\<exists>t. row' = row\<lparr>cr_revoked_at := Some t\<rparr>))"
proof -
  from assms(2) obtain i where i: "i < length rows" "rows ! i = row" "cr_token_hash row = h"
    and first: "\<forall>j < i. cr_token_hash (rows ! j) \<noteq> h"
    by (auto simp: find_Some_iff)
  have len: "length rows \<le> length rows'" using assms(1) by (simp add: revoked_more_iff)
  have same: "cr_token_hash (rows' ! j) = cr_token_hash (rows ! j)" if "j < length rows" for j
  proof -
    have "rows' ! j = rows ! j \<or> (\<exists>t. rows' ! j = (rows ! j)\<lparr>cr_revoked_at := Some t\<rparr>)"
      using assms(1) that unfolding revoked_more_iff by blast
    then show ?thesis by (elim disjE exE) simp_all
  qed
  have "List.find (\<lambda>r. cr_token_hash r = h) rows' = Some (rows' ! i)"
    unfolding find_Some_iff using i first len same by (intro exI [of _ i]) auto
  then show ?thesis using assms(1) i unfolding revoked_more_iff by blast
qed

subsection \<open>The operations\<close>

lemma mutation_later: "apply_event_mutation red e s d = Inr (r, d') \<Longrightarrow> caps_later d d'"
  using apply_event_mutation_capabilities by fastforce

lemma revoke_lease_later: "revoke_lease_capabilities e d = Inr d' \<Longrightarrow> caps_later d d'"
  by (auto simp: revoke_lease_capabilities_def inr_simps revoke_rows_more split: if_splits option.splits)

lemma store_append_later: "store_append red e d = Inr (r, d') \<Longrightarrow> caps_later d d'"
proof -
  assume "store_append red e d = Inr (r, d')"
  then obtain d1 d2 where "apply_event_mutation red e (query_projections d) d = Inr (r, d1)"
    "register_artifact e d1 = Inr d2" "revoke_lease_capabilities e d2 = Inr d'"
    unfolding store_append_Inr by blast
  then show ?thesis
    using mutation_later revoke_lease_later register_artifact_capabilities revoked_more_trans by metis
qed

lemma persist_later: "store_persist_capability red c e d = Inr (r, d') \<Longrightarrow> caps_later d d'"
proof -
  assume "store_persist_capability red c e d = Inr (r, d')"
  then obtain d1 where d1: "insert_capability c d = Inr d1"
    and m: "apply_event_mutation red e (query_projections d1) d1 = Inr (r, d')"
    by (auto simp: store_persist_capability_def inr_simps)
  have "caps_later d d1" using d1 by (auto simp: insert_capability_def inr_simps)
  also have "caps_later d1 d'" by (rule mutation_later [OF m])
  finally show ?thesis .
qed

lemma revoke_token_later: "revoke_token h t d = Inr (b, d') \<Longrightarrow> caps_later d d'"
  by (auto simp: revoke_token_def inr_simps revoke_rows_more)

lemma document_append_later:
  "document_append red s e d = Inr (r, d1) \<Longrightarrow> revoke_lease_capabilities e d1 = Inr d' \<Longrightarrow> caps_later d d'"
  unfolding document_append_def using mutation_later revoke_lease_later revoked_more_trans by blast

lemma mutate_documents_later: "mutate_documents red x s d = Inr (r, d') \<Longrightarrow> caps_later d d'"
  by (cases x) (auto simp: inr_simps intro: document_append_later)

lemma terminate_revokes:
  "mutate_documents red (TerminateLease run worker lease e) s d = Inr (r, d')
    \<Longrightarrow> \<exists>d0. revoke_lease_capabilities e d0 = Inr d'"
  unfolding mutate_documents.simps bindr_eq_Inr case_prod_beta by blast

lemma queue_append_later: "queue_append red e d = Inr d' \<Longrightarrow> caps_later d d'"
  by (auto simp: queue_append_def inr_simps intro: revoked_more_trans [OF mutation_later revoke_lease_later])

lemma queue_update_later: "queue_update c owner t s d = Inr (e, d') \<Longrightarrow> caps_later d d'"
  by (auto simp: queue_update_Inr)

lemma insert_queued_later: "insert_queued c d = Inr (n, d') \<Longrightarrow> caps_later d d'"
  by (auto simp: insert_queued_def inr_simps Let_def)

interpretation later: queue_relation caps_later
proof
  show "caps_later d d2" if "caps_later d d1" "caps_later d1 d2" for d d1 d2
    using that by (rule revoked_more_trans)
qed (auto intro: queue_update_later queue_append_later)

lemma run_promotion_later: "run_promotion vr a d = Inr d' \<Longrightarrow> caps_later d d'"
  by (erule later.runs) (auto elim: later.enqueues later.rebases intro: insert_queued_later)

subsection \<open>Runs of operations\<close>

text \<open>
  The operations that write to the store of a project that was initialized: every method of the state
  service is one of them or a sequence of them. One that raises leaves the database as it was.
\<close>

datatype store_op =
    Append event_envelope
  | Persist capability_record event_envelope
  | Revoke string datetime
  | Mutate_Documents document_operation
  | Promote promotion_op

fun run_store_op :: "(jdict \<Rightarrow> bool) \<Rightarrow> store_op \<Rightarrow> db \<Rightarrow> db res" where
  "run_store_op vr (Append e) d = next_db (store_append apply_event e d)"
| "run_store_op vr (Persist c e) d = next_db (store_persist_capability apply_event c e d)"
| "run_store_op vr (Revoke h t) d = next_db (revoke_token h t d)"
| "run_store_op vr (Mutate_Documents x) d = next_db (mutate_documents apply_event x (query_projections d) d)"
| "run_store_op vr (Promote a) d = run_promotion vr a d"

definition store_op_step :: "(jdict \<Rightarrow> bool) \<Rightarrow> store_op \<Rightarrow> db \<Rightarrow> db" where
  "store_op_step vr a d = (case run_store_op vr a d of Inl _ \<Rightarrow> d | Inr d' \<Rightarrow> d')"

lemma run_store_op_later: "run_store_op vr a d = Inr d' \<Longrightarrow> caps_later d d'"
  by (cases a) (auto intro: store_append_later persist_later revoke_token_later mutate_documents_later
      run_promotion_later)

lemma store_ops_later: "caps_later d (fold (store_op_step vr) ops d)"
proof (induction ops arbitrary: d)
  case (Cons a ops)
  have "caps_later d (store_op_step vr a d)"
    using run_store_op_later by (auto simp: store_op_step_def split: sum.split)
  also have "caps_later (store_op_step vr a d) (fold (store_op_step vr) ops (store_op_step vr a d))" by (rule Cons.IH)
  finally show ?case by simp
qed simp

subsection \<open>Submissions\<close>

text \<open>The events that submit a contribution, as \<open>submission_run\<close> looks for them.\<close>

definition submits_row :: "string \<Rightarrow> event_row \<Rightarrow> bool" where
  "submits_row c r \<longleftrightarrow> er_type r = ''ContributionSubmitted''
     \<and> (case er_payload r of JObj p \<Rightarrow> map_of p ''contribution_id'' = Some (JStr c) | _ \<Rightarrow> False)"

definition all_submitted :: "db \<Rightarrow> bool" where
  "all_submitted d \<longleftrightarrow> (\<forall>q \<in> set (db_queue d). \<exists>r \<in> set (db_events d). submits_row (qr_contribution q) r)"

lemma all_submitted_ids:
  "all_submitted d \<longleftrightarrow> (\<forall>c \<in> qr_contribution ` set (db_queue d). \<exists>r \<in> set (db_events d). submits_row c r)"
  by (simp add: all_submitted_def)

definition keeps_submissions :: "db \<Rightarrow> db \<Rightarrow> bool" where
  "keeps_submissions d d' \<longleftrightarrow> set (db_events d) \<subseteq> set (db_events d') \<and> (all_submitted d \<longrightarrow> all_submitted d')"

lemma keeps_grown_log:
  "set (db_events d) \<subseteq> set (db_events d') \<Longrightarrow> qr_contribution ` set (db_queue d') \<subseteq> qr_contribution ` set (db_queue d)
    \<Longrightarrow> keeps_submissions d d'"
proof -
  assume log: "set (db_events d) \<subseteq> set (db_events d')"
    and ids: "qr_contribution ` set (db_queue d') \<subseteq> qr_contribution ` set (db_queue d)"
  have "all_submitted d'" if "all_submitted d"
    unfolding all_submitted_ids
  proof
    fix c assume "c \<in> qr_contribution ` set (db_queue d')"
    with ids have "c \<in> qr_contribution ` set (db_queue d)" by (rule subsetD)
    with that obtain r where "r \<in> set (db_events d)" "submits_row c r" unfolding all_submitted_ids by blast
    with log show "\<exists>r \<in> set (db_events d'). submits_row c r" by blast
  qed
  with log show ?thesis by (simp add: keeps_submissions_def)
qed

lemma queue_update_ids:
  "queue_update c owner t s d = Inr (e, d') \<Longrightarrow> db_events d' = db_events d
    \<and> map qr_contribution (db_queue d') = map qr_contribution (db_queue d)"
  by (auto simp: queue_update_Inr)

interpretation submissions: queue_relation keeps_submissions
proof
  show "keeps_submissions d d'" if "queue_update c owner t s d = Inr (e, d')" for c owner t s d e d'
    using queue_update_ids [OF that] by (intro keeps_grown_log) (simp_all flip: set_map)
  show "keeps_submissions d d'" if "queue_append red e d = Inr d'" for red e d d'
    using queue_append_events [OF that] queue_append_queue [OF that] by (intro keeps_grown_log) auto
qed (auto simp: keeps_submissions_def)

lemma submits_event_row:
  assumes "wf_jdict (ev_payload e)" "ev_type e = ''ContributionSubmitted''"
    and "map_of (ev_payload e) ''contribution_id'' = Some (JStr c)"
  shows "submits_row c (event_row_of n e)"
proof -
  have "er_payload (event_row_of n e) = JObj (canon_dict (ev_payload e))"
    by (simp only: event_row_of_def event_row.select_convs canon_JObj)
  then show ?thesis using assms by (simp add: submits_row_def map_of_canon_dict [OF wf_jdict_wf_dict])
qed

lemma insert_queued_submitted:
  assumes "wf_jdict (ev_payload e)" "ev_type e = ''ContributionSubmitted''"
    and "contribution_id_of x e = Inr c" "queue_append red e d = Inr d1" "insert_queued c d1 = Inr (n, d2)"
  shows "keeps_submissions d1 d2"
proof -
  have "\<exists>r \<in> set (db_events d1). submits_row c r"
    using submits_event_row [OF assms(1,2)] assms(3) queue_append_events [OF assms(4)]
    by (auto simp: contribution_id_of_Inr)
  moreover have "db_events d2 = db_events d1"
    "qr_contribution ` set (db_queue d2) = insert c (qr_contribution ` set (db_queue d1))"
    using assms(5) by (auto simp: insert_queued_def inr_simps Let_def)
  ultimately show ?thesis unfolding keeps_submissions_def all_submitted_ids by auto
qed

lemma run_promotion_submissions:
  assumes "typed_promotion a" "run_promotion vr a d = Inr d'"
  shows "keeps_submissions d d'"
  using assms(2)
proof (rule submissions.runs)
  fix t1 t2 s submitted queued r
  assume a: "a = Enqueue_Contribution t1 t2 s" "service_event vr t1 s = Inr submitted"
    "ev_type submitted = ''ContributionSubmitted''"
    and x: "enqueue apply_event submitted queued d = Inr (r, d')"
  then have "wf_jdict (ev_payload submitted)"
    using assms(1) by (simp add: service_event_Inr typed_command_def)
  then show "keeps_submissions d d'"
    by (rule submissions.enqueues [OF x insert_queued_submitted [OF _ a(3)]])
next
  fix t1 t2 t3 now t4 i owner s1 s2 submitted queued rebased r
  assume a: "a = Rebase_Promotion t1 t2 t3 now t4 i owner s1 s2" "service_event vr t1 s1 = Inr submitted"
    "ev_type submitted = ''ContributionSubmitted''"
    and x: "rebase apply_event i owner now submitted queued rebased (promotion_event vr t4) d = Inr (r, d')"
  then have "wf_jdict (ev_payload submitted)"
    using assms(1) by (simp add: service_event_Inr typed_command_def)
  then show "keeps_submissions d d'"
    by (rule submissions.rebases [OF x insert_queued_submitted [OF _ a(3)]])
qed

text \<open>The operations outside the queue leave its table alone and only append to the log.\<close>

definition only_logs :: "db \<Rightarrow> db \<Rightarrow> bool" where
  "only_logs d d' \<longleftrightarrow> db_queue d' = db_queue d \<and> set (db_events d) \<subseteq> set (db_events d')"

lemma only_logs_trans: "only_logs d d1 \<Longrightarrow> only_logs d1 d2 \<Longrightarrow> only_logs d d2"
  by (auto simp: only_logs_def)

lemma only_logs_mutation: "apply_event_mutation red e s d = Inr (r, d') \<Longrightarrow> only_logs d d'"
proof -
  assume m: "apply_event_mutation red e s d = Inr (r, d')"
  have "db_events d2 = db_events d1" if "foldr_res store_change cs d1 = Inr d2" for cs d1 d2
    using that by (induction cs arbitrary: d1) (auto simp: inr_simps store_change_def)
  with m apply_event_mutation_capabilities [OF m] show ?thesis
    by (fastforce simp: only_logs_def apply_event_mutation_def inr_simps insert_event_def Let_def)
qed

lemma only_logs_revoke: "revoke_lease_capabilities e d = Inr d' \<Longrightarrow> only_logs d d'"
  by (auto simp: only_logs_def revoke_lease_capabilities_def inr_simps split: if_splits option.splits)

lemma only_logs_artifact: "register_artifact e d = Inr d' \<Longrightarrow> only_logs d d'"
  using register_artifact_capabilities [of e d d'] by (simp add: only_logs_def)

lemma only_logs_append: "store_append red e d = Inr (r, d') \<Longrightarrow> only_logs d d'"
  unfolding store_append_Inr
  by (blast intro: only_logs_trans only_logs_mutation only_logs_artifact only_logs_revoke)

lemma only_logs_persist: "store_persist_capability red c e d = Inr (r, d') \<Longrightarrow> only_logs d d'"
proof -
  assume "store_persist_capability red c e d = Inr (r, d')"
  then obtain d1 where d1: "insert_capability c d = Inr d1"
    and m: "apply_event_mutation red e (query_projections d1) d1 = Inr (r, d')"
    by (auto simp: store_persist_capability_def inr_simps)
  have "only_logs d d1" using d1 by (auto simp: only_logs_def insert_capability_def inr_simps)
  then show ?thesis by (rule only_logs_trans) (rule only_logs_mutation [OF m])
qed

lemma only_logs_documents: "mutate_documents red x s d = Inr (r, d') \<Longrightarrow> only_logs d d'"
  by (cases x) (auto simp: inr_simps document_append_def
      intro: only_logs_trans [OF only_logs_mutation only_logs_revoke])

lemma only_logs_token: "revoke_token h t d = Inr (b, d') \<Longrightarrow> only_logs d d'"
  by (auto simp: only_logs_def revoke_token_def inr_simps)

fun typed_store_op :: "store_op \<Rightarrow> bool" where
  "typed_store_op (Promote a) \<longleftrightarrow> typed_promotion a"
| "typed_store_op _ \<longleftrightarrow> True"

lemma run_store_op_logs:
  "run_store_op vr a d = Inr d' \<Longrightarrow> only_logs d d' \<or> (\<exists>x. a = Promote x \<and> run_promotion vr x d = Inr d')"
  by (cases a) (auto intro: only_logs_append only_logs_persist only_logs_documents only_logs_token)

text \<open>So along any run the table represents a queue whose contributions were all submitted.\<close>

lemma store_ops_queue:
  assumes "list_all typed_store_op ops" "represents q d" "all_submitted d"
  shows "(\<exists>q'. represents q' (fold (store_op_step vr) ops d)) \<and> all_submitted (fold (store_op_step vr) ops d)"
  using assms
proof (induction ops arbitrary: d q)
  case (Cons a ops)
  have "(\<exists>q'. represents q' d') \<and> all_submitted d'" if d': "run_store_op vr a d = Inr d'" for d'
    using run_store_op_logs [OF d']
  proof
    assume "only_logs d d'"
    then show ?thesis
      using Cons.prems(2,3) represents_queue [of q d d'] by (auto simp: only_logs_def all_submitted_def)
  next
    assume "\<exists>x. a = Promote x \<and> run_promotion vr x d = Inr d'"
    then obtain x where "typed_promotion x" "run_promotion vr x d = Inr d'" using Cons.prems(1) by auto
    then show ?thesis
      using run_promotion_simulated [OF _ Cons.prems(2)] run_promotion_submissions Cons.prems(3)
      by (fastforce simp: simulated_def keeps_submissions_def)
  qed
  then have "(\<exists>q'. represents q' (store_op_step vr a d)) \<and> all_submitted (store_op_step vr a d)"
    using Cons.prems(2,3) by (auto simp: store_op_step_def split: sum.split)
  then show ?case using Cons.IH Cons.prems(1) by auto
qed auto

end
