(* ===== verification/Promotion_Progress.thy ===== *)
theory Promotion_Progress
  imports Store_Runs
begin

text \<open>
  The changes of the queue that cannot fail. On a table that represents a queue of submitted
  contributions and with an unused identifier, the update of a row and the append of its event both
  succeed, so that a claim with work to do returns it and the recovery of an overdue claim happens.
\<close>

subsection \<open>The event of a change\<close>

lemma find_submits_row:
  "submission_run c d = (case List.find (submits_row c) (sort_key er_sequence (db_events d)) of
     None \<Rightarrow> Inl (ValueError ''PROMOTION_NOT_FOUND'') | Some r \<Rightarrow> Inr (er_run r))"
  unfolding submission_run_def submits_row_def ..

lemma log_row_run:
  assumes "\<forall>e \<in> set es. stored_event vr e" "r \<in> set (log_rows es)"
  shows "er_run r \<noteq> Some []"
proof -
  have "er_run r \<in> ev_run ` set es"
    using assms(2) by (induction es rule: rev_induct) (auto simp: log_rows_snoc event_row_of_def)
  then show ?thesis using assms(1) by (auto simp: stored_event_def valid_event_def)
qed

lemma submission_run_succeeds:
  assumes "journal vr es d" "\<exists>r \<in> set (db_events d). submits_row c r"
  obtains run where "submission_run c d = Inr run" "run \<noteq> Some []"
proof -
  have "List.find (submits_row c) (sort_key er_sequence (db_events d)) \<noteq> None"
    using assms(2) by (auto simp: find_None_iff)
  then obtain r where r: "List.find (submits_row c) (sort_key er_sequence (db_events d)) = Some r" by auto
  then have "r \<in> set (sort_key er_sequence (db_events d))" by (auto simp: find_Some_iff simp del: set_sort)
  then have "r \<in> set (db_events d)" by simp
  then have "er_run r \<noteq> Some []" using assms(1) log_row_run [of es vr r] by (simp add: journal_def)
  with r that show ?thesis by (simp add: find_submits_row)
qed

lemma promotion_state_type:
  "map_of codecs ''PromotionStateChanged''
     = Some (codec [''contribution_id'', ''state''] [''state_version'', ''former_owner''] [])"
  "map_of event_projections ''PromotionStateChanged'' = Some ''contributions''"
  "''PromotionStateChanged'' \<notin> keys orchestration_event_projections"
  "plain_type ''PromotionStateChanged''"
  by (simp_all add: codecs_def foundation_codecs_def orchestration_codecs_def event_projections_def
      orchestration_event_projections_def plain_type_def)

definition promotion_payload :: "string \<Rightarrow> queue_state \<Rightarrow> int \<Rightarrow> string option \<Rightarrow> jdict" where
  "promotion_payload c s n former =
     [(''contribution_id'', JStr c), (''state'', JStr (queue_state_text s)), (''state_version'', JInt n)]
     @ (case former of None \<Rightarrow> [] | Some owner \<Rightarrow> [(''former_owner'', JStr owner)])"

lemma promotion_payload_valid:
  assumes "c \<noteq> []" "0 \<le> n" "former \<noteq> Some []"
  shows "validate_payload vr ''PromotionStateChanged''
    (promotion_payload c s n former) = Inr ()"
  using assms
  by (cases s; cases former) (simp_all add: promotion_payload_def validate_payload_def promotion_state_type codec_validate_Inr codec_def
      validator_for_def field_validators_def integer_payload_def text_payload_def)

lemma wf_promotion_payload: "wf_jdict (promotion_payload c s n former)"
  by (cases former) (simp_all add: wf_jdict_def promotion_payload_def)

lemma promotion_event_succeeds:
  assumes t: "is_ulid (fst t)" "is_utc (snd t)"
    and c: "c \<noteq> []" "0 \<le> n" "run \<noteq> Some []" "former \<noteq> Some []"
  obtains e where "promotion_event vr t c s n run former = Inr e" "ev_type e = ''PromotionStateChanged''"
    "ev_id e = fst t" "ev_version e = event_schema_version" "wf_jdict (ev_payload e)"
proof -
  let ?e = "\<lparr>ev_id = fst t, ev_version = event_schema_version, ev_type = ''PromotionStateChanged'',
     ev_time = snd t, ev_actor = ''promotion_service'', ev_run = run, ev_cause = None,
     ev_payload = promotion_payload c s n former\<rparr>"
  have "valid_event vr ?e"
    using t c(3) promotion_payload_valid [OF c(1,2,4)] by (simp add: valid_event_def)
  moreover have "promotion_event vr t c s n run former
      = service_event vr t (command ''PromotionStateChanged'' ''promotion_service'' run None
          (promotion_payload c s n former))"
    by (cases former) (simp_all add: promotion_event_def promotion_payload_def)
  ultimately have "promotion_event vr t c s n run former = Inr ?e" by (simp add: service_event_Inr)
  then show ?thesis
    by (rule that) (simp_all add: wf_promotion_payload)
qed

lemma queue_append_succeeds:
  assumes wf: "wf_projections (db_projections d)" and e: "wf_jdict (ev_payload e)" "ev_version e = event_schema_version"
    and ty: "ev_type e = ''PromotionStateChanged''" and id: "ev_id e \<notin> er_id ` set (db_events d)"
  obtains d' where "queue_append apply_event e d = Inr d'"
proof -
  have "projection_payload_of (query_projections d) e = Inr (ev_payload e)"
    by (simp add: projection_payload_of_def ty promotion_state_type)
  then obtain cs where "apply_event (query_projections d) e = Inr cs"
    using plain_type_changes [of e] promotion_state_type ty by auto
  then obtain r where "apply_event_mutation apply_event e (query_projections d) d = Inr (r, log_step e cs d)"
    using id by (auto simp: apply_event_mutation_Inr [OF wf e])
  then have "queue_append apply_event e d = Inr (log_step e cs d)"
    by (simp add: queue_append_def ty revoke_lease_capabilities_other)
  then show ?thesis by (rule that)
qed

lemma append_change_succeeds:
  assumes j: "journal vr es d" and s: "\<exists>r \<in> set (db_events d). submits_row (qe_contribution x) r"
    and t: "is_ulid (fst t)" "is_utc (snd t)" "fst t \<notin> er_id ` set (db_events d)" and x: "wf_entry x"
    and f: "former \<noteq> Some []"
  obtains d' where "append_change apply_event (promotion_event vr t) x former d = Inr d'"
proof -
  obtain run where run: "submission_run (qe_contribution x) d = Inr run" "run \<noteq> Some []"
    by (rule submission_run_succeeds [OF j s])
  have "qe_contribution x \<noteq> []" "0 \<le> qe_version x" using x by (simp_all add: wf_entry_def)
  then obtain e where e: "promotion_event vr t (qe_contribution x) (qe_state x) (qe_version x) run former = Inr e"
    "ev_type e = ''PromotionStateChanged''" "ev_id e = fst t" "ev_version e = event_schema_version"
    "wf_jdict (ev_payload e)"
    using promotion_event_succeeds [OF t(1,2) _ _ run(2) f] by metis
  obtain d' where "queue_append apply_event e d = Inr d'"
    using queue_append_succeeds [OF journal_projections [OF j] e(5,4,2)] t(3) e(3) by auto
  with run(1) e(1) show ?thesis by (intro that) (simp add: append_change_def)
qed

lemma queue_update_succeeds:
  assumes rep: "represents q d" and i: "i < length q" and c: "claimable owner now" "s \<noteq> Queued"
  obtains d' where "queue_update (q ! i) owner now s d = Inr (touch (q ! i) s owner now, d')"
proof -
  have wf: "wf_queue q" and rows: "db_queue d = map row_of_entry q" using rep by (auto simp: represents_def)
  let ?P = "\<lambda>e. qe_contribution e = qe_contribution (q ! i) \<and> qe_version e = qe_version (q ! i)"
  have "{j. j < length q \<and> ?P (q ! j)} = {i}"
    using wf i by (auto simp: wf_queue_def distinct_conv_nth)
  then have "length (filter ?P q) = 1" by (simp add: length_filter_conv_card)
  then have "length (filter (\<lambda>r. qr_contribution r = qe_contribution (q ! i)
      \<and> qr_version r = qe_version (q ! i)) (db_queue d)) = 1"
    by (simp add: rows filter_map o_def)
  moreover have "check_queue_entry (touch (q ! i) s owner now) = Inr ()"
    using wf_queue_nth [OF wf i] c by (simp add: check_queue_entry_Inr wf_entry_def claimable_def)
  ultimately show ?thesis using that by (simp add: queue_update_Inr)
qed

subsection \<open>Claims\<close>

text \<open>A change of an entry of the queue, with its event.\<close>

lemma change_succeeds:
  assumes rep: "represents q d" and j: "journal vr es d" and s: "all_submitted d" and i: "i < length q"
    and c: "claimable owner now" "s \<noteq> Queued"
    and t: "is_ulid (fst t)" "is_utc (snd t)" "fst t \<notin> er_id ` set (db_events d)" and f: "former \<noteq> Some []"
  obtains d1 d2 where "queue_update (q ! i) owner now s d = Inr (touch (q ! i) s owner now, d1)"
    "append_change apply_event (promotion_event vr t) (touch (q ! i) s owner now) former d1 = Inr d2"
proof -
  have wf: "wf_queue q" and rows: "db_queue d = map row_of_entry q" using rep by (auto simp: represents_def)
  obtain d1 where u: "queue_update (q ! i) owner now s d = Inr (touch (q ! i) s owner now, d1)"
    by (rule queue_update_succeeds [OF rep i c])
  have log: "log_part d1 = log_part d"
    using queue_update_represents(4) [OF rep i _ c(2) u] c(1) by (simp add: claimable_def)
  have events: "db_events d1 = db_events d" using log_part_fields(1) log by metis
  have sub: "\<exists>r \<in> set (db_events d1). submits_row (qe_contribution (touch (q ! i) s owner now)) r"
    using s i by (auto simp: all_submitted_def events rows)
  obtain d2 where "append_change apply_event (promotion_event vr t) (touch (q ! i) s owner now) former d1 = Inr d2"
    by (rule append_change_succeeds [OF journal_log_part [OF j log] sub t(1,2) _ _ f])
      (use t(3) events wf_touch [OF wf_queue_nth [OF wf i] c] in simp_all)
  with u that show ?thesis by blast
qed

lemma claim_next_succeeds:
  assumes rep: "represents q d" and j: "journal vr es d" and s: "all_submitted d"
    and c: "claimable owner now" and t: "is_ulid (fst t)" "is_utc (snd t)" "fst t \<notin> er_id ` set (db_events d)"
    and idle: "\<not> (\<exists>r \<in> set (db_queue d). active_row r)"
    and work: "\<exists>r \<in> set (db_queue d). qr_state r = ''queued''"
  shows "\<exists>e d'. claim_next_promotion vr now t owner d = Inr (Some e, d')"
proof -
  have wf: "wf_queue q" and rows: "db_queue d = map row_of_entry q" using rep by (auto simp: represents_def)
  let ?Q = "\<lambda>r. qr_state r = queue_state_text Queued"
  have "filter ?Q (map row_of_entry q) \<noteq> []" using work by (auto simp: rows filter_empty_conv)
  then obtain row rest where head: "filter ?Q (map row_of_entry q) = row # rest" by (auto simp: neq_Nil_conv)
  then have "row \<in> set (map row_of_entry q)" by (metis filter_is_subset list.set_intros(1) subsetD)
  then obtain i where i: "i < length q" "row = row_of_entry (q ! i)" by (auto simp: in_set_conv_nth)
  have e: "entry_of_row row = Inr (q ! i)"
    unfolding i(2) by (rule entry_of_row_of_entry [OF wf_queue_nth [OF wf i(1)]])
  obtain d1 d2 where u: "queue_update (q ! i) owner now Staged d = Inr (touch (q ! i) Staged owner now, d1)"
    and a: "append_change apply_event (promotion_event vr t) (touch (q ! i) Staged owner now) None d1 = Inr d2"
    using change_succeeds [OF rep j s i(1) c _ t, of Staged None]
    by (metis queue_state.distinct(1) option.distinct(1))
  show ?thesis
    unfolding claim_next_promotion_def claim_next_def sort_rows [OF rep] if_not_P [OF idle] head list.case
    by (simp add: e u a)
qed

lemma claim_next_waits:
  assumes "(\<exists>r \<in> set (db_queue d). active_row r) \<or> (\<forall>r \<in> set (db_queue d). qr_state r \<noteq> ''queued'')"
  shows "claim_next_promotion vr now t owner d = Inr (None, d)"
proof (cases "\<exists>r \<in> set (db_queue d). active_row r")
  case True
  then show ?thesis by (simp add: claim_next_promotion_def claim_next_def)
next
  case False
  then have "filter (\<lambda>r. qr_state r = queue_state_text Queued)
      (sort_key (\<lambda>r. (qr_sequence r, qr_contribution r)) (db_queue d)) = []"
    using assms by (auto simp: filter_empty_conv)
  then show ?thesis unfolding claim_next_promotion_def claim_next_def if_not_P [OF False] by simp
qed

subsection \<open>Overdue claims\<close>

definition overdue :: "datetime \<Rightarrow> queue_entry \<Rightarrow> bool" where
  "overdue cutoff e \<longleftrightarrow> in_promotion e \<and> (\<exists>a. qe_claimed_at e = Some a \<and> text_before a cutoff)"

lemma state_text_member: "queue_state_text s \<in> set (map queue_state_text xs) \<longleftrightarrow> s \<in> set xs"
  by (auto simp: image_iff)

lemma expired_rows_represents:
  assumes rep: "represents q d" and c: "valid_datetime cutoff" "is_utc cutoff"
  shows "expired_rows cutoff d = map row_of_entry (filter (overdue cutoff) q)"
proof -
  have wf: "wf_entry e" if "e \<in> set q" for e
    using rep that by (simp add: represents_def wf_queue_def list_all_iff)
  have "(qe_claimed_by e \<noteq> None
       \<and> (case map_option utc_text (qe_claimed_at e) of None \<Rightarrow> False | Some s \<Rightarrow> s < utc_text cutoff)
       \<and> queue_state_text (qe_state e) \<in> set (map queue_state_text active_states))
     \<longleftrightarrow> overdue cutoff e" if "e \<in> set q" for e
    using wf [OF that] utc_text_less [OF _ _ c] unfolding state_text_member overdue_def in_promotion_def
    by (auto simp: wf_entry_def claimable_def active_states_def split: if_splits)
  then show ?thesis
    unfolding expired_rows_def sort_rows [OF rep] filter_map o_def row_of_entry_select
    by (intro arg_cong [where f = "map row_of_entry"] filter_cong) simp_all
qed

lemma filter_find: "List.find P xs = Some x \<Longrightarrow> \<exists>ys. filter P xs = x # ys"
  by (induction xs) (auto split: if_splits)

lemma recover_expired_succeeds:
  assumes rep: "represents q d" and j: "journal vr es d" and s: "all_submitted d"
    and c: "claimable owner now" and t: "is_ulid (fst t)" "is_utc (snd t)" "fst t \<notin> er_id ` set (db_events d)"
    and stale: "valid_datetime cutoff" "is_utc cutoff"
  shows "case List.find (overdue cutoff) q of
      None \<Rightarrow> recover_expired apply_event owner now cutoff (promotion_event vr t) d = Inr (None, d)
    | Some x \<Rightarrow> \<exists>d'. recover_expired apply_event owner now cutoff (promotion_event vr t) d
        = Inr (Some (touch x (qe_state x) owner now), d')"
proof (cases "List.find (overdue cutoff) q")
  case None
  then have "filter (overdue cutoff) q = []" by (simp add: find_None_iff filter_empty_conv)
  with None show ?thesis by (simp add: recover_expired_def expired_rows_represents [OF rep stale])
next
  case (Some x)
  have wf: "wf_queue q" using rep by (auto simp: represents_def)
  from Some obtain i where i: "i < length q" "x = q ! i" "overdue cutoff x" by (auto simp: find_Some_iff)
  have x: "wf_entry x" using wf_queue_nth [OF wf i(1)] i(2) by simp
  have "qe_state x \<noteq> Queued" "qe_claimed_by x \<noteq> Some []"
    using x i(3) by (auto simp: overdue_def in_promotion_def active_states_def wf_entry_def claimable_def)
  then obtain d1 d2 where "queue_update x owner now (qe_state x) d = Inr (touch x (qe_state x) owner now, d1)"
    "append_change apply_event (promotion_event vr t) (touch x (qe_state x) owner now) (qe_claimed_by x) d1 = Inr d2"
    using change_succeeds [OF rep j s i(1) c _ t, of "qe_state x" "qe_claimed_by x"] unfolding i(2) by metis
  moreover obtain xs where "filter (overdue cutoff) q = x # xs" using filter_find [OF Some] by blast
  ultimately show ?thesis
    by (simp add: recover_expired_def expired_rows_represents [OF rep stale] Some entry_of_row_of_entry [OF x])
qed

subsection \<open>The log of a run of promotion methods\<close>

lemma promotion_step_journal:
  assumes "order_blind vr" "typed_promotion a" "\<exists>es. journal vr es d"
  shows "\<exists>es. journal vr es (store_op_step vr (Promote a) d)"
  using assms run_promotion_log [OF assms(1,2), of d]
  by (fastforce simp: store_op_step_def log_extends_def split: sum.split)

end
