(* ===== verification/Promotion_Properties.thy ===== *)
theory Promotion_Properties
  imports Sample_Promotion Promotion_Progress
begin

text \<open>
  The properties of the publication queue, each over the methods of the service as they are called.
\<close>

subsection \<open>Refinement and its consequences\<close>

text \<open>
  C9. Every promotion method that succeeds on a table that represents a queue leaves one that
  represents a queue reached by steps of the abstract queue.
\<close>

theorem promotion_refines_queue:
  assumes "typed_promotion a" "represents q d" "run_promotion vr a d = Inr d'"
  shows "\<exists>q'. queue_step\<^sup>*\<^sup>* q q' \<and> represents q' d'"
  using run_promotion_simulated [OF assms] by (simp add: simulated_def)

lemma represents_empty: "represents [] project_db"
  by (simp add: represents_def project_db_def foundation_db_def empty_db_def)

definition sample_entry :: "queue_state \<Rightarrow> int \<Rightarrow> datetime \<Rightarrow> queue_entry" where
  "sample_entry s v t = \<lparr>qe_contribution = ''c'', qe_sequence = 1, qe_state = s, qe_version = v,
     qe_claimed_by = Some ''o'', qe_claimed_at = Some t\<rparr>"

lemma represents_queued: "represents [new_entry ''c'' 1] queued_db"
  by (simp add: represents_def wf_queue_def wf_entry_def queued_db_def project_db_def
      row_of_entry_def sample_queue_row_def new_entry_def)

lemma represents_entry:
  assumes "s \<noteq> Queued" "0 < v" "claimable ''o'' t" "db_queue d = [sample_queue_row s v (Some ''o'') (Some (utc_text t))]"
  shows "represents [sample_entry s v t] d"
  using assms by (simp add: represents_def wf_queue_def wf_entry_def row_of_entry_def sample_queue_row_def
      sample_entry_def)

lemma sample_times:
  "claimable ''o'' (sample_time 5)" "claimable ''o'' (sample_time 7)"
  "utc_text (sample_time 5) = ''2025-01-02T03:05:00Z''" "utc_text (sample_time 7) = ''2025-01-02T03:07:00Z''"
  by code_simp+

lemma represents_claimed: "represents [sample_entry Staged 1 (sample_time 5)] claimed_db"
  by (rule represents_entry) (simp_all add: sample_times claimed_db_def sample_next_def)

lemma represents_promoted: "represents [sample_entry Materialized 3 (sample_time 7)] promoted_db"
  by (rule represents_entry) (simp_all add: sample_times promoted_db_def sample_next_def)

lemma sample_typed_promotions: "typed_promotion sample_claim" "typed_promotion sample_verify"
  by (simp_all add: sample_claim_def sample_verify_def typed_tick_def sample_tick_def
      sample_time_def valid_datetime_def days_in_month_def)

theorem promotion_refines_queue_witness:
  "\<exists>q'. queue_step\<^sup>*\<^sup>* [new_entry ''c'' 1] q' \<and> represents q' claimed_db"
  by (rule promotion_refines_queue [OF sample_typed_promotions(1) represents_queued sample_promotion_runs(1)])

definition promotion_step :: "(jdict \<Rightarrow> bool) \<Rightarrow> promotion_op \<Rightarrow> db \<Rightarrow> db" where
  "promotion_step vr a d = (case run_promotion vr a d of Inl _ \<Rightarrow> d | Inr d' \<Rightarrow> d')"

lemma promotion_steps_simulated:
  assumes "list_all typed_promotion ops" "represents q d"
  shows "simulated q (fold (promotion_step vr) ops d)"
  using assms
proof (induction ops arbitrary: q d)
  case Nil
  then show ?case by (simp add: simulated_refl)
next
  case (Cons a ops)
  have "simulated q (promotion_step vr a d)"
    using run_promotion_simulated [of a q d vr] Cons.prems
    by (auto simp: promotion_step_def simulated_refl split: sum.split)
  then obtain q' where "queue_step\<^sup>*\<^sup>* q q'" "represents q' (promotion_step vr a d)"
    by (auto simp: simulated_def)
  moreover from this(2) have "simulated q' (fold (promotion_step vr) ops (promotion_step vr a d))"
    using Cons by simp
  ultimately show ?case by (auto intro: simulated_trans)
qed

lemma at_most_one:
  assumes "distinct xs" "\<And>x y. x \<in> set xs \<Longrightarrow> y \<in> set xs \<Longrightarrow> x = y"
  shows "length xs \<le> 1"
proof (cases xs)
  case (Cons x ys)
  have "ys = []"
  proof (rule ccontr)
    assume "ys \<noteq> []"
    then obtain y where "y \<in> set ys" by (cases ys) auto
    then have "x = y" using assms(2) [of x y] Cons by simp
    with \<open>y \<in> set ys\<close> assms(1) Cons show False by simp
  qed
  with Cons show ?thesis by simp
qed simp

lemma exclusive_rows:
  assumes rep: "represents q d" and "promotions.exclusive q"
  shows "length (filter active_row (db_queue d)) \<le> 1"
proof -
  have dist: "distinct (map qe_contribution q)" and wf: "list_all wf_entry q"
    using rep by (simp_all add: represents_def wf_queue_def)
  have "active_row (row_of_entry e) \<longleftrightarrow> in_promotion e" if "e \<in> set q" for e
    using wf that in_promotion_active_row [of e]
    by (auto simp: list_all_iff active_row_def in_promotion_def)
  then have "filter (\<lambda>e. active_row (row_of_entry e)) q = filter in_promotion q"
    by (intro filter_cong) auto
  then have rows: "filter active_row (db_queue d) = map row_of_entry (filter in_promotion q)"
    using rep by (simp add: represents_def filter_map o_def)
  have "distinct (map qe_contribution (filter in_promotion q))"
    using dist by (rule distinct_map_filter)
  moreover have "x = y" if "x \<in> set (map qe_contribution (filter in_promotion q))"
    "y \<in> set (map qe_contribution (filter in_promotion q))" for x y
  proof -
    have "x \<in> active_entries q" "y \<in> active_entries q"
      using that by (auto simp: active_entries_def)
    then show ?thesis
      using assms(2) unfolding promotions.exclusive_def pairwise_def by blast
  qed
  ultimately have "length (map qe_contribution (filter in_promotion q)) \<le> 1"
    by (rule at_most_one)
  then show ?thesis by (simp add: rows)
qed

text \<open>
  C2. From an empty queue, whatever sequence of promotion methods runs and whichever of them fail,
  at most one contribution is being promoted at any time.
\<close>

theorem one_promotion_at_a_time:
  assumes "db_queue d = []" "list_all typed_promotion ops"
  shows "length (filter active_row (db_queue (fold (promotion_step vr) ops d))) \<le> 1"
proof -
  have "represents [] d" using assms(1) by (simp add: represents_def)
  from promotion_steps_simulated [OF assms(2) this, of vr] obtain q where
    q: "queue_step\<^sup>*\<^sup>* [] q" "represents q (fold (promotion_step vr) ops d)"
    by (auto simp: simulated_def)
  have "promotions.exclusive []" by (simp add: promotions.exclusive_def active_entries_def)
  then have "promotions.exclusive q" using promotions.run_exclusive [OF q(1)] by simp
  with q(2) show ?thesis by (rule exclusive_rows)
qed

theorem one_promotion_at_a_time_witness:
  "length (filter active_row (db_queue (fold (promotion_step (\<lambda>_. True)) [sample_claim, sample_verify] project_db))) \<le> 1"
  by (rule one_promotion_at_a_time)
    (simp_all add: sample_typed_promotions project_db_def foundation_db_def empty_db_def)

text \<open>
  C11. Contributions keep their place in the queue; one that is published or quarantined never
  changes again, and any other change of an entry raises its version.
\<close>

theorem settled_promotions_stay:
  assumes "represents q d" "list_all typed_promotion ops"
  shows "length (db_queue d) \<le> length (db_queue (fold (promotion_step vr) ops d))
    \<and> (\<forall>i < length (db_queue d).
         let r = db_queue d ! i; r' = db_queue (fold (promotion_step vr) ops d) ! i
         in qr_contribution r' = qr_contribution r
            \<and> (qr_state r \<in> {''published'', ''quarantined''} \<longrightarrow> r' = r)
            \<and> (r' = r \<or> qr_version r < qr_version r'))"
proof -
  from promotion_steps_simulated [OF assms(2,1), of vr] obtain q' where
    q': "queue_step\<^sup>*\<^sup>* q q'" "represents q' (fold (promotion_step vr) ops d)"
    by (auto simp: simulated_def)
  from queue_run_extends [OF q'(1)] have len: "length q \<le> length q'"
    and ent: "i < length q \<Longrightarrow> entry_extends (q ! i) (q' ! i)" for i
    by (simp_all add: queue_extends_def)
  have rows: "db_queue d = map row_of_entry q"
    "db_queue (fold (promotion_step vr) ops d) = map row_of_entry q'"
    using assms(1) q'(2) by (simp_all add: represents_def)
  have "settled e" if "queue_state_text (qe_state e) \<in> {''published'', ''quarantined''}" for e
    using that by (cases "qe_state e") (simp_all add: settled_def)
  note settled = this
  have "let r = row_of_entry (q ! i); r' = row_of_entry (q' ! i)
         in qr_contribution r' = qr_contribution r
            \<and> (qr_state r \<in> {''published'', ''quarantined''} \<longrightarrow> r' = r)
            \<and> (r' = r \<or> qr_version r < qr_version r')" if "i < length q" for i
    using ent [OF that] settled [of "q ! i"] by (cases "q' ! i = q ! i") (auto simp: entry_extends_def Let_def)
  with len show ?thesis unfolding rows by simp
qed

theorem settled_promotions_stay_witness:
  "qr_contribution (db_queue (fold (promotion_step (\<lambda>_. True)) [sample_claim, sample_verify] queued_db) ! 0) = ''c''"
  using settled_promotions_stay [OF represents_queued, of "[sample_claim, sample_verify]" "\<lambda>_. True"]
  by (simp add: sample_typed_promotions Let_def queued_db_def sample_queue_row_def)

subsection \<open>Claims\<close>

text \<open>
  C12. A claim takes the first queued contribution, only when nothing is being promoted, stages it
  for the owner, and leaves every other entry as it is.
\<close>

theorem claim_takes_first_queued:
  assumes rep: "represents q d" and t: "valid_datetime now"
    and x: "claim_next_promotion vr now t owner d = Inr (Some e, d')"
  shows "\<exists>i < length q. qe_state (q ! i) = Queued \<and> (\<forall>j < i. qe_state (q ! j) \<noteq> Queued)
    \<and> (\<forall>p \<in> set q. \<not> in_promotion p)
    \<and> e = touch (q ! i) Staged owner now \<and> represents (q[i := e]) d'"
  using rep x [unfolded claim_next_promotion_def]
proof (cases rule: claim_next_Inr)
  case (2 i d1 e')
  note up = queue_update_represents [OF rep 2(2) t _ 2(5)]
  have "represents (q[i := e]) d'"
    using up(2,3) 2(7) append_change_queue [OF 2(6)] by (simp add: represents_def)
  with 2 up(2) show ?thesis by auto
qed simp

theorem claim_takes_first_queued_witness:
  "\<exists>r. claim_next_promotion (\<lambda>_. True) (sample_time 5) (sample_tick (CHR ''4'')) ''o'' queued_db
      = Inr (Some r, claimed_db)
    \<and> r = touch (new_entry ''c'' 1) Staged ''o'' (sample_time 5)"
proof -
  have "valid_datetime (sample_time 5)"
    by (simp add: sample_time_def valid_datetime_def days_in_month_def)
  moreover obtain r where r: "claim_next_promotion (\<lambda>_. True) (sample_time 5) (sample_tick (CHR ''4'')) ''o'' queued_db
      = Inr (r, claimed_db)"
    using sample_promotion_runs(1) by (auto simp: sample_claim_def)
  moreover have "r \<noteq> None"
  proof
    assume "r = None"
    with r have "claimed_db = queued_db"
      unfolding claim_next_promotion_def using represents_queued
      by (auto elim: claim_next_Inr)
    then have "db_queue claimed_db = db_queue queued_db" by simp
    then show False
      by (simp add: claimed_db_def sample_next_def queued_db_def sample_queue_row_def)
  qed
  ultimately show ?thesis
    using claim_takes_first_queued [OF represents_queued, of "sample_time 5" "\<lambda>_. True" "sample_tick (CHR ''4'')"]
    by fastforce
qed

definition submitted_store :: db where
  "submitted_store = fold (store_op_step (\<lambda>_. True)) [Promote sample_enqueue] foundation_db"

definition staged_store :: db where
  "staged_store = store_op_step (\<lambda>_. True) (Promote sample_claim) submitted_store"

lemma sample_store_logs:
  "\<exists>es. journal (\<lambda>_. True) es submitted_store" "\<exists>es. journal (\<lambda>_. True) es staged_store"
proof -
  have blind: "order_blind (\<lambda>_. True)" by (simp add: order_blind_def)
  have typed: "typed_promotion sample_enqueue"
    by (simp add: sample_enqueue_def typed_tick_def sample_tick_def sample_time_def valid_datetime_def
        days_in_month_def sample_submission_def typed_command_def wf_jdict_def)
  show submitted: "\<exists>es. journal (\<lambda>_. True) es submitted_store"
    unfolding submitted_store_def fold_simps
    by (rule promotion_step_journal [OF blind typed]) (rule exI, rule journal_foundation)
  show "\<exists>es. journal (\<lambda>_. True) es staged_store"
    unfolding staged_store_def
    by (rule promotion_step_journal [OF blind sample_typed_promotions(1) submitted])
qed

text \<open>
  C30. In every database that operations of the store lead to from an empty queue, a claim by a
  valid owner, at a valid time and with an unused identifier for its event, returns a promotion if a
  contribution is queued and none is being promoted; otherwise it returns none and changes nothing.
\<close>

theorem claim_finds_work:
  assumes "db_queue d0 = []" "list_all typed_store_op ops" "d = fold (store_op_step vr) ops d0"
    and "journal vr es d" "claimable owner now"
    and "is_ulid (fst t)" "is_utc (snd t)" "fst t \<notin> er_id ` set (db_events d)"
  shows "if (\<exists>r \<in> set (db_queue d). qr_state r = ''queued'') \<and> \<not> (\<exists>r \<in> set (db_queue d). active_row r)
    then \<exists>e d'. claim_next_promotion vr now t owner d = Inr (Some e, d')
    else claim_next_promotion vr now t owner d = Inr (None, d)"
proof -
  have "represents [] d0" "all_submitted d0"
    using assms(1) by (simp_all add: represents_def all_submitted_def)
  from store_ops_queue [OF assms(2) this] obtain q where q: "represents q d" "all_submitted d"
    unfolding assms(3) by blast
  show ?thesis
    using claim_next_succeeds [OF q(1) assms(4) q(2) assms(5-8)] claim_next_waits [of d vr now t owner] by auto
qed

theorem claim_finds_work_witness:
  "\<exists>e d'. claim_next_promotion (\<lambda>_. True) (sample_time 5) (sample_tick (CHR ''4'')) ''o'' submitted_store
    = Inr (Some e, d')"
proof -
  obtain es where es: "journal (\<lambda>_. True) es submitted_store" using sample_store_logs(1) ..
  have start: "db_queue foundation_db = []" "list_all typed_store_op [Promote sample_enqueue]"
    by (simp_all add: foundation_db_def empty_db_def sample_enqueue_def typed_tick_def sample_tick_def
        sample_time_def valid_datetime_def days_in_month_def sample_submission_def typed_command_def wf_jdict_def)
  have tick: "is_ulid (fst (sample_tick (CHR ''4'')))" "is_utc (snd (sample_tick (CHR ''4'')))"
    "fst (sample_tick (CHR ''4'')) \<notin> er_id ` set (db_events submitted_store)"
    "(\<exists>r \<in> set (db_queue submitted_store). qr_state r = ''queued'')
      \<and> \<not> (\<exists>r \<in> set (db_queue submitted_store). active_row r)"
    by code_simp+
  show ?thesis
    using claim_finds_work [OF start submitted_store_def es sample_times(1) tick(1-3)]
    unfolding if_P [OF tick(4)] .
qed

subsection \<open>Owners\<close>

fun promotion_claim :: "promotion_op \<Rightarrow> (string \<times> string) option" where
  "promotion_claim (Advance_Promotion _ _ i owner _) = Some (i, owner)"
| "promotion_claim (Heartbeat_Promotion _ _ i owner) = Some (i, owner)"
| "promotion_claim (Prepare_Promotion _ i owner _) = Some (i, owner)"
| "promotion_claim (Publish_Promotion _ _ _ _ i owner _ _) = Some (i, owner)"
| "promotion_claim (Fail_Promotion _ _ _ i owner _) = Some (i, owner)"
| "promotion_claim (Rebase_Promotion _ _ _ _ _ i owner _ _) = Some (i, owner)"
| "promotion_claim _ = None"

lemma claim_needed:
  assumes "promotion_claim a = Some (i, owner)" "run_promotion vr a d = Inr d'"
  shows "\<exists>e. current_entry i d = Inr e \<and> qe_claimed_by e = Some owner"
  using assms
  by (cases a) (auto simp: inr_simps advance_promotion_def advance_def heartbeat_promotion_def
      heartbeat_def prepare_promotion_def prepare_def publish_promotion_def publish_def
      fail_promotion_service_def fail_promotion_def rebase_promotion_def rebase_def split: option.splits)

text \<open>
  C16. A method that acts on a claim raises, and so changes nothing, for any owner but the one that
  holds it: also for one whose claim was taken over, and for a contribution not in the queue.
\<close>

theorem only_the_owner_promotes:
  assumes "represents q d" "promotion_claim a = Some (i, owner)"
    and "(i, Some owner) \<notin> (\<lambda>e. (qe_contribution e, qe_claimed_by e)) ` set q"
  shows "\<exists>x. run_promotion vr a d = Inl x"
proof (cases "run_promotion vr a d")
  case (Inr d')
  from claim_needed [OF assms(2) this] obtain e where e: "current_entry i d = Inr e" "qe_claimed_by e = Some owner"
    by blast
  from current_entry_Inr [OF assms(1) e(1)] obtain k where "k < length q" "e = q ! k" "qe_contribution e = i" .
  then have "(i, Some owner) \<in> (\<lambda>e. (qe_contribution e, qe_claimed_by e)) ` set q"
    using e(2) by (auto intro!: image_eqI [of _ _ e])
  with assms(3) show ?thesis by simp
qed simp

theorem only_the_owner_promotes_witness:
  "\<exists>x. run_promotion (\<lambda>_. True) (Heartbeat_Promotion (sample_time 6) (sample_tick (CHR ''5'')) ''c'' ''other'') claimed_db
     = Inl x"
  by (rule only_the_owner_promotes [OF represents_claimed, where i = "''c''" and owner = "''other''"]) (simp_all add: sample_entry_def)

subsection \<open>Publication\<close>

definition value_or_null :: "jdict \<Rightarrow> string \<Rightarrow> json" where
  "value_or_null p k = (case map_of p k of None \<Rightarrow> JNull | Some v \<Rightarrow> v)"

definition publication_fields :: "string \<Rightarrow> jdict \<Rightarrow> jdict \<Rightarrow> jdict" where
  "publication_fields i declaration delta =
     [(''contribution_id'', JStr i),
      (''module'', value_or_null declaration ''module''),
      (''content_hash'', value_or_null declaration ''content_hash''),
      (''base_epoch'', value_or_null delta ''base_epoch''),
      (''knowledge_epoch'', value_or_null delta ''knowledge_epoch''),
      (''declaration_id'', value_or_null declaration ''declaration_id''),
      (''delta_id'', value_or_null delta ''delta_id'')]"

lemma require_prepared_Inr:
  "require_prepared i e1 e2 d = Inr () \<longleftrightarrow>
     canon (JObj (publication_fields i (ev_payload e1) (ev_payload e2))) \<in> canon ` set (preparations d)"
proof -
  have "require_prepared i e1 e2 d = ensure
      (\<exists>p \<in> set (preparations d). canon p = canon (JObj (publication_fields i (ev_payload e1) (ev_payload e2))))
      (ValueError ''PROMOTION_NOT_PREPARED'')"
    unfolding require_prepared_def Let_def publication_fields_def field_or_null_def value_or_null_def ..
  then show ?thesis by (simp only: ensure_eq_Inr image_iff) metis
qed

text \<open>
  C7. Publishing needs the claim, the state materialized and, in the log, a preparation of this
  contribution with the module, the hashes and the identifiers now published; it publishes the entry
  and appends the declaration, the delta and the change of state, in this order.
\<close>

theorem publication_is_prepared:
  assumes "publish_promotion vr t1 t2 now t3 i owner declaration delta d = Inr (e, d')"
  shows "\<exists>c. current_entry i d = Inr c \<and> qe_claimed_by c = Some owner \<and> qe_state c = Materialized
    \<and> e = touch c Published owner now
    \<and> canon (JObj (publication_fields i (cmd_payload declaration) (cmd_payload delta))) \<in> canon ` set (preparations d)
    \<and> map er_type (db_events d') = map er_type (db_events d)
        @ [''DeclarationPublished'', ''KnowledgeDeltaPublished'', ''PromotionStateChanged'']"
proof -
  from assms obtain e1 e2 where ev: "service_event vr t1 declaration = Inr e1" "service_event vr t2 delta = Inr e2"
    "ev_type e1 = ''DeclarationPublished''" "ev_type e2 = ''KnowledgeDeltaPublished''"
    and p: "publish apply_event i owner now e1 e2 (promotion_event vr t3) d = Inr (e, d')"
    by (auto simp: publish_promotion_def inr_simps)
  from p obtain c d1 d2 d3 f where c: "current_entry i d = Inr c" "qe_claimed_by c = Some owner"
    "can_transition (qe_state c) Published" and prep: "require_prepared i e1 e2 d = Inr ()"
    and u: "queue_update c owner now Published d = Inr (e, d1)"
    and a: "queue_append apply_event e1 d1 = Inr d2" "queue_append apply_event e2 d2 = Inr d3"
      "queue_append apply_event f d3 = Inr d'"
    and f: "promotion_event vr t3 (qe_contribution e) (qe_state e) (qe_version e) (ev_run e1) None = Inr f"
    by (auto simp: publish_def inr_simps)
  have pay: "ev_payload e1 = cmd_payload declaration" "ev_payload e2 = cmd_payload delta"
    using service_event_valid(5) [OF ev(1)] service_event_valid(5) [OF ev(2)] by simp_all
  have "ev_type f = ''PromotionStateChanged''"
    using f by (simp add: promotion_event_def Let_def service_event_Inr)
  moreover have "e = touch c Published owner now" "db_events d1 = db_events d"
    using u by (auto simp: queue_update_Inr)
  moreover have "map er_type (db_events d') = map er_type (db_events d1)
      @ [''DeclarationPublished'', ''KnowledgeDeltaPublished'', ev_type f]"
    using a [THEN queue_append_events] ev(3,4) by simp
  moreover have "qe_state c = Materialized" using c(3) by (simp add: can_transition_cases)
  moreover have "canon (JObj (publication_fields i (cmd_payload declaration) (cmd_payload delta)))
      \<in> canon ` set (preparations d)"
    using prep unfolding require_prepared_Inr pay .
  ultimately show ?thesis using c(1,2) by (intro exI [of _ c]) (simp only: simp_thms)
qed

theorem publication_is_prepared_witness:
  "\<exists>c. current_entry ''c'' promoted_db = Inr c \<and> qe_claimed_by c = Some ''o'' \<and> qe_state c = Materialized"
proof -
  obtain e where "sample_publishing = Inr (e, db_after sample_publishing)"
    using succeeds_db_after [OF sample_publishing_succeeds] ..
  then have "publish_promotion (\<lambda>_. True) (sample_tick (CHR ''8'')) (sample_tick (CHR ''9'')) (sample_time 8)
      (sample_tick (CHR ''A'')) ''c'' ''o'' sample_declaration sample_delta promoted_db
      = Inr (e, db_after sample_publishing)"
    by (simp only: sample_publishing_def [symmetric])
  from publication_is_prepared [OF this] show ?thesis by blast
qed

subsection \<open>Expiry\<close>

text \<open>
  C39. Recovery takes over the first claim that is overdue, and there is nothing to recover exactly
  when no claim is. A claim is overdue when the text of its time comes before the text of the
  cutoff. For two times with a fraction of a second, for two without and for times in different
  seconds that is the order of the times; but in the second of the cutoff a claim with a fraction
  is overdue at a cutoff without one, which is earlier, and a claim without a fraction is not
  overdue at a cutoff with one, which is later.
\<close>

theorem expiry_compares_texts:
  assumes "represents q d" "journal vr es d" "all_submitted d" "claimable owner now"
    and "is_ulid (fst t)" "is_utc (snd t)" "fst t \<notin> er_id ` set (db_events d)"
    and "valid_datetime cutoff" "is_utc cutoff"
  shows "case List.find (\<lambda>e. in_promotion e \<and> (case qe_claimed_at e of None \<Rightarrow> False
        | Some a \<Rightarrow> if whole_second a = whole_second cutoff \<and> (microsecond a = 0) \<noteq> (microsecond cutoff = 0)
            then microsecond a \<noteq> 0 else a < cutoff)) q of
      None \<Rightarrow> recover_expired apply_event owner now cutoff (promotion_event vr t) d = Inr (None, d)
    | Some e \<Rightarrow> \<exists>d'. recover_expired apply_event owner now cutoff (promotion_event vr t) d
        = Inr (Some (touch e (qe_state e) owner now), d')"
proof -
  have "(\<lambda>e. in_promotion e \<and> (case qe_claimed_at e of None \<Rightarrow> False
        | Some a \<Rightarrow> if whole_second a = whole_second cutoff \<and> (microsecond a = 0) \<noteq> (microsecond cutoff = 0)
            then microsecond a \<noteq> 0 else a < cutoff)) = overdue cutoff"
    by (auto simp: fun_eq_iff overdue_def text_before_def split: option.split)
  then show ?thesis using recover_expired_succeeds [OF assms] by (simp only:)
qed

text \<open>The claim of the sample is older than a cutoff half a second later, but not recovered at it.\<close>

theorem expiry_compares_texts_witness:
  "sample_time 5 < Datetime 2025 1 2 3 5 0 500000 (Some 0)
   \<and> recover_expired apply_event ''p'' (sample_time 6) (Datetime 2025 1 2 3 5 0 500000 (Some 0))
       (promotion_event (\<lambda>_. True) (sample_tick (CHR ''5''))) staged_store = Inr (None, staged_store)
   \<and> (\<exists>d'. recover_expired apply_event ''p'' (sample_time 6) (sample_time 6)
       (promotion_event (\<lambda>_. True) (sample_tick (CHR ''5''))) staged_store
       = Inr (Some (touch (sample_entry Staged 1 (sample_time 5)) Staged ''p'' (sample_time 6)), d'))"
proof -
  let ?half = "Datetime 2025 1 2 3 5 0 500000 (Some 0)"
  obtain es where es: "journal (\<lambda>_. True) es staged_store" using sample_store_logs(2) ..
  have "db_queue staged_store = [sample_queue_row Staged 1 (Some ''o'') (Some (utc_text (sample_time 5)))]"
    by code_simp
  then have rep: "represents [sample_entry Staged 1 (sample_time 5)] staged_store"
    by (intro represents_entry) (simp_all add: sample_times)
  have facts: "all_submitted staged_store" "claimable ''p'' (sample_time 6)"
    "is_ulid (fst (sample_tick (CHR ''5'')))" "is_utc (snd (sample_tick (CHR ''5'')))"
    "fst (sample_tick (CHR ''5'')) \<notin> er_id ` set (db_events staged_store)"
    by code_simp+
  have cutoffs: "valid_datetime ?half" "is_utc ?half" "valid_datetime (sample_time 6)" "is_utc (sample_time 6)"
    "sample_time 5 < ?half" "sample_time 5 < sample_time 6"
    by code_simp+
  have times: "sample_time 5 = Datetime 2025 1 2 3 5 0 0 (Some 0)" "sample_time 6 = Datetime 2025 1 2 3 6 0 0 (Some 0)"
    by code_simp+
  show ?thesis
    using expiry_compares_texts [OF rep es facts cutoffs(1,2)] expiry_compares_texts [OF rep es facts cutoffs(3,4)]
      cutoffs(5,6)
    by (simp add: sample_entry_def in_promotion_def active_states_def whole_second_def times)
qed

end
