(* ===== verification/Control_Operations.thy ===== *)
theory Control_Operations
  imports Event_Updates
begin

text \<open>
  The operator's control operations (\<open>state/control_operations.py\<close>): configuring the controller,
  registering a worker and assigning it a task. An operation appends its event and then reads the
  version of the changed projection, so it returns its result next to the database it leaves: a
  failure after the append would not take the event back. \<open>sha\<close> is SHA-256 and \<open>text\<close> the canonical
  text of a JSON value.
\<close>

subsection \<open>Operations that go on after a commit\<close>

type_synonym 'a outcome = "'a res \<times> db"

definition and_then :: "('a \<times> db) res \<Rightarrow> db \<Rightarrow> ('a \<Rightarrow> db \<Rightarrow> 'b outcome) \<Rightarrow> 'b outcome" where
  "and_then m d f = (case m of Inl e \<Rightarrow> (Inl e, d) | Inr (x, d') \<Rightarrow> f x d')"

lemma and_then_eq:
  "and_then m d f = (v, d2) \<longleftrightarrow>
     (\<exists>e. m = Inl e \<and> v = Inl e \<and> d2 = d) \<or> (\<exists>x d1. m = Inr (x, d1) \<and> f x d1 = (v, d2))"
  by (auto simp: and_then_def split: sum.split prod.split)

subsection \<open>The operations\<close>

definition controller_id :: string where
  "controller_id = ''primary''"

definition max_task_bytes :: nat where
  "max_task_bytes = 64 * 1024"

definition projection_version :: "string \<Rightarrow> string \<Rightarrow> db \<Rightarrow> int res" where
  "projection_version name entity d =
     bindr (query_projection name entity d) (\<lambda>record.
     case record of
       None \<Rightarrow> Inl (ControlOperationError ''CONTROL_STATE_INVALID'')
     | Some r \<Rightarrow> Inr (pr_version r))"

text \<open>\<open>[A-Za-z0-9][A-Za-z0-9_-]{0,63}\<close>\<close>

definition validate_worker_id :: "string \<Rightarrow> unit res" where
  "validate_worker_id worker_id =
     ensure (ident_match is_alnum (\<lambda>c. is_alnum c \<or> c = CHR ''_'' \<or> c = CHR ''-'') 63 worker_id)
       (ControlOperationError ''WORKER_ID_INVALID'')"

definition validate_task :: "string \<Rightarrow> unit res" where
  "validate_task task =
     ensure (\<not> (blank task \<or> length task > max_task_bytes)) (ControlOperationError ''WORKER_TASK_INVALID'')"

definition configure_controller ::
  "(jdict \<Rightarrow> bool) \<Rightarrow> tick \<Rightarrow> string \<Rightarrow> string option \<Rightarrow> db \<Rightarrow> int outcome" where
  "configure_controller vr t provider model d =
     (if \<not> is_controller_provider_id provider then
        (Inl (ControlOperationError ''CONTROLLER_PROVIDER_INVALID''), d)
      else if (case model of None \<Rightarrow> False | Some m \<Rightarrow> blank m) then
        (Inl (ControlOperationError ''CONTROLLER_MODEL_INVALID''), d)
      else
        let payload = [(''controller_id'', JStr controller_id), (''provider'', JStr provider)];
            payload = (case model of None \<Rightarrow> payload | Some m \<Rightarrow> AList.update ''model'' (JStr m) payload)
        in and_then (append_event vr t (command ''ControllerConfigured'' ''operator'' None None payload) d) d
             (\<lambda>_ d'. (projection_version ''controller'' controller_id d', d')))"

definition register_worker ::
  "(jdict \<Rightarrow> bool) \<Rightarrow> tick \<Rightarrow> string \<Rightarrow> agent_role \<Rightarrow> db \<Rightarrow> int outcome" where
  "register_worker vr t worker_id role d =
     and_then
       (bindr (validate_worker_id worker_id) (\<lambda>_.
        bindr (query_projection ''worker_roster'' worker_id d) (\<lambda>known.
        bindr (ensure (known = None) (ControlOperationError ''WORKER_ALREADY_REGISTERED'')) (\<lambda>_.
        append_event vr t (command ''WorkerConfigured'' ''operator'' None None
          [(''worker_id'', JStr worker_id), (''role'', JStr (role_value role)),
           (''status'', JStr ''idle'')]) d)))) d
       (\<lambda>_ d'. (projection_version ''worker_roster'' worker_id d', d'))"

definition assignment_id_of ::
  "(string \<Rightarrow> string) \<Rightarrow> (json \<Rightarrow> string) \<Rightarrow> string \<Rightarrow> string \<Rightarrow> int \<Rightarrow> string" where
  "assignment_id_of sha text worker_id task_hash task_version =
     sha (text (JObj [(''controller_id'', JStr controller_id), (''worker_id'', JStr worker_id),
       (''task_hash'', JStr task_hash), (''task_version'', JInt task_version)]))"

definition assign_task ::
  "(jdict \<Rightarrow> bool) \<Rightarrow> (string \<Rightarrow> string) \<Rightarrow> (json \<Rightarrow> string) \<Rightarrow> tick \<Rightarrow> string \<Rightarrow> string \<Rightarrow> db \<Rightarrow> int outcome" where
  "assign_task vr sha text t worker_id task d =
     and_then
       (bindr (validate_worker_id worker_id) (\<lambda>_.
        bindr (validate_task task) (\<lambda>_.
        bindr (query_projection ''controller'' controller_id d) (\<lambda>configured.
        bindr (ensure (configured \<noteq> None) (ControlOperationError ''CONTROLLER_NOT_CONFIGURED'')) (\<lambda>_.
        bindr (query_projection ''worker_roster'' worker_id d) (\<lambda>known.
        bindr (ensure (known \<noteq> None) (ControlOperationError ''WORKER_NOT_REGISTERED'')) (\<lambda>_.
        bindr (query_projection ''worker_assignments'' worker_id d) (\<lambda>previous.
        let task_version = (case previous of None \<Rightarrow> 1 | Some r \<Rightarrow> pr_version r + 1);
            task_hash = sha task
        in append_event vr t (command ''WorkerTaskAssigned'' controller_id None None
          [(''assignment_id'', JStr (assignment_id_of sha text worker_id task_hash task_version)),
           (''controller_id'', JStr controller_id), (''worker_id'', JStr worker_id),
           (''task'', JStr task), (''task_hash'', JStr task_hash),
           (''task_version'', JInt task_version)]) d)))))))) d
       (\<lambda>_ d'. (projection_version ''worker_assignments'' worker_id d', d'))"

subsection \<open>What a committed operation leaves\<close>

lemma control_tables:
  "map_of event_projections ''ControllerConfigured'' = Some ''controller''"
  "map_of event_projections ''WorkerConfigured'' = Some ''worker_roster''"
  "map_of event_projections ''WorkerTaskAssigned'' = Some ''worker_assignments''"
  "map_of entity_fields ''ControllerConfigured'' = Some ''controller_id''"
  "map_of entity_fields ''WorkerConfigured'' = Some ''worker_id''"
  "map_of entity_fields ''WorkerTaskAssigned'' = Some ''worker_id''"
  by (simp_all add: event_projections_def entity_fields_def)

lemma control_names:
  "''controller'' \<in> set projection_names" "''worker_roster'' \<in> set projection_names"
  "''worker_assignments'' \<in> set projection_names" "''worker_executions'' \<in> set projection_names"
  "''controller_runtime'' \<in> set projection_names"
  by (simp_all add: projection_names_def)

text \<open>An event that is not one of orchestration: its payload is stored as it is.\<close>

lemma append_event_direct:
  assumes wf: "wf_projections (db_projections d)" and t: "typed_tick t" "wf_jdict p"
    and ty: "plain_type ty" "ty \<notin> keys orchestration_event_projections"
    and tables: "map_of event_projections ty = Some n" "map_of entity_fields ty = Some f"
    and i: "map_of p f = Some (JStr i)" "i \<noteq> []"
    and a: "append_event vr t (command ty actor run cause p) d = Inr (r, d')"
  obtains e where "valid_event vr e" "ev_type e = ty" "ev_payload e = p"
    "d' = log_step e [new_record d n i e p] d" "wf_projections (db_projections d')"
proof -
  have c: "typed_command (command ty actor run cause p)" by (simp add: typed_command_def t(2))
  obtain e q m where e: "service_event vr t (command ty actor run cause p) = Inr e" "valid_event vr e"
    and q: "projection_payload_of (query_projections d) e = Inr q"
    and m: "map_of event_projections ty = Some m"
    and d': "d' = log_step e [new_record d m (entity_id_of e) e q] d" "wf_projections (db_projections d')"
    by (rule append_event_plain [OF wf t(1) c _ a]) (simp_all add: ty(1))
  note ev = service_event_valid [OF e(1)]
  have ty': "ev_type e = ty" "ev_payload e = p" using ev(2,5) by auto
  have "q = p"
    using q projection_payload_unchanged [of e "query_projections d"] ty ty'
    by (auto simp: plain_type_def)
  moreover have "entity_id_of e = i"
    using ty(1) tables(2) i by (auto simp: entity_id_of_def ty' plain_type_def)
  ultimately show ?thesis using that [OF e(2) ty'] d' m tables(1) by auto
qed

lemma control_types:
  "plain_type ''ControllerConfigured''" "plain_type ''WorkerConfigured''" "plain_type ''WorkerTaskAssigned''"
  "''ControllerConfigured'' \<notin> keys orchestration_event_projections"
  "''WorkerConfigured'' \<notin> keys orchestration_event_projections"
  "''WorkerTaskAssigned'' \<notin> keys orchestration_event_projections"
  by (simp_all add: plain_type_def orchestration_event_projections_def)

lemma projection_version_log_step:
  assumes "wf_projections (db_projections d)" "n \<in> set projection_names"
  shows "projection_version n i (log_step e [new_record d n i e p] d) = Inr (next_version (db_projections d) n i)"
  using assms by (simp add: projection_version_def query_projection_def find_log_step_single ensure_def)

lemma next_version_case:
  "next_version (db_projections d) n i
   = (case find_projection (db_projections d) n i of None \<Rightarrow> 1 | Some r \<Rightarrow> pr_version r + 1)"
  by (simp add: next_version_def)

lemma validate_worker_id_nonempty: "validate_worker_id w = Inr u \<Longrightarrow> w \<noteq> []"
  by (auto simp: validate_worker_id_def ident_match_def)

lemma append_failure_unchanged: "and_then m d f = (Inl e, d') \<Longrightarrow> m = Inl e \<Longrightarrow> d' = d"
  by (auto simp: and_then_def)

lemma register_worker_commits:
  assumes wf: "wf_projections (db_projections d)" and t: "typed_tick t"
    and a: "register_worker vr t w role d = (v, d')"
  shows "(\<exists>x. v = Inl x \<and> d' = d) \<or>
    (v = Inr 1 \<and> find_projection (db_projections d) ''worker_roster'' w = None \<and>
     (\<exists>e p. p = [(''worker_id'', JStr w), (''role'', JStr (role_value role)), (''status'', JStr ''idle'')]
        \<and> d' = log_step e [new_record d ''worker_roster'' w e p] d \<and> wf_projections (db_projections d')))"
  using a unfolding register_worker_def and_then_eq
proof (elim disjE exE conjE, goal_cases)
  case (2 r d1)
  let ?p = "[(''worker_id'', JStr w), (''role'', JStr (role_value role)), (''status'', JStr ''idle'')]"
  from 2 have w: "w \<noteq> []" and fresh: "find_projection (db_projections d) ''worker_roster'' w = None"
    and app: "append_event vr t (command ''WorkerConfigured'' ''operator'' None None ?p) d = Inr (r, d1)"
    by (auto simp: inr_simps query_projection_Inr dest: validate_worker_id_nonempty)
  obtain e where e: "d1 = log_step e [new_record d ''worker_roster'' w e ?p] d" "wf_projections (db_projections d1)"
    by (rule append_event_direct [OF wf t _ control_types(2,5) control_tables(2,5) _ w app])
      (simp_all add: wf_jdict_def)
  moreover have "v = Inr 1" "d' = d1"
    using 2 projection_version_log_step [OF wf control_names(2)] fresh by (auto simp: e(1) next_version_case)
  ultimately show ?case using fresh by blast
qed auto

lemma assign_task_commits:
  assumes wf: "wf_projections (db_projections d)" and t: "typed_tick t"
    and a: "assign_task vr sha text t w task d = (v, d')"
    and n: "n = next_version (db_projections d) ''worker_assignments'' w"
    and p: "p = [(''assignment_id'', JStr (assignment_id_of sha text w (sha task) n)),
           (''controller_id'', JStr controller_id), (''worker_id'', JStr w), (''task'', JStr task),
           (''task_hash'', JStr (sha task)), (''task_version'', JInt n)]"
  shows "(\<exists>x. v = Inl x \<and> d' = d) \<or>
    (v = Inr n \<and> find_projection (db_projections d) ''worker_roster'' w \<noteq> None
     \<and> find_projection (db_projections d) ''controller'' controller_id \<noteq> None \<and>
     (\<exists>e. d' = log_step e [new_record d ''worker_assignments'' w e p] d \<and> wf_projections (db_projections d')))"
  using a unfolding assign_task_def and_then_eq
proof (elim disjE exE conjE, goal_cases)
  case (2 r d1)
  then have w: "w \<noteq> []" and known: "find_projection (db_projections d) ''worker_roster'' w \<noteq> None"
    "find_projection (db_projections d) ''controller'' controller_id \<noteq> None"
    and app: "append_event vr t (command ''WorkerTaskAssigned'' controller_id None None p) d = Inr (r, d1)"
    by (auto simp: inr_simps query_projection_Inr Let_def p n next_version_case
        dest: validate_worker_id_nonempty)
  obtain e where e: "d1 = log_step e [new_record d ''worker_assignments'' w e p] d" "wf_projections (db_projections d1)"
    by (rule append_event_direct [OF wf t _ control_types(3,6) control_tables(3,6) _ w app])
      (simp_all add: wf_jdict_def p)
  moreover have "v = Inr n" "d' = d1"
    using 2 projection_version_log_step [OF wf control_names(3)] by (auto simp: e(1) n)
  ultimately show ?case using known by blast
qed auto

lemma configure_controller_refused:
  assumes wf: "wf_projections (db_projections d)" and t: "typed_tick t"
    and c: "configure_controller vr t p m d = (Inl x, d')"
  shows "d' = d"
proof -
  let ?q = "case m of None \<Rightarrow> [(''controller_id'', JStr controller_id), (''provider'', JStr p)]
     | Some m \<Rightarrow> AList.update ''model'' (JStr m) [(''controller_id'', JStr controller_id), (''provider'', JStr p)]"
  have q: "wf_jdict ?q" "map_of ?q ''controller_id'' = Some (JStr controller_id)"
    by (simp_all add: wf_jdict_def split: option.split)
  have "projection_version ''controller'' controller_id d1 = Inr (next_version (db_projections d) ''controller'' controller_id)"
    if app: "append_event vr t (command ''ControllerConfigured'' ''operator'' None None ?q) d = Inr (r, d1)" for r d1
  proof -
    obtain e where e: "d1 = log_step e [new_record d ''controller'' controller_id e ?q] d"
      by (rule append_event_direct [OF wf t q(1) control_types(1,4) control_tables(1,4) q(2) _ app])
         (simp_all add: controller_id_def)
    show ?thesis unfolding e by (rule projection_version_log_step [OF wf control_names(1)])
  qed
  with c show ?thesis
    unfolding configure_controller_def Let_def
    by (auto simp: and_then_eq split: if_splits)
qed

text \<open>A control operation that is refused leaves the database as it was.\<close>

lemma refused_control_changes_nothing:
  assumes "wf_projections (db_projections d)" "typed_tick t"
  shows "(configure_controller vr t p m d = (Inl x, d1) \<longrightarrow> d1 = d)
    \<and> (register_worker vr t w role d = (Inl y, d2) \<longrightarrow> d2 = d)
    \<and> (assign_task vr sha text t w task d = (Inl z, d3) \<longrightarrow> d3 = d)"
  using configure_controller_refused [OF assms] register_worker_commits [OF assms]
    assign_task_commits [OF assms _ refl refl] by blast

end
