(* ===== verification/Controller_Execution.thy ===== *)
theory Controller_Execution
  imports Control_Operations
begin

text \<open>
  The life of a controller session and of the executions it dispatches
  (\<open>orchestration/controller_lifecycle.py\<close>, \<open>orchestration/controller_execution.py\<close>). Each
  operation checks the stored projections and appends one event; the interruption of the executions
  of a crashed controller appends one event for each of them and stops at the first failure, with
  what it has appended so far.
\<close>

subsection \<open>Reading stored payloads\<close>

definition stored_payload :: "exn \<Rightarrow> projection \<Rightarrow> jdict res" where
  "stored_payload invalid r =
     (case pr_state r of
       JObj state \<Rightarrow> (case map_of state ''payload'' of Some (JObj p) \<Rightarrow> Inr p | _ \<Rightarrow> Inl invalid)
     | _ \<Rightarrow> Inl invalid)"

definition stored_text :: "exn \<Rightarrow> jdict \<Rightarrow> string \<Rightarrow> string res" where
  "stored_text invalid p field =
     (case map_of p field of
       Some (JStr s) \<Rightarrow> bindr (ensure (s \<noteq> []) invalid) (\<lambda>_. Inr s)
     | _ \<Rightarrow> Inl invalid)"

definition stored_integer :: "exn \<Rightarrow> jdict \<Rightarrow> string \<Rightarrow> int res" where
  "stored_integer invalid p field =
     (case map_of p field of
       Some (JInt i) \<Rightarrow> bindr (ensure (0 < i) invalid) (\<lambda>_. Inr i)
     | _ \<Rightarrow> Inl invalid)"

text \<open>
  Python's \<open>==\<close> of a JSON value and an integer: booleans are the integers 0 and 1, and a float
  equals an integer when its value does (mantissa times a power of two).
\<close>

definition float_is_int :: "64 word \<Rightarrow> int \<Rightarrow> bool" where
  "float_is_int w i =
     (let e = unat (take_bit 11 (drop_bit 52 w)); f = uint (take_bit 52 w);
          m = (if e = 0 then f else f + 2 ^ 52) * (if bit w 63 then -1 else 1);
          e' = (if e = 0 then 1 else e)
      in float_finite w \<and> (if 1075 \<le> e' then m * 2 ^ (e' - 1075) = i else m = i * 2 ^ (1075 - e')))"

definition py_int_eq :: "json \<Rightarrow> int \<Rightarrow> bool" where
  "py_int_eq v i =
     (case v of JInt j \<Rightarrow> j = i | JBool b \<Rightarrow> of_bool b = i | JFloat w \<Rightarrow> float_is_int w i | _ \<Rightarrow> False)"

text \<open>\<open>payload.get("status") in names\<close>, for a set of names.\<close>

definition status_in :: "string list \<Rightarrow> jdict \<Rightarrow> bool res" where
  "status_in names p =
     bindr (ensure (hashable (get_json p ''status'')) (TypeError ''unhashable type'')) (\<lambda>_.
     Inr (get_json p ''status'' \<in> JStr ` set names))"

definition nonterminal_statuses :: "string list" where
  "nonterminal_statuses = [''claimed'', ''planned'']"

abbreviation invalid_execution :: exn where
  "invalid_execution \<equiv> ControllerExecutionError ''EXECUTION_STATE_INVALID''"

abbreviation invalid_controller :: exn where
  "invalid_controller \<equiv> ControllerExecutionError ''CONTROLLER_STATE_INVALID''"

subsection \<open>The controller's sessions\<close>

definition start_controller ::
  "(jdict \<Rightarrow> bool) \<Rightarrow> tick \<Rightarrow> string \<Rightarrow> int \<Rightarrow> string \<Rightarrow> string \<Rightarrow> string \<Rightarrow> db \<Rightarrow> (event_record \<times> db) res" where
  "start_controller vr t session_id version provider backend_version executable_hash d =
     bindr (query_projection ''controller'' controller_id d) (\<lambda>c.
     case c of
       None \<Rightarrow> Inl (ControllerExecutionError ''CONTROLLER_NOT_CONFIGURED'')
     | Some configured \<Rightarrow>
         bindr (stored_payload invalid_controller configured) (\<lambda>configured_payload.
         bindr (ensure (pr_version configured = version)
           (ControllerExecutionError ''CONTROLLER_VERSION_STALE'')) (\<lambda>_.
         bindr (ensure (get_json configured_payload ''provider'' = JStr provider)
           (ControllerExecutionError ''CONTROLLER_PROVIDER_STALE'')) (\<lambda>_.
         bindr (query_projection ''controller_runtime'' controller_id d) (\<lambda>runtime.
         bindr (case runtime of
             None \<Rightarrow> Inr ()
           | Some r \<Rightarrow> bindr (stored_payload invalid_controller r) (\<lambda>p.
               ensure (get_json p ''status'' \<noteq> JStr ''running'')
                 (ControllerExecutionError ''CONTROLLER_ALREADY_RUNNING''))) (\<lambda>_.
         append_event vr t (command ''ControllerStarted'' controller_id None None
           [(''controller_id'', JStr controller_id), (''controller_session_id'', JStr session_id),
            (''controller_version'', JInt version), (''provider'', JStr provider),
            (''backend_version'', JStr backend_version),
            (''executable_hash'', JStr executable_hash)]) d))))))"

definition recover_unclean_controller ::
  "(jdict \<Rightarrow> bool) \<Rightarrow> tick \<Rightarrow> db \<Rightarrow> (string option \<times> db) res" where
  "recover_unclean_controller vr t d =
     bindr (query_projection ''controller_runtime'' controller_id d) (\<lambda>runtime.
     case runtime of
       None \<Rightarrow> Inr (None, d)
     | Some r \<Rightarrow>
         bindr (stored_payload invalid_controller r) (\<lambda>p.
         if get_json p ''status'' \<noteq> JStr ''running'' then Inr (None, d)
         else
           bindr (stored_text invalid_controller p ''controller_session_id'') (\<lambda>session_id.
           bindr (append_event vr t (command ''ControllerCrashed'' controller_id None None
             [(''controller_id'', JStr controller_id), (''controller_session_id'', JStr session_id),
              (''reason_code'', JStr ''UNCLEAN_SHUTDOWN'')]) d) (\<lambda>(_, d').
           Inr (Some session_id, d')))))"

definition stop_controller :: "(jdict \<Rightarrow> bool) \<Rightarrow> tick \<Rightarrow> string \<Rightarrow> db \<Rightarrow> (event_record \<times> db) res" where
  "stop_controller vr t session_id d =
     bindr (query_projection ''controller_runtime'' controller_id d) (\<lambda>runtime.
     case runtime of
       None \<Rightarrow> Inl (ControllerExecutionError ''CONTROLLER_NOT_RUNNING'')
     | Some r \<Rightarrow>
         bindr (stored_payload invalid_controller r) (\<lambda>p.
         bindr (ensure (get_json p ''status'' = JStr ''running'')
           (ControllerExecutionError ''CONTROLLER_NOT_RUNNING'')) (\<lambda>_.
         bindr (stored_text invalid_controller p ''controller_session_id'') (\<lambda>current.
         bindr (ensure (current = session_id)
           (ControllerExecutionError ''CONTROLLER_SESSION_STALE'')) (\<lambda>_.
         append_event vr t (command ''ControllerStopped'' controller_id None None
           [(''controller_id'', JStr controller_id), (''controller_session_id'', JStr session_id),
            (''reason_code'', JStr ''OPERATOR_SIGNAL'')]) d)))))"

subsection \<open>Claims\<close>

record claimed_assignment =
  cl_assignment :: string
  cl_worker :: string
  cl_role :: agent_role
  cl_task :: string
  cl_task_version :: int
  cl_execution :: string
  cl_controller_version :: int

definition stored_role :: "jdict \<Rightarrow> agent_role res" where
  "stored_role p =
     (case map_of p ''role'' of
       Some (JStr s) \<Rightarrow> (case agent_role_of s of
           Some r \<Rightarrow> Inr r | None \<Rightarrow> Inl (ControllerExecutionError ''WORKER_ROLE_INVALID''))
     | _ \<Rightarrow> Inl (ControllerExecutionError ''WORKER_ROLE_INVALID''))"

definition active_for_worker :: "string \<Rightarrow> projection \<Rightarrow> bool res" where
  "active_for_worker worker_id r =
     bindr (stored_payload invalid_execution r) (\<lambda>p.
     if get_json p ''worker_id'' = JStr worker_id then status_in nonterminal_statuses p else Inr False)"

text \<open>\<open>any\<close> stops at the first element that holds or raises.\<close>

fun any_res :: "('a \<Rightarrow> bool res) \<Rightarrow> 'a list \<Rightarrow> bool res" where
  "any_res f [] = Inr False"
| "any_res f (x # xs) = bindr (f x) (\<lambda>b. if b then Inr True else any_res f xs)"

definition running_payload :: "db \<Rightarrow> jdict res" where
  "running_payload d =
     bindr (query_projection ''controller_runtime'' controller_id d) (\<lambda>runtime.
     case runtime of
       None \<Rightarrow> Inl (ControllerExecutionError ''CONTROLLER_NOT_RUNNING'')
     | Some r \<Rightarrow>
         bindr (stored_payload invalid_execution r) (\<lambda>p.
         bindr (ensure (get_json p ''status'' = JStr ''running'')
           (ControllerExecutionError ''CONTROLLER_NOT_RUNNING'')) (\<lambda>_. Inr p)))"

definition require_configured :: "int \<Rightarrow> db \<Rightarrow> projection res" where
  "require_configured version d =
     bindr (query_projection ''controller'' controller_id d) (\<lambda>configured.
     case configured of
       None \<Rightarrow> Inl (ControllerExecutionError ''CONTROLLER_VERSION_STALE'')
     | Some c \<Rightarrow> bindr (ensure (pr_version c = version)
         (ControllerExecutionError ''CONTROLLER_VERSION_STALE'')) (\<lambda>_. Inr c))"

definition claim_assignment ::
  "(jdict \<Rightarrow> bool) \<Rightarrow> tick \<Rightarrow> string \<Rightarrow> string \<Rightarrow> int \<Rightarrow> string \<Rightarrow> db \<Rightarrow> (claimed_assignment \<times> db) res" where
  "claim_assignment vr t worker_id session_id version execution_id d =
     bindr (query_projection ''worker_assignments'' worker_id d) (\<lambda>assignment.
     case assignment of
       None \<Rightarrow> Inl (ControllerExecutionError ''ASSIGNMENT_NOT_FOUND'')
     | Some a \<Rightarrow>
         bindr (stored_payload invalid_execution a) (\<lambda>payload.
         bindr (stored_integer invalid_execution payload ''task_version'') (\<lambda>task_version.
         bindr (ensure (pr_version a = task_version)
           (ControllerExecutionError ''TASK_VERSION_STALE'')) (\<lambda>_.
         bindr (require_configured version d) (\<lambda>_.
         bindr (running_payload d) (\<lambda>runtime.
         bindr (ensure (get_json runtime ''controller_session_id'' = JStr session_id)
           (ControllerExecutionError ''CONTROLLER_SESSION_STALE'')) (\<lambda>_.
         bindr (ensure (py_int_eq (get_json runtime ''controller_version'') version)
           (ControllerExecutionError ''CONTROLLER_VERSION_STALE'')) (\<lambda>_.
         bindr (query_projection ''worker_roster'' worker_id d) (\<lambda>roster.
         bindr (case roster of
             None \<Rightarrow> Inl (ControllerExecutionError ''WORKER_NOT_REGISTERED'')
           | Some r \<Rightarrow> bindr (stored_payload invalid_execution r) stored_role) (\<lambda>role.
         bindr (stored_text invalid_execution payload ''assignment_id'') (\<lambda>assignment_id.
         bindr (query_projection ''worker_executions'' assignment_id d) (\<lambda>execution.
         bindr (ensure (execution = None)
           (ControllerExecutionError ''ASSIGNMENT_ALREADY_CLAIMED'')) (\<lambda>_.
         bindr (store_projections (Some ''worker_executions'') d) (\<lambda>executions.
         bindr (any_res (active_for_worker worker_id) executions) (\<lambda>active.
         bindr (ensure (\<not> active) (ControllerExecutionError ''WORKER_EXECUTION_ACTIVE'')) (\<lambda>_.
         bindr (active_document_leases d) (\<lambda>leases.
         bindr (ensure (\<not> (\<exists>l \<in> set leases. ls_worker l = worker_id))
           (ControllerExecutionError ''WORKER_LEASE_ACTIVE'')) (\<lambda>_.
         bindr (stored_text invalid_execution payload ''task'') (\<lambda>task.
         bindr (append_event vr t (command ''WorkerTaskClaimed'' controller_id None None
           [(''assignment_id'', JStr assignment_id), (''controller_id'', JStr controller_id),
            (''controller_session_id'', JStr session_id), (''controller_version'', JInt version),
            (''worker_id'', JStr worker_id), (''task_version'', JInt task_version),
            (''execution_id'', JStr execution_id)]) d) (\<lambda>(_, d').
         Inr (\<lparr>cl_assignment = assignment_id, cl_worker = worker_id, cl_role = role, cl_task = task,
                cl_task_version = task_version, cl_execution = execution_id,
                cl_controller_version = version\<rparr>, d')))))))))))))))))))))"

definition validate_claim :: "string list \<Rightarrow> claimed_assignment \<Rightarrow> db \<Rightarrow> unit res" where
  "validate_claim allowed claim d =
     bindr (query_projection ''worker_assignments'' (cl_worker claim) d) (\<lambda>assignment.
     case assignment of
       None \<Rightarrow> Inl (ControllerExecutionError ''ASSIGNMENT_NOT_FOUND'')
     | Some current \<Rightarrow>
         bindr (stored_payload invalid_execution current) (\<lambda>payload.
         bindr (ensure (pr_version current = cl_task_version claim
             \<and> py_int_eq (get_json payload ''task_version'') (cl_task_version claim)
             \<and> get_json payload ''assignment_id'' = JStr (cl_assignment claim))
           (ControllerExecutionError ''TASK_VERSION_STALE'')) (\<lambda>_.
         bindr (query_projection ''worker_executions'' (cl_assignment claim) d) (\<lambda>execution.
         case execution of
           None \<Rightarrow> Inl (ControllerExecutionError ''EXECUTION_NOT_FOUND'')
         | Some e \<Rightarrow>
             bindr (stored_payload invalid_execution e) (\<lambda>execution_payload.
             bindr (ensure (get_json execution_payload ''execution_id'' = JStr (cl_execution claim))
               (ControllerExecutionError ''EXECUTION_ID_STALE'')) (\<lambda>_.
             bindr (require_configured (cl_controller_version claim) d) (\<lambda>configured.
             bindr (running_payload d) (\<lambda>runtime.
             bindr (stored_text invalid_execution execution_payload ''controller_session_id'') (\<lambda>mine.
             bindr (stored_text invalid_execution runtime ''controller_session_id'') (\<lambda>current_session.
             bindr (ensure (mine = current_session)
               (ControllerExecutionError ''CONTROLLER_SESSION_STALE'')) (\<lambda>_.
             bindr (stored_integer invalid_execution execution_payload ''controller_version'') (\<lambda>mine_version.
             bindr (ensure (mine_version = pr_version configured)
               (ControllerExecutionError ''CONTROLLER_VERSION_STALE'')) (\<lambda>_.
             bindr (stored_integer invalid_execution runtime ''controller_version'') (\<lambda>current_version.
             bindr (ensure (current_version = pr_version configured)
               (ControllerExecutionError ''CONTROLLER_VERSION_STALE'')) (\<lambda>_.
             bindr (status_in allowed execution_payload) (\<lambda>ok.
             ensure ok (ControllerExecutionError ''EXECUTION_TERMINAL'')))))))))))))))))"

definition record_dispatch_planned ::
  "(jdict \<Rightarrow> bool) \<Rightarrow> tick \<Rightarrow> claimed_assignment \<Rightarrow> string \<Rightarrow> string \<Rightarrow> string \<Rightarrow> int \<Rightarrow> int \<Rightarrow> db
     \<Rightarrow> (event_record \<times> db) res" where
  "record_dispatch_planned vr t claim directive_id artifact_hash instruction_hash budget timeout d =
     bindr (validate_claim [''claimed''] claim d) (\<lambda>_.
     append_event vr t (command ''WorkerTaskDispatchPlanned'' controller_id None None
       [(''assignment_id'', JStr (cl_assignment claim)), (''execution_id'', JStr (cl_execution claim)),
        (''directive_id'', JStr directive_id), (''directive_artifact_hash'', JStr artifact_hash),
        (''instruction_hash'', JStr instruction_hash), (''budget'', JInt budget),
        (''timeout_milliseconds'', JInt timeout)]) d)"

definition append_terminal ::
  "(jdict \<Rightarrow> bool) \<Rightarrow> tick \<Rightarrow> claimed_assignment \<Rightarrow> string \<Rightarrow> jdict \<Rightarrow> string list \<Rightarrow> db
     \<Rightarrow> (event_record \<times> db) res" where
  "append_terminal vr t claim event_type terminal allowed d =
     bindr (validate_claim allowed claim d) (\<lambda>_.
     append_event vr t (command event_type controller_id None None
       (dict_merge [(''assignment_id'', JStr (cl_assignment claim)),
          (''execution_id'', JStr (cl_execution claim))] terminal)) d)"

definition complete_assignment ::
  "(jdict \<Rightarrow> bool) \<Rightarrow> tick \<Rightarrow> claimed_assignment \<Rightarrow> string \<Rightarrow> db \<Rightarrow> (event_record \<times> db) res" where
  "complete_assignment vr t claim result_hash d =
     append_terminal vr t claim ''WorkerTaskCompleted'' [(''result_hash'', JStr result_hash)]
       [''planned''] d"

definition fail_assignment ::
  "(jdict \<Rightarrow> bool) \<Rightarrow> tick \<Rightarrow> claimed_assignment \<Rightarrow> string \<Rightarrow> db \<Rightarrow> (event_record \<times> db) res" where
  "fail_assignment vr t claim reason_code d =
     append_terminal vr t claim ''WorkerTaskFailed'' [(''reason_code'', JStr reason_code)] nonterminal_statuses d"

definition interrupt_assignment ::
  "(jdict \<Rightarrow> bool) \<Rightarrow> tick \<Rightarrow> claimed_assignment \<Rightarrow> string \<Rightarrow> db \<Rightarrow> (event_record \<times> db) res" where
  "interrupt_assignment vr t claim reason_code d =
     append_terminal vr t claim ''WorkerTaskInterrupted'' [(''reason_code'', JStr reason_code)]
       nonterminal_statuses d"

text \<open>The loop over the stored executions; \<open>ticks i\<close> serves its \<open>i\<close>-th event.\<close>

fun interrupt_records ::
  "(jdict \<Rightarrow> bool) \<Rightarrow> (nat \<Rightarrow> tick) \<Rightarrow> projection list \<Rightarrow> db \<Rightarrow> string list outcome" where
  "interrupt_records vr ticks [] d = (Inr [], d)"
| "interrupt_records vr ticks (r # rs) d =
     (case bindr (stored_payload invalid_execution r) (\<lambda>p.
             bindr (status_in nonterminal_statuses p) (\<lambda>active.
             if \<not> active then Inr None
             else
               bindr (stored_text invalid_execution p ''assignment_id'') (\<lambda>assignment_id.
               bindr (stored_text invalid_execution p ''execution_id'') (\<lambda>execution_id.
               bindr (append_event vr (ticks 0) (command ''WorkerTaskInterrupted'' controller_id None None
                 [(''assignment_id'', JStr assignment_id), (''execution_id'', JStr execution_id),
                  (''reason_code'', JStr ''CONTROLLER_RESTART'')]) d) (\<lambda>(_, d').
               Inr (Some (assignment_id, d'))))))) of
       Inl e \<Rightarrow> (Inl e, d)
     | Inr None \<Rightarrow> interrupt_records vr ticks rs d
     | Inr (Some (assignment_id, d')) \<Rightarrow>
         (case interrupt_records vr (\<lambda>i. ticks (Suc i)) rs d' of
           (v, d'') \<Rightarrow> (bindr v (\<lambda>ids. Inr (assignment_id # ids)), d'')))"

definition interrupt_nonterminal_executions ::
  "(jdict \<Rightarrow> bool) \<Rightarrow> (nat \<Rightarrow> tick) \<Rightarrow> db \<Rightarrow> string list outcome" where
  "interrupt_nonterminal_executions vr ticks d =
     (case store_projections (Some ''worker_executions'') d of
       Inl e \<Rightarrow> (Inl e, d)
     | Inr records \<Rightarrow> interrupt_records vr ticks (sort_key pr_entity records) d)"

end
