(* ===== verification/Execution_Table.thy ===== *)
theory Execution_Table
  imports Controller_Execution
begin

text \<open>
  What the stored projections say about executions, as a map from assignments to executions, and
  the steps this map can make. Whatever event is appended, by whichever method, the map makes one
  of these steps or stays: the reducer admits no other change (\<open>event_execution_step\<close>).
\<close>

subsection \<open>The abstract table\<close>

record execution =
  ex_worker :: string
  ex_id :: string
  ex_session :: string
  ex_status :: string

type_synonym execution_table = "string \<rightharpoonup> execution"

definition terminal_statuses :: "string list" where
  "terminal_statuses = [''completed'', ''failed'', ''interrupted'']"

definition is_active :: "execution \<Rightarrow> bool" where
  "is_active x \<longleftrightarrow> ex_status x \<in> set nonterminal_statuses"

inductive execution_step :: "execution_table \<Rightarrow> execution_table \<Rightarrow> bool" where
  claimed: "m a = None \<Longrightarrow> ex_status x = ''claimed'' \<Longrightarrow> execution_step m (m(a \<mapsto> x))"
| planned: "m a = Some x \<Longrightarrow> ex_status x = ''claimed'' \<Longrightarrow>
    execution_step m (m(a \<mapsto> x\<lparr>ex_status := ''planned''\<rparr>))"
| completed: "m a = Some x \<Longrightarrow> ex_status x = ''planned'' \<Longrightarrow>
    execution_step m (m(a \<mapsto> x\<lparr>ex_status := ''completed''\<rparr>))"
| ended: "m a = Some x \<Longrightarrow> is_active x \<Longrightarrow> s \<in> {''failed'', ''interrupted''} \<Longrightarrow>
    execution_step m (m(a \<mapsto> x\<lparr>ex_status := s\<rparr>))"

definition execution_of :: "projection \<Rightarrow> execution option" where
  "execution_of r =
     (case stored_payload invalid_execution r of
       Inl _ \<Rightarrow> None
     | Inr p \<Rightarrow>
        (case (get_str p ''worker_id'', get_str p ''execution_id'', get_str p ''controller_session_id'',
               get_str p ''status'') of
          (Some w, Some i, Some c, Some s) \<Rightarrow>
            Some \<lparr>ex_worker = w, ex_id = i, ex_session = c, ex_status = s\<rparr>
        | _ \<Rightarrow> None))"

definition executions :: "db \<Rightarrow> execution_table" where
  "executions d a =
     Option.bind (find_projection (db_projections d) ''worker_executions'' a) execution_of"

text \<open>What the codecs and the reducer leave in a record of an execution.\<close>

definition reads_execution :: "jdict \<Rightarrow> string \<Rightarrow> execution \<Rightarrow> bool" where
  "reads_execution p a x \<longleftrightarrow>
     map_of p ''assignment_id'' = Some (JStr a) \<and> is_hash a
     \<and> map_of p ''worker_id'' = Some (JStr (ex_worker x)) \<and> ex_worker x \<noteq> []
     \<and> map_of p ''execution_id'' = Some (JStr (ex_id x)) \<and> ex_id x \<noteq> []
     \<and> map_of p ''controller_session_id'' = Some (JStr (ex_session x)) \<and> ex_session x \<noteq> []
     \<and> map_of p ''status'' = Some (JStr (ex_status x))
     \<and> ex_status x \<in> set (nonterminal_statuses @ terminal_statuses)
     \<and> (\<exists>v n. map_of p ''controller_version'' = Some (JInt v) \<and> 0 < v
          \<and> map_of p ''task_version'' = Some (JInt n) \<and> 0 < n)"

definition wf_execution_record :: "projection \<Rightarrow> bool" where
  "wf_execution_record r \<longleftrightarrow> (\<exists>p x. stored_payload invalid_execution r = Inr p \<and> wf_jdict p
     \<and> reads_execution p (pr_entity r) x)"

definition wf_executions :: "db \<Rightarrow> bool" where
  "wf_executions d \<longleftrightarrow> wf_projections (db_projections d)
     \<and> (\<forall>r \<in> set (db_projections d). pr_name r = ''worker_executions'' \<longrightarrow> wf_execution_record r)"

lemma execution_of_reads:
  assumes "stored_payload invalid_execution r = Inr p" "reads_execution p a x"
  shows "execution_of r = Some x"
  using assms by (simp add: execution_of_def reads_execution_def)

lemma wf_execution_record_of:
  assumes "wf_execution_record r"
  obtains p x where "stored_payload invalid_execution r = Inr p" "wf_jdict p"
    "reads_execution p (pr_entity r) x" "execution_of r = Some x"
  using assms execution_of_reads unfolding wf_execution_record_def by blast

lemma wf_executions_find:
  assumes "wf_executions d" "find_projection (db_projections d) ''worker_executions'' a = Some r"
  obtains p x where "stored_payload invalid_execution r = Inr p" "wf_jdict p"
    "reads_execution p a x" "executions d a = Some x"
proof -
  from assms have "wf_execution_record r" "pr_entity r = a"
    by (auto simp: wf_executions_def dest!: find_projection_Some)
  then show ?thesis using that assms(2)
    by (auto elim!: wf_execution_record_of simp: executions_def)
qed

lemma executions_None:
  "wf_executions d \<Longrightarrow> executions d a = None \<longleftrightarrow>
     find_projection (db_projections d) ''worker_executions'' a = None"
  by (metis bind_eq_None_conv executions_def option.distinct(1) option.exhaust wf_executions_find)

lemma stored_payload_new_record:
  "stored_payload x (new_record d n i e p) = Inr (canon_dict p)"
  by (simp add: stored_payload_def new_record_def)

lemma reads_execution_canon:
  "wf_dict p \<Longrightarrow> reads_execution (canon_dict p) a x \<longleftrightarrow> reads_execution p a x"
  by (simp add: reads_execution_def map_of_canon_atom)

definition task_types :: "string list" where
  "task_types = [''WorkerTaskClaimed'', ''WorkerTaskDispatchPlanned'', ''WorkerTaskCompleted'',
     ''WorkerTaskFailed'', ''WorkerTaskInterrupted'']"

lemma task_typeE:
  assumes "t \<in> set task_types"
  obtains "t = ''WorkerTaskClaimed''" | "t = ''WorkerTaskDispatchPlanned''"
    | "t = ''WorkerTaskCompleted''" | "t = ''WorkerTaskFailed''" | "t = ''WorkerTaskInterrupted''"
proof -
  have "t = ''WorkerTaskClaimed'' \<or> t = ''WorkerTaskDispatchPlanned'' \<or> t = ''WorkerTaskCompleted''
      \<or> t = ''WorkerTaskFailed'' \<or> t = ''WorkerTaskInterrupted''"
    using assms by (simp only: task_types_def list.set insert_iff empty_iff simp_thms)
  then show ?thesis by (elim disjE) (erule that)+
qed

text \<open>The tables of the reducer at these types, evaluated.\<close>

lemma task_table_values:
  "list_all (\<lambda>(t, n). n = ''worker_executions'' \<longrightarrow> t \<in> set task_types) event_projections"
  "list_all (\<lambda>t. map_of event_projections t = Some ''worker_executions''
     \<and> map_of orchestration_event_projections t = Some ''worker_executions''
     \<and> map_of entity_fields t = Some ''assignment_id''
     \<and> map_of orchestration_entity_fields t = Some ''assignment_id''
     \<and> t \<notin> set [''LeaseGranted'', ''LeaseReleased'', ''LeaseRecovered'', ''ArtifactRegistered'',
          ''ProjectInitialized'', ''KnowledgeDeltaPublished'', ''ResearchRecordUpdated'',
          ''ControllerStopped'', ''ControllerCrashed'']) task_types"
  by code_simp+

lemma task_statuses:
  "map_of target_statuses ''WorkerTaskClaimed'' = Some ''claimed''"
  "map_of target_statuses ''WorkerTaskDispatchPlanned'' = Some ''planned''"
  "map_of target_statuses ''WorkerTaskCompleted'' = Some ''completed''"
  "map_of target_statuses ''WorkerTaskFailed'' = Some ''failed''"
  "map_of target_statuses ''WorkerTaskInterrupted'' = Some ''interrupted''"
  "map_of allowed_previous ''WorkerTaskClaimed'' = Some [None]"
  "map_of allowed_previous ''WorkerTaskDispatchPlanned'' = Some [Some ''claimed'']"
  "map_of allowed_previous ''WorkerTaskCompleted'' = Some [Some ''planned'']"
  "map_of allowed_previous ''WorkerTaskFailed'' = Some [Some ''claimed'', Some ''planned'']"
  "map_of allowed_previous ''WorkerTaskInterrupted'' = Some [Some ''claimed'', Some ''planned'']"
  by code_simp+

lemma executions_projection:
  assumes "map_of event_projections t = Some ''worker_executions''"
  shows "t \<in> set task_types"
  using bspec [OF task_table_values(1) [unfolded list_all_iff] map_of_SomeD [OF assms]] by simp

lemma task_entity_fields:
  assumes "t \<in> set task_types"
  shows "map_of event_projections t = Some ''worker_executions''"
    "map_of orchestration_event_projections t = Some ''worker_executions''"
    "map_of entity_fields t = Some ''assignment_id''"
    "map_of orchestration_entity_fields t = Some ''assignment_id''"
  using bspec [OF task_table_values(2) [unfolded list_all_iff] assms] by simp_all

lemma task_type_plain:
  assumes "t \<in> set task_types"
  shows "plain_type t" "t \<in> keys orchestration_event_projections" "t \<noteq> ''ResearchRecordUpdated''"
    "t \<notin> {''ControllerStopped'', ''ControllerCrashed''}"
  using bspec [OF task_table_values(2) [unfolded list_all_iff] assms] task_entity_fields(2) [OF assms]
  by (simp_all add: in_keys_map_of plain_type_def)

lemma task_codecs:
  "map_of codecs ''WorkerTaskClaimed'' = Some (codec [''assignment_id'', ''controller_id'',
      ''controller_session_id'', ''controller_version'', ''worker_id'', ''task_version'',
      ''execution_id''] [] [(''assignment_id'', sha256_payload), (''controller_version'',
      positive_integer), (''task_version'', positive_integer)])"
  "map_of codecs ''WorkerTaskDispatchPlanned'' = Some (codec [''assignment_id'', ''execution_id'',
      ''directive_id'', ''directive_artifact_hash'', ''instruction_hash'', ''budget'',
      ''timeout_milliseconds''] [] [(''assignment_id'', sha256_payload),
      (''directive_artifact_hash'', sha256_payload), (''instruction_hash'',
      sha256_payload), (''budget'', positive_integer), (''timeout_milliseconds'',
      positive_integer)])"
  "map_of codecs ''WorkerTaskCompleted'' = Some (codec [''assignment_id'', ''execution_id'',
      ''result_hash''] [] [(''assignment_id'', sha256_payload), (''result_hash'',
      sha256_payload)])"
  "map_of codecs ''WorkerTaskFailed'' = Some (codec [''assignment_id'', ''execution_id'',
      ''reason_code''] [] [(''assignment_id'', sha256_payload), (''reason_code'',
      enum_payload [''CONTROLLER_BLOCKED'', ''CONTROLLER_REJECTED'',
      ''CONTROLLER_DECISION_INVALID'', ''CONTROLLER_TIMEOUT'', ''WORKER_FAILED'',
      ''WORKER_ROLE_UNSUPPORTED'', ''FORMAL_TARGET_REQUIRED''])])"
  "map_of codecs ''WorkerTaskInterrupted'' = Some (codec [''assignment_id'', ''execution_id'',
      ''reason_code''] [] [(''assignment_id'', sha256_payload), (''reason_code'',
      enum_payload [''OPERATOR_SIGNAL'', ''CONTROLLER_RESTART''])])"
  by (simp_all add: codecs_def foundation_codecs_def orchestration_codecs_def)

text \<open>The fields of a valid event about a task, and those it cannot have.\<close>

lemma task_event_fields:
  assumes "valid_event vr e" "ev_type e \<in> set task_types"
  obtains a i where "map_of (ev_payload e) ''assignment_id'' = Some (JStr a)" "is_hash a"
    "map_of (ev_payload e) ''execution_id'' = Some (JStr i)" "i \<noteq> []"
proof -
  obtain c where c: "map_of codecs (ev_type e) = Some c" "''assignment_id'' \<in> set (required c)"
    "''execution_id'' \<in> set (required c)" "validator_for c ''assignment_id'' = sha256_payload"
    "validator_for c ''execution_id'' = text_payload"
    using assms(2)
    by (elim task_typeE) (simp_all add: task_codecs codec_def validator_for_def field_validators_def)
  note field = valid_event_field [OF assms(1) c(1)]
  have "ev_type e \<noteq> ''ResearchRecordUpdated''" by (rule task_type_plain(3) [OF assms(2)])
  note field = field [OF this]
  obtain x y where xy: "map_of (ev_payload e) ''assignment_id'' = Some x" "map_of (ev_payload e) ''execution_id'' = Some y"
    using field(1) [OF c(2)] field(1) [OF c(3)] by blast
  then have "sha256_payload x" "text_payload y"
    using field(2) c(4,5) by metis+
  then show ?thesis using that xy sha256_payload_JStr text_payload_JStr by blast
qed

lemma later_task_keys:
  assumes "valid_event vr e" "ev_type e \<in> set task_types" "ev_type e \<noteq> ''WorkerTaskClaimed''"
    and "k \<in> {''status'', ''worker_id'', ''controller_session_id'', ''controller_version'', ''task_version''}"
  shows "map_of (ev_payload e) k = None"
proof -
  obtain c where c: "map_of codecs (ev_type e) = Some c" "k \<notin> set (required c)" "optional c = []"
    using assms(2-4) by (elim task_typeE) (auto simp: task_codecs codec_def)
  have "ev_type e \<noteq> ''ResearchRecordUpdated''" by (rule task_type_plain(3) [OF assms(2)])
  then have "codec_validate c (ev_type e) (ev_payload e) = Inr ()"
    using assms(1) c(1) by (auto simp: valid_event_def validate_payload_def)
  then show ?thesis using c(2,3) by (auto simp: codec_validate_Inr map_of_eq_None_keys)
qed

subsection \<open>Every event is a step of the table\<close>

definition allowed_execution :: "string \<Rightarrow> string list" where
  "allowed_execution t =
     (if t = ''WorkerTaskDispatchPlanned'' then [''claimed'']
      else if t = ''WorkerTaskCompleted'' then [''planned''] else nonterminal_statuses)"

lemma payload_iffs:
  "text_payload v \<longleftrightarrow> (\<exists>s. v = JStr s \<and> s \<noteq> [])"
  "positive_integer v \<longleftrightarrow> (\<exists>i. v = JInt i \<and> 0 < i)"
  "sha256_payload v \<longleftrightarrow> (\<exists>s. v = JStr s \<and> is_hash s)"
  by (cases v; simp add: text_payload_def positive_integer_def sha256_payload_def)+

lemma reads_execution_unique:
  "reads_execution p a x \<Longrightarrow> reads_execution p a y \<Longrightarrow> x = y"
  by (cases x; cases y) (auto simp: reads_execution_def)

lemma execution_of_new_record:
  assumes "wf_dict p" "reads_execution p a x"
  shows "execution_of (new_record d n a e p) = Some x"
  using execution_of_reads [OF stored_payload_new_record] reads_execution_canon [OF assms(1)] assms(2)
  by blast

lemma wf_execution_new_record:
  assumes "wf_jdict p" "reads_execution p a x"
  shows "wf_execution_record (new_record d n a e p)"
  using assms reads_execution_canon [OF wf_jdict_wf_dict [OF assms(1)], of a x]
  by (auto simp: wf_execution_record_def stored_payload_new_record)

lemma claimed_reads:
  assumes "valid_event vr e" "ev_type e = ''WorkerTaskClaimed''" "wf_jdict (ev_payload e)"
    and a: "map_of (ev_payload e) ''assignment_id'' = Some (JStr a)"
  obtains w i c where
    "map_of (ev_payload e) ''worker_id'' = Some (JStr w)"
    "map_of (ev_payload e) ''execution_id'' = Some (JStr i)"
    "map_of (ev_payload e) ''controller_session_id'' = Some (JStr c)"
    "reads_execution (AList.update ''status'' (JStr ''claimed'') (ev_payload e)) a
      \<lparr>ex_worker = w, ex_id = i, ex_session = c, ex_status = ''claimed''\<rparr>"
proof -
  let ?c = "codec [''assignment_id'', ''controller_id'',
      ''controller_session_id'', ''controller_version'', ''worker_id'', ''task_version'',
      ''execution_id''] [] [(''assignment_id'', sha256_payload), (''controller_version'',
      positive_integer), (''task_version'', positive_integer)]"
  have c: "map_of codecs (ev_type e) = Some ?c" by (simp add: assms(2) task_codecs)
  have "ev_type e \<noteq> ''ResearchRecordUpdated''" by (simp add: assms(2))
  note field = valid_event_field [OF assms(1) c this]
  have v: "validator_for ?c ''assignment_id'' = sha256_payload"
    "validator_for ?c ''worker_id'' = text_payload" "validator_for ?c ''execution_id'' = text_payload"
    "validator_for ?c ''controller_session_id'' = text_payload"
    "validator_for ?c ''controller_version'' = positive_integer"
    "validator_for ?c ''task_version'' = positive_integer"
    by (simp_all add: codec_def validator_for_def field_validators_def)
  have "\<exists>x. map_of (ev_payload e) k = Some x \<and> validator_for ?c k x" if "k \<in> set (required ?c)" for k
    using field(1) [OF that] field(2) [of k] by blast
  from this [of "''worker_id''"] this [of "''execution_id''"] this [of "''controller_session_id''"]
    this [of "''controller_version''"] this [of "''task_version''"] this [of "''assignment_id''"]
  obtain w i s x y where f: "map_of (ev_payload e) ''worker_id'' = Some (JStr w)" "w \<noteq> []"
    "map_of (ev_payload e) ''execution_id'' = Some (JStr i)" "i \<noteq> []"
    "map_of (ev_payload e) ''controller_session_id'' = Some (JStr s)" "s \<noteq> []"
    "map_of (ev_payload e) ''controller_version'' = Some (JInt x)" "0 < x"
    "map_of (ev_payload e) ''task_version'' = Some (JInt y)" "0 < y" "is_hash a"
    unfolding v a payload_iffs by (auto simp: codec_def)
  show ?thesis
    by (rule that [OF f(1,3,5)])
       (simp add: reads_execution_def map_of_update f a nonterminal_statuses_def)
qed

lemma later_reads:
  assumes p: "wf_jdict p" "reads_execution p a x" and q: "wf_jdict q"
    "map_of q ''assignment_id'' = Some (JStr a)" "map_of q ''execution_id'' = Some (JStr (ex_id x))"
    and none: "\<And>k. k \<in> {''status'', ''worker_id'', ''controller_session_id'', ''controller_version'', ''task_version''}
      \<Longrightarrow> map_of q k = None"
    and s: "s \<in> set (nonterminal_statuses @ terminal_statuses)"
  shows "reads_execution (AList.update ''status'' (JStr s) (dict_merge p q)) a (x\<lparr>ex_status := s\<rparr>)"
  using p(2) s
  by (simp add: reads_execution_def map_of_update map_of_dict_merge [OF wf_jdict_wf_dict [OF q(1)]] q none)

lemma event_execution_change:
  assumes wf: "wf_executions d" and e: "valid_event vr e" "typed_event e"
    and ty: "ev_type e \<in> set task_types"
    and p: "projection_payload_of (query_projections d) e = Inr p"
    and a: "map_of (ev_payload e) ''assignment_id'' = Some (JStr a)"
  obtains (claimed) x w i c where "ev_type e = ''WorkerTaskClaimed''" "executions d a = None"
      "map_of (ev_payload e) ''worker_id'' = Some (JStr w)"
      "map_of (ev_payload e) ''execution_id'' = Some (JStr i)"
      "map_of (ev_payload e) ''controller_session_id'' = Some (JStr c)"
      "x = \<lparr>ex_worker = w, ex_id = i, ex_session = c, ex_status = ''claimed''\<rparr>"
      "reads_execution p a x" "wf_jdict p"
  | (later) x s where "ev_type e \<noteq> ''WorkerTaskClaimed''" "executions d a = Some x"
      "ex_status x \<in> set (allowed_execution (ev_type e))"
      "map_of (ev_payload e) ''execution_id'' = Some (JStr (ex_id x))"
      "map_of target_statuses (ev_type e) = Some s" "reads_execution p a (x\<lparr>ex_status := s\<rparr>)" "wf_jdict p"
proof -
  have wfp: "wf_projections (db_projections d)" using wf by (simp add: wf_executions_def)
  have pl: "wf_jdict (ev_payload e)" using e(2) by (simp add: typed_event_def)
  have wfj: "wf_jdict p" by (rule projection_payload_wf [OF wf_query_projections [OF wfp] pl p])
  have red: "reduce_orchestration_payload (query_projections d) e = Inr p"
    using p task_type_plain(2) [OF ty] by (simp add: projection_payload_of_def)
  obtain target allowed where ta: "map_of target_statuses (ev_type e) = Some target"
    "map_of allowed_previous (ev_type e) = Some allowed"
    and cl: "ev_type e = ''WorkerTaskClaimed'' \<longleftrightarrow> None \<in> set allowed"
      "ev_type e = ''WorkerTaskClaimed'' \<Longrightarrow> target = ''claimed'' \<and> allowed = [None]"
      "ev_type e \<noteq> ''WorkerTaskClaimed'' \<Longrightarrow> allowed = map Some (allowed_execution (ev_type e))"
      "target \<in> set (nonterminal_statuses @ terminal_statuses)"
    using ty
    by (elim task_typeE)
       (simp_all add: task_statuses allowed_execution_def nonterminal_statuses_def terminal_statuses_def)
  obtain i where i: "map_of (ev_payload e) ''execution_id'' = Some (JStr i)"
    by (rule task_event_fields [OF e(1) ty]) blast
  from red task_entity_fields(2,4) [OF ty] ta show ?thesis
  proof (cases rule: reduce_orchestration_Inr)
    case (first b)
    then have "ev_type e = ''WorkerTaskClaimed''" and "b = a" using cl(1) a by auto
    moreover have "executions d a = None"
      using first(2) wf \<open>b = a\<close> by (simp add: executions_None find_query_projections [OF wfp])
    moreover obtain w i c where "map_of (ev_payload e) ''worker_id'' = Some (JStr w)"
      "map_of (ev_payload e) ''execution_id'' = Some (JStr i)"
      "map_of (ev_payload e) ''controller_session_id'' = Some (JStr c)"
      "reads_execution (AList.update ''status'' (JStr ''claimed'') (ev_payload e)) a
        \<lparr>ex_worker = w, ex_id = i, ex_session = c, ex_status = ''claimed''\<rparr>"
      by (rule claimed_reads [OF e(1) \<open>ev_type e = ''WorkerTaskClaimed''\<close> pl a])
    moreover have "p = AList.update ''status'' (JStr ''claimed'') (ev_payload e)"
      using first(4) cl(2) [OF \<open>ev_type e = ''WorkerTaskClaimed''\<close>] by blast
    ultimately show ?thesis using wfj by (intro claimed [OF _ _ _ _ _ refl]) simp_all
  next
    case (later b r st prev)
    have b: "b = a" using later(1) a by simp
    then have f: "find_projection (db_projections d) ''worker_executions'' a = Some r"
      using later(2) by (simp add: find_query_projections [OF wfp])
    obtain p0 x where x: "stored_payload invalid_execution r = Inr p0" "wf_jdict p0"
      "reads_execution p0 a x" "executions d a = Some x"
      by (rule wf_executions_find [OF wf f])
    have p0: "p0 = prev" using x(1) later(3,4) by (simp add: stored_payload_def)
    then have st: "get_json prev ''status'' = JStr (ex_status x)"
      "get_json prev ''execution_id'' = JStr (ex_id x)"
      using x(3) by (auto simp: reads_execution_def get_json_def)
    from later(5) obtain o1 where o1: "o1 \<in> set allowed" "json_of_option o1 = JStr (ex_status x)"
      unfolding st(1) by (metis imageE)
    then have so: "Some (ex_status x) \<in> set allowed" by simp
    have nc: "ev_type e \<noteq> ''WorkerTaskClaimed''"
    proof
      assume "ev_type e = ''WorkerTaskClaimed''"
      with cl(2) so show False by simp
    qed
    with cl(3) so have al: "ex_status x \<in> set (allowed_execution (ev_type e))" by (simp add: image_iff)
    have "canon (get_json prev ''execution_id'') = canon (get_json (ev_payload e) ''execution_id'')"
      using later(6) task_type_plain(4) [OF ty] by (simp add: require_same_execution_def Let_def)
    then have eid: "map_of (ev_payload e) ''execution_id'' = Some (JStr (ex_id x))"
      using i st(2) by (simp add: get_json_def)
    have "reads_execution p a (x\<lparr>ex_status := target\<rparr>)"
      unfolding later(7) using x(2,3) p0
      by (intro later_reads [OF _ _ pl a eid later_task_keys [OF e(1) ty nc] cl(4)]) auto
    then show ?thesis
      by (rule that(2) [OF nc x(4) al eid ta(1) _ wfj])
  qed
qed

lemma execution_entity:
  assumes "ev_type e \<in> set task_types" "map_of (ev_payload e) ''assignment_id'' = Some (JStr a)" "is_hash a"
  shows "entity_id_of e = a"
  using assms(2,3) task_entity_fields(3) [OF assms(1)] task_type_plain(1) [OF assms(1)]
  by (auto simp: entity_id_of_def plain_type_def is_hash_def)

lemma other_event_executions:
  assumes wf: "wf_executions d" and e: "typed_event e"
    and ty: "ev_type e \<notin> set task_types"
    and cs: "apply_event (query_projections d) e = Inr cs"
  shows "wf_executions (log_step e cs d)" "executions (log_step e cs d) = executions d"
proof -
  have wfp: "wf_projections (db_projections d)" using wf by (simp add: wf_executions_def)
  have pl: "wf_jdict (ev_payload e)" using e by (simp add: typed_event_def)
  have new: "pr_name c \<noteq> ''worker_executions''" if c: "c \<in> set cs" for c
  proof -
    obtain n where n: "map_of event_projections (ev_type e) = Some n"
      and "pr_name c \<in> {n, ''documents'', ''epochs''}"
      using cs c by (auto simp: apply_event_Inr document_change_def split: if_splits option.splits)
    moreover have "n \<noteq> ''worker_executions''" using n ty executions_projection by blast
    ultimately show ?thesis by auto
  qed
  have "\<forall>c \<in> set cs. wf_projection c"
    using apply_event_changes [OF wf_query_projections [OF wfp] pl cs] by blast
  then have "wf_projections (db_projections (log_step e cs d))"
    using wfp by (simp add: log_step_def wf_projections_fold_upsert)
  moreover have "wf_execution_record r"
    if "r \<in> set (db_projections (log_step e cs d))" "pr_name r = ''worker_executions''" for r
  proof -
    have "r \<in> set (db_projections d) \<or> r \<in> set cs"
      using that(1) by (auto simp: log_step_def dest: fold_upsert_members)
    then show ?thesis using new that(2) wf by (auto simp: wf_executions_def)
  qed
  ultimately show "wf_executions (log_step e cs d)" by (simp add: wf_executions_def)
  have "find_projection cs ''worker_executions'' i = None" for i
    using new by (auto simp: find_projection_None)
  then show "executions (log_step e cs d) = executions d"
    by (simp add: executions_def fun_eq_iff lookup_log_step [OF wfp cs])
qed

lemma task_event_executions:
  assumes wf: "wf_executions d" and e: "valid_event vr e" "typed_event e"
    and ty: "ev_type e \<in> set task_types"
    and cs: "apply_event (query_projections d) e = Inr cs"
  obtains (claimed) a x where "ev_type e = ''WorkerTaskClaimed''" "executions d a = None"
      "map_of (ev_payload e) ''assignment_id'' = Some (JStr a)"
      "map_of (ev_payload e) ''worker_id'' = Some (JStr (ex_worker x))"
      "map_of (ev_payload e) ''execution_id'' = Some (JStr (ex_id x))"
      "map_of (ev_payload e) ''controller_session_id'' = Some (JStr (ex_session x))"
      "ex_status x = ''claimed''"
      "executions (log_step e cs d) = (executions d)(a \<mapsto> x)" "wf_executions (log_step e cs d)"
  | (later) a x s where "ev_type e \<noteq> ''WorkerTaskClaimed''" "executions d a = Some x"
      "map_of (ev_payload e) ''assignment_id'' = Some (JStr a)"
      "ex_status x \<in> set (allowed_execution (ev_type e))"
      "map_of (ev_payload e) ''execution_id'' = Some (JStr (ex_id x))"
      "map_of target_statuses (ev_type e) = Some s"
      "executions (log_step e cs d) = (executions d)(a \<mapsto> x\<lparr>ex_status := s\<rparr>)"
      "wf_executions (log_step e cs d)"
proof -
  have wfp: "wf_projections (db_projections d)" using wf by (simp add: wf_executions_def)
  obtain p where p: "projection_payload_of (query_projections d) e = Inr p"
    and c0: "cs = [projection_change (query_projections d) ''worker_executions'' (entity_id_of e) (event_state e p)]"
    using cs task_entity_fields(1) [OF ty] unfolding plain_type_changes [OF task_type_plain(1) [OF ty]] by auto
  obtain a where a: "map_of (ev_payload e) ''assignment_id'' = Some (JStr a)" "is_hash a"
    by (rule task_event_fields [OF e(1) ty])
  have c: "cs = [new_record d ''worker_executions'' a e p]"
    by (simp add: c0 execution_entity [OF ty a] projection_change_new_record [OF wfp])
  have upd: "executions (log_step e cs d) = (executions d)(a \<mapsto> y)" "wf_executions (log_step e cs d)"
    if y: "reads_execution p a y" "wf_jdict p" for y
  proof -
    show "executions (log_step e cs d) = (executions d)(a \<mapsto> y)"
      using execution_of_new_record [OF wf_jdict_wf_dict [OF y(2)] y(1)]
      by (simp add: executions_def fun_eq_iff c find_log_step_single [OF wfp])
    have "wf_projection (new_record d ''worker_executions'' a e p)"
      using wf_projection_change [OF wf_query_projections [OF wfp] wf_json_event_state [OF y(2)] control_names(4)]
      by (simp add: projection_change_new_record [OF wfp])
    then have "wf_projections (db_projections (log_step e cs d))"
      using wfp by (simp add: c log_step_def wf_projections_upsert)
    moreover have "r \<in> set (db_projections d) \<or> r = new_record d ''worker_executions'' a e p"
      if "r \<in> set (db_projections (log_step e cs d))" for r
      using that by (auto simp: log_step_def c dest: fold_upsert_members upsert_projection_subset [THEN subsetD])
    ultimately show "wf_executions (log_step e cs d)"
      using wf wf_execution_new_record [OF y(2,1)] unfolding wf_executions_def by blast
  qed
  from wf e ty p a(1) show ?thesis
  proof (cases rule: event_execution_change)
    case claimed
    with upd a(1) show ?thesis by (intro that(1)) simp_all
  next
    case later
    with upd a(1) show ?thesis by (intro that(2)) simp_all
  qed
qed

lemma event_execution_step:
  assumes wf: "wf_executions d" and e: "valid_event vr e" "typed_event e"
    and cs: "apply_event (query_projections d) e = Inr cs"
  shows "wf_executions (log_step e cs d) \<and> execution_step\<^sup>=\<^sup>= (executions d) (executions (log_step e cs d))"
proof (cases "ev_type e \<in> set task_types")
  case False
  from other_event_executions [OF wf e(2) False cs] show ?thesis by simp
next
  case True
  from wf e True cs show ?thesis
  proof (cases rule: task_event_executions)
    case claimed
    then show ?thesis using execution_step.claimed by auto
  next
    case (later a x s)
    from True later(1) have "execution_step (executions d) ((executions d)(a \<mapsto> x\<lparr>ex_status := s\<rparr>))"
    proof (cases rule: task_typeE)
      case 2
      with later show ?thesis using execution_step.planned by (simp add: task_statuses allowed_execution_def)
    next
      case 3
      with later show ?thesis using execution_step.completed by (simp add: task_statuses allowed_execution_def)
    next
      case 4
      with later show ?thesis
        using execution_step.ended [of "executions d", OF later(2)] by (simp add: task_statuses allowed_execution_def is_active_def)
    next
      case 5
      with later show ?thesis
        using execution_step.ended [of "executions d", OF later(2)] by (simp add: task_statuses allowed_execution_def is_active_def)
    qed simp
    with later(7,8) show ?thesis by simp
  qed
qed

end
