(* ===== verification/Execution_Runs.thy ===== *)
theory Execution_Runs
  imports Execution_Table Exclusive_Holders
begin

text \<open>
  What each operation of the controller does to the table of executions, the interruption of what a
  crashed controller left, and runs of operations: every run is a sequence of steps of the table,
  only adds to the log, and never gives a worker two active executions.
\<close>

subsection \<open>Appended events\<close>

lemma store_append_projections:
  assumes "wf_projections (db_projections d)" "valid_event vr e" "typed_event e"
    and "store_append apply_event e d = Inr (r, d')"
  obtains cs where "apply_event (query_projections d) e = Inr cs"
    "db_projections d' = db_projections (log_step e cs d)"
proof -
  from assms(4) obtain d1 d2 where m: "apply_event_mutation apply_event e (query_projections d) d = Inr (r, d1)"
    and a: "register_artifact e d1 = Inr d2" and l: "revoke_lease_capabilities e d2 = Inr d'"
    by (auto simp: store_append_Inr)
  from m obtain cs where cs: "apply_event (query_projections d) e = Inr cs" "d1 = log_step e cs d"
    using assms(2,3)
    by (subst (asm) apply_event_mutation_Inr [OF assms(1)]) (auto simp: typed_event_def valid_event_def)
  have "db_projections d2 = db_projections d1" using register_artifact_capabilities [OF a] by blast
  moreover have "db_projections d' = db_projections d2"
    using l by (auto simp: revoke_lease_capabilities_def inr_simps split: if_splits option.splits)
  ultimately show ?thesis using that cs by simp
qed

lemma executions_cong: "db_projections d' = db_projections d \<Longrightarrow> executions d' = executions d"
  by (simp add: executions_def fun_eq_iff)

lemma wf_executions_cong: "db_projections d' = db_projections d \<Longrightarrow> wf_executions d' = wf_executions d"
  by (simp add: wf_executions_def)

lemma append_event_step:
  assumes "wf_executions d" "typed_tick t" "typed_command c" "append_event vr t c d = Inr (r, d')"
  shows "wf_executions d' \<and> execution_step\<^sup>=\<^sup>= (executions d) (executions d')"
proof -
  from assms(4) obtain e where e: "service_event vr t c = Inr e"
    and s: "store_append apply_event e d = Inr (r, d')"
    by (auto simp: append_event_def inr_simps)
  note ev = service_event_valid [OF e]
  have wfp: "wf_projections (db_projections d)" using assms(1) by (simp add: wf_executions_def)
  obtain cs where cs: "apply_event (query_projections d) e = Inr cs"
    "db_projections d' = db_projections (log_step e cs d)"
    by (rule store_append_projections [OF wfp ev(1) ev(9) [OF assms(2,3)] s])
  show ?thesis
    using event_execution_step [OF assms(1) ev(1) ev(9) [OF assms(2,3)] cs(1)]
    by (simp add: executions_cong [OF cs(2)] wf_executions_cong [OF cs(2)])
qed

text \<open>An appended event about a task.\<close>

lemma append_task_event:
  assumes wf: "wf_executions d" and t: "typed_tick t" "wf_jdict p"
    and ty: "ty \<in> set task_types" and a: "map_of p ''assignment_id'' = Some (JStr a)"
    and app: "append_event vr t (command ty actor None None p) d = Inr (r, d')"
  obtains (claimed) x where "ty = ''WorkerTaskClaimed''" "executions d a = None"
      "map_of p ''worker_id'' = Some (JStr (ex_worker x))"
      "map_of p ''execution_id'' = Some (JStr (ex_id x))"
      "map_of p ''controller_session_id'' = Some (JStr (ex_session x))"
      "ex_status x = ''claimed''" "executions d' = (executions d)(a \<mapsto> x)" "wf_executions d'"
  | (later) x s where "ty \<noteq> ''WorkerTaskClaimed''" "executions d a = Some x"
      "ex_status x \<in> set (allowed_execution ty)" "map_of p ''execution_id'' = Some (JStr (ex_id x))"
      "map_of target_statuses ty = Some s"
      "executions d' = (executions d)(a \<mapsto> x\<lparr>ex_status := s\<rparr>)" "wf_executions d'"
proof -
  from app obtain e where e: "service_event vr t (command ty actor None None p) = Inr e"
    and s: "store_append apply_event e d = Inr (r, d')"
    by (auto simp: append_event_def inr_simps)
  note ev = service_event_valid [OF e]
  have te: "typed_event e" by (rule ev(9) [OF t(1)]) (simp add: typed_command_def t(2))
  have wfp: "wf_projections (db_projections d)" using wf by (simp add: wf_executions_def)
  obtain cs where cs: "apply_event (query_projections d) e = Inr cs"
    "db_projections d' = db_projections (log_step e cs d)"
    by (rule store_append_projections [OF wfp ev(1) te s])
  have e': "ev_type e = ty" "ev_payload e = p" using ev(2,5) by auto
  note eq = executions_cong [OF cs(2)] wf_executions_cong [OF cs(2)]
  have ty': "ev_type e \<in> set task_types" using ty e'(1) by simp
  from wf ev(1) te ty' cs(1) show ?thesis
  proof (cases rule: task_event_executions)
    case (claimed b x)
    then have "b = a" using a e'(2) by simp
    with claimed show ?thesis by (intro that(1) [of x]) (simp_all add: eq e')
  next
    case (later b x s)
    then have "b = a" using a e'(2) by simp
    with later show ?thesis by (intro that(2) [of x s]) (simp_all add: eq e')
  qed
qed

subsection \<open>Claiming\<close>

lemma any_res_False: "any_res f xs = Inr False \<longleftrightarrow> (\<forall>x \<in> set xs. f x = Inr False)"
  by (induction xs) (auto simp: inr_simps split: if_splits)

lemma status_in_Inr:
  "map_of p ''status'' = Some (JStr s) \<Longrightarrow> status_in names p = Inr (s \<in> set names)"
  by (auto simp: status_in_def get_json_def hashable_def ensure_def)

lemma no_active_execution:
  assumes wf: "wf_executions d" and s: "store_projections (Some ''worker_executions'') d = Inr rs"
    and a: "any_res (active_for_worker w) rs = Inr False"
    and x: "executions d i = Some x" "is_active x"
  shows "ex_worker x \<noteq> w"
proof
  assume w: "ex_worker x = w"
  from x(1) obtain r where r: "find_projection (db_projections d) ''worker_executions'' i = Some r"
    unfolding executions_def by (auto simp: bind_eq_Some_conv)
  obtain p y where p: "stored_payload invalid_execution r = Inr p" "reads_execution p i y" "executions d i = Some y"
    by (rule wf_executions_find [OF wf r])
  have y: "y = x" using p(3) x(1) by simp
  have "r \<in> set rs" using s find_projection_Some [OF r]
    by (auto simp: store_projections_def inr_simps)
  then have "active_for_worker w r = Inr False" using a by (simp add: any_res_False)
  moreover have "active_for_worker w r = Inr True"
    using p(1,2) w x(2) status_in_Inr [of p "ex_status x"]
    by (simp add: active_for_worker_def y reads_execution_def get_json_def is_active_def)
  ultimately show False by simp
qed

lemma stored_text_Inr: "stored_text x p f = Inr s \<longleftrightarrow> map_of p f = Some (JStr s) \<and> s \<noteq> []"
  by (auto simp: stored_text_def inr_simps split: option.splits json.splits)

lemma stored_integer_Inr: "stored_integer x p f = Inr i \<longleftrightarrow> map_of p f = Some (JInt i) \<and> 0 < i"
  by (auto simp: stored_integer_def inr_simps split: option.splits json.splits)

lemma require_configured_Inr:
  "require_configured v d = Inr c \<longleftrightarrow>
     find_projection (db_projections d) ''controller'' controller_id = Some c \<and> pr_version c = v"
  using control_names(1)
  by (auto simp: require_configured_def inr_simps query_projection_Inr split: option.splits)

lemma running_payload_Inr:
  "running_payload d = Inr p \<longleftrightarrow>
     (\<exists>r. find_projection (db_projections d) ''controller_runtime'' controller_id = Some r
        \<and> stored_payload invalid_execution r = Inr p) \<and> get_json p ''status'' = JStr ''running''"
  using control_names(5)
  by (auto simp: running_payload_def inr_simps query_projection_Inr split: option.splits)

text \<open>What a claim checks and what it leaves.\<close>

lemma claim_assignment_effect:
  assumes wf: "wf_executions d" and t: "typed_tick t"
    and c: "claim_assignment vr t w session version i d = Inr (cl, d')"
  obtains a r p q x where
    "find_projection (db_projections d) ''worker_assignments'' w = Some r"
    "stored_payload invalid_execution r = Inr p"
    "map_of p ''task_version'' = Some (JInt (pr_version r))"
    "map_of p ''assignment_id'' = Some (JStr a)"
    "map_of p ''task'' = Some (JStr (cl_task cl))"
    "running_payload d = Inr q" "get_json q ''controller_session_id'' = JStr session"
    "\<exists>k. require_configured version d = Inr k"
    "\<exists>k. find_projection (db_projections d) ''worker_roster'' w = Some k"
    "executions d a = None"
    "\<forall>b y. executions d b = Some y \<longrightarrow> is_active y \<longrightarrow> ex_worker y \<noteq> w"
    "\<forall>ls. active_document_leases d = Inr ls \<longrightarrow> (\<forall>l \<in> set ls. ls_worker l \<noteq> w)"
    "executions d' = (executions d)(a \<mapsto> x)" "wf_executions d'"
    "x = \<lparr>ex_worker = w, ex_id = i, ex_session = session, ex_status = ''claimed''\<rparr>"
    "cl_assignment cl = a" "cl_worker cl = w" "cl_execution cl = i" "cl_controller_version cl = version"
    "cl_task_version cl = pr_version r"
proof -
  from c obtain r p q role a rs ls k d1 r1 where
    f: "find_projection (db_projections d) ''worker_assignments'' w = Some r"
      "stored_payload invalid_execution r = Inr p"
      "stored_integer invalid_execution p ''task_version'' = Inr (pr_version r)"
      "stored_text invalid_execution p ''assignment_id'' = Inr a"
      "stored_text invalid_execution p ''task'' = Inr (cl_task cl)"
    and g: "require_configured version d = Inr k" "running_payload d = Inr q"
      "get_json q ''controller_session_id'' = JStr session"
      "find_projection (db_projections d) ''worker_roster'' w \<noteq> None"
      "store_projections (Some ''worker_executions'') d = Inr rs"
      "any_res (active_for_worker w) rs = Inr False"
      "active_document_leases d = Inr ls" "\<not> (\<exists>l \<in> set ls. ls_worker l = w)"
    and app: "append_event vr t (command ''WorkerTaskClaimed'' controller_id None None
           [(''assignment_id'', JStr a), (''controller_id'', JStr controller_id),
            (''controller_session_id'', JStr session), (''controller_version'', JInt version),
            (''worker_id'', JStr w), (''task_version'', JInt (pr_version r)),
            (''execution_id'', JStr i)]) d = Inr (r1, d')"
    and cl: "cl = \<lparr>cl_assignment = a, cl_worker = w, cl_role = role, cl_task = cl_task cl,
                cl_task_version = pr_version r, cl_execution = i, cl_controller_version = version\<rparr>"
    unfolding claim_assignment_def
    by (auto simp: inr_simps query_projection_Inr split: option.splits)
  have ty: "''WorkerTaskClaimed'' \<in> set task_types" by (simp add: task_types_def)
  have ap: "map_of [(''assignment_id'', JStr a), (''controller_id'', JStr controller_id),
            (''controller_session_id'', JStr session), (''controller_version'', JInt version),
            (''worker_id'', JStr w), (''task_version'', JInt (pr_version r)),
            (''execution_id'', JStr i)] ''assignment_id'' = Some (JStr a)" by simp
  from wf t _ ty ap app obtain x where x: "executions d a = None" "ex_worker x = w" "ex_id x = i"
    "ex_session x = session" "ex_status x = ''claimed''" "executions d' = (executions d)(a \<mapsto> x)"
    "wf_executions d'"
    by (cases rule: append_task_event) (simp_all add: wf_jdict_def)
  show ?thesis
  proof (rule that)
    show "\<forall>b y. executions d b = Some y \<longrightarrow> is_active y \<longrightarrow> ex_worker y \<noteq> w"
      using no_active_execution [OF wf g(5,6)] by blast
    show "\<forall>ls. active_document_leases d = Inr ls \<longrightarrow> (\<forall>l \<in> set ls. ls_worker l \<noteq> w)"
      using g(7,8) by auto
    show "x = \<lparr>ex_worker = w, ex_id = i, ex_session = session, ex_status = ''claimed''\<rparr>"
      using x by simp
    show "cl_assignment cl = a" by (subst cl) simp
    show "cl_worker cl = w" by (subst cl) simp
    show "cl_execution cl = i" by (subst cl) simp
    show "cl_controller_version cl = version" by (subst cl) simp
    show "cl_task_version cl = pr_version r" by (subst cl) simp
    show "\<exists>k. find_projection (db_projections d) ''worker_roster'' w = Some k"
      using g(4) by auto
  qed (use f g(1-3) x in \<open>auto simp: stored_text_Inr stored_integer_Inr\<close>)
qed

subsection \<open>The other operations\<close>

lemma validate_claim_Inr:
  assumes wf: "wf_executions d" and v: "validate_claim allowed cl d = Inr u"
  obtains x q where "executions d (cl_assignment cl) = Some x" "ex_id x = cl_execution cl"
    "ex_status x \<in> set allowed" "running_payload d = Inr q"
    "get_json q ''controller_session_id'' = JStr (ex_session x)"
    "\<exists>k. require_configured (cl_controller_version cl) d = Inr k"
    "\<exists>r. find_projection (db_projections d) ''worker_assignments'' (cl_worker cl) = Some r
       \<and> pr_version r = cl_task_version cl"
proof -
  from v obtain r e p k q mine where
    r: "find_projection (db_projections d) ''worker_assignments'' (cl_worker cl) = Some r"
      "pr_version r = cl_task_version cl"
    and e: "find_projection (db_projections d) ''worker_executions'' (cl_assignment cl) = Some e"
      "stored_payload invalid_execution e = Inr p"
      "get_json p ''execution_id'' = JStr (cl_execution cl)"
    and k: "require_configured (cl_controller_version cl) d = Inr k" and q: "running_payload d = Inr q"
    and m: "stored_text invalid_execution p ''controller_session_id'' = Inr mine"
      "stored_text invalid_execution q ''controller_session_id'' = Inr mine"
    and st: "status_in allowed p = Inr True"
    unfolding validate_claim_def
    by (auto simp: inr_simps query_projection_Inr split: option.splits)
  obtain p0 x where x: "stored_payload invalid_execution e = Inr p0"
    "reads_execution p0 (cl_assignment cl) x" "executions d (cl_assignment cl) = Some x"
    by (rule wf_executions_find [OF wf e(1)])
  have p0: "p0 = p" using x(1) e(2) by simp
  show ?thesis
  proof (rule that [OF x(3)])
    show "ex_id x = cl_execution cl" using e(3) x(2) p0 by (simp add: reads_execution_def get_json_def)
    show "ex_status x \<in> set allowed" using st x(2) p0 status_in_Inr [of p "ex_status x"]
      by (simp add: reads_execution_def)
    show "get_json q ''controller_session_id'' = JStr (ex_session x)"
      using m x(2) p0 by (simp add: reads_execution_def get_json_def stored_text_Inr)
  qed (use k q r in auto)
qed

text \<open>Planning and the three ways to end: the execution moves to the status of the event.\<close>

lemma task_event_effect:
  assumes wf: "wf_executions d" and t: "typed_tick t" "wf_jdict p"
    and ty: "ty \<in> set task_types" "ty \<noteq> ''WorkerTaskClaimed''"
    and p: "map_of p ''assignment_id'' = Some (JStr (cl_assignment cl))"
    and v: "validate_claim allowed cl d = Inr u"
    and app: "append_event vr t (command ty actor None None p) d = Inr (r, d')"
  obtains x q s where "executions d (cl_assignment cl) = Some x" "ex_id x = cl_execution cl"
    "ex_status x \<in> set allowed" "running_payload d = Inr q"
    "get_json q ''controller_session_id'' = JStr (ex_session x)"
    "map_of target_statuses ty = Some s"
    "executions d' = (executions d)(cl_assignment cl \<mapsto> x\<lparr>ex_status := s\<rparr>)" "wf_executions d'"
proof -
  obtain x q where x: "executions d (cl_assignment cl) = Some x" "ex_id x = cl_execution cl"
    "ex_status x \<in> set allowed" "running_payload d = Inr q"
    "get_json q ''controller_session_id'' = JStr (ex_session x)"
    by (rule validate_claim_Inr [OF wf v])
  from wf t ty(1) p app show ?thesis
  proof (cases rule: append_task_event)
    case (later y s)
    with x show ?thesis by (intro that [OF x later(5)]) simp_all
  qed (use ty(2) in simp)
qed

lemma append_terminal_effect:
  assumes "wf_executions d" "typed_tick t" "ty \<in> set task_types" "ty \<noteq> ''WorkerTaskClaimed''"
    and "wf_jdict terminal" "map_of terminal ''assignment_id'' = None"
    and "append_terminal vr t cl ty terminal allowed d = Inr (r, d')"
  obtains x q s where "executions d (cl_assignment cl) = Some x" "ex_id x = cl_execution cl"
    "ex_status x \<in> set allowed" "running_payload d = Inr q"
    "get_json q ''controller_session_id'' = JStr (ex_session x)"
    "map_of target_statuses ty = Some s"
    "executions d' = (executions d)(cl_assignment cl \<mapsto> x\<lparr>ex_status := s\<rparr>)" "wf_executions d'"
proof -
  let ?p = "dict_merge [(''assignment_id'', JStr (cl_assignment cl)),
     (''execution_id'', JStr (cl_execution cl))] terminal"
  from assms(7) obtain u where v: "validate_claim allowed cl d = Inr u"
    and app: "append_event vr t (command ty controller_id None None ?p) d = Inr (r, d')"
    by (auto simp: append_terminal_def inr_simps)
  have "wf_jdict ?p"
    by (rule wf_jdict_merge [OF _ assms(5)]) (simp add: wf_jdict_def)
  moreover have "map_of ?p ''assignment_id'' = Some (JStr (cl_assignment cl))"
    by (simp add: map_of_dict_merge [OF wf_jdict_wf_dict [OF assms(5)]] assms(6))
  ultimately show ?thesis
    by (rule task_event_effect [OF assms(1,2) _ assms(3,4) _ v app]) (rule that)
qed

lemma task_type_members:
  "''WorkerTaskClaimed'' \<in> set task_types" "''WorkerTaskDispatchPlanned'' \<in> set task_types"
  "''WorkerTaskCompleted'' \<in> set task_types" "''WorkerTaskFailed'' \<in> set task_types"
  "''WorkerTaskInterrupted'' \<in> set task_types"
  by (simp_all add: task_types_def)

lemmas later_types = task_type_members(2-5)

lemma dispatch_planned_effect:
  assumes "wf_executions d" "typed_tick t"
    and "record_dispatch_planned vr t cl directive art ins b ms d = Inr (r, d')"
  obtains x q where "executions d (cl_assignment cl) = Some x" "ex_id x = cl_execution cl"
    "ex_status x = ''claimed''" "running_payload d = Inr q"
    "get_json q ''controller_session_id'' = JStr (ex_session x)"
    "executions d' = (executions d)(cl_assignment cl \<mapsto> x\<lparr>ex_status := ''planned''\<rparr>)" "wf_executions d'"
proof -
  from assms(3) obtain u where v: "validate_claim [''claimed''] cl d = Inr u"
    and app: "append_event vr t (command ''WorkerTaskDispatchPlanned'' controller_id None None
       [(''assignment_id'', JStr (cl_assignment cl)), (''execution_id'', JStr (cl_execution cl)),
        (''directive_id'', JStr directive), (''directive_artifact_hash'', JStr art),
        (''instruction_hash'', JStr ins), (''budget'', JInt b),
        (''timeout_milliseconds'', JInt ms)]) d = Inr (r, d')"
    by (auto simp: record_dispatch_planned_def inr_simps)
  show ?thesis
    by (rule task_event_effect [OF assms(1,2) _ later_types(1) _ _ v app])
       (use that in \<open>simp_all add: wf_jdict_def task_statuses\<close>)
qed

lemma complete_assignment_effect:
  assumes "wf_executions d" "typed_tick t" "complete_assignment vr t cl h d = Inr (r, d')"
  obtains x q where "executions d (cl_assignment cl) = Some x" "ex_id x = cl_execution cl"
    "ex_status x = ''planned''" "running_payload d = Inr q"
    "get_json q ''controller_session_id'' = JStr (ex_session x)"
    "executions d' = (executions d)(cl_assignment cl \<mapsto> x\<lparr>ex_status := ''completed''\<rparr>)" "wf_executions d'"
  by (rule append_terminal_effect [OF assms(1,2) later_types(2) _ _ _ assms(3) [unfolded complete_assignment_def]])
     (use that in \<open>simp_all add: wf_jdict_def task_statuses\<close>)

lemma fail_assignment_effect:
  assumes "wf_executions d" "typed_tick t" "fail_assignment vr t cl h d = Inr (r, d')"
  obtains x q where "executions d (cl_assignment cl) = Some x" "ex_id x = cl_execution cl"
    "is_active x" "running_payload d = Inr q"
    "get_json q ''controller_session_id'' = JStr (ex_session x)"
    "executions d' = (executions d)(cl_assignment cl \<mapsto> x\<lparr>ex_status := ''failed''\<rparr>)" "wf_executions d'"
  by (rule append_terminal_effect [OF assms(1,2) later_types(3) _ _ _ assms(3) [unfolded fail_assignment_def]])
     (use that in \<open>simp_all add: wf_jdict_def task_statuses is_active_def\<close>)

lemma interrupt_assignment_effect:
  assumes "wf_executions d" "typed_tick t" "interrupt_assignment vr t cl h d = Inr (r, d')"
  obtains x q where "executions d (cl_assignment cl) = Some x" "ex_id x = cl_execution cl"
    "is_active x" "running_payload d = Inr q"
    "get_json q ''controller_session_id'' = JStr (ex_session x)"
    "executions d' = (executions d)(cl_assignment cl \<mapsto> x\<lparr>ex_status := ''interrupted''\<rparr>)" "wf_executions d'"
  by (rule append_terminal_effect [OF assms(1,2) later_types(4) _ _ _ assms(3) [unfolded interrupt_assignment_def]])
     (use that in \<open>simp_all add: wf_jdict_def task_statuses is_active_def\<close>)

subsection \<open>Interrupting what a crashed controller left\<close>

definition fresh_ticks :: "nat \<Rightarrow> (nat \<Rightarrow> tick) \<Rightarrow> db \<Rightarrow> bool" where
  "fresh_ticks n ticks d \<longleftrightarrow>
     (\<forall>i < n. is_ulid (fst (ticks i)) \<and> is_utc (snd (ticks i)) \<and> typed_tick (ticks i)
        \<and> fst (ticks i) \<notin> er_id ` set (db_events d))
     \<and> inj_on (\<lambda>i. fst (ticks i)) {..<n}"

definition interrupt_payload :: "string \<Rightarrow> string \<Rightarrow> jdict" where
  "interrupt_payload a i =
     [(''assignment_id'', JStr a), (''execution_id'', JStr i), (''reason_code'', JStr ''CONTROLLER_RESTART'')]"

lemma interrupt_payload_valid:
  assumes "is_hash a" "i \<noteq> []"
  shows "validate_payload vr ''WorkerTaskInterrupted'' (interrupt_payload a i) = Inr ()"
  using assms
  by (simp add: validate_payload_def task_codecs codec_validate_Inr interrupt_payload_def codec_def
      validator_for_def field_validators_def sha256_payload_def text_payload_def enum_payload_def)

lemma interrupt_event_reduces:
  assumes wf: "wf_executions d" and x: "executions d a = Some x" "is_active x"
    and e: "ev_type e = ''WorkerTaskInterrupted''" "ev_payload e = interrupt_payload a (ex_id x)"
  obtains p where "projection_payload_of (query_projections d) e = Inr p"
proof -
  have wfp: "wf_projections (db_projections d)" using wf by (simp add: wf_executions_def)
  from x(1) obtain r where r: "find_projection (db_projections d) ''worker_executions'' a = Some r"
    unfolding executions_def by (auto simp: bind_eq_Some_conv)
  obtain p y where p: "stored_payload invalid_execution r = Inr p" "reads_execution p a y" "executions d a = Some y"
    by (rule wf_executions_find [OF wf r])
  have y: "y = x" using p(3) x(1) by simp
  have pp: "previous_payload ''worker_executions''
      (find_projection (query_projections d) ''worker_executions'' a) = Inr (Some p)"
    using p(1) unfolding find_query_projections [OF wfp] r
    by (auto simp: previous_payload_def stored_payload_def split: json.splits option.splits)
  have st: "get_json p ''status'' = JStr (ex_status x)" "get_json p ''execution_id'' = JStr (ex_id x)"
    using p(2) y by (simp_all add: reads_execution_def get_json_def)
  have al: "ex_status x = ''claimed'' \<or> ex_status x = ''planned''"
    using x(2) by (simp add: is_active_def nonterminal_statuses_def)
  have ent: "map_of (ev_payload e) ''assignment_id'' = Some (JStr a)"
    "get_json (ev_payload e) ''execution_id'' = JStr (ex_id x)"
    by (simp_all add: e(2) interrupt_payload_def get_json_def)
  have same: "require_same_execution ''worker_executions'' (ev_type e) p (ev_payload e) = Inr ()"
    by (simp add: require_same_execution_def Let_def st ent e(1))
  have "reduce_orchestration_payload (query_projections d) e
      = Inr (AList.update ''status'' (JStr ''interrupted'') (dict_merge p (ev_payload e)))"
    using task_entity_fields(2,4) [OF task_type_members(5)]
    unfolding reduce_orchestration_payload_def getr_def e(1) task_statuses
    by (simp add: ent(1) pp st(1) hashable_def ensure_def json_of_option_def al same [unfolded e(1)])
  then show ?thesis
    using that task_type_plain(2) [OF task_type_members(5)]
    by (simp add: projection_payload_of_def e(1))
qed

lemma interrupt_event_succeeds:
  assumes wf: "wf_executions d" and x: "executions d a = Some x" "is_active x"
    and t: "is_ulid (fst t)" "is_utc (snd t)" "typed_tick t" "fst t \<notin> er_id ` set (db_events d)"
  obtains r d' where
    "append_event vr t (command ''WorkerTaskInterrupted'' controller_id None None
       (interrupt_payload a (ex_id x))) d = Inr (r, d')"
    "executions d' = (executions d)(a \<mapsto> x\<lparr>ex_status := ''interrupted''\<rparr>)" "wf_executions d'"
    "er_id ` set (db_events d') = insert (fst t) (er_id ` set (db_events d))"
    "\<forall>b. b \<noteq> a \<longrightarrow> find_projection (db_projections d') ''worker_executions'' b
       = find_projection (db_projections d) ''worker_executions'' b"
proof -
  let ?c = "command ''WorkerTaskInterrupted'' controller_id None None (interrupt_payload a (ex_id x))"
  let ?e = "\<lparr>ev_id = fst t, ev_version = event_schema_version, ev_type = ''WorkerTaskInterrupted'',
     ev_time = snd t, ev_actor = controller_id, ev_run = None, ev_cause = None,
     ev_payload = interrupt_payload a (ex_id x)\<rparr>"
  have wfp: "wf_projections (db_projections d)" using wf by (simp add: wf_executions_def)
  from x(1) obtain r0 where r0: "find_projection (db_projections d) ''worker_executions'' a = Some r0"
    unfolding executions_def by (auto simp: bind_eq_Some_conv)
  obtain p0 y where p0: "reads_execution p0 a y" "executions d a = Some y"
    by (rule wf_executions_find [OF wf r0])
  then have ha: "is_hash a" "ex_id x \<noteq> []" using x(1) by (auto simp: reads_execution_def)
  have wj: "wf_jdict (interrupt_payload a (ex_id x))" by (simp add: interrupt_payload_def wf_jdict_def)
  have "valid_event vr ?e"
    using t interrupt_payload_valid [OF ha] by (simp add: valid_event_def controller_id_def)
  then have ev: "service_event vr t ?c = Inr ?e" by (simp add: service_event_Inr)
  have te: "typed_event ?e" using t(3) wj by (simp add: typed_event_def typed_tick_def)
  obtain q where "projection_payload_of (query_projections d) ?e = Inr q"
    by (rule interrupt_event_reduces [OF wf x, of ?e]) simp_all
  then obtain cs where cs: "apply_event (query_projections d) ?e = Inr cs"
    using plain_type_changes [of ?e "query_projections d"] task_type_plain(1) [OF task_type_members(5)]
      task_entity_fields(1) [OF task_type_members(5)] by auto
  let ?r = "\<lparr>rec_sequence = next_sequence (map er_sequence (db_events d)), rec_envelope = ?e\<rparr>"
  let ?d = "log_step ?e cs d"
  have "apply_event_mutation apply_event ?e (query_projections d) d = Inr (?r, ?d)"
    using cs t(4) by (subst apply_event_mutation_Inr [OF wfp]) (simp_all add: wj)
  then have app: "append_event vr t ?c d = Inr (?r, ?d)"
    by (simp add: append_event_def ensure_def ev store_append_Inr
        register_artifact_other revoke_lease_capabilities_other)
  have p: "map_of (interrupt_payload a (ex_id x)) ''assignment_id'' = Some (JStr a)"
    by (simp add: interrupt_payload_def)
  have eff: "executions ?d = (executions d)(a \<mapsto> x\<lparr>ex_status := ''interrupted''\<rparr>) \<and> wf_executions ?d"
    using wf t(3) wj task_type_members(5) p app
    by (cases rule: append_task_event) (use x(1) in \<open>simp_all add: task_statuses\<close>)
  have ids: "er_id ` set (db_events ?d) = insert (fst t) (er_id ` set (db_events d))"
    by (simp add: log_step_def event_row_of_def)
  have c: "pr_entity c = a" if "c \<in> set cs" for c
  proof -
    have "entity_id_of ?e = a"
      by (rule execution_entity) (simp_all add: task_type_members p ha(1))
    then show ?thesis
      using cs that plain_type_changes [of ?e "query_projections d" cs] task_type_plain(1) [OF task_type_members(5)]
      by (auto simp: projection_change_def)
  qed
  have "find_projection (db_projections ?d) ''worker_executions'' b
      = find_projection (db_projections d) ''worker_executions'' b" if "b \<noteq> a" for b
  proof -
    have "find_projection cs ''worker_executions'' b = None"
      using c that by (auto simp: find_projection_None)
    then show ?thesis by (simp add: lookup_log_step [OF wfp cs])
  qed
  then show ?thesis using that [OF app] eff ids by blast
qed

definition interrupted :: "string set \<Rightarrow> execution_table \<Rightarrow> execution_table" where
  "interrupted as m a =
     (case m a of None \<Rightarrow> None
      | Some x \<Rightarrow> Some (if a \<in> as \<and> is_active x then x\<lparr>ex_status := ''interrupted''\<rparr> else x))"

definition record_active :: "projection \<Rightarrow> bool" where
  "record_active r \<longleftrightarrow> (case execution_of r of None \<Rightarrow> False | Some x \<Rightarrow> is_active x)"

lemma interrupt_records_Cons:
  assumes "stored_payload invalid_execution r = Inr p" "reads_execution p a x"
  shows "interrupt_records vr ticks (r # rs) d =
    (if is_active x then
       (case append_event vr (ticks 0) (command ''WorkerTaskInterrupted'' controller_id None None
           (interrupt_payload a (ex_id x))) d of
         Inl e \<Rightarrow> (Inl e, d)
       | Inr (_, d') \<Rightarrow> (case interrupt_records vr (\<lambda>i. ticks (Suc i)) rs d' of
           (v, d'') \<Rightarrow> (bindr v (\<lambda>ids. Inr (a # ids)), d'')))
     else interrupt_records vr ticks rs d)"
proof -
  have t: "stored_text invalid_execution p ''assignment_id'' = Inr a"
    "stored_text invalid_execution p ''execution_id'' = Inr (ex_id x)"
    "status_in nonterminal_statuses p = Inr (is_active x)"
    using assms(2) status_in_Inr [of p "ex_status x"]
    by (auto simp: reads_execution_def stored_text_Inr is_active_def is_hash_def)
  show ?thesis
    by (simp add: assms(1) t interrupt_payload_def bindr_def split: sum.split prod.split)
qed

lemma fresh_ticks_Suc:
  assumes "fresh_ticks (Suc n) ticks d"
    and "er_id ` set (db_events d') = insert (fst (ticks 0)) (er_id ` set (db_events d))"
  shows "fresh_ticks n (\<lambda>i. ticks (Suc i)) d'"
proof -
  have inj: "inj_on (\<lambda>i. fst (ticks i)) {..<Suc n}" using assms(1) by (simp add: fresh_ticks_def)
  have "fst (ticks (Suc i)) \<noteq> fst (ticks 0)" if "i < n" for i
    using inj_onD [OF inj, of "Suc i" 0] that by auto
  moreover have "inj_on (\<lambda>i. fst (ticks (Suc i))) {..<n}"
  proof (rule inj_onI)
    fix i j assume "i \<in> {..<n}" "j \<in> {..<n}" "fst (ticks (Suc i)) = fst (ticks (Suc j))"
    then show "i = j" using inj_onD [OF inj, of "Suc i" "Suc j"] by auto
  qed
  ultimately show ?thesis
    using assms unfolding fresh_ticks_def by (metis Suc_less_eq insert_iff)
qed

lemma fresh_ticks_mono: "fresh_ticks (Suc n) ticks d \<Longrightarrow> fresh_ticks n ticks d"
  by (auto simp: fresh_ticks_def lessThan_Suc)

lemma interrupt_records_all:
  assumes "wf_executions d" "distinct (map pr_entity rs)" "fresh_ticks (length rs) ticks d"
    and "\<And>r. r \<in> set rs \<Longrightarrow> find_projection (db_projections d) ''worker_executions'' (pr_entity r) = Some r"
  shows "\<exists>d'. interrupt_records vr ticks rs d = (Inr (map pr_entity (filter record_active rs)), d')
     \<and> executions d' = interrupted (pr_entity ` set rs) (executions d) \<and> wf_executions d'"
  using assms
proof (induction rs arbitrary: d ticks)
  case Nil
  then show ?case by (auto simp: interrupted_def fun_eq_iff split: option.split)
next
  case (Cons r rs)
  have fr: "find_projection (db_projections d) ''worker_executions'' (pr_entity r) = Some r"
    using Cons.prems(4) by simp
  obtain p x where p: "stored_payload invalid_execution r = Inr p" "reads_execution p (pr_entity r) x"
    "executions d (pr_entity r) = Some x"
    by (rule wf_executions_find [OF Cons.prems(1) fr])
  have ra: "record_active r = is_active x"
    by (simp add: record_active_def execution_of_reads [OF p(1,2)])
  note step = interrupt_records_Cons [OF p(1,2), of vr ticks rs d]
  show ?case
  proof (cases "is_active x")
    case False
    have "\<exists>d'. interrupt_records vr ticks rs d = (Inr (map pr_entity (filter record_active rs)), d')
       \<and> executions d' = interrupted (pr_entity ` set rs) (executions d) \<and> wf_executions d'"
      using Cons.prems(2,4) fresh_ticks_mono Cons.prems(3) by (intro Cons.IH [OF Cons.prems(1)]) auto
    moreover have "interrupted (pr_entity ` set (r # rs)) (executions d) = interrupted (pr_entity ` set rs) (executions d)"
      using False p(3) by (auto simp: interrupted_def fun_eq_iff split: option.split)
    ultimately show ?thesis using step False ra by simp
  next
    case True
    have t0: "is_ulid (fst (ticks 0))" "is_utc (snd (ticks 0))" "typed_tick (ticks 0)"
      "fst (ticks 0) \<notin> er_id ` set (db_events d)"
      using Cons.prems(3) by (auto simp: fresh_ticks_def)
    obtain rr d1 where d1: "append_event vr (ticks 0) (command ''WorkerTaskInterrupted'' controller_id None None
           (interrupt_payload (pr_entity r) (ex_id x))) d = Inr (rr, d1)"
      "executions d1 = (executions d)(pr_entity r \<mapsto> x\<lparr>ex_status := ''interrupted''\<rparr>)" "wf_executions d1"
      "er_id ` set (db_events d1) = insert (fst (ticks 0)) (er_id ` set (db_events d))"
      "\<forall>b. b \<noteq> pr_entity r \<longrightarrow> find_projection (db_projections d1) ''worker_executions'' b
       = find_projection (db_projections d) ''worker_executions'' b"
      by (rule interrupt_event_succeeds [where vr = vr, OF Cons.prems(1) p(3) True t0])
    have others: "pr_entity q \<noteq> pr_entity r" if "q \<in> set rs" for q
      using Cons.prems(2) that by (auto simp: image_iff)
    have "fresh_ticks (length rs) (\<lambda>i. ticks (Suc i)) d1"
      by (rule fresh_ticks_Suc [of _ ticks d, OF _ d1(4)]) (use Cons.prems(3) in simp)
    then have "\<exists>d'. interrupt_records vr (\<lambda>i. ticks (Suc i)) rs d1
         = (Inr (map pr_entity (filter record_active rs)), d')
       \<and> executions d' = interrupted (pr_entity ` set rs) (executions d1) \<and> wf_executions d'"
      using Cons.prems(2,4) others d1(5) by (intro Cons.IH [OF d1(3)]) auto
    then obtain d2 where d2: "interrupt_records vr (\<lambda>i. ticks (Suc i)) rs d1
         = (Inr (map pr_entity (filter record_active rs)), d2)"
      "executions d2 = interrupted (pr_entity ` set rs) (executions d1)" "wf_executions d2" by blast
    have "interrupted (pr_entity ` set rs) (executions d1) = interrupted (pr_entity ` set (r # rs)) (executions d)"
      using True p(3) others
      by (auto simp: interrupted_def fun_eq_iff d1(2) is_active_def nonterminal_statuses_def split: option.split)
    then show ?thesis using step True ra d1(1) d2 by simp
  qed
qed

subsection \<open>The operations together\<close>

datatype controller_op =
    Configure tick string "string option"
  | Register tick string agent_role
  | Assign tick string string
  | Start tick string int string string string
  | RecoverUnclean tick
  | Stop tick string
  | Claim tick string string int string
  | PlanDispatch tick claimed_assignment string string string int int
  | Complete tick claimed_assignment string
  | Fail tick claimed_assignment string
  | Interrupt tick claimed_assignment string
  | InterruptNonterminal "nat \<Rightarrow> tick"

definition state_after :: "('a \<times> db) res \<Rightarrow> db \<Rightarrow> db" where
  "state_after m d = (case m of Inl _ \<Rightarrow> d | Inr (_, d') \<Rightarrow> d')"

fun run_controller ::
  "(jdict \<Rightarrow> bool) \<Rightarrow> (string \<Rightarrow> string) \<Rightarrow> (json \<Rightarrow> string) \<Rightarrow> controller_op \<Rightarrow> db \<Rightarrow> db" where
  "run_controller vr sha text (Configure t p m) d = snd (configure_controller vr t p m d)"
| "run_controller vr sha text (Register t w r) d = snd (register_worker vr t w r d)"
| "run_controller vr sha text (Assign t w k) d = snd (assign_task vr sha text t w k d)"
| "run_controller vr sha text (Start t s v p b h) d = state_after (start_controller vr t s v p b h d) d"
| "run_controller vr sha text (RecoverUnclean t) d = state_after (recover_unclean_controller vr t d) d"
| "run_controller vr sha text (Stop t s) d = state_after (stop_controller vr t s d) d"
| "run_controller vr sha text (Claim t w s v i) d = state_after (claim_assignment vr t w s v i d) d"
| "run_controller vr sha text (PlanDispatch t c i a h b m) d =
     state_after (record_dispatch_planned vr t c i a h b m d) d"
| "run_controller vr sha text (Complete t c h) d = state_after (complete_assignment vr t c h d) d"
| "run_controller vr sha text (Fail t c r) d = state_after (fail_assignment vr t c r d) d"
| "run_controller vr sha text (Interrupt t c r) d = state_after (interrupt_assignment vr t c r d) d"
| "run_controller vr sha text (InterruptNonterminal ts) d = snd (interrupt_nonterminal_executions vr ts d)"

fun typed_controller :: "controller_op \<Rightarrow> bool" where
  "typed_controller (Configure t _ _) = typed_tick t"
| "typed_controller (Register t _ _) = typed_tick t"
| "typed_controller (Assign t _ _) = typed_tick t"
| "typed_controller (Start t _ _ _ _ _) = typed_tick t"
| "typed_controller (RecoverUnclean t) = typed_tick t"
| "typed_controller (Stop t _) = typed_tick t"
| "typed_controller (Claim t _ _ _ _) = typed_tick t"
| "typed_controller (PlanDispatch t _ _ _ _ _ _) = typed_tick t"
| "typed_controller (Complete t _ _) = typed_tick t"
| "typed_controller (Fail t _ _) = typed_tick t"
| "typed_controller (Interrupt t _ _) = typed_tick t"
| "typed_controller (InterruptNonterminal ts) = (\<forall>i. typed_tick (ts i))"

text \<open>Each operation appends events, one after the other, of types in a set.\<close>

definition appends_one :: "(jdict \<Rightarrow> bool) \<Rightarrow> string set \<Rightarrow> db \<Rightarrow> db \<Rightarrow> bool" where
  "appends_one vr tys d d' \<longleftrightarrow> (\<exists>t c r. typed_tick t \<and> typed_command c \<and> cmd_type c \<in> tys
     \<and> append_event vr t c d = Inr (r, d'))"

abbreviation appends :: "(jdict \<Rightarrow> bool) \<Rightarrow> string set \<Rightarrow> db \<Rightarrow> db \<Rightarrow> bool" where
  "appends vr tys \<equiv> (appends_one vr tys)\<^sup>*\<^sup>*"

lemma appendsI:
  assumes "append_event vr t (command ty a run cause p) d = Inr (r, d')" "typed_tick t" "wf_jdict p" "ty \<in> tys"
  shows "appends vr tys d d'"
proof (rule r_into_rtranclp)
  show "appends_one vr tys d d'"
    unfolding appends_one_def
    by (rule exI [of _ t], rule exI [of _ "command ty a run cause p"], rule exI [of _ r])
       (use assms in \<open>simp add: typed_command_def\<close>)
qed

lemma appends_log:
  assumes "appends vr tys d d'" "order_blind vr" shows "log_extends vr d d'"
  using assms(1)
proof (induction rule: rtranclp_induct)
  case (step y z)
  have "log_extends vr y z"
    using step(2) append_event_log [OF assms(2)] unfolding appends_one_def by blast
  then show ?case using step(3) by (rule log_extends_trans [rotated])
qed simp

lemma appends_executions:
  assumes "appends vr tys d d'" "wf_executions d"
  shows "wf_executions d' \<and> execution_step\<^sup>*\<^sup>* (executions d) (executions d')"
  using assms(1)
proof (induction rule: rtranclp_induct)
  case (step y z)
  have "wf_executions z \<and> execution_step\<^sup>=\<^sup>= (executions y) (executions z)"
    using step(2,3) append_event_step unfolding appends_one_def by blast
  with step(3) show ?case by (auto intro: rtranclp.rtrancl_into_rtrancl)
qed (use assms(2) in simp)

lemma and_then_appends:
  assumes "\<And>x d'. m = Inr (x, d') \<Longrightarrow> appends vr tys d d'" "\<And>x d'. snd (f x d') = d'"
  shows "appends vr tys d (snd (and_then m d f))"
  using assms by (cases m) (auto simp: and_then_def)

lemma state_after_appends:
  assumes "\<And>x d'. m = Inr (x, d') \<Longrightarrow> appends vr tys d d'"
  shows "appends vr tys d (state_after m d)"
  using assms by (cases m) (auto simp: state_after_def)

lemma append_terminal_appends:
  assumes "append_terminal vr t cl ty terminal allowed d = Inr (r, d')" "typed_tick t"
    "wf_jdict terminal" "ty \<in> tys"
  shows "appends vr tys d d'"
proof -
  from assms(1) have "append_event vr t (command ty controller_id None None
     (dict_merge [(''assignment_id'', JStr (cl_assignment cl)),
        (''execution_id'', JStr (cl_execution cl))] terminal)) d = Inr (r, d')"
    by (auto simp: append_terminal_def inr_simps)
  then show ?thesis
    by (rule appendsI) (auto simp: assms intro!: wf_jdict_merge simp: wf_jdict_def [of "[_, _]"])
qed

lemma interrupt_records_appends:
  assumes "\<forall>i. typed_tick (ticks i)" "''WorkerTaskInterrupted'' \<in> tys"
  shows "appends vr tys d (snd (interrupt_records vr ticks rs d))"
  using assms(1)
proof (induction vr ticks rs d rule: interrupt_records.induct)
  case (2 vr ticks r rs d)
  show ?case
  proof (cases "bindr (stored_payload invalid_execution r) (\<lambda>p.
             bindr (status_in nonterminal_statuses p) (\<lambda>active.
             if \<not> active then Inr None
             else
               bindr (stored_text invalid_execution p ''assignment_id'') (\<lambda>assignment_id.
               bindr (stored_text invalid_execution p ''execution_id'') (\<lambda>execution_id.
               bindr (append_event vr (ticks 0) (command ''WorkerTaskInterrupted'' controller_id None None
                 [(''assignment_id'', JStr assignment_id), (''execution_id'', JStr execution_id),
                  (''reason_code'', JStr ''CONTROLLER_RESTART'')]) d) (\<lambda>(_, d').
               Inr (Some (assignment_id, d')))))))")
    case (Inl e)
    then show ?thesis by simp
  next
    case (Inr o1)
    note eq = Inr
    show ?thesis
    proof (cases o1)
      case None
      then show ?thesis using "2.IH"(1) [OF eq [unfolded None]] "2.prems" eq by simp
    next
      case (Some ad)
      obtain a d1 where ad: "ad = (a, d1)" by (cases ad)
      from eq [unfolded Some ad] obtain i r1 where app: "append_event vr (ticks 0)
          (command ''WorkerTaskInterrupted'' controller_id None None
                 [(''assignment_id'', JStr a), (''execution_id'', JStr i),
                  (''reason_code'', JStr ''CONTROLLER_RESTART'')]) d = Inr (r1, d1)"
        by (auto simp: inr_simps split: if_splits)
      have "appends vr tys d d1"
        by (rule appendsI [OF app]) (use "2.prems" assms(2) in \<open>auto simp: wf_jdict_def\<close>)
      moreover have "appends vr tys d1 (snd (interrupt_records vr (\<lambda>i. ticks (Suc i)) rs d1))"
        using "2.IH"(2) [OF eq [unfolded Some ad] refl refl] "2.prems" by simp
      ultimately show ?thesis using eq Some ad by (auto split: prod.split)
    qed
  qed
qed simp

definition unclaimed_types :: "string set" where
  "unclaimed_types = {t. t \<noteq> ''WorkerTaskClaimed''}"

lemma run_controller_appends:
  assumes "typed_controller op" "\<And>t w s v i. op \<noteq> Claim t w s v i"
  shows "appends vr unclaimed_types d (run_controller vr sha text op d)"
proof (cases op)
  case (Configure t p m)
  have "wf_jdict (case m of None \<Rightarrow> [(''controller_id'', JStr controller_id), (''provider'', JStr p)]
     | Some m \<Rightarrow> AList.update ''model'' (JStr m) [(''controller_id'', JStr controller_id), (''provider'', JStr p)])"
    by (simp add: wf_jdict_def split: option.split)
  then have "appends vr unclaimed_types d (snd (configure_controller vr t p m d))"
    using assms(1) Configure unfolding configure_controller_def Let_def
    by (auto intro!: and_then_appends elim!: appendsI simp: unclaimed_types_def simp del: update.simps)
  with Configure show ?thesis by simp
next
  case (Register t w r)
  then show ?thesis
    using assms(1)
    by (auto simp: register_worker_def inr_simps unclaimed_types_def wf_jdict_def intro!: and_then_appends elim!: appendsI)
next
  case (Assign t w k)
  then show ?thesis
    using assms(1)
    by (auto simp: assign_task_def inr_simps Let_def unclaimed_types_def wf_jdict_def intro!: and_then_appends elim!: appendsI)
next
  case (Start t s v p b h)
  then show ?thesis
    using assms(1)
    by (auto simp: start_controller_def inr_simps unclaimed_types_def wf_jdict_def intro!: state_after_appends
        elim!: appendsI split: option.splits)
next
  case (RecoverUnclean t)
  then show ?thesis
    using assms(1)
    by (auto simp: recover_unclean_controller_def inr_simps unclaimed_types_def wf_jdict_def
        intro!: state_after_appends elim!: appendsI split: option.splits if_splits)
next
  case (Stop t s)
  then show ?thesis
    using assms(1)
    by (auto simp: stop_controller_def inr_simps unclaimed_types_def wf_jdict_def intro!: state_after_appends
        elim!: appendsI split: option.splits)
next
  case (PlanDispatch t c i a h b m)
  then show ?thesis
    using assms(1)
    by (auto simp: record_dispatch_planned_def inr_simps unclaimed_types_def wf_jdict_def
        intro!: state_after_appends elim!: appendsI)
next
  case (Complete t c h)
  then show ?thesis
    using assms(1)
    by (auto simp: complete_assignment_def unclaimed_types_def wf_jdict_def
        intro!: state_after_appends elim!: append_terminal_appends)
next
  case (Fail t c h)
  then show ?thesis
    using assms(1)
    by (auto simp: fail_assignment_def unclaimed_types_def wf_jdict_def
        intro!: state_after_appends elim!: append_terminal_appends)
next
  case (Interrupt t c h)
  then show ?thesis
    using assms(1)
    by (auto simp: interrupt_assignment_def unclaimed_types_def wf_jdict_def
        intro!: state_after_appends elim!: append_terminal_appends)
next
  case (InterruptNonterminal ts)
  then show ?thesis
    using assms(1) interrupt_records_appends [of ts unclaimed_types]
    by (auto simp: interrupt_nonterminal_executions_def unclaimed_types_def split: sum.split)
qed (use assms(2) in blast)

lemma claim_appends:
  assumes "claim_assignment vr t w s v i d = Inr (cl, d')" "typed_tick t"
  shows "appends vr UNIV d d'"
proof -
  from assms(1) obtain p a tv r where "append_event vr t (command ''WorkerTaskClaimed'' controller_id None None
           [(''assignment_id'', JStr a), (''controller_id'', JStr controller_id),
            (''controller_session_id'', JStr s), (''controller_version'', JInt v),
            (''worker_id'', JStr w), (''task_version'', JInt tv),
            (''execution_id'', JStr i)]) d = Inr (r, d')"
    unfolding claim_assignment_def
    by (auto simp: inr_simps split: option.splits)
  then show ?thesis by (rule appendsI) (simp_all add: assms(2) wf_jdict_def)
qed

lemma appends_mono: "appends vr tys d d' \<Longrightarrow> tys \<subseteq> tys' \<Longrightarrow> appends vr tys' d d'"
  by (erule mono_rtranclp [rule_format, rotated]) (auto simp: appends_one_def)

lemma run_controller_appends_any:
  assumes "typed_controller op" shows "appends vr UNIV d (run_controller vr sha text op d)"
proof (cases "\<exists>t w s v i. op = Claim t w s v i")
  case True
  then obtain t w s v i where "op = Claim t w s v i" by blast
  with assms show ?thesis
    using claim_appends [of vr t w s v i d] by (auto intro!: state_after_appends)
next
  case False
  then show ?thesis using appends_mono [OF run_controller_appends [OF assms]] by blast
qed

subsection \<open>At most one active execution of a worker\<close>

definition holding :: "db \<Rightarrow> (string \<times> string) set" where
  "holding d = {(a, w). \<exists>x. executions d a = Some x \<and> is_active x \<and> ex_worker x = w}"

definition same_worker :: "string \<times> string \<Rightarrow> string \<times> string \<Rightarrow> bool" where
  "same_worker g h \<longleftrightarrow> fst g \<noteq> fst h \<and> snd g = snd h"

definition one_active_per_worker :: "db \<Rightarrow> bool" where
  "one_active_per_worker d \<longleftrightarrow> (\<forall>a b x y. executions d a = Some x \<and> is_active x
     \<and> executions d b = Some y \<and> is_active y \<and> ex_worker x = ex_worker y \<longrightarrow> a = b)"

lemma appends_one_unclaimed:
  assumes wf: "wf_executions d" and a: "appends_one vr unclaimed_types d d'"
  shows "holding d' \<subseteq> holding d"
proof -
  from a obtain t c r where t: "typed_tick t" "typed_command c" "cmd_type c \<noteq> ''WorkerTaskClaimed''"
    and app: "append_event vr t c d = Inr (r, d')"
    by (auto simp: appends_one_def unclaimed_types_def)
  from app obtain e where e: "service_event vr t c = Inr e"
    and s: "store_append apply_event e d = Inr (r, d')"
    by (auto simp: append_event_def inr_simps)
  note ev = service_event_valid [OF e]
  have te: "typed_event e" by (rule ev(9) [OF t(1,2)])
  have wfp: "wf_projections (db_projections d)" using wf by (simp add: wf_executions_def)
  obtain cs where cs: "apply_event (query_projections d) e = Inr cs"
    "db_projections d' = db_projections (log_step e cs d)"
    by (rule store_append_projections [OF wfp ev(1) te s])
  note ex = executions_cong [OF cs(2)]
  show ?thesis
  proof (cases "ev_type e \<in> set task_types")
    case False
    then show ?thesis using other_event_executions(2) [OF wf te False cs(1)] ex by (simp add: holding_def)
  next
    case True
    from wf ev(1) te True cs(1) show ?thesis
    proof (cases rule: task_event_executions)
      case claimed
      then show ?thesis using t(3) ev(2) by simp
    next
      case (later a x s)
      have "is_active x"
        using later(4) True later(1)
        by (auto simp: is_active_def allowed_execution_def nonterminal_statuses_def split: if_splits)
      then show ?thesis
        using later(2) by (auto simp: holding_def ex later(7) split: if_splits)
    qed
  qed
qed

lemma appends_unclaimed_holding:
  assumes "appends vr unclaimed_types d d'" "wf_executions d"
  shows "holding d' \<subseteq> holding d"
  using assms(1)
proof (induction rule: rtranclp_induct)
  case (step y z)
  have "wf_executions y" using appends_executions [OF step(1) assms(2)] by blast
  then show ?case using appends_one_unclaimed [OF _ step(2)] step(3) by blast
qed simp

interpretation worker_executions: exclusive_holders
  "\<lambda>d d'. \<exists>op. typed_controller op \<and> d' = run_controller vr sha enc op d"
  holding same_worker wf_executions
  for vr sha enc
proof
  fix d d'
  assume wf: "wf_executions d" and "\<exists>op. typed_controller op \<and> d' = run_controller vr sha enc op d"
  then obtain op where op: "typed_controller op" "d' = run_controller vr sha enc op d" by blast
  show "wf_executions d'"
    using appends_executions [OF run_controller_appends_any [OF op(1)] wf] op(2) by blast
  show "holding d' \<subseteq> holding d \<or> (\<exists>h. holding d' \<subseteq> insert h (holding d)
      \<and> (\<forall>g \<in> holding d. \<not> same_worker g h \<and> \<not> same_worker h g))"
  proof (cases "\<exists>t w s v i. op = Claim t w s v i")
    case False
    then have "appends vr unclaimed_types d d'"
      using run_controller_appends [OF op(1)] op(2) by blast
    then show ?thesis using appends_unclaimed_holding wf by blast
  next
    case True
    then obtain t w s v i where c: "op = Claim t w s v i" by blast
    show ?thesis
    proof (cases "claim_assignment vr t w s v i d")
      case (Inl e)
      then show ?thesis using op(2) c by (simp add: state_after_def)
    next
      case (Inr rd)
      then obtain cl where cl: "claim_assignment vr t w s v i d = Inr (cl, d')"
        using op(2) c by (cases rd) (simp add: state_after_def)
      have t: "typed_tick t" using op(1) c by simp
      obtain a x where none: "\<forall>b y. executions d b = Some y \<longrightarrow> is_active y \<longrightarrow> ex_worker y \<noteq> w"
        and upd: "executions d' = (executions d)(a \<mapsto> x)" and x: "ex_worker x = w"
        by (rule claim_assignment_effect [OF wf t cl]) auto
      have "holding d' \<subseteq> insert (a, w) (holding d)"
        using x by (auto simp: holding_def upd split: if_splits)
      moreover have "\<forall>g \<in> holding d. \<not> same_worker g (a, w) \<and> \<not> same_worker (a, w) g"
        using none by (auto simp: holding_def same_worker_def)
      ultimately show ?thesis by blast
    qed
  qed
qed

lemma one_active_exclusive:
  "one_active_per_worker d \<longleftrightarrow> exclusive_holders.exclusive holding same_worker d"
proof
  assume "one_active_per_worker d"
  then show "exclusive_holders.exclusive holding same_worker d"
    unfolding worker_executions.exclusive_def pairwise_def
    by (auto simp: one_active_per_worker_def holding_def same_worker_def)
next
  assume e: "exclusive_holders.exclusive holding same_worker d"
  show "one_active_per_worker d"
    unfolding one_active_per_worker_def
  proof (intro allI impI, elim conjE)
    fix a b x y
    assume "executions d a = Some x" "is_active x" "executions d b = Some y" "is_active y"
      and w: "ex_worker x = ex_worker y"
    then have "(a, ex_worker x) \<in> holding d" "(b, ex_worker y) \<in> holding d" by (auto simp: holding_def)
    then show "a = b"
      using e w unfolding worker_executions.exclusive_def pairwise_def same_worker_def by fastforce
  qed
qed

lemma run_steps:
  assumes "list_all typed_controller ops"
  shows "(\<lambda>d d'. \<exists>op. typed_controller op \<and> d' = run_controller vr sha text op d)\<^sup>*\<^sup>*
     d (fold (run_controller vr sha text) ops d)"
  using assms
proof (induction ops arbitrary: d)
  case (Cons op ops)
  then show ?case by (auto intro: converse_rtranclp_into_rtranclp)
qed simp

lemma fold_appends:
  "list_all typed_controller ops \<Longrightarrow> appends vr UNIV d (fold (run_controller vr sha text) ops d)"
proof (induction ops arbitrary: d)
  case (Cons op ops)
  then show ?case using run_controller_appends_any [of op vr d sha] by (auto intro: rtranclp_trans)
qed simp

end
