(* ===== verification/Sample_Controller.thy ===== *)
theory Sample_Controller
  imports Controller_Execution Sample_Project
begin

text \<open>
  A controller at work, for the witnesses of its properties: it is configured, a worker is
  registered and assigned a task, the controller starts, claims the task and plans it.
\<close>

definition sample_sha :: "string \<Rightarrow> string" where
  "sample_sha s = sample_hash (CHR ''e'')"

definition sample_text :: "json \<Rightarrow> string" where
  "sample_text v = ''{}''"

definition configured_db :: db where
  "configured_db = foundation_db
     \<lparr>db_events :=
       [sample_row 1 (CHR ''1'') ''ControllerConfigured'' ''operator'' None None
          [(''controller_id'', JStr ''primary''), (''provider'', JStr ''codex'')]],
      db_projections := db_projections foundation_db @
       [sample_record ''controller'' ''primary'' 1 (CHR ''1'') ''ControllerConfigured'' None
          [(''controller_id'', JStr ''primary''), (''provider'', JStr ''codex'')]]\<rparr>"

definition registered_db :: db where
  "registered_db = configured_db
     \<lparr>db_events := db_events configured_db @
       [sample_row 2 (CHR ''2'') ''WorkerConfigured'' ''operator'' None None
          [(''role'', JStr ''proof_explorer''), (''status'', JStr ''idle''), (''worker_id'', JStr ''w'')]],
      db_projections := db_projections configured_db @
       [sample_record ''worker_roster'' ''w'' 1 (CHR ''2'') ''WorkerConfigured'' None
          [(''role'', JStr ''proof_explorer''), (''status'', JStr ''idle''), (''worker_id'', JStr ''w'')]]\<rparr>"

definition sample_assignment :: jdict where
  "sample_assignment =
     [(''assignment_id'', JStr (sample_hash (CHR ''e''))), (''controller_id'', JStr ''primary''),
      (''task'', JStr ''prove True''), (''task_hash'', JStr (sample_hash (CHR ''e''))),
      (''task_version'', JInt 1), (''worker_id'', JStr ''w'')]"

definition assigned_db :: db where
  "assigned_db = registered_db
     \<lparr>db_events := db_events registered_db @
       [sample_row 3 (CHR ''3'') ''WorkerTaskAssigned'' ''primary'' None None sample_assignment],
      db_projections := db_projections registered_db @
       [sample_record ''worker_assignments'' ''w'' 1 (CHR ''3'') ''WorkerTaskAssigned'' None sample_assignment]\<rparr>"

definition sample_session :: jdict where
  "sample_session =
     [(''backend_version'', JStr ''1.0''), (''controller_id'', JStr ''primary''),
      (''controller_session_id'', JStr ''s''), (''controller_version'', JInt 1),
      (''executable_hash'', JStr (sample_hash (CHR ''b''))), (''provider'', JStr ''codex'')]"

definition running_db :: db where
  "running_db = assigned_db
     \<lparr>db_events := db_events assigned_db @
       [sample_row 4 (CHR ''4'') ''ControllerStarted'' ''primary'' None None sample_session],
      db_projections := db_projections assigned_db @
       [sample_record ''controller_runtime'' ''primary'' 1 (CHR ''4'') ''ControllerStarted'' None
          (sample_session @ [(''status'', JStr ''running'')])]\<rparr>"

definition sample_claiming :: jdict where
  "sample_claiming =
     [(''assignment_id'', JStr (sample_hash (CHR ''e''))), (''controller_id'', JStr ''primary''),
      (''controller_session_id'', JStr ''s''), (''controller_version'', JInt 1),
      (''execution_id'', JStr ''x'')]"

definition claimed_db :: db where
  "claimed_db = running_db
     \<lparr>db_events := db_events running_db @
       [sample_row 5 (CHR ''5'') ''WorkerTaskClaimed'' ''primary'' None None
          (sample_claiming @ [(''task_version'', JInt 1), (''worker_id'', JStr ''w'')])],
      db_projections := db_projections running_db @
       [sample_record ''worker_executions'' (sample_hash (CHR ''e'')) 1 (CHR ''5'') ''WorkerTaskClaimed'' None
          (sample_claiming @ [(''status'', JStr ''claimed''), (''task_version'', JInt 1),
             (''worker_id'', JStr ''w'')])]\<rparr>"

definition sample_claim :: claimed_assignment where
  "sample_claim =
     \<lparr>cl_assignment = sample_hash (CHR ''e''), cl_worker = ''w'', cl_role = PROOF_EXPLORER,
      cl_task = ''prove True'', cl_task_version = 1, cl_execution = ''x'', cl_controller_version = 1\<rparr>"

definition after_outcome :: "'a outcome \<Rightarrow> 'a \<Rightarrow> db \<Rightarrow> bool" where
  "after_outcome m v d \<longleftrightarrow> m = (Inr v, d)"

lemma sample_configuring:
  "after_outcome (configure_controller (\<lambda>_. True) (sample_tick (CHR ''1'')) ''codex'' None foundation_db)
     1 configured_db"
  by code_simp

lemma sample_registering:
  "after_outcome (register_worker (\<lambda>_. True) (sample_tick (CHR ''2'')) ''w'' PROOF_EXPLORER configured_db)
     1 registered_db"
  by code_simp

lemma sample_assigning:
  "after_outcome (assign_task (\<lambda>_. True) sample_sha sample_text (sample_tick (CHR ''3'')) ''w'' ''prove True''
     registered_db) 1 assigned_db"
  by code_simp

lemma sample_starting:
  "leads_to (start_controller (\<lambda>_. True) (sample_tick (CHR ''4'')) ''s'' 1 ''codex'' ''1.0''
     (sample_hash (CHR ''b'')) assigned_db) running_db"
  by code_simp

lemma sample_claiming_run:
  "claim_assignment (\<lambda>_. True) (sample_tick (CHR ''5'')) ''w'' ''s'' 1 ''x'' running_db
     = Inr (sample_claim, claimed_db)"
  by code_simp

end
