(* ===== verification/Execution_Properties.thy ===== *)
theory Execution_Properties
  imports Execution_Runs Sample_Controller
begin

text \<open>
  The properties of the control operations and of the controller's executions, with their
  witnesses on the sample databases.
\<close>

subsection \<open>Facts the properties share\<close>

lemma stored_new_record:
  "stored_payload x (new_record d n i e p) = Inr (canon_dict p)"
  by (rule stored_payload_new_record)

lemma find_new_record:
  assumes "wf_projections (db_projections d)"
  shows "find_projection (db_projections (log_step e [new_record d n i e p] d)) n i = Some (new_record d n i e p)"
    and "(m, j) \<noteq> (n, i) \<Longrightarrow> find_projection (db_projections (log_step e [new_record d n i e p] d)) m j
      = find_projection (db_projections d) m j"
  by (auto simp: find_log_step_single [OF assms])

text \<open>
  C31. Registering a worker succeeds only for an unknown name, and then the roster holds the worker
  with version 1 and the given role; registering the same name again is refused and changes nothing.
\<close>

theorem worker_registered_once:
  assumes "wf_projections (db_projections d)" "typed_tick t" "register_worker vr t w role d = (Inr v, d')"
  shows "v = 1 \<and> find_projection (db_projections d) ''worker_roster'' w = None
    \<and> (\<exists>r. find_projection (db_projections d') ''worker_roster'' w = Some r
         \<and> stored_payload x r = Inr [(''role'', JStr (role_value role)), (''status'', JStr ''idle''),
              (''worker_id'', JStr w)])
    \<and> register_worker vr' t' w role' d' = (Inl (ControlOperationError ''WORKER_ALREADY_REGISTERED''), d')"
proof -
  let ?p = "[(''worker_id'', JStr w), (''role'', JStr (role_value role)), (''status'', JStr ''idle'')]"
  from register_worker_commits [OF assms] obtain e where e: "v = 1"
    "find_projection (db_projections d) ''worker_roster'' w = None"
    "d' = log_step e [new_record d ''worker_roster'' w e ?p] d" by auto
  have c: "canon_dict ?p = [(''role'', JStr (role_value role)), (''status'', JStr ''idle''),
     (''worker_id'', JStr w)]"
    by (simp add: canon_dict_def less_char_def)
  have f: "find_projection (db_projections d') ''worker_roster'' w = Some (new_record d ''worker_roster'' w e ?p)"
    unfolding e(3) by (rule find_new_record(1) [OF assms(1)])
  have "validate_worker_id w = Inr ()"
    using assms(3) by (auto simp: register_worker_def and_then_eq inr_simps)
  then have "register_worker vr' t' w role' d' = (Inl (ControlOperationError ''WORKER_ALREADY_REGISTERED''), d')"
    using f control_names(2)
    by (simp add: register_worker_def query_projection_def ensure_def and_then_def)
  then show ?thesis using e(1,2) f c by (auto simp: stored_new_record)
qed

text \<open>
  C32. Assigning a task gives the worker's assignment the next version, which is the version that
  is returned and the one recorded in the assignment, with the digest of the task and an identifier
  that is the digest of controller, worker, task and version; the assignments of other workers stay.
\<close>

theorem assigned_task_is_recorded:
  assumes "wf_projections (db_projections d)" "typed_tick t"
    and "assign_task vr sha text t w task d = (Inr v, d')"
  shows "v = next_version (db_projections d) ''worker_assignments'' w
    \<and> find_projection (db_projections d) ''worker_roster'' w \<noteq> None
    \<and> find_projection (db_projections d) ''controller'' controller_id \<noteq> None
    \<and> (\<exists>r. find_projection (db_projections d') ''worker_assignments'' w = Some r \<and> pr_version r = v
         \<and> stored_payload x r = Inr (canon_dict
             [(''assignment_id'', JStr (assignment_id_of sha text w (sha task) v)),
              (''controller_id'', JStr controller_id), (''worker_id'', JStr w), (''task'', JStr task),
              (''task_hash'', JStr (sha task)), (''task_version'', JInt v)]))
    \<and> (w' \<noteq> w \<longrightarrow> find_projection (db_projections d') ''worker_assignments'' w'
         = find_projection (db_projections d) ''worker_assignments'' w')"
proof -
  from assign_task_commits [OF assms refl refl] obtain e where
    e: "v = next_version (db_projections d) ''worker_assignments'' w"
      "find_projection (db_projections d) ''worker_roster'' w \<noteq> None"
      "find_projection (db_projections d) ''controller'' controller_id \<noteq> None"
      "d' = log_step e [new_record d ''worker_assignments'' w e
         [(''assignment_id'', JStr (assignment_id_of sha text w (sha task)
              (next_version (db_projections d) ''worker_assignments'' w))),
           (''controller_id'', JStr controller_id), (''worker_id'', JStr w), (''task'', JStr task),
           (''task_hash'', JStr (sha task)),
           (''task_version'', JInt (next_version (db_projections d) ''worker_assignments'' w))]] d"
    by auto
  show ?thesis
    unfolding e(4) using e(1-3) find_new_record [OF assms(1)]
    by (auto simp: stored_new_record)
qed

text \<open>
  C33. A claim hands out the current assignment of a registered worker, to the running session of
  the configured controller, when the worker has no active execution and no active lease; it
  creates exactly the execution it names, which did not exist before.
\<close>

theorem claim_creates_one_execution:
  assumes "wf_executions d" "typed_tick t"
    and "claim_assignment vr t w session version i d = Inr (cl, d')"
  shows "executions d (cl_assignment cl) = None
    \<and> executions d' = (executions d)(cl_assignment cl \<mapsto>
        \<lparr>ex_worker = w, ex_id = i, ex_session = session, ex_status = ''claimed''\<rparr>)
    \<and> cl_worker cl = w \<and> cl_execution cl = i \<and> cl_controller_version cl = version
    \<and> (\<exists>r p. find_projection (db_projections d) ''worker_assignments'' w = Some r
         \<and> stored_payload invalid_execution r = Inr p \<and> pr_version r = cl_task_version cl
         \<and> map_of p ''assignment_id'' = Some (JStr (cl_assignment cl))
         \<and> map_of p ''task'' = Some (JStr (cl_task cl)))
    \<and> (\<exists>q. running_payload d = Inr q \<and> get_json q ''controller_session_id'' = JStr session)
    \<and> (\<exists>k. require_configured version d = Inr k)
    \<and> \<not> (\<exists>b y. executions d b = Some y \<and> is_active y \<and> ex_worker y = w)
    \<and> \<not> (\<exists>ls l. active_document_leases d = Inr ls \<and> l \<in> set ls \<and> ls_worker l = w)"
proof -
  obtain a r p q x where
    "find_projection (db_projections d) ''worker_assignments'' w = Some r"
    "stored_payload invalid_execution r = Inr p" "map_of p ''assignment_id'' = Some (JStr a)"
    "map_of p ''task'' = Some (JStr (cl_task cl))"
    "running_payload d = Inr q" "get_json q ''controller_session_id'' = JStr session"
    "\<exists>k. require_configured version d = Inr k" "executions d a = None"
    "\<forall>b y. executions d b = Some y \<longrightarrow> is_active y \<longrightarrow> ex_worker y \<noteq> w"
    "\<forall>ls. active_document_leases d = Inr ls \<longrightarrow> (\<forall>l \<in> set ls. ls_worker l \<noteq> w)"
    "executions d' = (executions d)(a \<mapsto> x)"
    "x = \<lparr>ex_worker = w, ex_id = i, ex_session = session, ex_status = ''claimed''\<rparr>"
    "cl_assignment cl = a" "cl_worker cl = w" "cl_execution cl = i" "cl_controller_version cl = version"
    "cl_task_version cl = pr_version r"
    by (rule claim_assignment_effect [OF assms])
  then show ?thesis by auto
qed

text \<open>
  C10. Whatever a controller operation does, the table of executions moves by steps of the protocol:
  claimed, then planned, then completed, with failure and interruption open until then.
\<close>

theorem executions_follow_protocol:
  assumes "wf_executions d" "typed_controller op"
  shows "wf_executions (run_controller vr sha text op d)
    \<and> execution_step\<^sup>*\<^sup>* (executions d) (executions (run_controller vr sha text op d))"
  using appends_executions [OF run_controller_appends_any [OF assms(2)] assms(1)] .

text \<open>C6. In every run of controller operations a worker has at most one active execution.\<close>

theorem one_execution_per_worker:
  assumes "wf_executions d" "one_active_per_worker d" "list_all typed_controller ops"
  shows "one_active_per_worker (fold (run_controller vr sha text) ops d)"
  using worker_executions.run_exclusive [OF run_steps [OF assms(3)] assms(1)] assms(2)
  unfolding one_active_exclusive by blast

lemma execution_steps_keep:
  assumes "execution_step\<^sup>*\<^sup>* m m'" "m a = Some x"
  shows "\<exists>y. m' a = Some y \<and> ex_worker y = ex_worker x \<and> ex_id y = ex_id x \<and> ex_session y = ex_session x
    \<and> (\<not> is_active x \<longrightarrow> y = x)"
  using assms(1)
proof (induction rule: rtranclp_induct)
  case (step n n')
  then obtain y where y: "n a = Some y" "ex_worker y = ex_worker x" "ex_id y = ex_id x"
    "ex_session y = ex_session x" "\<not> is_active x \<longrightarrow> y = x" by blast
  from step(2) show ?case
    using y by cases (auto simp: is_active_def nonterminal_statuses_def)
qed (use assms(2) in auto)

text \<open>
  C34. An execution never disappears or changes its worker, identifier or session, and one that is
  completed, failed or interrupted never changes again.
\<close>

theorem finished_executions_stay:
  assumes "wf_executions d" "list_all typed_controller ops" "executions d a = Some x"
  shows "\<exists>y. executions (fold (run_controller vr sha text) ops d) a = Some y
    \<and> ex_worker y = ex_worker x \<and> ex_id y = ex_id x \<and> ex_session y = ex_session x
    \<and> (is_active x \<or> y = x)"
  using execution_steps_keep [of "executions d" _ a x, OF _ assms(3)] appends_executions [OF fold_appends [OF assms(2)] assms(1)]
  by blast

text \<open>
  C13. After a crash, the restart interrupts every active execution, in the order of their
  assignments, and nothing else: given fresh event identifiers and a clock, it always succeeds.
\<close>

theorem restart_interrupts_all_active:
  assumes wf: "wf_executions d"
    and t: "fresh_ticks (length (filter (\<lambda>r. pr_name r = ''worker_executions'') (db_projections d))) ticks d"
  shows "\<exists>ids d'. interrupt_nonterminal_executions vr ticks d = (Inr ids, d')
    \<and> sorted ids \<and> distinct ids \<and> set ids = {a. \<exists>x. executions d a = Some x \<and> is_active x}
    \<and> executions d' = (\<lambda>a. map_option (\<lambda>x. if is_active x then x\<lparr>ex_status := ''interrupted''\<rparr> else x)
         (executions d a))"
proof -
  have wfp: "wf_projections (db_projections d)" using wf by (simp add: wf_executions_def)
  define rs where "rs = sort_key pr_entity (filter (\<lambda>r. pr_name r = ''worker_executions'') (query_projections d))"
  have store: "store_projections (Some ''worker_executions'') d
      = Inr (filter (\<lambda>r. pr_name r = ''worker_executions'') (query_projections d))"
    using control_names(4) by (simp add: store_projections_def ensure_def)
  have rs: "set rs = {r \<in> set (db_projections d). pr_name r = ''worker_executions''}"
    by (auto simp: rs_def)
  have dist: "distinct (map projection_key (db_projections d))" using wfp by (simp add: wf_projections_def)
  have find: "find_projection (db_projections d) ''worker_executions'' (pr_entity r) = Some r" if "r \<in> set rs" for r
    using find_projection_eq [OF dist, of r] that rs by auto
  have "length rs = length (filter (\<lambda>r. pr_name r = ''worker_executions'') (db_projections d))"
    unfolding rs_def query_projections_def by (simp add: filter_sort)
  then have fresh: "fresh_ticks (length rs) ticks d" using t by simp
  have "distinct rs"
    using dist unfolding rs_def query_projections_def by (simp add: distinct_map)
  then have dr: "distinct (map pr_entity rs)"
    unfolding distinct_map using find by (auto intro!: inj_onI) (metis option.inject)
  obtain d' where d': "interrupt_records vr ticks rs d = (Inr (map pr_entity (filter record_active rs)), d')"
    "executions d' = interrupted (pr_entity ` set rs) (executions d)"
    using interrupt_records_all [OF wf dr fresh find] by blast
  have ent: "a \<in> pr_entity ` set rs" if "executions d a = Some x" for a x
  proof -
    from that obtain r where "find_projection (db_projections d) ''worker_executions'' a = Some r"
      unfolding executions_def by (auto simp: bind_eq_Some_conv)
    then show ?thesis using rs by (auto dest!: find_projection_Some)
  qed
  have act: "record_active r \<longleftrightarrow> (\<exists>x. executions d (pr_entity r) = Some x \<and> is_active x)" if "r \<in> set rs" for r
    using find [OF that] by (auto simp: record_active_def executions_def split: option.split)
  have ids: "set (map pr_entity (filter record_active rs)) = {a. \<exists>x. executions d a = Some x \<and> is_active x}"
    using act ent by fastforce
  have ex: "executions d' = (\<lambda>a. map_option (\<lambda>x. if is_active x then x\<lparr>ex_status := ''interrupted''\<rparr> else x)
         (executions d a))"
    unfolding d'(2) interrupted_def using ent by (auto simp: fun_eq_iff split: option.split)
  have "sorted (map pr_entity rs)" by (simp add: rs_def)
  then have "sorted (map pr_entity (filter record_active rs))" by (rule sorted_filter)
  moreover have "distinct (map pr_entity (filter record_active rs))"
    using dr by (rule distinct_map_filter)
  moreover have "interrupt_nonterminal_executions vr ticks d
      = (Inr (map pr_entity (filter record_active rs)), d')"
    using d'(1) by (simp add: interrupt_nonterminal_executions_def store rs_def)
  ultimately show ?thesis using ids ex by blast
qed

text \<open>
  C35. A claim whose execution has another identifier, is no longer active, or belongs to another
  session than the running one can neither plan, complete, fail nor interrupt it.
\<close>

theorem stale_claim_is_refused:
  assumes "wf_executions d" "executions d (cl_assignment cl) = Some x"
    and "ex_id x \<noteq> cl_execution cl \<or> \<not> is_active x
      \<or> (\<nexists>q. running_payload d = Inr q \<and> get_json q ''controller_session_id'' = JStr (ex_session x))"
  shows "(\<exists>e. record_dispatch_planned vr t cl directive artifact instruction budget timeout d = Inl e)
    \<and> (\<exists>e. complete_assignment vr t cl result d = Inl e)
    \<and> (\<exists>e. fail_assignment vr t cl reason d = Inl e)
    \<and> (\<exists>e. interrupt_assignment vr t cl reason d = Inl e)"
proof -
  have "\<exists>e. validate_claim allowed cl d = Inl e" if "set allowed \<subseteq> set nonterminal_statuses" for allowed
  proof (cases "validate_claim allowed cl d")
    case (Inr u)
    obtain y q where "executions d (cl_assignment cl) = Some y" "ex_id y = cl_execution cl"
      "ex_status y \<in> set allowed" "running_payload d = Inr q"
      "get_json q ''controller_session_id'' = JStr (ex_session y)"
      by (rule validate_claim_Inr [OF assms(1) Inr])
    then show ?thesis using assms(2,3) that by (auto simp: is_active_def)
  qed simp
  from this [of "[''claimed'']"] this [of "[''planned'']"] this [of nonterminal_statuses]
  show ?thesis
    by (auto simp: record_dispatch_planned_def complete_assignment_def fail_assignment_def
        interrupt_assignment_def append_terminal_def nonterminal_statuses_def)
qed

subsection \<open>Sessions\<close>

lemma runtime_tables:
  "map_of event_projections ''ControllerStarted'' = Some ''controller_runtime''"
  "map_of entity_fields ''ControllerStarted'' = Some ''controller_id''"
  "map_of orchestration_event_projections ''ControllerStarted'' = Some ''controller_runtime''"
  "map_of orchestration_entity_fields ''ControllerStarted'' = Some ''controller_id''"
  "map_of target_statuses ''ControllerStarted'' = Some ''running''"
  "map_of allowed_previous ''ControllerStarted'' = Some [None, Some ''stopped'', Some ''crashed'']"
  by code_simp+

lemma started_session:
  assumes wf: "wf_projections (db_projections d)" and t: "typed_tick t"
    and s: "start_controller vr t session v provider b h d = Inr (r, d')"
  obtains k p where "find_projection (db_projections d') ''controller_runtime'' controller_id = Some k"
    "stored_payload x k = Inr p" "get_json p ''status'' = JStr ''running''"
    "get_json p ''controller_session_id'' = JStr session" "session \<noteq> []"
proof -
  let ?p = "[(''controller_id'', JStr controller_id), (''controller_session_id'', JStr session),
      (''controller_version'', JInt v), (''provider'', JStr provider),
      (''backend_version'', JStr b), (''executable_hash'', JStr h)]"
  from s have app: "append_event vr t (command ''ControllerStarted'' controller_id None None ?p) d = Inr (r, d')"
    by (auto simp: start_controller_def inr_simps split: option.splits)
  have wj: "wf_jdict ?p" by (simp add: wf_jdict_def)
  have tc: "typed_command (command ''ControllerStarted'' controller_id None None ?p)"
    using wj by (simp add: typed_command_def)
  have plain: "plain_type (cmd_type (command ''ControllerStarted'' controller_id None None ?p))"
    by (simp add: plain_type_def)
  obtain e q n where e: "service_event vr t (command ''ControllerStarted'' controller_id None None ?p) = Inr e"
    "valid_event vr e" "projection_payload_of (query_projections d) e = Inr q" "wf_jdict q"
    "map_of event_projections (cmd_type (command ''ControllerStarted'' controller_id None None ?p)) = Some n"
    "d' = log_step e [new_record d n (entity_id_of e) e q] d"
    by (rule append_event_plain [OF wf t tc plain app])
  have n: "n = ''controller_runtime''" using e(5) runtime_tables(1) by simp
  note ev = service_event_valid [OF e(1)]
  have ty: "ev_type e = ''ControllerStarted''" "ev_payload e = ?p" using ev(2,5) by auto
  have ent: "entity_id_of e = controller_id"
    by (simp add: entity_id_of_def ty runtime_tables controller_id_def)
  have red: "reduce_orchestration_payload (query_projections d) e = Inr q"
    using e(3) runtime_tables(3) by (simp add: projection_payload_of_def ty in_keys_map_of)
  have q: "map_of q ''status'' = Some (JStr ''running'') \<and> map_of q ''controller_session_id'' = Some (JStr session)"
    using red runtime_tables(3-6) [folded ty(1)]
    by (cases rule: reduce_orchestration_Inr)
       (auto simp: map_of_update ty(2) map_of_dict_merge [OF wf_jdict_wf_dict [OF wj]])
  have sn: "session \<noteq> []"
  proof -
    have "map_of codecs (ev_type e) = Some (codec [''controller_id'', ''controller_session_id'',
      ''controller_version'', ''provider'', ''backend_version'',
      ''executable_hash''] [] [(''controller_version'', positive_integer), (''provider'',
      provider_payload), (''executable_hash'', sha256_payload)])" (is "_ = Some ?c")
      by (simp add: ty(1) codecs_def foundation_codecs_def orchestration_codecs_def)
    moreover have "ev_type e \<noteq> ''ResearchRecordUpdated''" by (simp add: ty(1))
    moreover have "map_of (ev_payload e) ''controller_session_id'' = Some (JStr session)" by (simp add: ty(2))
    ultimately have "validator_for ?c ''controller_session_id'' (JStr session)"
      by (rule valid_event_field(2) [OF e(2)])
    then show ?thesis by (simp add: validator_for_def codec_def field_validators_def text_payload_def)
  qed
  show ?thesis
  proof (rule that [OF _ stored_new_record _ _ sn])
    show "find_projection (db_projections d') ''controller_runtime'' controller_id
        = Some (new_record d ''controller_runtime'' controller_id e q)"
      unfolding e(6) n ent by (rule find_new_record(1) [OF wf])
  qed (use q in \<open>simp_all add: get_json_def map_of_canon_atom [OF wf_jdict_wf_dict [OF e(4)]]
        map_of_canon_dict [OF wf_jdict_wf_dict [OF e(4)]]\<close>)
qed

text \<open>
  C36. Starting the controller makes the given session the running one; while it runs, no session
  can be started, and a stop that names another session is refused.
\<close>

theorem running_session_is_exclusive:
  assumes "wf_projections (db_projections d)" "typed_tick t"
    and "start_controller vr t session v provider b h d = Inr (r, d')"
  shows "(\<exists>p. running_payload d' = Inr p \<and> get_json p ''controller_session_id'' = JStr session)
    \<and> (\<exists>e. start_controller vr t2 session2 v2 provider2 b2 h2 d' = Inl e)
    \<and> (session3 = session \<or> stop_controller vr t3 session3 d'
         = Inl (ControllerExecutionError ''CONTROLLER_SESSION_STALE''))"
proof -
  obtain k p where k: "find_projection (db_projections d') ''controller_runtime'' controller_id = Some k"
    and p: "stored_payload invalid_controller k = Inr p" "get_json p ''status'' = JStr ''running''"
      "get_json p ''controller_session_id'' = JStr session" "session \<noteq> []"
    by (rule started_session [where x = invalid_controller, OF assms])
  have p': "stored_payload invalid_execution k = Inr p"
    using p(1) by (auto simp: stored_payload_def split: json.splits option.splits)
  have ms: "stored_text invalid_controller p ''controller_session_id'' = Inr session"
    using p(3,4) by (auto simp: stored_text_Inr get_json_def split: option.splits)
  have "\<exists>e. start_controller vr t2 session2 v2 provider2 b2 h2 d' = Inl e"
  proof (cases "start_controller vr t2 session2 v2 provider2 b2 h2 d'")
    case (Inr y)
    then have "get_json p ''status'' \<noteq> JStr ''running''"
      unfolding start_controller_def
      by (auto simp: inr_simps query_projection_Inr k p(1) split: option.splits)
    then show ?thesis using p(2) by simp
  qed simp
  moreover have "running_payload d' = Inr p"
    unfolding running_payload_Inr using k p' p(2) by blast
  moreover have "stop_controller vr t3 session3 d' = Inl (ControllerExecutionError ''CONTROLLER_SESSION_STALE'')"
    if "session3 \<noteq> session"
    using that control_names(5) p ms
    by (simp add: stop_controller_def query_projection_def ensure_def k)
  ultimately show ?thesis using p(3) by blast
qed

subsection \<open>The properties on the sample databases\<close>

lemma typed_sample_tick [simp]: "typed_tick (sample_tick c)"
  by (simp add: typed_tick_def sample_tick_def sample_time_def valid_datetime_def days_in_month_def)

lemma wf_executions_foundation: "wf_executions foundation_db"
  using journal_projections [OF journal_foundation]
  by (simp add: wf_executions_def foundation_db_def empty_db_def)

abbreviation run_sample :: "controller_op \<Rightarrow> db \<Rightarrow> db" where
  "run_sample \<equiv> run_controller (\<lambda>_. True) sample_sha sample_text"

lemma sample_runs:
  "run_sample (Configure (sample_tick (CHR ''1'')) ''codex'' None) foundation_db = configured_db"
  "run_sample (Register (sample_tick (CHR ''2'')) ''w'' PROOF_EXPLORER) configured_db = registered_db"
  "run_sample (Assign (sample_tick (CHR ''3'')) ''w'' ''prove True'') registered_db = assigned_db"
  "run_sample (Start (sample_tick (CHR ''4'')) ''s'' 1 ''codex'' ''1.0'' (sample_hash (CHR ''b''))) assigned_db
     = running_db"
  "run_sample (Claim (sample_tick (CHR ''5'')) ''w'' ''s'' 1 ''x'') running_db = claimed_db"
  using sample_configuring sample_registering sample_assigning sample_starting sample_claiming_run
  by (auto simp: after_outcome_def state_after_def leads_to_Inr)

lemma sample_wf:
  "wf_executions configured_db" "wf_executions registered_db" "wf_executions assigned_db"
  "wf_executions running_db" "wf_executions claimed_db"
proof -
  have step: "wf_executions (run_sample op d)" if "wf_executions d" "typed_controller op" for op d
    using appends_executions [OF run_controller_appends_any [OF that(2)] that(1)] by blast
  show c: "wf_executions configured_db"
    using step [OF wf_executions_foundation] sample_runs(1) by (metis typed_controller.simps(1) typed_sample_tick)
  show r: "wf_executions registered_db"
    using step [OF c] sample_runs(2) by (metis typed_controller.simps(2) typed_sample_tick)
  show a: "wf_executions assigned_db"
    using step [OF r] sample_runs(3) by (metis typed_controller.simps(3) typed_sample_tick)
  show s: "wf_executions running_db"
    using step [OF a] sample_runs(4) by (metis typed_controller.simps(4) typed_sample_tick)
  show "wf_executions claimed_db"
    using step [OF s] sample_runs(5) by (metis typed_controller.simps(7) typed_sample_tick)
qed

lemma sample_wf_projections:
  "wf_projections (db_projections configured_db)" "wf_projections (db_projections registered_db)"
  "wf_projections (db_projections assigned_db)"
  using sample_wf by (auto simp: wf_executions_def)

theorem worker_registered_once_witness:
  "find_projection (db_projections configured_db) ''worker_roster'' ''w'' = None
   \<and> register_worker (\<lambda>_. True) (sample_tick (CHR ''3'')) ''w'' FORMALIZER registered_db
     = (Inl (ControlOperationError ''WORKER_ALREADY_REGISTERED''), registered_db)"
  using worker_registered_once [OF sample_wf_projections(1) typed_sample_tick
      sample_registering [unfolded after_outcome_def],
      where vr' = "\<lambda>_. True" and t' = "sample_tick (CHR ''3'')" and role' = FORMALIZER] by blast

theorem assigned_task_is_recorded_witness:
  "next_version (db_projections registered_db) ''worker_assignments'' ''w'' = 1
   \<and> find_projection (db_projections assigned_db) ''worker_assignments'' ''v''
     = find_projection (db_projections registered_db) ''worker_assignments'' ''v''"
  using assigned_task_is_recorded [OF sample_wf_projections(2) typed_sample_tick
      sample_assigning [unfolded after_outcome_def], where w' = "''v''"] by simp

lemma sample_executions:
  "executions running_db = Map.empty"
  by (simp add: executions_def fun_eq_iff find_projection_def running_db_def assigned_db_def registered_db_def
      configured_db_def foundation_db_def sample_record_def)

theorem claim_creates_one_execution_witness:
  "executions claimed_db = (executions running_db)(sample_hash (CHR ''e'') \<mapsto>
     \<lparr>ex_worker = ''w'', ex_id = ''x'', ex_session = ''s'', ex_status = ''claimed''\<rparr>)"
  using claim_creates_one_execution [OF sample_wf(4) typed_sample_tick sample_claiming_run]
  by (simp add: sample_claim_def)

theorem executions_follow_protocol_witness:
  "execution_step\<^sup>*\<^sup>* (executions running_db) (executions claimed_db)"
  using executions_follow_protocol [OF sample_wf(4),
      of "Claim (sample_tick (CHR ''5'')) ''w'' ''s'' 1 ''x''" "\<lambda>_. True" sample_sha sample_text]
  unfolding sample_runs by simp

theorem one_execution_per_worker_witness:
  "one_active_per_worker (fold run_sample [Claim (sample_tick (CHR ''5'')) ''w'' ''s'' 1 ''x'',
     Claim (sample_tick (CHR ''6'')) ''w'' ''s'' 1 ''y''] running_db)"
  by (rule one_execution_per_worker [OF sample_wf(4)])
     (simp_all add: one_active_per_worker_def sample_executions)

lemma sample_claimed_execution:
  "executions claimed_db (sample_hash (CHR ''e''))
     = Some \<lparr>ex_worker = ''w'', ex_id = ''x'', ex_session = ''s'', ex_status = ''claimed''\<rparr>"
  by code_simp

theorem finished_executions_stay_witness:
  "\<exists>y. executions (fold run_sample [Interrupt (sample_tick (CHR ''6'')) sample_claim ''OPERATOR_SIGNAL'']
     claimed_db) (sample_hash (CHR ''e'')) = Some y \<and> ex_id y = ''x''"
  using finished_executions_stay [OF sample_wf(5) _ sample_claimed_execution,
      of "[Interrupt (sample_tick (CHR ''6'')) sample_claim ''OPERATOR_SIGNAL'']" "\<lambda>_. True" sample_sha sample_text]
  by auto

theorem restart_interrupts_all_active_witness:
  "\<exists>ids d'. interrupt_nonterminal_executions (\<lambda>_. True) (\<lambda>_. sample_tick (CHR ''6'')) claimed_db = (Inr ids, d')
     \<and> sample_hash (CHR ''e'') \<in> set ids"
proof -
  have "fresh_ticks (length (filter (\<lambda>r. pr_name r = ''worker_executions'') (db_projections claimed_db)))
      (\<lambda>_. sample_tick (CHR ''6'')) claimed_db"
    by (simp add: fresh_ticks_def claimed_db_def running_db_def assigned_db_def registered_db_def
        configured_db_def foundation_db_def empty_db_def sample_record_def sample_row_def sample_tick_def
        is_ulid_def ulid_alphabet_def sample_time_def is_utc_def lessThan_Suc)
       (simp add: typed_tick_def valid_datetime_def days_in_month_def list_all_iff)
  from restart_interrupts_all_active [OF sample_wf(5) this] show ?thesis
    using sample_claimed_execution by (fastforce simp: is_active_def nonterminal_statuses_def)
qed

theorem stale_claim_is_refused_witness:
  "\<exists>e. complete_assignment (\<lambda>_. True) (sample_tick (CHR ''6'')) (sample_claim\<lparr>cl_execution := ''y''\<rparr>)
     (sample_hash (CHR ''b'')) claimed_db = Inl e"
proof -
  have "executions claimed_db (cl_assignment (sample_claim\<lparr>cl_execution := ''y''\<rparr>))
     = Some \<lparr>ex_worker = ''w'', ex_id = ''x'', ex_session = ''s'', ex_status = ''claimed''\<rparr>"
    using sample_claimed_execution by (simp add: sample_claim_def)
  from stale_claim_is_refused [OF sample_wf(5) this] show ?thesis by simp
qed

theorem running_session_is_exclusive_witness:
  "\<exists>e. start_controller (\<lambda>_. True) (sample_tick (CHR ''5'')) ''s2'' 1 ''codex'' ''1.0''
     (sample_hash (CHR ''b'')) running_db = Inl e"
proof -
  obtain r where "start_controller (\<lambda>_. True) (sample_tick (CHR ''4'')) ''s'' 1 ''codex'' ''1.0''
     (sample_hash (CHR ''b'')) assigned_db = Inr (r, running_db)"
    using sample_starting unfolding leads_to_Inr ..
  from running_session_is_exclusive [OF sample_wf_projections(3) typed_sample_tick this] show ?thesis by blast
qed

end
