(* ===== verification/Serialization.thy ===== *)
theory Serialization
  imports Json_Text Timestamps
begin

text \<open>
  The rest of \<open>domain/serialization.py\<close>: the values that can be made canonical, by the class the
  generic function dispatches on, canonical bytes, and the digests of framed parts that name
  environments and base epochs. \<open>sha\<close> is SHA-256 as a hexadecimal text and \<open>frepr\<close> the text of a
  float.
\<close>

subsection \<open>Values\<close>

text \<open>Classes are named where an error would name them.\<close>

datatype pyval =
    PNone
  | PBool bool
  | PInt int
  | PFloat "64 word"
  | PStr string
  | PEnum string string
  | PDatetime datetime
  | PPath string
  | PDict "(pyval \<times> pyval) list"
  | PTuple "pyval list"
  | PList "pyval list"
  | PSet "pyval list"
  | PFrozenset "pyval list"
  | PDataclass string "(string \<times> pyval) list"
  | PClass string
  | POther string

fun type_name :: "pyval \<Rightarrow> string" where
  "type_name PNone = ''NoneType''"
| "type_name (PBool _) = ''bool''"
| "type_name (PInt _) = ''int''"
| "type_name (PFloat _) = ''float''"
| "type_name (PStr _) = ''str''"
| "type_name (PEnum c _) = c"
| "type_name (PDatetime _) = ''datetime''"
| "type_name (PPath _) = ''PosixPath''"
| "type_name (PDict _) = ''dict''"
| "type_name (PTuple _) = ''tuple''"
| "type_name (PList _) = ''list''"
| "type_name (PSet _) = ''set''"
| "type_name (PFrozenset _) = ''frozenset''"
| "type_name (PDataclass c _) = c"
| "type_name (PClass _) = ''type''"
| "type_name (POther c) = c"

definition failure :: "pyval \<Rightarrow> string \<Rightarrow> exn" where
  "failure v reason = CanonicalSerializationError (type_name v) reason"

definition sort_text :: "(64 word \<Rightarrow> string) \<Rightarrow> json \<Rightarrow> string" where
  "sort_text frepr v = dumps frepr '', '' '': '' (canon v)"

fun canonicalize :: "(64 word \<Rightarrow> string) \<Rightarrow> pyval \<Rightarrow> json res" where
  "canonicalize frepr PNone = Inr JNull"
| "canonicalize frepr (PBool b) = Inr (JBool b)"
| "canonicalize frepr (PInt i) = Inr (JInt i)"
| "canonicalize frepr (PFloat w) =
     bindr (ensure (float_finite w) (failure (PFloat w) ''floating-point value must be finite''))
       (\<lambda>_. Inr (JFloat w))"
| "canonicalize frepr (PStr s) = Inr (JStr s)"
| "canonicalize frepr (PEnum c s) = Inr (JStr s)"
| "canonicalize frepr (PDatetime d) =
     bindr (ensure (is_utc d) (failure (PDatetime d) ''timestamp must be timezone-aware UTC''))
       (\<lambda>_. Inr (JStr (utc_text d)))"
| "canonicalize frepr (PPath p) = Inr (JStr (as_posix p))"
| "canonicalize frepr (PDict d) =
     bindr (mapr (\<lambda>(k, v). case k of
         PStr s \<Rightarrow> bindr (canonicalize frepr v) (\<lambda>j. Inr (s, j))
       | _ \<Rightarrow> Inl (failure k ''dictionary keys must be strings'')) d) (\<lambda>xs. Inr (JObj xs))"
| "canonicalize frepr (PTuple vs) = bindr (mapr (canonicalize frepr) vs) (\<lambda>xs. Inr (JArr xs))"
| "canonicalize frepr (PList vs) = bindr (mapr (canonicalize frepr) vs) (\<lambda>xs. Inr (JArr xs))"
| "canonicalize frepr (PSet vs) =
     bindr (mapr (canonicalize frepr) vs) (\<lambda>xs. Inr (JArr (sort_key (sort_text frepr) xs)))"
| "canonicalize frepr (PFrozenset vs) =
     bindr (mapr (canonicalize frepr) vs) (\<lambda>xs. Inr (JArr (sort_key (sort_text frepr) xs)))"
| "canonicalize frepr (PDataclass c fs) =
     bindr (mapr (\<lambda>(k, v). bindr (canonicalize frepr v) (\<lambda>j. Inr (k, j))) fs) (\<lambda>xs. Inr (JObj xs))"
| "canonicalize frepr (PClass c) = Inl (failure (PClass c) ''classes are not values'')"
| "canonicalize frepr (POther c) = Inl (failure (POther c) ''unsupported value'')"

definition canonical_bytes :: "(64 word \<Rightarrow> string) \<Rightarrow> pyval \<Rightarrow> string res" where
  "canonical_bytes frepr v =
     bindr (canonicalize frepr v) (\<lambda>j. Inr (canonical_text frepr (canon j)))"

text \<open>The same for a value that is JSON already.\<close>

definition canonical_json :: "(64 word \<Rightarrow> string) \<Rightarrow> json \<Rightarrow> string res" where
  "canonical_json frepr v =
     bindr (ensure (floats_finite v)
       (CanonicalSerializationError ''float'' ''floating-point value must be finite'')) (\<lambda>_.
     Inr (canonical_text frepr (canon v)))"

definition sha256_json :: "(string \<Rightarrow> string) \<Rightarrow> (64 word \<Rightarrow> string) \<Rightarrow> pyval \<Rightarrow> string res" where
  "sha256_json sha frepr v = bindr (canonical_bytes frepr v) (\<lambda>s. Inr (sha s))"

subsection \<open>Framed digests\<close>

fun big_endian :: "nat \<Rightarrow> nat \<Rightarrow> string" where
  "big_endian 0 n = []"
| "big_endian (Suc k) n = big_endian k (n div 256) @ [char_of (n mod 256)]"

definition framed :: "string \<Rightarrow> string" where
  "framed part = big_endian 8 (length part) @ part"

definition framed_hash :: "(string \<Rightarrow> string) \<Rightarrow> string list \<Rightarrow> string" where
  "framed_hash sha parts = sha (concat (map framed parts))"

text \<open>
  The files are arguments: the toolchain file, the first of the two configuration files that exists
  (as its contents), and the manifest where there is one.
\<close>

definition compute_environment_fingerprint ::
  "(string \<Rightarrow> string) \<Rightarrow> (64 word \<Rightarrow> string) \<Rightarrow> string \<Rightarrow> string \<Rightarrow> string option \<Rightarrow> (string \<times> string) list
     \<Rightarrow> pyval \<Rightarrow> string res" where
  "compute_environment_fingerprint sha frepr toolchain lakefile manifest policy config =
     bindr (canonical_bytes frepr
       (PTuple (map (\<lambda>(k, v). PTuple [PStr k, PStr v]) (sort policy)))) (\<lambda>p.
     bindr (canonical_bytes frepr config) (\<lambda>c.
     Inr (framed_hash sha ([toolchain, lakefile]
       @ (case manifest of None \<Rightarrow> [] | Some m \<Rightarrow> [m]) @ [p, c]))))"

definition compute_base_epoch ::
  "(string \<Rightarrow> string) \<Rightarrow> (64 word \<Rightarrow> string) \<Rightarrow> string \<Rightarrow> (string \<times> string) list \<Rightarrow> string res" where
  "compute_base_epoch sha frepr fingerprint modules =
     bindr (ensure (is_hash fingerprint)
       (CanonicalSerializationError ''environment_fingerprint'' ''expected lowercase hex'')) (\<lambda>_.
     bindr (ensure (list_all (\<lambda>(_, h). is_hash h) modules)
       (CanonicalSerializationError ''module content hash'' ''expected lowercase hex'')) (\<lambda>_.
     let names = sort (map fst modules);
         hashes = map (\<lambda>n. case map_of modules n of Some h \<Rightarrow> h | None \<Rightarrow> []) names
     in bindr (canonical_bytes frepr (PTuple (map PStr names))) (\<lambda>t.
        Inr (framed_hash sha (fingerprint # t # hashes)))))"

subsection \<open>Framing is injective\<close>

lemma length_big_endian [simp]: "length (big_endian k n) = k"
  by (induction k arbitrary: n) auto

lemma big_endian_inject:
  "m < 256 ^ k \<Longrightarrow> n < 256 ^ k \<Longrightarrow> big_endian k m = big_endian k n \<longleftrightarrow> m = n"
proof (induction k arbitrary: m n)
  case (Suc k)
  have "m div 256 < 256 ^ k" "n div 256 < 256 ^ k"
    using Suc.prems by (auto simp: less_mult_imp_div_less mult.commute)
  note IH = Suc.IH [OF this]
  have "char_of (m mod 256) = (char_of (n mod 256) :: char) \<longleftrightarrow> m mod 256 = n mod 256"
    by (metis mod_less_divisor of_char_of zero_less_numeral mod_mod_trivial)
  then show ?case using IH by (auto, metis div_mult_mod_eq)
qed auto

definition frame_limit :: nat where
  "frame_limit = 256 ^ 8"

lemma framed_append_inject:
  assumes "length p < frame_limit" "length q < frame_limit"
  shows "framed p @ r = framed q @ s \<longleftrightarrow> p = q \<and> r = s"
proof
  assume e: "framed p @ r = framed q @ s"
  then have "big_endian 8 (length p) = big_endian 8 (length q) \<and> p @ r = q @ s"
    unfolding framed_def by (simp add: append_eq_append_conv)
  then have "length p = length q" "p @ r = q @ s" using big_endian_inject [OF assms [unfolded frame_limit_def]] by auto
  then show "p = q \<and> r = s" by (metis append_eq_append_conv)
qed simp

lemma framed_nonempty: "framed p \<noteq> []"
proof
  assume "framed p = []"
  then have "length (framed p) = 0" by simp
  then show False by (simp add: framed_def)
qed

lemma concat_framed_inject:
  assumes "\<forall>p \<in> set ps. length p < frame_limit" "\<forall>q \<in> set qs. length q < frame_limit"
    "concat (map framed ps) = concat (map framed qs)"
  shows "ps = qs"
  using assms
proof (induction ps arbitrary: qs)
  case Nil
  then show ?case by (cases qs) (auto simp: framed_nonempty)
next
  case (Cons p ps)
  have "qs \<noteq> []"
  proof
    assume "qs = []"
    then have "framed p = []" using Cons.prems(3) by simp
    then show False using framed_nonempty by blast
  qed
  then obtain q qs' where qs: "qs = q # qs'" unfolding neq_Nil_conv by blast
  have "framed p @ concat (map framed ps) = framed q @ concat (map framed qs')"
    using Cons.prems(3) by (simp only: qs list.map concat.simps)
  moreover have "length p < frame_limit" "length q < frame_limit"
    using Cons.prems(1,2) by (simp_all add: qs)
  ultimately have pq: "p = q" "concat (map framed ps) = concat (map framed qs')"
    using framed_append_inject [of p q] by simp_all
  have "ps = qs'"
    by (rule Cons.IH [OF _ _ pq(2)]) (use Cons.prems(1,2) qs in simp_all)
  with pq(1) qs show ?case by simp
qed

subsection \<open>What a base epoch determines\<close>

lemma canonicalize_names: "mapr (canonicalize frepr) (map PStr ns) = Inr (map JStr ns)"
  by (induction ns) simp_all

lemma names_bytes:
  "canonical_bytes frepr (PTuple (map PStr ns)) = Inr (canonical_text frepr (JArr (map JStr ns)))"
proof -
  have "map canon (map JStr ns) = map JStr ns" by (induction ns) simp_all
  then show ?thesis
    by (simp only: canonical_bytes_def canonicalize.simps canonicalize_names bindr_Inr canon.simps)
qed

lemma names_bytes_inject:
  "canonical_text frepr (JArr (map JStr ns)) = canonical_text frepr (JArr (map JStr ms)) \<longleftrightarrow> ns = ms"
proof -
  have "float_free (JArr (map JStr ns))" for ns by (induction ns) auto
  moreover have "map JStr ns = map JStr ms \<longleftrightarrow> ns = ms" by (intro inj_map_eq_map injI) simp
  ultimately show ?thesis using canonical_text_inject by blast
qed

definition epoch_parts ::
  "(64 word \<Rightarrow> string) \<Rightarrow> string \<Rightarrow> (string \<times> string) list \<Rightarrow> string list" where
  "epoch_parts frepr fingerprint modules =
     (let names = sort (map fst modules)
      in fingerprint # canonical_text frepr (JArr (map JStr names))
           # map (\<lambda>n. case map_of modules n of Some h \<Rightarrow> h | None \<Rightarrow> []) names)"

lemma compute_base_epoch_Inr:
  "compute_base_epoch sha frepr f ms = Inr b \<longleftrightarrow>
     is_hash f \<and> list_all (\<lambda>(_, h). is_hash h) ms \<and> b = sha (concat (map framed (epoch_parts frepr f ms)))"
  unfolding compute_base_epoch_def epoch_parts_def Let_def names_bytes bindr_Inr framed_hash_def
  by (auto simp: inr_simps)

lemma sorted_modules_determined:
  assumes "distinct (map fst ms)" "distinct (map fst ns)"
    and names: "sort (map fst ms) = sort (map fst ns)"
    and hashes: "map (\<lambda>n. case map_of ms n of Some h \<Rightarrow> h | None \<Rightarrow> []) (sort (map fst ms))
      = map (\<lambda>n. case map_of ns n of Some h \<Rightarrow> h | None \<Rightarrow> []) (sort (map fst ns))"
  shows "map_of ms = map_of ns"
proof
  fix n
  have set: "fst ` set ms = fst ` set ns" using arg_cong [OF names, of set] by simp
  show "map_of ms n = map_of ns n"
  proof (cases "n \<in> fst ` set ms")
    case True
    then obtain h k where h: "map_of ms n = Some h" "map_of ns n = Some k"
      using set by (metis map_of_eq_None_iff not_None_eq)
    have "n \<in> set (sort (map fst ms))" using True by simp
    then have "(case map_of ms n of Some h \<Rightarrow> h | None \<Rightarrow> []) = (case map_of ns n of Some h \<Rightarrow> h | None \<Rightarrow> [])"
      using hashes unfolding names [symmetric] by (simp only: map_eq_conv)
    with h show ?thesis by simp
  next
    case False
    then show ?thesis using set by (metis map_of_eq_None_iff)
  qed
qed

text \<open>
  C37. Equal base epochs come from the same environment fingerprint and the same modules with the
  same contents, unless two different texts have the same SHA-256 digest: the frames of the parts
  keep apart what is concatenated.
\<close>

theorem base_epoch_determines_modules:
  assumes "compute_base_epoch sha frepr f ms = Inr b" "compute_base_epoch sha frepr g ns = Inr b"
    and "distinct (map fst ms)" "distinct (map fst ns)"
    and "\<forall>p \<in> set (epoch_parts frepr f ms @ epoch_parts frepr g ns). length p < 2 ^ 64"
  shows "f = g \<and> map_of ms = map_of ns \<or> (\<exists>x y. x \<noteq> y \<and> sha x = sha y)"
proof (cases "concat (map framed (epoch_parts frepr f ms)) = concat (map framed (epoch_parts frepr g ns))")
  case True
  have "frame_limit = 2 ^ 64" by (simp add: frame_limit_def)
  with assms(5) have "\<forall>p \<in> set (epoch_parts frepr f ms). length p < frame_limit"
    "\<forall>q \<in> set (epoch_parts frepr g ns). length q < frame_limit" by auto
  from concat_framed_inject [OF this True] have e: "f = g"
    "canonical_text frepr (JArr (map JStr (sort (map fst ms)))) = canonical_text frepr (JArr (map JStr (sort (map fst ns))))"
    "map (\<lambda>n. case map_of ms n of Some h \<Rightarrow> h | None \<Rightarrow> []) (sort (map fst ms))
      = map (\<lambda>n. case map_of ns n of Some h \<Rightarrow> h | None \<Rightarrow> []) (sort (map fst ns))"
    unfolding epoch_parts_def Let_def by blast+
  then have "map_of ms = map_of ns"
    using sorted_modules_determined [OF assms(3,4)] unfolding names_bytes_inject by blast
  with e(1) show ?thesis by blast
next
  case False
  then show ?thesis using assms(1,2) by (auto simp: compute_base_epoch_Inr)
qed

definition sample_digest :: "char \<Rightarrow> string" where
  "sample_digest c = replicate 64 c"

theorem base_epoch_determines_modules_witness:
  "map_of [(''A'', sample_digest (CHR ''1'')), (''B'', sample_digest (CHR ''2''))]
     = map_of [(''B'', sample_digest (CHR ''2'')), (''A'', sample_digest (CHR ''1''))]"
proof -
  let ?f = "sample_digest (CHR ''0'')"
  let ?ms = "[(''A'', sample_digest (CHR ''1'')), (''B'', sample_digest (CHR ''2''))]"
  let ?ns = "[(''B'', sample_digest (CHR ''2'')), (''A'', sample_digest (CHR ''1''))]"
  have h: "is_hash ?f" "is_hash (sample_digest (CHR ''1''))" "is_hash (sample_digest (CHR ''2''))"
    by (simp_all add: sample_digest_def is_hash_def char_class_defs list_all_iff)
  have p: "epoch_parts (\<lambda>_. []) ?f ?ms = epoch_parts (\<lambda>_. []) ?f ?ns"
    by (simp add: epoch_parts_def less_char_def)
  have s: "\<forall>p \<in> set (epoch_parts (\<lambda>_. []) ?f ?ms @ epoch_parts (\<lambda>_. []) ?f ?ns). length p < 2 ^ 64"
    unfolding p by (simp add: epoch_parts_def sample_digest_def dumps_str_def escape_char_def code_def less_char_def)
  have e: "compute_base_epoch (\<lambda>x. x) (\<lambda>_. []) ?f ?ms
      = Inr (concat (map framed (epoch_parts (\<lambda>_. []) ?f ?ns)))"
    "compute_base_epoch (\<lambda>x. x) (\<lambda>_. []) ?f ?ns = Inr (concat (map framed (epoch_parts (\<lambda>_. []) ?f ?ns)))"
    by (simp_all add: compute_base_epoch_Inr h p)
  from base_epoch_determines_modules [OF e _ _ s] show ?thesis by simp
qed

end
