(* ===== verification/Research_Records.thy ===== *)
theory Research_Records
  imports Controller_Execution Serialization
begin

text \<open>
  Research records (\<open>research/records.py\<close>): the values they are made of, their validator, which the
  event schema calls for every \<open>ResearchRecordUpdated\<close> payload, and the operations that save them,
  define tasks, apply an operator's changes and list the tasks that can run. Parameters: \<open>sha\<close> and
  \<open>frepr\<close> as in theory \<open>Serialization\<close>; \<open>iso_utc\<close> tells whether \<open>datetime.fromisoformat\<close> accepts a
  text as a time in UTC; \<open>wide\<close> tells which characters outside ASCII the \<open>re\<close> module counts as
  part of a word.
\<close>

subsection \<open>Values\<close>

definition research_kinds :: "string list" where
  "research_kinds = [''task'', ''attempt'', ''memory'', ''inbox'', ''contribution'', ''review'', ''run'']"

definition memory_kinds :: "string list" where
  "memory_kinds = [''observation'', ''conjecture'', ''dead_end'', ''counterexample'', ''strategy'', ''summary'']"

definition contribution_roles :: "string list" where
  "contribution_roles =
    [''problem_formulation'', ''definitions'', ''strategy'', ''counterexample'', ''formalization'',
     ''semantic_review'', ''library_design'', ''exposition'', ''source_material'']"

definition review_kinds :: "string list" where
  "review_kinds =
    [''semantic_alignment'', ''research_value'', ''library_quality'', ''exposition'', ''release'']"

definition research_text :: "nat \<Rightarrow> bool \<Rightarrow> json \<Rightarrow> string res" where
  "research_text limit blank_ok v =
     (case v of
       JStr s \<Rightarrow> bindr (ensure (\<not> ((\<not> blank_ok \<and> blank s) \<or> limit < length s)) (ResearchError ''INVALID_TEXT''))
         (\<lambda>_. Inr s)
     | _ \<Rightarrow> Inl (ResearchError ''INVALID_TEXT''))"

abbreviation plain_text :: "json \<Rightarrow> string res" where
  "plain_text \<equiv> research_text 65536 False"

definition max_integer :: int where
  "max_integer = 9007199254740991"

definition research_integer :: "int \<Rightarrow> int \<Rightarrow> json \<Rightarrow> int res" where
  "research_integer lo hi v =
     (case v of
       JInt i \<Rightarrow> bindr (ensure (lo \<le> i \<and> i \<le> hi) (ResearchError ''INVALID_INTEGER'')) (\<lambda>_. Inr i)
     | _ \<Rightarrow> Inl (ResearchError ''INVALID_INTEGER''))"

abbreviation plain_integer :: "json \<Rightarrow> int res" where
  "plain_integer \<equiv> research_integer 0 max_integer"

definition research_texts :: "json \<Rightarrow> string list res" where
  "research_texts v =
     (case v of
       JArr xs \<Rightarrow> bindr (ensure (length xs \<le> 1000) (ResearchError ''INVALID_LIST'')) (\<lambda>_. mapr plain_text xs)
     | _ \<Rightarrow> Inl (ResearchError ''INVALID_LIST''))"

definition object_value :: "json \<Rightarrow> jdict res" where
  "object_value v = (case v of JObj d \<Rightarrow> Inr d | _ \<Rightarrow> Inl (ResearchError ''INVALID_OBJECT''))"

text \<open>\<open>[A-Za-z][A-Za-z0-9_-]{0,47}\<close>\<close>

definition identifier_of :: "json \<Rightarrow> string res" where
  "identifier_of v =
     bindr (research_text 48 False v) (\<lambda>s.
     bindr (ensure (ident_match is_alpha (\<lambda>c. is_alnum c \<or> c = CHR ''_'' \<or> c = CHR ''-'') 47 s)
       (ResearchError ''INVALID_IDENTIFIER'')) (\<lambda>_. Inr s))"

definition record_id :: "string \<Rightarrow> json \<Rightarrow> string res" where
  "record_id kind identity =
     bindr (ensure (kind \<in> set research_kinds) (ResearchError ''INVALID_RECORD_KIND'')) (\<lambda>_.
     bindr (identifier_of identity) (\<lambda>i. Inr (kind @ '':'' @ i)))"

text \<open>\<open>v in names\<close> for a set of texts; a list or dictionary has no hash and raises.\<close>

definition member_of :: "string list \<Rightarrow> json \<Rightarrow> bool res" where
  "member_of names v =
     bindr (ensure (hashable v) (TypeError ''unhashable type'')) (\<lambda>_. Inr (v \<in> JStr ` set names))"

definition accepted :: "'a res \<Rightarrow> bool" where
  "accepted m = (case m of Inl _ \<Rightarrow> False | Inr _ \<Rightarrow> True)"

definition is_member :: "string list \<Rightarrow> json \<Rightarrow> bool" where
  "is_member names v \<longleftrightarrow> member_of names v = Inr True"

subsection \<open>Statements and module names\<close>

text \<open>The characters of a text, each with the bytes that continue it.\<close>

fun utf8_characters :: "string \<Rightarrow> string list" where
  "utf8_characters [] = []"
| "utf8_characters (c # s) =
     (case utf8_characters s of
       [] \<Rightarrow> [[c]]
     | w # ws \<Rightarrow> (if 128 \<le> code (hd w) \<and> code (hd w) < 192 then (c # w) # ws else [c] # w # ws))"

definition word_character :: "(string \<Rightarrow> bool) \<Rightarrow> string \<Rightarrow> bool" where
  "word_character wide w =
     (case w of [c] \<Rightarrow> is_alnum c \<or> c = CHR ''_'' \<or> (128 \<le> code c \<and> wide w) | _ \<Rightarrow> wide w)"

definition reserved_words :: "string list" where
  "reserved_words = [''sorry'', ''admit'', ''axiom'', ''unsafe'', ''theorem'', ''import'', ''initialize'']"

fun starts_with :: "'a list \<Rightarrow> 'a list \<Rightarrow> 'a list option" where
  "starts_with [] ys = Some ys"
| "starts_with (x # xs) [] = None"
| "starts_with (x # xs) (y # ys) = (if x = y then starts_with xs ys else None)"

text \<open>\<open>re.search(r"\<bar>b(sorry...initialize)\<bar>b", s)\<close> with the word boundary written out.\<close>

definition reserved_here :: "(string \<Rightarrow> bool) \<Rightarrow> string list \<Rightarrow> bool" where
  "reserved_here wide cs =
     (\<exists>w \<in> set reserved_words. case starts_with (map (\<lambda>c. [c]) w) cs of
        None \<Rightarrow> False | Some rest \<Rightarrow> rest = [] \<or> \<not> word_character wide (hd rest))"

fun has_reserved :: "(string \<Rightarrow> bool) \<Rightarrow> bool \<Rightarrow> string list \<Rightarrow> bool" where
  "has_reserved wide in_word [] = False"
| "has_reserved wide in_word (c # cs) =
     ((\<not> in_word \<and> reserved_here wide (c # cs)) \<or> has_reserved wide (word_character wide c) cs)"

fun contains :: "string \<Rightarrow> string \<Rightarrow> bool" where
  "contains p [] = (p = [])"
| "contains p (c # s) = (starts_with p (c # s) \<noteq> None \<or> contains p s)"

text \<open>\<open>[A-Za-z_][A-Za-z0-9_]*(?:\.[A-Za-z_][A-Za-z0-9_]*)*\<close>\<close>

definition is_module :: "string \<Rightarrow> bool" where
  "is_module s \<longleftrightarrow> list_all (\<lambda>w. case w of [] \<Rightarrow> False
     | c # cs \<Rightarrow> (is_alpha c \<or> c = CHR ''_'') \<and> list_all (\<lambda>c. is_alnum c \<or> c = CHR ''_'') cs)
     (split_on (CHR ''.'') s)"

subsection \<open>The validator\<close>

text \<open>
  The code returns \<open>False\<close> and raises \<open>ResearchError\<close>, \<open>TypeError\<close>, \<open>KeyError\<close> or \<open>ValueError\<close>,
  all of which it catches to return \<open>False\<close>: what is left is a conjunction.
\<close>

definition target_fields :: "string list" where
  "target_fields = [''statement'', ''imports'', ''depends_on'', ''source_refs'']"

definition task_hash :: "(string \<Rightarrow> string) \<Rightarrow> (64 word \<Rightarrow> string) \<Rightarrow> jdict \<Rightarrow> string res" where
  "task_hash sha frepr data =
     bindr (mapr (\<lambda>k. bindr (getr data k) (\<lambda>v. Inr (k, v))) target_fields) (\<lambda>d.
     bindr (canonical_json frepr (JObj d)) (\<lambda>s. Inr (sha s)))"

definition task_fields :: "string list" where
  "task_fields =
    [''task_id'', ''title'', ''statement'', ''author'', ''imports'', ''depends_on'', ''source_refs'',
     ''max_rounds'', ''max_failures'', ''timeout_seconds'']"

definition valid_task ::
  "(string \<Rightarrow> string) \<Rightarrow> (64 word \<Rightarrow> string) \<Rightarrow> (string \<Rightarrow> bool) \<Rightarrow> jdict \<Rightarrow> bool" where
  "valid_task sha frepr wide data \<longleftrightarrow>
     keys data = set (task_fields @ [''status'', ''rounds'', ''failures'', ''target_hash'', ''feedback'',
       ''verified_declarations'', ''paused''])
     \<and> is_member [''pending'', ''running'', ''verified'', ''blocked''] (get_json data ''status'')
     \<and> (case plain_text (get_json data ''statement'') of
          Inl _ \<Rightarrow> False
        | Inr s \<Rightarrow> \<not> contains '':='' s \<and> \<not> has_reserved wide False (utf8_characters s))
     \<and> accepted (research_text 1024 False (get_json data ''title''))
     \<and> accepted (research_text 256 False (get_json data ''author''))
     \<and> (case research_texts (get_json data ''imports'') of Inl _ \<Rightarrow> False | Inr ms \<Rightarrow> list_all is_module ms)
     \<and> accepted (research_texts (get_json data ''depends_on''))
     \<and> accepted (research_texts (get_json data ''source_refs''))
     \<and> accepted (research_texts (get_json data ''verified_declarations''))
     \<and> accepted (research_text 65536 True (get_json data ''feedback''))
     \<and> accepted (research_integer 1 1000 (get_json data ''max_rounds''))
     \<and> accepted (research_integer 1 1000 (get_json data ''max_failures''))
     \<and> accepted (research_integer 1 14400 (get_json data ''timeout_seconds''))
     \<and> accepted (plain_integer (get_json data ''rounds''))
     \<and> accepted (plain_integer (get_json data ''failures''))
     \<and> boolean_payload (get_json data ''paused'')
     \<and> (case task_hash sha frepr data of Inl _ \<Rightarrow> False | Inr h \<Rightarrow> get_json data ''target_hash'' = JStr h)"

definition valid_note :: "jdict \<Rightarrow> bool" where
  "valid_note data \<longleftrightarrow>
     accepted (research_text 65536 True (get_json data ''task_id''))
     \<and> accepted (research_text 256 False (get_json data ''author''))
     \<and> accepted (plain_text (get_json data ''body''))
     \<and> list_all (\<lambda>field. case map_of data field of None \<Rightarrow> True | Some v \<Rightarrow> accepted (research_texts v))
         [''source_refs'', ''consumed_by'', ''verified_declarations'']"

definition valid_memory :: "jdict \<Rightarrow> bool" where
  "valid_memory data \<longleftrightarrow>
     keys data = {''id'', ''task_id'', ''author'', ''kind'', ''body'', ''source_refs'', ''origin'',
       ''worker_id'', ''verified''}
     \<and> is_member memory_kinds (get_json data ''kind'') \<and> get_json data ''verified'' = JBool False
     \<and> is_member [''operator'', ''worker''] (get_json data ''origin'')
     \<and> str_of (get_json data ''worker_id'') \<noteq> None \<and> list_payload (get_json data ''source_refs'')"

definition valid_inbox :: "jdict \<Rightarrow> bool" where
  "valid_inbox data \<longleftrightarrow>
     keys data = {''id'', ''task_id'', ''author'', ''kind'', ''body'', ''consumed_by''}
     \<and> is_member [''hint'', ''question'', ''constraint''] (get_json data ''kind'')
     \<and> list_payload (get_json data ''consumed_by'')"

definition valid_research_contribution :: "jdict \<Rightarrow> bool" where
  "valid_research_contribution data \<longleftrightarrow>
     keys data = {''id'', ''task_id'', ''author'', ''role'', ''body'', ''source_refs'', ''identity_assurance''}
     \<and> is_member contribution_roles (get_json data ''role'')
     \<and> get_json data ''identity_assurance'' = JStr ''operator_declared''"

definition valid_review :: "jdict \<Rightarrow> bool" where
  "valid_review data \<longleftrightarrow>
     keys data = {''id'', ''task_id'', ''author'', ''kind'', ''verdict'', ''body'', ''target_hash'',
       ''verified_declarations'', ''identity_assurance''}
     \<and> is_member review_kinds (get_json data ''kind'')
     \<and> is_member [''accept'', ''revise'', ''reject''] (get_json data ''verdict'')
     \<and> get_json data ''identity_assurance'' = JStr ''operator_declared''"

definition valid_usage :: "json \<Rightarrow> bool" where
  "valid_usage v \<longleftrightarrow>
     v = JNull \<or>
     (case object_value v of
       Inl _ \<Rightarrow> False
     | Inr d \<Rightarrow> keys d = {''input_tokens'', ''cached_input_tokens'', ''output_tokens''}
         \<and> list_all (\<lambda>(_, x). accepted (plain_integer x)) d
         \<and> (case (get_json d ''cached_input_tokens'', get_json d ''input_tokens'') of
              (JInt c, JInt i) \<Rightarrow> c \<le> i | _ \<Rightarrow> False))"

definition attempt_fields :: "string list" where
  "attempt_fields =
    [''id'', ''task_id'', ''worker_id'', ''run_id'', ''target_hash'', ''round'', ''status'', ''feedback'',
     ''verified_declarations'', ''usage'', ''model'', ''inbox_ids'']"

definition valid_attempt :: "jdict \<Rightarrow> bool" where
  "valid_attempt data \<longleftrightarrow>
     set attempt_fields \<subseteq> keys data
     \<and> keys data \<subseteq> set (attempt_fields @ [''controller_model'', ''controller_usage''])
     \<and> is_member [''running'', ''verified'', ''failed'', ''interrupted''] (get_json data ''status'')
     \<and> accepted (identifier_of (get_json data ''task_id'')) \<and> accepted (identifier_of (get_json data ''worker_id''))
     \<and> accepted (plain_text (get_json data ''run_id'')) \<and> accepted (plain_text (get_json data ''model''))
     \<and> accepted (research_text 65536 True (get_json data ''feedback''))
     \<and> accepted (research_texts (get_json data ''inbox_ids''))
     \<and> accepted (research_texts (get_json data ''verified_declarations''))
     \<and> accepted (research_integer 1 max_integer (get_json data ''round''))
     \<and> accepted (research_text 65536 True
         (case map_of data ''controller_model'' of None \<Rightarrow> JStr '''' | Some v \<Rightarrow> v))
     \<and> valid_usage (get_json data ''usage'') \<and> valid_usage (get_json data ''controller_usage'')
     \<and> (case plain_text (get_json data ''target_hash'') of Inl _ \<Rightarrow> False | Inr h \<Rightarrow> is_hash h)"

definition valid_run_record :: "jdict \<Rightarrow> bool" where
  "valid_run_record data \<longleftrightarrow>
     keys data = {''id'', ''status'', ''model'', ''participation'', ''started_at'', ''finished_at'', ''reason''}
     \<and> is_member [''running'', ''finished'', ''interrupted''] (get_json data ''status'')"

definition valid_times :: "(string \<Rightarrow> bool) \<Rightarrow> jdict \<Rightarrow> bool" where
  "valid_times iso_utc data \<longleftrightarrow>
     list_all (\<lambda>field. case map_of data field of None \<Rightarrow> True
       | Some v \<Rightarrow> (case plain_text v of Inl _ \<Rightarrow> False | Inr s \<Rightarrow> iso_utc s)) [''created_at'', ''updated_at'']"

definition without_times :: "jdict \<Rightarrow> jdict" where
  "without_times data = filter (\<lambda>(k, _). k \<notin> {''created_at'', ''updated_at''}) data"

definition valid_data ::
  "(string \<Rightarrow> string) \<Rightarrow> (64 word \<Rightarrow> string) \<Rightarrow> (string \<Rightarrow> bool) \<Rightarrow> string \<Rightarrow> jdict \<Rightarrow> bool" where
  "valid_data sha frepr wide kind data \<longleftrightarrow>
     (if kind = ''task'' then valid_task sha frepr wide data
      else if kind = ''memory'' then valid_note data \<and> valid_memory data
      else if kind = ''inbox'' then valid_note data \<and> valid_inbox data
      else if kind = ''contribution'' then valid_note data \<and> valid_research_contribution data
      else if kind = ''review'' then valid_note data \<and> valid_review data
      else if kind = ''attempt'' then valid_attempt data
      else if kind = ''run'' then valid_run_record data
      else False)"

definition valid_record ::
  "(string \<Rightarrow> string) \<Rightarrow> (64 word \<Rightarrow> string) \<Rightarrow> (string \<Rightarrow> bool) \<Rightarrow> (string \<Rightarrow> bool) \<Rightarrow> jdict \<Rightarrow> bool" where
  "valid_record sha frepr iso_utc wide payload \<longleftrightarrow>
     keys payload = {''record_id'', ''kind'', ''data''} \<and>
     (case (plain_text (get_json payload ''kind''), object_value (get_json payload ''data'')) of
       (Inr kind, Inr stored) \<Rightarrow>
         valid_times iso_utc stored \<and>
         (let data = without_times stored
          in (case identifier_of (get_json data (if kind = ''task'' then ''task_id'' else ''id'')) of
               Inl _ \<Rightarrow> False
             | Inr identity \<Rightarrow>
                 (case record_id kind (JStr identity) of
                   Inl _ \<Rightarrow> False | Inr key \<Rightarrow> get_json payload ''record_id'' = JStr key)
                 \<and> (case canonical_json frepr (JObj data) of Inl _ \<Rightarrow> False | Inr s \<Rightarrow> length s \<le> 262144)
                 \<and> valid_data sha frepr wide kind data))
     | _ \<Rightarrow> False)"

subsection \<open>Reading records\<close>

definition unpack :: "projection \<Rightarrow> jdict res" where
  "unpack r =
     bindr (object_value (pr_state r)) (\<lambda>state.
     bindr (object_value (get_json state ''payload'')) (\<lambda>payload.
     object_value (get_json payload ''data'')))"

definition get_research :: "string \<Rightarrow> json \<Rightarrow> db \<Rightarrow> jdict option res" where
  "get_research kind identity d =
     bindr (record_id kind identity) (\<lambda>key.
     bindr (query_projection ''research'' key d) (\<lambda>record.
     case record of None \<Rightarrow> Inr None | Some r \<Rightarrow> bindr (unpack r) (\<lambda>data. Inr (Some data))))"

definition research_records :: "string \<Rightarrow> db \<Rightarrow> jdict list res" where
  "research_records kind d =
     bindr (store_projections (Some ''research'') d) (\<lambda>rs.
     mapr unpack (filter (\<lambda>r. starts_with (kind @ '':'') (pr_entity r) \<noteq> None) rs))"

definition require_task :: "json \<Rightarrow> db \<Rightarrow> jdict res" where
  "require_task identity d =
     bindr (get_research ''task'' identity d) (\<lambda>found.
     case found of None \<Rightarrow> Inl (ResearchError ''TASK_NOT_FOUND'') | Some data \<Rightarrow> Inr data)"

subsection \<open>Saving\<close>

text \<open>What the operations take besides the store: digests and the parameters of validation.\<close>

record research_context =
  rc_sha :: "string \<Rightarrow> string"
  rc_frepr :: "64 word \<Rightarrow> string"
  rc_iso_utc :: "string \<Rightarrow> bool"
  rc_wide :: "string \<Rightarrow> bool"

definition rc_valid :: "research_context \<Rightarrow> jdict \<Rightarrow> bool" where
  "rc_valid x = valid_record (rc_sha x) (rc_frepr x) (rc_iso_utc x) (rc_wide x)"

definition immutable_fields :: "string list" where
  "immutable_fields = [''statement'', ''imports'', ''depends_on'', ''source_refs'', ''author'', ''target_hash'']"

fun check_immutable :: "jdict \<Rightarrow> jdict \<Rightarrow> string list \<Rightarrow> unit res" where
  "check_immutable previous data [] = Inr ()"
| "check_immutable previous data (f # fs) =
     bindr (getr previous f) (\<lambda>old.
     bindr (getr data f) (\<lambda>new.
     bindr (ensure (canon old = canon new) (ResearchError ''TARGET_IS_IMMUTABLE'')) (\<lambda>_.
     check_immutable previous data fs)))"

definition with_times :: "jdict option \<Rightarrow> string \<Rightarrow> jdict \<Rightarrow> jdict" where
  "with_times previous now data =
     AList.update ''updated_at'' (JStr now)
       (AList.update ''created_at''
         (case previous of
           None \<Rightarrow> JStr now
         | Some p \<Rightarrow> (case map_of p ''created_at'' of None \<Rightarrow> JStr now | Some v \<Rightarrow> v)) data)"

definition save_record ::
  "research_context \<Rightarrow> tick \<Rightarrow> string \<Rightarrow> string \<Rightarrow> json \<Rightarrow> jdict \<Rightarrow> json \<Rightarrow> string option \<Rightarrow> db \<Rightarrow> int outcome" where
  "save_record x t now kind identity data actor run d =
     and_then
       (bindr (record_id kind identity) (\<lambda>key.
        bindr (ensure (rc_valid x [(''record_id'', JStr key), (''kind'', JStr kind), (''data'', JObj data)])
          (ResearchError ''INVALID_RESEARCH_RECORD'')) (\<lambda>_.
        bindr (get_research kind identity d) (\<lambda>previous.
        bindr (case previous of
            None \<Rightarrow> Inr ()
          | Some p \<Rightarrow> if kind = ''task'' then check_immutable p data immutable_fields else Inr ()) (\<lambda>_.
        bindr (research_text 256 False actor) (\<lambda>who.
        append_event (rc_valid x) t (command ''ResearchRecordUpdated'' who run None
          [(''record_id'', JStr key), (''kind'', JStr kind),
           (''data'', JObj (with_times previous now data))]) d))))) ) d
       (\<lambda>_ d'. (bindr (record_id kind identity) (\<lambda>key.
          bindr (query_projection ''research'' key d') (\<lambda>updated.
          case updated of
            None \<Rightarrow> Inl (ResearchError ''RESEARCH_STATE_UNAVAILABLE'')
          | Some r \<Rightarrow> Inr (pr_version r))), d'))"

subsection \<open>Tasks\<close>

text \<open>A failed check before \<open>save\<close> returns its error; what \<open>save\<close> returns is the result.\<close>

definition then_save :: "'a res \<Rightarrow> db \<Rightarrow> ('a \<Rightarrow> int outcome) \<Rightarrow> int outcome" where
  "then_save m d f = (case m of Inl e \<Rightarrow> (Inl e, d) | Inr x \<Rightarrow> f x)"

fun require_dependencies :: "string list \<Rightarrow> db \<Rightarrow> unit res" where
  "require_dependencies [] d = Inr ()"
| "require_dependencies (x # xs) d =
     bindr (identifier_of (JStr x)) (\<lambda>i.
     bindr (get_research ''task'' (JStr i) d) (\<lambda>found.
     bindr (ensure (found \<noteq> None) (ResearchError ''DEPENDENCY_NOT_FOUND'')) (\<lambda>_.
     require_dependencies xs d)))"

definition new_task_fields :: "string \<Rightarrow> jdict" where
  "new_task_fields target_hash =
     [(''status'', JStr ''pending''), (''rounds'', JInt 0), (''failures'', JInt 0),
      (''target_hash'', JStr target_hash), (''feedback'', JStr []), (''verified_declarations'', JArr []),
      (''paused'', JBool False)]"

definition define_task ::
  "research_context \<Rightarrow> tick \<Rightarrow> string \<Rightarrow> jdict \<Rightarrow> db \<Rightarrow> int outcome" where
  "define_task x t now params d =
     then_save
       (bindr (ensure (keys params = set task_fields) (ResearchError ''INVALID_TASK_FIELDS'')) (\<lambda>_.
        bindr (identifier_of (get_json params ''task_id'')) (\<lambda>identity.
        bindr (get_research ''task'' (JStr identity) d) (\<lambda>known.
        bindr (ensure (known = None) (ResearchError ''TASK_ALREADY_EXISTS'')) (\<lambda>_.
        bindr (research_texts (get_json params ''depends_on'')) (\<lambda>dependencies.
        bindr (ensure (distinct dependencies \<and> identity \<notin> set dependencies)
          (ResearchError ''INVALID_DEPENDENCIES'')) (\<lambda>_.
        bindr (require_dependencies dependencies d) (\<lambda>_.
        bindr (task_hash (rc_sha x) (rc_frepr x) params) (\<lambda>h.
        bindr (plain_text (get_json params ''author'')) (\<lambda>actor.
        Inr (identity, dict_merge params (new_task_fields h), actor))))))))))) d
       (\<lambda>(identity, data, actor). save_record x t now ''task'' (JStr identity) data (JStr actor) None d)"

subsection \<open>Changes by the operator\<close>

definition change_task ::
  "string \<Rightarrow> jdict \<Rightarrow> db \<Rightarrow> (string \<times> jdict) res" where
  "change_task action body d =
     bindr (ensure (keys body = {''task_id'', ''author''}) (ResearchError ''INVALID_OPERATOR_REQUEST'')) (\<lambda>_.
     bindr (identifier_of (get_json body ''task_id'')) (\<lambda>identity.
     bindr (require_task (JStr identity) d) (\<lambda>task.
     bindr (getr task ''status'') (\<lambda>status.
     bindr (ensure (status \<noteq> JStr ''verified'') (ResearchError ''TASK_ALREADY_VERIFIED'')) (\<lambda>_.
     bindr (ensure (\<not> (action = ''task.resume'' \<and> status = JStr ''blocked''))
       (ResearchError ''TASK_LIMIT_REACHED_CREATE_A_NEW_TARGET'')) (\<lambda>_.
     Inr (identity, AList.update ''paused'' (JBool (action = ''task.pause'')) task)))))))"

definition new_inbox :: "jdict \<Rightarrow> (string \<times> jdict) res" where
  "new_inbox body =
     bindr (ensure (keys body = {''id'', ''task_id'', ''author'', ''kind'', ''body''})
       (ResearchError ''INVALID_INBOX_FIELDS'')) (\<lambda>_.
     bindr (member_of [''hint'', ''question'', ''constraint''] (get_json body ''kind'')) (\<lambda>known.
     bindr (ensure known (ResearchError ''INVALID_INBOX_KIND'')) (\<lambda>_.
     Inr (''inbox'', dict_merge body [(''consumed_by'', JArr [])]))))"

definition new_memory :: "jdict \<Rightarrow> (string \<times> jdict) res" where
  "new_memory body =
     bindr (ensure (keys body = {''id'', ''task_id'', ''author'', ''kind'', ''body'', ''source_refs''})
       (ResearchError ''INVALID_MEMORY_FIELDS'')) (\<lambda>_.
     bindr (member_of memory_kinds (get_json body ''kind'')) (\<lambda>known.
     bindr (ensure known (ResearchError ''INVALID_MEMORY_KIND'')) (\<lambda>_.
     Inr (''memory'', dict_merge body
       [(''origin'', JStr ''operator''), (''worker_id'', JStr []), (''verified'', JBool False)]))))"

definition new_contribution :: "jdict \<Rightarrow> (string \<times> jdict) res" where
  "new_contribution body =
     bindr (ensure (keys body = {''id'', ''task_id'', ''author'', ''role'', ''body'', ''source_refs''})
       (ResearchError ''INVALID_CONTRIBUTION_FIELDS'')) (\<lambda>_.
     bindr (member_of contribution_roles (get_json body ''role'')) (\<lambda>known.
     bindr (ensure known (ResearchError ''INVALID_CONTRIBUTION_ROLE'')) (\<lambda>_.
     Inr (''contribution'', dict_merge body [(''identity_assurance'', JStr ''operator_declared'')]))))"

definition new_review :: "string \<Rightarrow> jdict \<Rightarrow> db \<Rightarrow> (string \<times> jdict) res" where
  "new_review task_id body d =
     bindr (ensure (keys body = {''id'', ''task_id'', ''author'', ''kind'', ''verdict'', ''body''})
       (ResearchError ''INVALID_REVIEW_FIELDS'')) (\<lambda>_.
     bindr (require_task (JStr task_id) d) (\<lambda>task.
     bindr (member_of review_kinds (get_json body ''kind'')) (\<lambda>known.
     bindr (ensure known (ResearchError ''INVALID_REVIEW'')) (\<lambda>_.
     bindr (member_of [''accept'', ''revise'', ''reject''] (get_json body ''verdict'')) (\<lambda>verdict.
     bindr (ensure verdict (ResearchError ''INVALID_REVIEW'')) (\<lambda>_.
     bindr (getr task ''target_hash'') (\<lambda>h.
     bindr (getr task ''verified_declarations'') (\<lambda>declarations.
     Inr (''review'', dict_merge body [(''target_hash'', h), (''verified_declarations'', declarations),
       (''identity_assurance'', JStr ''operator_declared'')])))))))))"

definition new_record_of :: "string \<Rightarrow> string \<Rightarrow> jdict \<Rightarrow> db \<Rightarrow> (string \<times> jdict) res" where
  "new_record_of action task_id body d =
     (if action = ''inbox.add'' then new_inbox body
      else if action = ''memory.add'' then new_memory body
      else if action = ''contribution.add'' then new_contribution body
      else if action = ''review.add'' then new_review task_id body d
      else Inl (ResearchError ''UNKNOWN_OPERATOR_ACTION''))"

definition prepare_record :: "string \<Rightarrow> jdict \<Rightarrow> db \<Rightarrow> (string \<times> string \<times> jdict) res" where
  "prepare_record action body d =
     bindr (identifier_of (get_json body ''id'')) (\<lambda>identity.
     bindr (research_text 65536 True (get_json body ''task_id'')) (\<lambda>task_id.
     bindr (if task_id = [] then Inr ()
            else bindr (require_task (JStr task_id) d) (\<lambda>_. Inr ())) (\<lambda>_.
     bindr (new_record_of action task_id body d) (\<lambda>(kind, data).
     bindr (get_research kind (JStr identity) d) (\<lambda>known.
     bindr (ensure (known = None) (ResearchError ''RECORD_ALREADY_EXISTS'')) (\<lambda>_.
     Inr (kind, identity, data)))))))"

definition operator_change ::
  "research_context \<Rightarrow> tick \<Rightarrow> string \<Rightarrow> jdict \<Rightarrow> db \<Rightarrow> int outcome" where
  "operator_change x t now params d =
     then_save
       (bindr (plain_text (get_json params ''action'')) (\<lambda>action.
        bindr (object_value (get_json params ''body'')) (\<lambda>body.
        bindr (ensure (keys params = {''action'', ''body''}) (ResearchError ''INVALID_OPERATOR_REQUEST'')) (\<lambda>_.
        Inr (action, body))))) d
       (\<lambda>(action, body).
        if action = ''task.add'' then define_task x t now body d
        else
          then_save (research_text 256 False (get_json body ''author'')) d (\<lambda>author.
          if action \<in> {''task.pause'', ''task.resume''} then
            then_save (change_task action body d) d (\<lambda>(identity, task).
              save_record x t now ''task'' (JStr identity) task (JStr author) None d)
          else
            then_save (prepare_record action body d) d (\<lambda>(kind, identity, data).
              save_record x t now kind (JStr identity) data (JStr author) None d)))"

subsection \<open>The tasks that can run\<close>

definition truthy :: "json \<Rightarrow> bool" where
  "truthy v =
     (case v of JNull \<Rightarrow> False | JBool b \<Rightarrow> b | JInt i \<Rightarrow> i \<noteq> 0 | JFloat w \<Rightarrow> take_bit 63 w \<noteq> 0
      | JStr s \<Rightarrow> s \<noteq> [] | JArr xs \<Rightarrow> xs \<noteq> [] | JObj d \<Rightarrow> d \<noteq> [])"

fun all_verified :: "jdict dict \<Rightarrow> string list \<Rightarrow> bool res" where
  "all_verified tasks [] = Inr True"
| "all_verified tasks (x # xs) =
     bindr (getr tasks x) (\<lambda>task.
     bindr (getr task ''status'') (\<lambda>status.
     if status = JStr ''verified'' then all_verified tasks xs else Inr False))"

text \<open>\<open>a and b\<close> evaluates \<open>b\<close> only when \<open>a\<close> holds.\<close>

definition and_res :: "bool res \<Rightarrow> bool res \<Rightarrow> bool res" where
  "and_res a b = bindr a (\<lambda>x. if x then b else Inr False)"

definition less_fields :: "jdict \<Rightarrow> string \<Rightarrow> string \<Rightarrow> bool res" where
  "less_fields task f g =
     bindr (getr task f) (\<lambda>v.
     bindr (plain_integer v) (\<lambda>a.
     bindr (getr task g) (\<lambda>w.
     bindr (plain_integer w) (\<lambda>b. Inr (a < b)))))"

definition runnable :: "jdict dict \<Rightarrow> jdict \<Rightarrow> bool res" where
  "runnable tasks task =
     and_res (bindr (getr task ''status'') (\<lambda>s. Inr (s = JStr ''pending'')))
    (and_res (less_fields task ''rounds'' ''max_rounds'')
    (and_res (less_fields task ''failures'' ''max_failures'')
    (and_res (bindr (getr task ''paused'') (\<lambda>v. Inr (\<not> truthy v)))
      (bindr (getr task ''depends_on'') (\<lambda>v. bindr (research_texts v) (all_verified tasks))))))"

fun filter_res :: "('a \<Rightarrow> bool res) \<Rightarrow> 'a list \<Rightarrow> 'a list res" where
  "filter_res f [] = Inr []"
| "filter_res f (x # xs) =
     bindr (f x) (\<lambda>b. bindr (filter_res f xs) (\<lambda>ys. Inr (if b then x # ys else ys)))"

definition tasks_by_id :: "jdict list \<Rightarrow> jdict dict res" where
  "tasks_by_id records =
     bindr (mapr (\<lambda>task. bindr (getr task ''task_id'') (\<lambda>v. bindr (plain_text v) (\<lambda>i. Inr (i, task)))) records)
       (\<lambda>pairs. Inr (fold (\<lambda>(i, task). AList.update i task) pairs []))"

definition frontier :: "db \<Rightarrow> jdict list res" where
  "frontier d =
     bindr (research_records ''task'' d) (\<lambda>records.
     bindr (tasks_by_id records) (\<lambda>tasks.
     filter_res (runnable tasks) (map snd (sort_key fst tasks))))"

end
