(* ===== verification/Research_Table.thy ===== *)
theory Research_Table
  imports Research_Records
begin

text \<open>
  The validator of research records does not see the order of keys, so that the log of a project
  with research records replays; what saving a record leaves in the store; the tasks of a store and
  their dependencies.
\<close>

subsection \<open>Canonical values\<close>

lemma research_text_canon [simp]: "research_text n e (canon v) = research_text n e v"
  by (cases v) (simp_all add: research_text_def)

lemma research_integer_canon [simp]: "research_integer a b (canon v) = research_integer a b v"
  by (cases v) (simp_all add: research_integer_def)

lemma research_texts_canon [simp]: "research_texts (canon v) = research_texts v"
proof (cases v)
  case (JArr xs)
  have "mapr plain_text (map canon xs) = mapr plain_text xs"
    by (induction xs) simp_all
  then show ?thesis using JArr by (simp add: research_texts_def)
qed (simp_all add: research_texts_def)

lemma identifier_of_canon [simp]: "identifier_of (canon v) = identifier_of v"
  by (simp add: identifier_of_def)

lemma record_id_canon [simp]: "record_id k (canon v) = record_id k v"
  by (simp add: record_id_def)

lemma is_member_canon [simp]: "is_member names (canon v) = is_member names v"
proof -
  have "hashable (canon v) = hashable v" by (cases v) (simp_all add: hashable_def)
  moreover have "canon v \<in> JStr ` set names \<longleftrightarrow> v \<in> JStr ` set names"
    by (cases v) auto
  ultimately show ?thesis by (simp add: is_member_def member_of_def)
qed

lemma payload_shapes_canon [simp]:
  "boolean_payload (canon v) = boolean_payload v" "list_payload (canon v) = list_payload v"
  by (cases v; simp add: boolean_payload_def list_payload_def)+

lemma object_value_canon:
  "object_value (canon v) = bindr (object_value v) (\<lambda>d. Inr (canon_dict d))"
  by (cases v) (simp_all add: object_value_def canon_dict_def)

lemma get_json_canon: "wf_dict d \<Longrightarrow> get_json (canon_dict d) k = canon (get_json d k)"
  by (simp add: get_json_def map_of_canon_dict split: option.split)

lemma option_field_canon:
  assumes "wf_dict d"
  shows "(case map_of (canon_dict d) k of None \<Rightarrow> True | Some v \<Rightarrow> P v)
    = (case map_of d k of None \<Rightarrow> True | Some v \<Rightarrow> P (canon v))"
  by (simp add: map_of_canon_dict [OF assms] split: option.split)

lemma canonical_json_canon [simp]: "canonical_json frepr (canon v) = canonical_json frepr v"
  by (simp add: canonical_json_def)

lemma getr_pairs_canon:
  assumes "wf_dict d"
  shows "mapr (\<lambda>k. bindr (getr (canon_dict d) k) (\<lambda>v. Inr (k, v))) ks
    = bindr (mapr (\<lambda>k. bindr (getr d k) (\<lambda>v. Inr (k, v))) ks) (\<lambda>xs. Inr (map (\<lambda>(k, v). (k, canon v)) xs))"
proof (induction ks)
  case (Cons k ks)
  have "getr (canon_dict d) k = bindr (getr d k) (\<lambda>v. Inr (canon v))"
    by (simp add: getr_def map_of_canon_dict [OF assms] split: option.split)
  then show ?case using Cons
    by (cases "getr d k"; cases "mapr (\<lambda>k. bindr (getr d k) (\<lambda>v. Inr (k, v))) ks")
       (simp_all del: getr_eq_Inr)
qed simp

lemma task_hash_canon:
  assumes "wf_dict d"
  shows "task_hash sha frepr (canon_dict d) = task_hash sha frepr d"
proof -
  have "canonical_json frepr (JObj (map (\<lambda>(k, v). (k, canon v)) xs)) = canonical_json frepr (JObj xs)" for xs
  proof -
    have "map (\<lambda>(k, v). (k, canon v)) (map (\<lambda>(k, v). (k, canon v)) xs) = map (\<lambda>(k, v). (k, canon v)) xs"
      by auto
    then have "canon (JObj (map (\<lambda>(k, v). (k, canon v)) xs)) = canon (JObj xs)" by (simp only: canon.simps)
    then show ?thesis by (metis canonical_json_canon)
  qed
  then show ?thesis
    unfolding task_hash_def getr_pairs_canon [OF assms]
    by (cases "mapr (\<lambda>k. bindr (getr d k) (\<lambda>v. Inr (k, v))) target_fields") simp_all
qed

lemma valid_task_canon:
  "wf_dict d \<Longrightarrow> valid_task sha frepr wide (canon_dict d) = valid_task sha frepr wide d"
proof -
  assume wf: "wf_dict d"
  show "valid_task sha frepr wide (canon_dict d) = valid_task sha frepr wide d"
    unfolding valid_task_def keys_canon_dict get_json_canon [OF wf] is_member_canon research_text_canon
      research_texts_canon research_integer_canon payload_shapes_canon task_hash_canon [OF wf] canon_eq_JStr ..
qed

lemma valid_note_canon: "wf_dict d \<Longrightarrow> valid_note (canon_dict d) = valid_note d"
  by (simp add: valid_note_def get_json_canon map_of_canon_dict split: option.split)

lemma valid_kinds_canon:
  assumes wf: "wf_dict d"
  shows "valid_memory (canon_dict d) = valid_memory d" "valid_inbox (canon_dict d) = valid_inbox d"
    "valid_research_contribution (canon_dict d) = valid_research_contribution d"
    "valid_review (canon_dict d) = valid_review d" "valid_run_record (canon_dict d) = valid_run_record d"
  unfolding valid_memory_def valid_inbox_def valid_research_contribution_def valid_review_def
    valid_run_record_def keys_canon_dict get_json_canon [OF wf] is_member_canon payload_shapes_canon
    str_of_canon canon_eq_JStr canon_eq_JBool by (rule refl)+

lemma valid_usage_canon:
  assumes "wf_json v"
  shows "valid_usage (canon v) = valid_usage v"
proof (cases v)
  case (JObj d)
  then have wf: "wf_dict d" using assms by (simp add: wf_dict_def)
  have "(case (get_json (canon_dict d) k, get_json (canon_dict d) l) of (JInt c, JInt i) \<Rightarrow> c \<le> i | _ \<Rightarrow> False)
    = (case (get_json d k, get_json d l) of (JInt c, JInt i) \<Rightarrow> c \<le> i | _ \<Rightarrow> False)" for k l
    unfolding get_json_canon [OF wf] by (cases "get_json d k"; cases "get_json d l") simp_all
  moreover have "list_all (\<lambda>(_, x). accepted (plain_integer x)) (canon_dict d)
      = list_all (\<lambda>(_, x). accepted (plain_integer x)) d"
    by (force simp: list_all_iff canon_dict_def)
  ultimately show ?thesis
    using JObj by (simp add: valid_usage_def object_value_def canon_JObj del: canon.simps)
qed (simp_all add: valid_usage_def object_value_def)

lemma wf_get_json: "wf_jdict d \<Longrightarrow> wf_json (get_json d k)"
  by (auto simp: get_json_def dest: wf_json_map_of split: option.split)

lemma valid_attempt_canon:
  assumes "wf_jdict d"
  shows "valid_attempt (canon_dict d) = valid_attempt d"
proof -
  have wf: "wf_dict d" by (rule wf_jdict_wf_dict [OF assms])
  have m: "accepted (research_text 65536 True (case map_of (canon_dict d) k of None \<Rightarrow> JStr [] | Some v \<Rightarrow> v))
      = accepted (research_text 65536 True (case map_of d k of None \<Rightarrow> JStr [] | Some v \<Rightarrow> v))" for k
    by (simp add: map_of_canon_dict [OF wf] split: option.split)
  show ?thesis
    unfolding valid_attempt_def keys_canon_dict get_json_canon [OF wf] is_member_canon research_text_canon
      research_texts_canon research_integer_canon identifier_of_canon m
      valid_usage_canon [OF wf_get_json [OF assms]] by (rule refl)
qed

lemma without_times_canon: "without_times (canon_dict d) = canon_dict (without_times d)"
  by (simp add: without_times_def canon_dict_def filter_sort filter_map comp_def case_prod_beta' del: sort_key_simps)

lemma wf_without_times: "wf_jdict d \<Longrightarrow> wf_jdict (without_times d)"
  by (simp add: without_times_def wf_jdict_def list_all_iff distinct_map_filter)

lemma valid_data_canon:
  assumes "wf_jdict d"
  shows "valid_data sha frepr wide k (canon_dict d) = valid_data sha frepr wide k d"
  using wf_jdict_wf_dict [OF assms]
  by (simp add: valid_data_def valid_task_canon valid_note_canon valid_kinds_canon valid_attempt_canon [OF assms])

lemma valid_times_canon: "wf_dict d \<Longrightarrow> valid_times u (canon_dict d) = valid_times u d"
  by (simp add: valid_times_def map_of_canon_dict split: option.split)

lemma valid_record_canon:
  assumes "wf_jdict p"
  shows "valid_record sha frepr u wide (canon_dict p) = valid_record sha frepr u wide p"
proof -
  have wf: "wf_dict p" by (rule wf_jdict_wf_dict [OF assms])
  have data: "valid_times u s = valid_times u s \<and> valid_times u (canon_dict s) = valid_times u s
      \<and> identifier_of (get_json (without_times (canon_dict s)) k) = identifier_of (get_json (without_times s) k)
      \<and> canonical_json frepr (JObj (without_times (canon_dict s))) = canonical_json frepr (JObj (without_times s))
      \<and> valid_data sha frepr wide kind (without_times (canon_dict s)) = valid_data sha frepr wide kind (without_times s)"
    if "object_value (get_json p ''data'') = Inr s" for s k kind
  proof -
    have "get_json p ''data'' = JObj s" using that by (auto simp: object_value_def split: json.splits)
    then have s: "wf_jdict s" using wf_get_json [OF assms, of "''data''"] by (simp add: wf_jdict_def)
    have t: "wf_jdict (without_times s)" by (rule wf_without_times [OF s])
    show ?thesis
      using valid_times_canon [OF wf_jdict_wf_dict [OF s]] get_json_canon [OF wf_jdict_wf_dict [OF t]]
        valid_data_canon [OF t]
      by (metis without_times_canon identifier_of_canon canonical_json_canon canon_JObj)
  qed
  show ?thesis
  proof (cases "object_value (get_json p ''data'')")
    case (Inl e)
    then show ?thesis
      unfolding valid_record_def get_json_canon [OF wf] object_value_canon by (simp split: sum.split)
  next
    case (Inr s)
    show ?thesis
      unfolding valid_record_def get_json_canon [OF wf] object_value_canon Inr keys_canon_dict Let_def
      using data [OF Inr] by (simp split: sum.split)
  qed
qed

lemma order_blind_records: "order_blind (rc_valid x)"
  by (simp add: order_blind_def rc_valid_def valid_record_canon)

subsection \<open>Records in the store\<close>

definition research_data :: "projection \<Rightarrow> jdict option" where
  "research_data r = (case unpack r of Inl _ \<Rightarrow> None | Inr data \<Rightarrow> Some data)"

definition research_map :: "db \<Rightarrow> string \<rightharpoonup> jdict" where
  "research_map d key = Option.bind (find_projection (db_projections d) ''research'' key) research_data"

definition wf_research_record :: "research_context \<Rightarrow> projection \<Rightarrow> bool" where
  "wf_research_record x r \<longleftrightarrow> (\<exists>p. stored_payload invalid_execution r = Inr p \<and> wf_jdict p \<and> rc_valid x p
     \<and> map_of p ''record_id'' = Some (JStr (pr_entity r)))"

definition wf_research :: "research_context \<Rightarrow> db \<Rightarrow> bool" where
  "wf_research x d \<longleftrightarrow> wf_projections (db_projections d)
     \<and> (\<forall>r \<in> set (db_projections d). pr_name r = ''research'' \<longrightarrow> wf_research_record x r)"

lemma rc_valid_parts:
  assumes "rc_valid x p"
  obtains kind data i where "get_json p ''kind'' = JStr kind" "get_json p ''data'' = JObj data"
    "valid_times (rc_iso_utc x) data" "kind \<in> set research_kinds"
    "identifier_of (get_json (without_times data) (if kind = ''task'' then ''task_id'' else ''id'')) = Inr i"
    "map_of p ''record_id'' = Some (JStr (kind @ '':'' @ i))"
    "valid_data (rc_sha x) (rc_frepr x) (rc_wide x) kind (without_times data)"
    "keys p = {''record_id'', ''kind'', ''data''}"
proof -
  let ?k = "plain_text (get_json p ''kind'')" and ?o = "object_value (get_json p ''data'')"
  have keys: "keys p = {''record_id'', ''kind'', ''data''}"
    using assms by (simp add: rc_valid_def valid_record_def)
  obtain kind data where k: "?k = Inr kind" "?o = Inr data"
    using assms by (auto simp: rc_valid_def valid_record_def split: sum.splits)
  have kj: "get_json p ''kind'' = JStr kind" "get_json p ''data'' = JObj data"
    using k by (auto simp: research_text_def object_value_def inr_simps split: json.splits)
  from assms k obtain i where v: "valid_times (rc_iso_utc x) data"
    "identifier_of (get_json (without_times data) (if kind = ''task'' then ''task_id'' else ''id'')) = Inr i"
    "case record_id kind (JStr i) of Inl _ \<Rightarrow> False | Inr key \<Rightarrow> get_json p ''record_id'' = JStr key"
    "valid_data (rc_sha x) (rc_frepr x) (rc_wide x) kind (without_times data)"
    by (auto simp: rc_valid_def valid_record_def Let_def split: sum.splits)
  then obtain key where key: "record_id kind (JStr i) = Inr key" "get_json p ''record_id'' = JStr key"
    by (auto split: sum.splits)
  have "kind \<in> set research_kinds" "key = kind @ '':'' @ i"
    using key(1) by (auto simp: record_id_def identifier_of_def research_text_def inr_simps)
  moreover have "map_of p ''record_id'' = Some (JStr key)"
    using key(2) by (auto simp: get_json_def split: option.splits)
  ultimately show ?thesis using that [OF kj v(1) _ v(2) _ v(4) keys] by blast
qed

lemma unpack_new_record:
  assumes "wf_jdict p" "get_json p ''data'' = JObj data"
  shows "unpack (new_record d n i e p) = Inr (canon_dict data)"
  using assms get_json_canon [OF wf_jdict_wf_dict [OF assms(1)], of "''data''"]
  by (simp add: unpack_def new_record_def object_value_def get_json_def [of _ "''payload''"] canon_JObj
      del: canon.simps)

lemma wf_research_find:
  assumes "wf_research x d" "find_projection (db_projections d) ''research'' key = Some r"
  obtains p kind data i where "stored_payload invalid_execution r = Inr p" "wf_jdict p"
    "get_json p ''kind'' = JStr kind" "get_json p ''data'' = JObj data" "unpack r = Inr data" "wf_jdict data"
    "key = kind @ '':'' @ i" "kind \<in> set research_kinds"
    "identifier_of (get_json (without_times data) (if kind = ''task'' then ''task_id'' else ''id'')) = Inr i"
    "valid_data (rc_sha x) (rc_frepr x) (rc_wide x) kind (without_times data)" "research_map d key = Some data"
proof -
  have e: "pr_entity r = key" using find_projection_Some [OF assms(2)] by blast
  from assms obtain p where p: "stored_payload invalid_execution r = Inr p" "wf_jdict p" "rc_valid x p"
    "map_of p ''record_id'' = Some (JStr key)"
    by (auto simp: wf_research_def wf_research_record_def e dest!: find_projection_Some)
  obtain kind data i where k: "get_json p ''kind'' = JStr kind" "get_json p ''data'' = JObj data"
    "kind \<in> set research_kinds"
    "identifier_of (get_json (without_times data) (if kind = ''task'' then ''task_id'' else ''id'')) = Inr i"
    "map_of p ''record_id'' = Some (JStr (kind @ '':'' @ i))"
    "valid_data (rc_sha x) (rc_frepr x) (rc_wide x) kind (without_times data)"
    by (rule rc_valid_parts [OF p(3)])
  have u: "unpack r = Inr data"
    using p(1) k(2) by (auto simp: unpack_def stored_payload_def object_value_def get_json_def
        split: json.splits option.splits)
  have "wf_jdict data" using wf_get_json [OF p(2), of "''data''"] k(2) by (simp add: wf_jdict_def)
  moreover have "research_map d key = Some data" by (simp add: research_map_def assms(2) research_data_def u)
  ultimately show ?thesis using that [OF p(1,2) k(1,2) u] k p(4) by simp
qed

lemma get_research_Inr:
  assumes "wf_research x d"
  shows "get_research kind (JStr i) d = bindr (record_id kind (JStr i)) (\<lambda>key. Inr (research_map d key))"
proof (cases "record_id kind (JStr i)")
  case (Inr key)
  have n: "''research'' \<in> set projection_names" by (simp add: projection_names_def)
  show ?thesis
  proof (cases "find_projection (db_projections d) ''research'' key")
    case None
    then show ?thesis using n Inr by (simp add: get_research_def query_projection_def ensure_def research_map_def)
  next
    case (Some r)
    obtain data where "unpack r = Inr data" "research_map d key = Some data"
      by (rule wf_research_find [OF assms Some])
    then show ?thesis using n Inr Some
      by (simp add: get_research_def query_projection_def ensure_def)
  qed
qed (simp add: get_research_def)

subsection \<open>Events\<close>

lemma research_tables:
  "map_of event_projections ''ResearchRecordUpdated'' = Some ''research''"
  "map_of entity_fields ''ResearchRecordUpdated'' = Some ''record_id''"
  "plain_type ''ResearchRecordUpdated''"
  "''ResearchRecordUpdated'' \<notin> keys orchestration_event_projections"
  "list_all (\<lambda>(t, n). n = ''research'' \<longrightarrow> t = ''ResearchRecordUpdated'') event_projections"
  by code_simp+

lemma research_projection:
  assumes "map_of event_projections t = Some ''research''"
  shows "t = ''ResearchRecordUpdated''"
  using bspec [OF research_tables(5) [unfolded list_all_iff] map_of_SomeD [OF assms]] by simp

lemma wf_research_new_record:
  assumes "rc_valid x p" "wf_jdict p" "map_of p ''record_id'' = Some (JStr key)"
  shows "wf_research_record x (new_record d n key e p)"
proof -
  have "rc_valid x (canon_dict p)"
    using order_blind_records [of x] assms(1,2) by (simp add: order_blind_def)
  then show ?thesis
    using assms(2,3) map_of_canon_atom(1) [OF wf_jdict_wf_dict [OF assms(2)]]
    by (simp add: wf_research_record_def stored_payload_def new_record_def)
qed

text \<open>Any valid event keeps the records of research well formed; only its own type touches them.\<close>

lemma event_research:
  assumes wf: "wf_research x d" and e: "valid_event (rc_valid x) e" "typed_event e"
    and cs: "apply_event (query_projections d) e = Inr cs"
  shows "wf_research x (log_step e cs d)"
    and "ev_type e \<noteq> ''ResearchRecordUpdated'' \<Longrightarrow> research_map (log_step e cs d) = research_map d"
proof -
  have wfp: "wf_projections (db_projections d)" using wf by (simp add: wf_research_def)
  have pl: "wf_jdict (ev_payload e)" using e(2) by (simp add: typed_event_def)
  have "\<forall>c \<in> set cs. wf_projection c"
    using apply_event_changes [OF wf_query_projections [OF wfp] pl cs] by blast
  then have wfp': "wf_projections (db_projections (log_step e cs d))"
    using wfp by (simp add: log_step_def wf_projections_fold_upsert)
  have members: "r \<in> set (db_projections d) \<or> r \<in> set cs" if "r \<in> set (db_projections (log_step e cs d))" for r
    using that by (auto simp: log_step_def dest: fold_upsert_members)
  have other: "pr_name c \<noteq> ''research''" if c: "c \<in> set cs" and t: "ev_type e \<noteq> ''ResearchRecordUpdated''" for c
  proof -
    obtain n where n: "map_of event_projections (ev_type e) = Some n"
      and "pr_name c \<in> {n, ''documents'', ''epochs''}"
      using cs c by (auto simp: apply_event_Inr document_change_def split: if_splits option.splits)
    moreover have "n \<noteq> ''research''" using n t research_projection by blast
    ultimately show ?thesis by auto
  qed
  have own: "wf_research_record x c" if c: "c \<in> set cs" and t: "ev_type e = ''ResearchRecordUpdated''" for c
  proof -
    obtain p n where p: "projection_payload_of (query_projections d) e = Inr p"
      "map_of event_projections (ev_type e) = Some n"
      "cs = [projection_change (query_projections d) n (entity_id_of e) (event_state e p)]"
      using cs plain_type_changes [of e "query_projections d" cs] research_tables(3) t by auto
    have pe: "p = ev_payload e"
      using p(1) projection_payload_unchanged [of e "query_projections d"] t research_tables(4) by simp
    have v: "rc_valid x (ev_payload e)" using e(1) t by (simp add: valid_event_def validate_payload_def)
    obtain kind i where k: "map_of (ev_payload e) ''record_id'' = Some (JStr (kind @ '':'' @ i))"
      by (rule rc_valid_parts [OF v]) blast
    have "entity_id_of e = kind @ '':'' @ i"
      using k by (simp add: entity_id_of_def t research_tables(2))
    then have "c = new_record d n (kind @ '':'' @ i) e (ev_payload e)"
      using c p(3) pe projection_change_new_record [OF wfp] by simp
    then show ?thesis using wf_research_new_record [OF v pl k] by simp
  qed
  show "wf_research x (log_step e cs d)"
    unfolding wf_research_def using wfp' members own other wf [unfolded wf_research_def] by blast
  show "research_map (log_step e cs d) = research_map d" if "ev_type e \<noteq> ''ResearchRecordUpdated''"
  proof -
    have "find_projection cs ''research'' i = None" for i
      using other that by (auto simp: find_projection_None)
    then show ?thesis by (simp add: research_map_def fun_eq_iff lookup_log_step [OF wfp cs])
  qed
qed

subsection \<open>Saving a record\<close>

lemma then_save_eq:
  "then_save m d f = (v, d2) \<longleftrightarrow>
     (\<exists>e. m = Inl e \<and> v = Inl e \<and> d2 = d) \<or> (\<exists>x. m = Inr x \<and> f x = (v, d2))"
  by (auto simp: then_save_def split: sum.split)

lemma with_times_wf:
  assumes "wf_jdict data" "\<forall>p. previous = Some p \<longrightarrow> wf_jdict p"
  shows "wf_jdict (with_times previous now data)"
proof -
  have "wf_json (case previous of None \<Rightarrow> JStr now
     | Some p \<Rightarrow> (case map_of p ''created_at'' of None \<Rightarrow> JStr now | Some v \<Rightarrow> v))"
    using assms(2) by (auto dest: wf_json_map_of split: option.split)
  then show ?thesis unfolding with_times_def
    by (intro wf_jdict_update assms(1)) simp_all
qed

lemma map_of_with_times:
  "k \<noteq> ''created_at'' \<Longrightarrow> k \<noteq> ''updated_at'' \<Longrightarrow> map_of (with_times q now data) k = map_of data k"
  by (simp add: with_times_def map_of_update)

lemma record_id_Inr:
  "record_id kind v = Inr key \<longleftrightarrow>
     kind \<in> set research_kinds \<and> (\<exists>i. identifier_of v = Inr i \<and> key = kind @ '':'' @ i)"
  by (auto simp: record_id_def inr_simps)

lemma identifier_of_JStr: "identifier_of v = Inr i \<Longrightarrow> v = JStr i"
  by (auto simp: identifier_of_def research_text_def inr_simps split: json.splits)

lemma previous_times_wf:
  assumes wf: "wf_research x d" and data: "wf_jdict data"
    and g: "get_research kind (JStr i) d = Inr previous"
  shows "wf_jdict (with_times previous now data)"
proof (rule with_times_wf [OF data], intro allI impI)
  fix p
  assume p: "previous = Some p"
  then obtain key q where q: "find_projection (db_projections d) ''research'' key = Some q"
    and m: "research_map d key = Some p"
    using g get_research_Inr [OF wf] unfolding research_map_def by (auto simp: inr_simps bind_eq_Some_conv)
  obtain data' where "wf_jdict data'" "research_map d key = Some data'"
    by (rule wf_research_find [OF wf q])
  then show "wf_jdict p" using m by simp
qed

lemma save_record_effect:
  assumes wf: "wf_research x d" and t: "typed_tick t" and data: "wf_jdict data"
    and s: "save_record x t now kind (JStr i) data actor run d = (v, d')"
  shows "(\<exists>e. v = Inl e \<and> d' = d) \<or>
    (\<exists>key. record_id kind (JStr i) = Inr key \<and> v = Inr (next_version (db_projections d) ''research'' key)
       \<and> rc_valid x [(''record_id'', JStr key), (''kind'', JStr kind), (''data'', JObj data)]
       \<and> (kind = ''task'' \<longrightarrow> (\<forall>p. research_map d key = Some p \<longrightarrow> check_immutable p data immutable_fields = Inr ()))
       \<and> wf_research x d'
       \<and> research_map d' = (research_map d)(key \<mapsto> canon_dict (with_times (research_map d key) now data)))"
  using s unfolding save_record_def and_then_eq
proof (elim disjE exE conjE, goal_cases)
  case (2 r d1)
  from 2(1) obtain key previous who where k: "record_id kind (JStr i) = Inr key"
    and ok: "rc_valid x [(''record_id'', JStr key), (''kind'', JStr kind), (''data'', JObj data)]"
    and g: "get_research kind (JStr i) d = Inr previous"
    and im: "(case previous of None \<Rightarrow> Inr () | Some p \<Rightarrow>
        if kind = ''task'' then check_immutable p data immutable_fields else Inr ()) = Inr ()"
    and app: "append_event (rc_valid x) t (command ''ResearchRecordUpdated'' who run None
          [(''record_id'', JStr key), (''kind'', JStr kind),
           (''data'', JObj (with_times previous now data))]) d = Inr (r, d1)"
    by (auto simp: inr_simps)
  let ?p = "[(''record_id'', JStr key), (''kind'', JStr kind), (''data'', JObj (with_times previous now data))]"
  have prev: "previous = research_map d key" using g k get_research_Inr [OF wf] by simp
  have wfp: "wf_projections (db_projections d)" using wf by (simp add: wf_research_def)
  have wd: "wf_jdict (with_times previous now data)" by (rule previous_times_wf [OF wf data g])
  then have wp: "wf_jdict ?p" by (simp add: wf_jdict_def)
  have key: "key \<noteq> []" using k by (auto simp: record_id_Inr)
  have f: "map_of ?p ''record_id'' = Some (JStr key)" by simp
  obtain e where e: "valid_event (rc_valid x) e" "ev_type e = ''ResearchRecordUpdated''" "ev_payload e = ?p"
    "d1 = log_step e [new_record d ''research'' key e ?p] d" "wf_projections (db_projections d1)"
    by (rule append_event_direct [OF wfp t wp research_tables(3,4,1,2) f key app])
  have v: "rc_valid x ?p" using e(1-3) by (simp add: valid_event_def validate_payload_def)
  have find: "find_projection (db_projections d1) ''research'' j
      = (if j = key then Some (new_record d ''research'' key e ?p) else find_projection (db_projections d) ''research'' j)" for j
    unfolding e(4) by (simp add: find_log_step_single [OF wfp])
  have "wf_research x d1"
  proof -
    have "q \<in> set (db_projections d) \<or> q = new_record d ''research'' key e ?p" if "q \<in> set (db_projections d1)" for q
      using that by (auto simp: log_step_def e(4) dest: fold_upsert_members upsert_projection_subset [THEN subsetD])
    then show ?thesis
      using wf e(5) wf_research_new_record [OF v wp f] unfolding wf_research_def by blast
  qed
  moreover have "research_map d1 = (research_map d)(key \<mapsto> canon_dict (with_times previous now data))"
    using unpack_new_record [OF wp, of "with_times previous now data"]
    by (simp add: fun_eq_iff research_map_def find research_data_def get_json_def)
  moreover have "(v, d') = (Inr (next_version (db_projections d) ''research'' key), d1)"
    using 2(2) k find by (simp add: query_projection_def ensure_def projection_names_def)
  ultimately show ?case using k ok im prev by (auto split: option.splits)
qed auto

subsection \<open>Tasks and their dependencies\<close>

definition task_of :: "db \<Rightarrow> string \<rightharpoonup> jdict" where
  "task_of d i = research_map d (''task:'' @ i)"

definition dependencies_of :: "jdict \<Rightarrow> string set" where
  "dependencies_of data =
     (case research_texts (get_json data ''depends_on'') of Inl _ \<Rightarrow> {} | Inr xs \<Rightarrow> set xs)"

definition task_dependencies :: "db \<Rightarrow> (string \<times> string) set" where
  "task_dependencies d = {(i, j). \<exists>data. task_of d i = Some data \<and> j \<in> dependencies_of data}"

definition dependencies_known :: "db \<Rightarrow> bool" where
  "dependencies_known d \<longleftrightarrow> (\<forall>(i, j) \<in> task_dependencies d. task_of d j \<noteq> None)"

definition ordered_tasks :: "db \<Rightarrow> bool" where
  "ordered_tasks d \<longleftrightarrow> dependencies_known d \<and> acyclic (task_dependencies d)"

lemma dependencies_of_canon [simp]:
  "wf_dict q \<Longrightarrow> dependencies_of (canon_dict q) = dependencies_of q"
  by (simp add: dependencies_of_def get_json_canon)

lemma dependencies_of_with_times [simp]:
  "dependencies_of (with_times q now data) = dependencies_of data"
  by (simp add: dependencies_of_def get_json_def map_of_with_times)

lemma task_key: "kind \<in> set research_kinds \<Longrightarrow> kind @ '':'' @ i = ''task:'' @ j \<longleftrightarrow> kind = ''task'' \<and> i = j"
  by (auto simp: research_kinds_def)

lemma acyclic_new_source:
  assumes "acyclic r" "\<And>a b. (a, b) \<in> r \<Longrightarrow> a \<noteq> i \<and> b \<noteq> i" "i \<notin> D"
  shows "acyclic (r \<union> {i} \<times> D)"
proof -
  have "b \<noteq> i \<and> (a \<noteq> i \<longrightarrow> (a, b) \<in> r\<^sup>+)" if "(a, b) \<in> (r \<union> {i} \<times> D)\<^sup>+" for a b
    using that
  proof (induction rule: trancl_induct)
    case (base y)
    then show ?case using assms(2,3) by auto
  next
    case (step y z)
    then have "(y, z) \<in> r" using assms(3) by auto
    with step show ?case using assms(2) by (auto intro: trancl_into_trancl)
  qed
  then show ?thesis using assms(1) unfolding acyclic_def by blast
qed

lemma check_immutable_Inr:
  "check_immutable p q fs = Inr () \<Longrightarrow> f \<in> set fs \<Longrightarrow>
   \<exists>old new. map_of p f = Some old \<and> map_of q f = Some new \<and> canon old = canon new"
  by (induction fs) (auto simp: inr_simps)

lemma immutable_dependencies:
  assumes "check_immutable p q immutable_fields = Inr ()"
  shows "dependencies_of q = dependencies_of p"
proof -
  obtain old new where "map_of p ''depends_on'' = Some old" "map_of q ''depends_on'' = Some new"
    "canon old = canon new"
    using check_immutable_Inr [OF assms, of "''depends_on''"] by (auto simp: immutable_fields_def)
  then show ?thesis
    unfolding dependencies_of_def get_json_def by (metis option.case(2) research_texts_canon)
qed

text \<open>Saving a record that is no task, saving a known task, saving a new one.\<close>

lemma save_other_kind:
  assumes "wf_research x d" "typed_tick t" "wf_jdict data" "kind \<noteq> ''task''"
    and "save_record x t now kind (JStr i) data actor run d = (v, d')"
  shows "wf_research x d' \<and> (\<forall>j. task_of d' j = task_of d j)"
  using save_record_effect [OF assms(1-3,5)]
proof (elim disjE exE conjE, goal_cases)
  case (2 key)
  then have k: "key = kind @ '':'' @ i" "kind \<in> set research_kinds"
    by (auto simp: record_id_Inr dest: identifier_of_JStr)
  then have "''task:'' @ j \<noteq> key" for j using task_key assms(4) by metis
  then show ?case using 2 by (simp add: task_of_def)
qed (use assms(1) in simp)

lemma save_task:
  assumes "wf_research x d" "typed_tick t" "wf_jdict data"
    and "save_record x t now ''task'' (JStr i) data actor run d = (v, d')"
  shows "d' = d \<or> wf_research x d' \<and>
    (\<exists>q. task_of d' = (task_of d)(i \<mapsto> q) \<and> dependencies_of q = dependencies_of data
       \<and> (\<forall>p. task_of d i = Some p \<longrightarrow> check_immutable p data immutable_fields = Inr ())
       \<and> q = canon_dict (with_times (task_of d i) now data))"
  using save_record_effect [OF assms(1-4)]
proof (elim disjE exE conjE, goal_cases)
  case (2 key)
  have key: "key = ''task:'' @ i"
    using 2(1) by (auto simp: record_id_Inr dest: identifier_of_JStr)
  have wd: "wf_dict (with_times (task_of d i) now data)"
    using wf_jdict_wf_dict [OF assms(3)] by (simp add: with_times_def wf_dict_update)
  have "task_of d' = (task_of d)(i \<mapsto> canon_dict (with_times (task_of d i) now data))"
    using 2 by (auto simp: task_of_def fun_eq_iff key)
  moreover have "\<forall>p. task_of d i = Some p \<longrightarrow> check_immutable p data immutable_fields = Inr ()"
    using 2 by (simp add: task_of_def key)
  moreover have "dependencies_of (canon_dict (with_times (task_of d i) now data)) = dependencies_of data"
    using dependencies_of_canon [OF wd] by simp
  ultimately show ?case using 2 by blast
qed simp

lemma task_dependencies_update:
  assumes "task_of d' = (task_of d)(i \<mapsto> q)"
  shows "task_dependencies d' = {(a, b) \<in> task_dependencies d. a \<noteq> i} \<union> {i} \<times> dependencies_of q"
  using assms by (auto simp: task_dependencies_def split: if_splits)

lemma save_known_task:
  assumes "wf_research x d" "typed_tick t" "wf_jdict data" "task_of d i = Some p" "ordered_tasks d"
    and "save_record x t now ''task'' (JStr i) data actor run d = (v, d')"
  shows "wf_research x d' \<and> ordered_tasks d'"
  using save_task [OF assms(1-3,6)]
proof (elim disjE exE conjE, goal_cases)
  case (2 q)
  then have dep: "dependencies_of q = dependencies_of p"
    using assms(4) immutable_dependencies by auto
  have same: "task_dependencies d' = task_dependencies d"
    unfolding task_dependencies_update [OF 2(2)] dep using assms(4) by (auto simp: task_dependencies_def)
  then show ?case
    using assms(5) 2 by (auto simp: ordered_tasks_def dependencies_known_def)
qed (use assms(1,5) in simp)

lemma save_new_task:
  assumes "wf_research x d" "typed_tick t" "wf_jdict data" "task_of d i = None" "ordered_tasks d"
    and deps: "i \<notin> dependencies_of data" "\<forall>j \<in> dependencies_of data. task_of d j \<noteq> None"
    and "save_record x t now ''task'' (JStr i) data actor run d = (v, d')"
  shows "wf_research x d' \<and> ordered_tasks d'"
  using save_task [OF assms(1-3,8)]
proof (elim disjE exE conjE, goal_cases)
  case (2 q)
  have fresh: "a \<noteq> i \<and> b \<noteq> i" if ab: "(a, b) \<in> task_dependencies d" for a b
  proof -
    have "task_of d b \<noteq> None"
      using ab assms(5) unfolding ordered_tasks_def dependencies_known_def by fast
    moreover have "task_of d a \<noteq> None" using ab by (auto simp: task_dependencies_def)
    ultimately show ?thesis using assms(4) by auto
  qed
  have eq: "task_dependencies d' = task_dependencies d \<union> {i} \<times> dependencies_of data"
    unfolding task_dependencies_update [OF 2(2)] 2(3) using fresh by blast
  have "acyclic (task_dependencies d')"
    unfolding eq using assms(5) fresh deps(1) by (intro acyclic_new_source) (auto simp: ordered_tasks_def)
  moreover have "task_of d' b \<noteq> None" if "(a, b) \<in> task_dependencies d'" for a b
    using that assms(5) deps(2) 2(2) unfolding eq by (auto simp: ordered_tasks_def dependencies_known_def)
  ultimately show ?case using 2(1) by (auto simp: ordered_tasks_def dependencies_known_def)
qed (use assms(1,5) in simp)

subsection \<open>The operations on tasks\<close>

lemma get_task:
  assumes "wf_research x d" "get_research ''task'' (JStr i) d = Inr p"
  shows "p = task_of d i"
  using assms(2) unfolding get_research_Inr [OF assms(1)]
  by (auto simp: inr_simps record_id_Inr task_of_def dest: identifier_of_JStr)

lemma task_wf:
  assumes "wf_research x d" "task_of d i = Some p"
  shows "wf_jdict p"
proof -
  from assms(2) obtain r where r: "find_projection (db_projections d) ''research'' (''task:'' @ i) = Some r"
    unfolding task_of_def research_map_def by (auto simp: bind_eq_Some_conv)
  obtain data where "wf_jdict data" "research_map d (''task:'' @ i) = Some data"
    by (rule wf_research_find [OF assms(1) r])
  then show ?thesis using assms(2) by (simp add: task_of_def)
qed

lemma require_dependencies_Inr:
  assumes "wf_research x d" "require_dependencies xs d = Inr ()" "j \<in> set xs"
  shows "task_of d j \<noteq> None"
  using assms(2,3)
proof (induction xs)
  case (Cons y ys)
  then obtain i p where "identifier_of (JStr y) = Inr i" "get_research ''task'' (JStr i) d = Inr p" "p \<noteq> None"
    and rest: "require_dependencies ys d = Inr ()"
    by (auto simp: inr_simps)
  moreover from this have "i = y" by (auto dest: identifier_of_JStr)
  ultimately have "task_of d y \<noteq> None" using get_task [OF assms(1)] by metis
  then show ?case using Cons rest by auto
qed simp

lemma wf_new_task_fields: "wf_dict (new_task_fields h)" "wf_jdict (new_task_fields h)"
  by (simp_all add: new_task_fields_def wf_dict_def wf_jdict_def)

lemma define_task_keeps:
  assumes wf: "wf_research x d" and t: "typed_tick t" and p: "wf_jdict params" and o: "ordered_tasks d"
    and s: "define_task x t now params d = (v, d')"
  shows "wf_research x d' \<and> ordered_tasks d'"
  using s unfolding define_task_def then_save_eq
proof (elim disjE exE conjE, goal_cases)
  case (2 y)
  from 2(1) obtain i known ds h actor where y: "y = (i, dict_merge params (new_task_fields h), actor)"
    and g: "get_research ''task'' (JStr i) d = Inr known" "known = None"
    and ds: "research_texts (get_json params ''depends_on'') = Inr ds" "i \<notin> set ds"
      "require_dependencies ds d = Inr ()"
    by (auto simp: inr_simps)
  let ?data = "dict_merge params (new_task_fields h)"
  have "map_of (new_task_fields h) ''depends_on'' = None" by (simp add: new_task_fields_def)
  then have "get_json ?data ''depends_on'' = get_json params ''depends_on''"
    by (simp add: get_json_def map_of_dict_merge [OF wf_new_task_fields(1)])
  then have dep: "dependencies_of ?data = set ds" using ds(1) by (simp add: dependencies_of_def)
  have "save_record x t now ''task'' (JStr i) ?data (JStr actor) None d = (v, d')"
    using 2(2) y by simp
  then show ?case
    using get_task [OF wf g(1)] g(2) require_dependencies_Inr [OF wf ds(3)] ds(2)
    by (intro save_new_task [OF wf t wf_jdict_merge [OF p wf_new_task_fields(2)] _ o]) (auto simp: dep)
qed (use wf o in simp)

lemma change_task_known:
  assumes "wf_research x d" "change_task action body d = Inr (i, task)"
  obtains p where "task_of d i = Some p" "wf_jdict task" "task = AList.update ''paused'' (JBool (action = ''task.pause'')) p"
proof -
  from assms(2) obtain p where r: "require_task (JStr i) d = Inr p"
    and t: "task = AList.update ''paused'' (JBool (action = ''task.pause'')) p"
    by (auto simp: change_task_def inr_simps)
  then have "get_research ''task'' (JStr i) d = Inr (Some p)"
    by (auto simp: require_task_def inr_simps split: option.splits)
  then have k: "task_of d i = Some p" using get_task [OF assms(1)] by metis
  then have "wf_jdict task" unfolding t by (intro wf_jdict_update task_wf [OF assms(1)]) simp_all
  with k t show ?thesis using that by blast
qed

lemma new_record_of_wf:
  assumes "wf_research x d" "new_record_of action task_id body d = Inr (kind, data)" "wf_jdict body"
  shows "wf_jdict data" "kind \<noteq> ''task''" "kind \<in> set research_kinds"
proof -
  have task: "wf_json h" if "require_task (JStr task_id) d = Inr p" "map_of p k = Some h" for p k h
  proof -
    have "get_research ''task'' (JStr task_id) d = Inr (Some p)"
      using that(1) by (auto simp: require_task_def inr_simps split: option.splits)
    then have "task_of d task_id = Some p" using get_task [OF assms(1)] by metis
    then show ?thesis using task_wf [OF assms(1)] that(2) wf_json_map_of by blast
  qed
  show "wf_jdict data"
    using assms(2,3) task
    by (auto simp: new_record_of_def new_inbox_def new_memory_def new_contribution_def new_review_def
        inr_simps wf_jdict_def [of "[_]"] wf_jdict_def [of "[_, _, _]"] split: if_splits
        intro!: wf_jdict_merge)
  show "kind \<noteq> ''task''" "kind \<in> set research_kinds"
    using assms(2)
    by (auto simp: new_record_of_def new_inbox_def new_memory_def new_contribution_def new_review_def
        inr_simps research_kinds_def split: if_splits)
qed

lemma prepare_record_Inr:
  assumes "prepare_record action body d = Inr (kind, i, data)"
  obtains task_id where "new_record_of action task_id body d = Inr (kind, data)"
  using assms that by (auto simp: prepare_record_def inr_simps)

lemma operator_change_keeps:
  assumes wf: "wf_research x d" and t: "typed_tick t" and p: "wf_jdict params" and o: "ordered_tasks d"
    and s: "operator_change x t now params d = (v, d')"
  shows "wf_research x d' \<and> ordered_tasks d'"
proof -
  from s consider "d' = d" | action body where "object_value (get_json params ''body'') = Inr body"
      "(if action = ''task.add'' then define_task x t now body d
        else
          then_save (research_text 256 False (get_json body ''author'')) d (\<lambda>author.
          if action \<in> {''task.pause'', ''task.resume''} then
            then_save (change_task action body d) d (\<lambda>(identity, task).
              save_record x t now ''task'' (JStr identity) task (JStr author) None d)
          else
            then_save (prepare_record action body d) d (\<lambda>(kind, identity, data).
              save_record x t now kind (JStr identity) data (JStr author) None d))) = (v, d')"
    unfolding operator_change_def then_save_eq by (auto simp: inr_simps)
  then show ?thesis
  proof cases
    case 2
    have "get_json params ''body'' = JObj body"
      using 2(1) by (auto simp: object_value_def split: json.splits)
    then have b: "wf_jdict body" using wf_get_json [OF p, of "''body''"] by (simp add: wf_jdict_def)
    show ?thesis
    proof (cases "action = ''task.add''")
      case True
      then show ?thesis using define_task_keeps [OF wf t b o] 2(2) by simp
    next
      case False
      show ?thesis
      proof (cases "action \<in> {''task.pause'', ''task.resume''}")
        case True
        with 2(2) False consider "d' = d" | author i task where "change_task action body d = Inr (i, task)"
            "save_record x t now ''task'' (JStr i) task (JStr author) None d = (v, d')"
          by (auto simp: then_save_eq)
        then show ?thesis
        proof cases
          case 2
          obtain q where q: "task_of d i = Some q" "wf_jdict task"
            by (rule change_task_known [OF wf 2(1)])
          show ?thesis by (rule save_known_task [OF wf t q(2,1) o 2(2)])
        qed (use wf o in simp)
      next
        case pause: False
        with 2(2) False consider "d' = d" | author kind i data where "prepare_record action body d = Inr (kind, i, data)"
            "save_record x t now kind (JStr i) data (JStr author) None d = (v, d')"
          by (auto simp: then_save_eq)
        then show ?thesis
        proof cases
          case 2
          obtain task_id where n: "new_record_of action task_id body d = Inr (kind, data)"
            by (rule prepare_record_Inr [OF 2(1)])
          have "wf_research x d' \<and> (\<forall>j. task_of d' j = task_of d j)"
            by (rule save_other_kind [OF wf t new_record_of_wf(1,2) [OF wf n b] 2(2)])
          then show ?thesis
            using o by (auto simp: ordered_tasks_def dependencies_known_def task_dependencies_def)
        qed (use wf o in simp)
      qed
    qed
  qed (use wf o in simp)
qed

end
