(* ===== verification/Research_Frontier.thy ===== *)
theory Research_Frontier
  imports Research_Table
begin

text \<open>
  The frontier of a store (\<open>frontier\<close> in \<open>research/records.py\<close>): what the validator says of a
  stored task, and that the frontier lists the tasks that can run, in the order of their identifiers.
\<close>

subsection \<open>Stored tasks\<close>

lemma starts_with_Some: "starts_with p ys = Some zs \<longleftrightarrow> ys = p @ zs"
  by (induction p ys rule: starts_with.induct) auto

lemma starts_with_not_None: "starts_with p ys \<noteq> None \<longleftrightarrow> (\<exists>zs. ys = p @ zs)"
  using starts_with_Some by (metis not_None_eq)

lemma get_json_Some: "map_of p k = Some v \<Longrightarrow> get_json p k = v"
  by (simp add: get_json_def)

lemma without_times_lookup:
  "k \<notin> {''created_at'', ''updated_at''} \<Longrightarrow> map_of (without_times p) k = map_of p k"
  by (induction p) (auto simp: without_times_def)

lemma research_integer_accepted:
  "accepted (research_integer a b v) \<longleftrightarrow> (\<exists>i. v = JInt i \<and> a \<le> i \<and> i \<le> b)"
  by (cases v) (auto simp: research_integer_def accepted_def ensure_def)

definition task_shape :: "jdict \<Rightarrow> string \<Rightarrow> string \<Rightarrow> int \<Rightarrow> int \<Rightarrow> int \<Rightarrow> int \<Rightarrow> bool \<Rightarrow> string list \<Rightarrow> bool" where
  "task_shape p i status rounds max_rounds failures max_failures paused deps \<longleftrightarrow>
     map_of p ''task_id'' = Some (JStr i) \<and> map_of p ''status'' = Some (JStr status)
     \<and> map_of p ''rounds'' = Some (JInt rounds) \<and> map_of p ''max_rounds'' = Some (JInt max_rounds)
     \<and> map_of p ''failures'' = Some (JInt failures) \<and> map_of p ''max_failures'' = Some (JInt max_failures)
     \<and> map_of p ''paused'' = Some (JBool paused)
     \<and> (\<exists>v. map_of p ''depends_on'' = Some v \<and> research_texts v = Inr deps)
     \<and> 0 \<le> rounds \<and> rounds \<le> max_integer \<and> 0 \<le> failures \<and> failures \<le> max_integer
     \<and> 0 \<le> max_rounds \<and> max_rounds \<le> max_integer \<and> 0 \<le> max_failures \<and> max_failures \<le> max_integer"

lemma stored_task_shape:
  assumes "wf_research x d" "task_of d i = Some p"
  obtains status rounds max_rounds failures max_failures paused deps
  where "task_shape p i status rounds max_rounds failures max_failures paused deps"
proof -
  from assms(2) obtain r where r: "find_projection (db_projections d) ''research'' (''task:'' @ i) = Some r"
    unfolding task_of_def research_map_def by (auto simp: bind_eq_Some_conv)
  obtain kind data j where k: "''task:'' @ i = kind @ '':'' @ j" "kind \<in> set research_kinds"
    "identifier_of (get_json (without_times data) (if kind = ''task'' then ''task_id'' else ''id'')) = Inr j"
    "valid_data (rc_sha x) (rc_frepr x) (rc_wide x) kind (without_times data)"
    "research_map d (''task:'' @ i) = Some data"
    by (rule wf_research_find [OF assms(1) r])
  have kind: "kind = ''task''" "j = i" using task_key [OF k(2), of j i] k(1) by auto
  have data: "data = p" using k(5) assms(2) by (simp add: task_of_def)
  have v: "valid_task (rc_sha x) (rc_frepr x) (rc_wide x) (without_times p)"
    using k(4) by (simp add: kind data valid_data_def)
  have keys: "keys (without_times p) = set (task_fields @ [''status'', ''rounds'', ''failures'',
     ''target_hash'', ''feedback'', ''verified_declarations'', ''paused''])"
    using v unfolding valid_task_def by blast
  have look: "\<exists>w. map_of p f = Some w \<and> get_json (without_times p) f = w"
    if f: "f \<in> set (task_fields @ [''status'', ''rounds'', ''failures'', ''target_hash'', ''feedback'',
      ''verified_declarations'', ''paused''])" for f
  proof -
    obtain w where w: "map_of (without_times p) f = Some w"
      using f keys by (metis in_keys_map_of)
    moreover have "f \<notin> {''created_at'', ''updated_at''}"
      using f by (auto simp: task_fields_def)
    ultimately show ?thesis using without_times_lookup by (metis get_json_Some)
  qed
  have fields: "''task_id'' \<in> set task_fields" "''max_rounds'' \<in> set task_fields"
    "''max_failures'' \<in> set task_fields" "''depends_on'' \<in> set task_fields"
    by (simp_all add: task_fields_def)
  have tid: "map_of p ''task_id'' = Some (JStr i)"
    using look [of "''task_id''"] fields k(3) kind data by (auto dest: identifier_of_JStr)
  have st: "\<exists>s. map_of p ''status'' = Some (JStr s)"
    using look [of "''status''"] v by (auto simp: valid_task_def is_member_def member_of_def inr_simps)
  have ints: "\<exists>n. map_of p f = Some (JInt n) \<and> a \<le> n \<and> n \<le> b"
    if "accepted (research_integer a b (get_json (without_times p) f))"
      "f \<in> {''rounds'', ''max_rounds'', ''failures'', ''max_failures''}" for f a b
  proof -
    have "f \<in> set (task_fields @ [''status'', ''rounds'', ''failures'', ''target_hash'', ''feedback'',
        ''verified_declarations'', ''paused''])"
      using that(2) fields by (elim insertE) simp_all
    then obtain w where "map_of p f = Some w" "get_json (without_times p) f = w" using look by blast
    then show ?thesis using that(1) unfolding research_integer_accepted by simp
  qed
  have acc: "accepted (plain_integer (get_json (without_times p) ''rounds''))"
    "accepted (plain_integer (get_json (without_times p) ''failures''))"
    "accepted (research_integer 1 1000 (get_json (without_times p) ''max_rounds''))"
    "accepted (research_integer 1 1000 (get_json (without_times p) ''max_failures''))"
    using v unfolding valid_task_def by blast+
  obtain rounds failures max_rounds max_failures where n:
    "map_of p ''rounds'' = Some (JInt rounds)" "0 \<le> rounds" "rounds \<le> max_integer"
    "map_of p ''failures'' = Some (JInt failures)" "0 \<le> failures" "failures \<le> max_integer"
    "map_of p ''max_rounds'' = Some (JInt max_rounds)" "1 \<le> max_rounds" "max_rounds \<le> 1000"
    "map_of p ''max_failures'' = Some (JInt max_failures)" "1 \<le> max_failures" "max_failures \<le> 1000"
    using ints [OF acc(1)] ints [OF acc(2)] ints [OF acc(3)] ints [OF acc(4)] by auto
  obtain paused where b: "map_of p ''paused'' = Some (JBool paused)"
    using look [of "''paused''"] v by (auto simp: valid_task_def boolean_payload_def split: json.splits)
  obtain w deps where ds: "map_of p ''depends_on'' = Some w" "research_texts w = Inr deps"
    using look [of "''depends_on''"] fields(4) v
    by (auto simp: valid_task_def accepted_def split: sum.splits)
  obtain status where "map_of p ''status'' = Some (JStr status)" using st by blast
  then have "task_shape p i status rounds max_rounds failures max_failures paused deps"
    unfolding task_shape_def using tid n b ds by (simp add: max_integer_def)
  then show ?thesis by (rule that)
qed

definition can_run :: "db \<Rightarrow> jdict \<Rightarrow> bool" where
  "can_run d p \<longleftrightarrow>
     (\<exists>i rounds max_rounds failures max_failures deps.
        task_shape p i ''pending'' rounds max_rounds failures max_failures False deps
        \<and> rounds < max_rounds \<and> failures < max_failures
        \<and> (\<forall>j \<in> set deps. \<exists>q. task_of d j = Some q \<and> map_of q ''status'' = Some (JStr ''verified'')))"

lemma task_shape_unique:
  assumes "task_shape p i s r mr f mf b ds" "task_shape p i' s' r' mr' f' mf' b' ds'"
  shows "i' = i \<and> s' = s \<and> r' = r \<and> mr' = mr \<and> f' = f \<and> mf' = mf \<and> b' = b \<and> ds' = ds"
  using assms unfolding task_shape_def by auto

lemma plain_integer_JInt:
  "0 \<le> n \<Longrightarrow> n \<le> max_integer \<Longrightarrow> plain_integer (JInt n) = Inr n"
  by (simp add: research_integer_def ensure_def)

lemma less_fields_Inr:
  assumes "map_of p f = Some (JInt a)" "map_of p g = Some (JInt b)"
    and "0 \<le> a" "a \<le> max_integer" "0 \<le> b" "b \<le> max_integer"
  shows "less_fields p f g = Inr (a < b)"
  using assms by (simp add: less_fields_def getr_def plain_integer_JInt)

lemma all_verified_Inr:
  assumes tasks: "\<And>j. map_of tasks j = task_of d j" and wf: "wf_research x d"
    and known: "\<forall>j \<in> set xs. task_of d j \<noteq> None"
  shows "all_verified tasks xs =
    Inr (\<forall>j \<in> set xs. \<exists>q. task_of d j = Some q \<and> map_of q ''status'' = Some (JStr ''verified''))"
  using known
proof (induction xs)
  case (Cons j xs)
  then obtain q where q: "task_of d j = Some q" by auto
  obtain s r mr f mf b ds where "task_shape q j s r mr f mf b ds"
    by (rule stored_task_shape [OF wf q])
  then have "map_of q ''status'' = Some (JStr s)" by (simp add: task_shape_def)
  then show ?case using Cons q tasks by (auto simp: getr_def)
qed simp

lemma runnable_Inr:
  assumes tasks: "\<And>j. map_of tasks j = task_of d j" and wf: "wf_research x d"
    and known: "dependencies_known d" and p: "task_of d i = Some p"
  shows "runnable tasks p = Inr (can_run d p)"
proof -
  obtain s r mr f mf b ds where sh: "task_shape p i s r mr f mf b ds"
    by (rule stored_task_shape [OF wf p])
  have "task_of d j \<noteq> None" if "j \<in> set ds" for j
  proof -
    have "(i, j) \<in> task_dependencies d"
      using that p sh by (auto simp: task_dependencies_def dependencies_of_def get_json_def task_shape_def)
    then show ?thesis using known by (auto simp: dependencies_known_def)
  qed
  then have all: "all_verified tasks ds =
      Inr (\<forall>j \<in> set ds. \<exists>q. task_of d j = Some q \<and> map_of q ''status'' = Some (JStr ''verified''))"
    by (intro all_verified_Inr [OF tasks wf]) blast
  have less: "less_fields p ''rounds'' ''max_rounds'' = Inr (r < mr)"
    "less_fields p ''failures'' ''max_failures'' = Inr (f < mf)"
    using sh by (auto simp: task_shape_def intro!: less_fields_Inr)
  have run: "can_run d p \<longleftrightarrow> s = ''pending'' \<and> r < mr \<and> f < mf \<and> \<not> b
      \<and> (\<forall>j \<in> set ds. \<exists>q. task_of d j = Some q \<and> map_of q ''status'' = Some (JStr ''verified''))"
    (is "_ \<longleftrightarrow> ?run")
  proof
    assume "can_run d p"
    then obtain i' r' mr' f' mf' ds' where t: "task_shape p i' ''pending'' r' mr' f' mf' False ds'"
      "r' < mr'" "f' < mf'"
      "\<forall>j \<in> set ds'. \<exists>q. task_of d j = Some q \<and> map_of q ''status'' = Some (JStr ''verified'')"
      unfolding can_run_def by blast
    then show ?run using task_shape_unique [OF sh t(1)] by simp
  next
    assume run: ?run
    then have "task_shape p i ''pending'' r mr f mf False ds" using sh by auto
    then show "can_run d p" unfolding can_run_def using run by blast
  qed
  have f: "getr p ''status'' = Inr (JStr s)" "getr p ''paused'' = Inr (JBool b)"
    "\<exists>v. getr p ''depends_on'' = Inr v \<and> research_texts v = Inr ds"
    using sh by (auto simp: task_shape_def getr_def)
  then obtain v where v: "getr p ''depends_on'' = Inr v" "research_texts v = Inr ds" by blast
  show ?thesis
    unfolding runnable_def and_res_def less f(1,2) v(1) bindr_Inr v(2) all run by (simp add: truthy_def)
qed


lemma fold_update_distinct:
  "distinct (map fst (qs @ ps)) \<Longrightarrow> fold (\<lambda>(k, v). AList.update k v) ps qs = qs @ ps"
proof (induction ps arbitrary: qs)
  case (Cons p ps)
  obtain k v where p: "p = (k, v)" by (cases p)
  have "AList.update k v qs = qs @ [(k, v)]" if "k \<notin> fst ` set qs"
    using that by (induction qs) auto
  then have "AList.update k v qs = qs @ [(k, v)]" using Cons.prems p by auto
  then show ?case using Cons.IH [of "qs @ [(k, v)]"] Cons.prems p by simp
qed simp

lemma mapr_all_Inr: "(\<And>x. x \<in> set xs \<Longrightarrow> f x = Inr (g x)) \<Longrightarrow> mapr f xs = Inr (map g xs)"
  by (induction xs) auto

lemma filter_res_all_Inr:
  "(\<And>x. x \<in> set xs \<Longrightarrow> f x = Inr (g x)) \<Longrightarrow> filter_res f xs = Inr (filter g xs)"
  by (induction xs) auto

definition task_rows :: "db \<Rightarrow> projection list" where
  "task_rows d = filter (\<lambda>r. starts_with ''task:'' (pr_entity r) \<noteq> None)
     (filter (\<lambda>r. pr_name r = ''research'') (query_projections d))"

definition task_pair :: "db \<Rightarrow> projection \<Rightarrow> string \<times> jdict" where
  "task_pair d r = (drop 5 (pr_entity r), the (task_of d (drop 5 (pr_entity r))))"

lemma task_row:
  assumes wf: "wf_research x d" and r: "r \<in> set (task_rows d)"
  obtains i p where "pr_entity r = ''task:'' @ i" "task_of d i = Some p" "unpack r = Inr p"
    "task_pair d r = (i, p)"
proof -
  have q: "set (query_projections d) = set (db_projections d)" and
    dist: "distinct (map projection_key (db_projections d))"
    using wf by (auto simp: wf_research_def wf_projections_def query_projections_distinct)
  from r obtain i where i: "pr_entity r = ''task:'' @ i" "pr_name r = ''research''" "r \<in> set (db_projections d)"
    using q by (auto simp: task_rows_def starts_with_Some)
  have f: "find_projection (db_projections d) ''research'' (''task:'' @ i) = Some r"
    using find_projection_iff [OF dist] i by simp
  obtain p where u: "unpack r = Inr p" "research_map d (''task:'' @ i) = Some p"
    by (rule wf_research_find [OF wf f])
  then have "task_of d i = Some p" by (simp add: task_of_def)
  with i u show ?thesis using that by (simp add: task_pair_def)
qed

lemma task_pairs:
  assumes wf: "wf_research x d"
  shows "set (map (task_pair d) (task_rows d)) = {(i, p). task_of d i = Some p}"
    and "distinct (map fst (map (task_pair d) (task_rows d)))"
proof -
  have q: "set (query_projections d) = set (db_projections d)" and
    dist: "distinct (map projection_key (db_projections d))"
    and dq: "distinct (map projection_key (query_projections d))"
    using wf by (auto simp: wf_research_def wf_projections_def query_projections_distinct)
  have "(i, p) \<in> task_pair d ` set (task_rows d)" if t: "task_of d i = Some p" for i p
  proof -
    obtain r where r: "find_projection (db_projections d) ''research'' (''task:'' @ i) = Some r"
      using t unfolding task_of_def research_map_def by (auto simp: bind_eq_Some_conv)
    then have "r \<in> set (task_rows d)" "task_pair d r = (i, p)"
      using t q find_projection_Some [OF r] by (auto simp: task_rows_def starts_with_Some task_pair_def)
    then show ?thesis by (metis imageI)
  qed
  moreover have "task_of d i = Some p" if t: "(i, p) \<in> task_pair d ` set (task_rows d)" for i p
  proof -
    from t obtain r where r: "r \<in> set (task_rows d)" "task_pair d r = (i, p)" by auto
    show ?thesis by (rule task_row [OF wf r(1)]) (use r(2) in simp)
  qed
  ultimately have both: "(i, p) \<in> task_pair d ` set (task_rows d) \<longleftrightarrow> task_of d i = Some p" for i p by blast
  show "set (map (task_pair d) (task_rows d)) = {(i, p). task_of d i = Some p}"
  proof (rule set_eqI)
    fix q show "q \<in> set (map (task_pair d) (task_rows d)) \<longleftrightarrow> q \<in> {(i, p). task_of d i = Some p}"
      using both [of "fst q" "snd q"] by (cases q) simp
  qed
  have "inj_on (fst \<circ> task_pair d) (set (task_rows d))"
  proof (rule inj_onI)
    fix r s assume rs: "r \<in> set (task_rows d)" "s \<in> set (task_rows d)"
      and eq: "(fst \<circ> task_pair d) r = (fst \<circ> task_pair d) s"
    have "pr_entity r = ''task:'' @ fst (task_pair d r)" by (rule task_row [OF wf rs(1)]) simp
    moreover have "pr_entity s = ''task:'' @ fst (task_pair d s)" by (rule task_row [OF wf rs(2)]) simp
    ultimately
    have "projection_key r = projection_key s"
      using eq rs by (simp add: task_rows_def projection_key_eq)
    moreover have "r \<in> set (db_projections d)" "s \<in> set (db_projections d)"
      using rs q by (auto simp: task_rows_def)
    ultimately show "r = s" using dist by (meson distinct_map inj_onD)
  qed
  moreover have "distinct (task_rows d)"
    using dq by (simp add: task_rows_def distinct_map)
  ultimately show "distinct (map fst (map (task_pair d) (task_rows d)))"
    unfolding map_map distinct_map by blast
qed

lemma identifier_plain_text: "identifier_of (JStr i) = Inr j \<Longrightarrow> plain_text (JStr i) = Inr i"
  by (auto simp: identifier_of_def research_text_def ensure_def inr_simps split: if_splits)

lemma frontier_Inr:
  assumes wf: "wf_research x d" and known: "dependencies_known d"
  shows "frontier d = Inr (filter (can_run d) (map snd (sort_key fst (map (task_pair d) (task_rows d)))))"
proof -
  let ?ps = "map (task_pair d) (task_rows d)"
  have n: "''research'' \<in> set projection_names" by (simp add: projection_names_def)
  have un: "unpack r = Inr (snd (task_pair d r))" if "r \<in> set (task_rows d)" for r
    by (rule task_row [OF wf that]) simp
  have "research_records ''task'' d = mapr unpack (task_rows d)"
    using n by (simp add: research_records_def store_projections_def ensure_def task_rows_def)
  then have recs: "research_records ''task'' d = Inr (map snd ?ps)"
    using mapr_all_Inr [of "task_rows d" unpack "\<lambda>r. snd (task_pair d r)", OF un] by (simp add: comp_def)
  have "bindr (getr (snd q) ''task_id'') (\<lambda>v. bindr (plain_text v) (\<lambda>i. Inr (i, snd q))) = Inr q"
    if q: "q \<in> set ?ps" for q
  proof -
    obtain i p where ip: "q = (i, p)" "task_of d i = Some p" using q task_pairs(1) [OF wf] by fastforce
    obtain s r mr f mf b ds where sh: "task_shape p i s r mr f mf b ds" by (rule stored_task_shape [OF wf ip(2)])
    obtain w where w: "find_projection (db_projections d) ''research'' (''task:'' @ i) = Some w"
      using ip(2) unfolding task_of_def research_map_def by (auto simp: bind_eq_Some_conv)
    obtain kind data j where k: "''task:'' @ i = kind @ '':'' @ j" "kind \<in> set research_kinds"
      "identifier_of (get_json (without_times data) (if kind = ''task'' then ''task_id'' else ''id'')) = Inr j"
      by (rule wf_research_find [OF wf w])
    have "j = i" using task_key [OF k(2), of j i] k(1) by auto
    then have "identifier_of (JStr i) = Inr i" using k(3) identifier_of_JStr by metis
    then show ?thesis using sh ip(1) identifier_plain_text by (simp add: task_shape_def getr_def)
  qed
  then have "mapr (\<lambda>task. bindr (getr task ''task_id'') (\<lambda>v. bindr (plain_text v) (\<lambda>i. Inr (i, task)))) (map snd ?ps)
      = Inr ?ps"
    using mapr_all_Inr [of ?ps "\<lambda>q. bindr (getr (snd q) ''task_id'') (\<lambda>v. bindr (plain_text v) (\<lambda>i. Inr (i, snd q)))" id]
    by (simp add: mapr_map comp_def)
  then have tasks: "tasks_by_id (map snd ?ps) = Inr ?ps"
    using fold_update_distinct [of "[]" ?ps] task_pairs(2) [OF wf] by (simp add: tasks_by_id_def)
  have look: "map_of ?ps j = task_of d j" for j
  proof (cases "task_of d j")
    case None
    then have "j \<notin> fst ` set ?ps" using task_pairs(1) [OF wf] by auto
    then show ?thesis using None map_of_eq_None_iff by metis
  next
    case (Some p)
    then have "(j, p) \<in> set ?ps" using task_pairs(1) [OF wf] by blast
    then show ?thesis using Some map_of_is_SomeI [OF task_pairs(2) [OF wf]] by metis
  qed
  have run: "runnable ?ps p = Inr (can_run d p)" if p: "p \<in> set (map snd (sort_key fst ?ps))" for p
  proof -
    from p obtain q where "q \<in> set ?ps" "snd q = p" unfolding set_map set_sort by blast
    then obtain i where "(i, p) \<in> set ?ps" by (metis prod.collapse)
    then have "task_of d i = Some p" using task_pairs(1) [OF wf] by blast
    then show ?thesis by (rule runnable_Inr [OF look wf known])
  qed
  show ?thesis
    unfolding frontier_def recs bindr_Inr tasks by (rule filter_res_all_Inr [OF run])
qed

end
