(* ===== verification/Sample_Research.thy ===== *)
theory Sample_Research
  imports Research_Frontier Sample_Controller
begin

text \<open>
  Two research tasks, the second of which depends on the first, for the witnesses of the properties
  of research records.
\<close>

definition sample_rc :: research_context where
  "sample_rc = \<lparr>rc_sha = sample_sha, rc_frepr = (\<lambda>_. []), rc_iso_utc = (\<lambda>_. True), rc_wide = (\<lambda>_. False)\<rparr>"

definition sample_now :: string where
  "sample_now = ''2025-01-02T03:04:00Z''"

definition sample_target :: "string \<Rightarrow> json list \<Rightarrow> jdict" where
  "sample_target i deps =
     [(''task_id'', JStr i), (''title'', JStr ''T''), (''statement'', JStr ''True''), (''author'', JStr ''a''),
      (''imports'', JArr []), (''depends_on'', JArr deps), (''source_refs'', JArr []), (''max_rounds'', JInt 2),
      (''max_failures'', JInt 2), (''timeout_seconds'', JInt 60)]"

definition sample_stored :: "string \<Rightarrow> json list \<Rightarrow> bool \<Rightarrow> jdict" where
  "sample_stored i deps paused =
     [(''author'', JStr ''a''), (''created_at'', JStr sample_now), (''depends_on'', JArr deps),
      (''failures'', JInt 0), (''feedback'', JStr []), (''imports'', JArr []), (''max_failures'', JInt 2),
      (''max_rounds'', JInt 2), (''paused'', JBool paused), (''rounds'', JInt 0), (''source_refs'', JArr []),
      (''statement'', JStr ''True''), (''status'', JStr ''pending''),
      (''target_hash'', JStr (sample_hash (CHR ''e''))), (''task_id'', JStr i), (''timeout_seconds'', JInt 60),
      (''title'', JStr ''T''), (''updated_at'', JStr sample_now), (''verified_declarations'', JArr [])]"

definition sample_task_payload :: "string \<Rightarrow> json list \<Rightarrow> bool \<Rightarrow> jdict" where
  "sample_task_payload i deps paused =
     [(''data'', JObj (sample_stored i deps paused)), (''kind'', JStr ''task''),
      (''record_id'', JStr (''task:'' @ i))]"

definition first_task_db :: db where
  "first_task_db = foundation_db
     \<lparr>db_events := [sample_row 1 (CHR ''1'') ''ResearchRecordUpdated'' ''a'' None None (sample_task_payload ''t'' [] False)],
      db_projections := db_projections foundation_db @ [sample_record ''research'' ''task:t'' 1 (CHR ''1'') ''ResearchRecordUpdated'' None
        (sample_task_payload ''t'' [] False)]\<rparr>"

definition second_task_db :: db where
  "second_task_db = first_task_db
     \<lparr>db_events := db_events first_task_db @
       [sample_row 2 (CHR ''2'') ''ResearchRecordUpdated'' ''a'' None None
          (sample_task_payload ''u'' [JStr ''t''] False)],
      db_projections := db_projections first_task_db @
       [sample_record ''research'' ''task:u'' 1 (CHR ''2'') ''ResearchRecordUpdated'' None
        (sample_task_payload ''u'' [JStr ''t''] False)]\<rparr>"

definition sample_adding :: "string \<Rightarrow> json list \<Rightarrow> jdict" where
  "sample_adding i deps = [(''action'', JStr ''task.add''), (''body'', JObj (sample_target i deps))]"

definition sample_pausing :: jdict where
  "sample_pausing = [(''action'', JStr ''task.pause''),
     (''body'', JObj [(''task_id'', JStr ''t''), (''author'', JStr ''a'')])]"

lemma sample_first_task:
  "after_outcome (operator_change sample_rc (sample_tick (CHR ''1'')) sample_now (sample_adding ''t'' []) foundation_db)
     1 first_task_db"
  by code_simp

lemma sample_second_task:
  "after_outcome (operator_change sample_rc (sample_tick (CHR ''2'')) sample_now
     (sample_adding ''u'' [JStr ''t'']) first_task_db) 1 second_task_db"
  by code_simp

end
