(* ===== verification/Research_Properties.thy ===== *)
theory Research_Properties
  imports Sample_Research
begin

text \<open>The properties of research records, with their witnesses on the sample tasks.\<close>

subsection \<open>Runs of the operator\<close>

text \<open>Requests of the operator one after the other, each with the time and identifier it gets.\<close>

fun operator_run :: "research_context \<Rightarrow> (tick \<times> string \<times> jdict) list \<Rightarrow> db \<Rightarrow> db" where
  "operator_run x [] d = d"
| "operator_run x ((t, now, params) # rs) d = operator_run x rs (snd (operator_change x t now params d))"

definition typed_request :: "tick \<times> string \<times> jdict \<Rightarrow> bool" where
  "typed_request r \<longleftrightarrow> (case r of (t, now, params) \<Rightarrow> typed_tick t \<and> wf_jdict params)"

text \<open>An operator's change is refused or saves one record.\<close>

lemma operator_change_saves:
  assumes wf: "wf_research x d" and p: "wf_jdict params"
    and s: "operator_change x t now params d = (v, d')"
  shows "(d' = d \<and> (\<exists>e. v = Inl e)) \<or>
    (\<exists>kind i data actor. wf_jdict data \<and> save_record x t now kind (JStr i) data actor None d = (v, d'))"
proof -
  from s consider "d' = d" "\<exists>e. v = Inl e" | action body where
      "object_value (get_json params ''body'') = Inr body"
      "(if action = ''task.add'' then define_task x t now body d
        else
          then_save (research_text 256 False (get_json body ''author'')) d (\<lambda>author.
          if action \<in> {''task.pause'', ''task.resume''} then
            then_save (change_task action body d) d (\<lambda>(identity, task).
              save_record x t now ''task'' (JStr identity) task (JStr author) None d)
          else
            then_save (prepare_record action body d) d (\<lambda>(kind, identity, data).
              save_record x t now kind (JStr identity) data (JStr author) None d))) = (v, d')"
    unfolding operator_change_def then_save_eq by (auto simp: inr_simps)
  then show ?thesis
  proof cases
    case 2
    have "get_json params ''body'' = JObj body"
      using 2(1) by (auto simp: object_value_def split: json.splits)
    then have b: "wf_jdict body" using wf_get_json [OF p, of "''body''"] by (simp add: wf_jdict_def)
    show ?thesis
    proof (cases "action = ''task.add''")
      case True
      then have "define_task x t now body d = (v, d')" using 2(2) by simp
      then show ?thesis
        unfolding define_task_def then_save_eq
      proof (elim disjE exE conjE, goal_cases)
        case (2 y)
        from 2(1) obtain i h actor where y: "y = (i, dict_merge body (new_task_fields h), actor)"
          by (auto simp: inr_simps)
        have "wf_jdict (dict_merge body (new_task_fields h))"
          by (rule wf_jdict_merge [OF b wf_new_task_fields(2)])
        then show ?case using 2(2) y by auto
      qed auto
    next
      case add: False
      show ?thesis
      proof (cases "action \<in> {''task.pause'', ''task.resume''}")
        case True
        with 2(2) add consider "d' = d" "\<exists>e. v = Inl e" | author i task where
            "change_task action body d = Inr (i, task)"
            "save_record x t now ''task'' (JStr i) task (JStr author) None d = (v, d')"
          by (auto simp: then_save_eq)
        then show ?thesis
        proof cases
          case 2
          obtain q where "task_of d i = Some q" "wf_jdict task"
            by (rule change_task_known [OF wf 2(1)])
          with 2(2) show ?thesis by blast
        qed simp
      next
        case False
        with 2(2) add consider "d' = d" "\<exists>e. v = Inl e" | author kind i data where
            "prepare_record action body d = Inr (kind, i, data)"
            "save_record x t now kind (JStr i) data (JStr author) None d = (v, d')"
          by (auto simp: then_save_eq)
        then show ?thesis
        proof cases
          case 2
          obtain task_id where n: "new_record_of action task_id body d = Inr (kind, data)"
            by (rule prepare_record_Inr [OF 2(1)])
          show ?thesis using new_record_of_wf(1) [OF wf n b] 2(2) by blast
        qed simp
      qed
    qed
  qed simp
qed

lemma operator_run_keeps:
  assumes "wf_research x d" "ordered_tasks d" "\<forall>r \<in> set rs. typed_request r"
  shows "wf_research x (operator_run x rs d) \<and> ordered_tasks (operator_run x rs d)"
  using assms
proof (induction rs arbitrary: d)
  case (Cons r rs)
  obtain t now params where r: "r = (t, now, params)" by (cases r)
  obtain v d' where o: "operator_change x t now params d = (v, d')" by (cases "operator_change x t now params d")
  have "wf_research x d' \<and> ordered_tasks d'"
    by (rule operator_change_keeps [OF Cons.prems(1) _ _ Cons.prems(2) o])
       (use Cons.prems(3) in \<open>simp_all add: r typed_request_def\<close>)
  then show ?case using Cons.IH [of d'] Cons.prems(3) by (simp add: r o)
qed simp

lemma record_key_inject:
  assumes "kind \<in> set research_kinds" "kind' \<in> set research_kinds"
  shows "kind @ '':'' @ i = kind' @ '':'' @ j \<longleftrightarrow> kind = kind' \<and> i = j"
  using assms by (auto simp: research_kinds_def)

subsection \<open>The properties\<close>

text \<open>
  C38. A record that was saved is read back as it was saved, in canonical form and with its times,
  under the version that was returned; every other record stays as it was.
\<close>

theorem saved_record_reads_back:
  assumes "wf_research x d" "typed_tick t" "wf_jdict data"
    and "save_record x t now kind (JStr i) data actor run d = (Inr v, d')"
  shows "\<exists>previous. get_research kind (JStr i) d = Inr previous
    \<and> get_research kind (JStr i) d' = Inr (Some (canon_dict (with_times previous now data)))
    \<and> v = next_version (db_projections d) ''research'' (kind @ '':'' @ i)
    \<and> ((kind', j) \<noteq> (kind, i) \<longrightarrow> get_research kind' (JStr j) d' = get_research kind' (JStr j) d)"
proof -
  from save_record_effect [OF assms] obtain key where k: "record_id kind (JStr i) = Inr key"
    "v = next_version (db_projections d) ''research'' key" "wf_research x d'"
    "research_map d' = (research_map d)(key \<mapsto> canon_dict (with_times (research_map d key) now data))"
    by auto
  have key: "key = kind @ '':'' @ i" using k(1) by (auto simp: record_id_Inr dest: identifier_of_JStr)
  have "get_research kind' (JStr j) d' = get_research kind' (JStr j) d" if ne: "(kind', j) \<noteq> (kind, i)"
  proof (cases "record_id kind' (JStr j)")
    case (Inr key')
    then have "key' = kind' @ '':'' @ j" "kind' \<in> set research_kinds"
      by (auto simp: record_id_Inr dest: identifier_of_JStr)
    moreover have "kind \<in> set research_kinds" using k(1) by (simp add: record_id_Inr)
    ultimately have "key' \<noteq> key" using ne key record_key_inject by metis
    then show ?thesis using Inr k(4) by (simp add: get_research_Inr [OF assms(1)] get_research_Inr [OF k(3)])
  qed (simp add: get_research_Inr [OF assms(1)] get_research_Inr [OF k(3)])
  then show ?thesis
    using k by (simp add: get_research_Inr [OF assms(1)] get_research_Inr [OF k(3)] key)
qed

text \<open>A change of the operator that is refused leaves the database as it was.\<close>

lemma refused_change_saves_nothing:
  assumes "wf_research x d" "typed_tick t" "wf_jdict params"
    and "operator_change x t now params d = (Inl e, d')"
  shows "d' = d"
  using operator_change_saves [OF assms(1,3,4)] save_record_effect [OF assms(1,2)] by blast

lemma save_keeps_target:
  assumes "wf_research x d" "typed_tick t" "wf_jdict data" "task_of d i = Some p" "f \<in> set immutable_fields"
    and "save_record x t now kind (JStr j) data actor run d = (v, d')"
  shows "\<exists>q. task_of d' i = Some q \<and> canon (get_json q f) = canon (get_json p f)"
proof (cases "kind = ''task''")
  case True
  from save_task [OF assms(1-3) assms(6) [unfolded True]] show ?thesis
  proof (elim disjE exE conjE)
    fix q assume t: "task_of d' = (task_of d)(j \<mapsto> q)"
      and im: "\<forall>p. task_of d j = Some p \<longrightarrow> check_immutable p data immutable_fields = Inr ()"
      and q: "q = canon_dict (with_times (task_of d j) now data)"
    show ?thesis
    proof (cases "i = j")
      case True
      with im assms(4) have im': "check_immutable p data immutable_fields = Inr ()" by simp
      obtain old new where on: "map_of p f = Some old" "map_of data f = Some new" "canon old = canon new"
        using check_immutable_Inr [OF im' assms(5)] by blast
      have f: "f \<noteq> ''created_at''" "f \<noteq> ''updated_at''"
        using assms(5) by (auto simp: immutable_fields_def)
      have "wf_dict (with_times (task_of d j) now data)"
        using wf_jdict_wf_dict [OF assms(3)] by (simp add: with_times_def wf_dict_update)
      then have "get_json q f = canon new"
        using on(2) f unfolding q by (simp add: get_json_def map_of_canon_dict map_of_with_times)
      then show ?thesis using t True on by (auto simp: get_json_def)
    next
      case False
      then show ?thesis using t assms(4) by simp
    qed
  qed (use assms(4) in simp)
next
  case False
  then show ?thesis using save_other_kind [OF assms(1-3) _ assms(6)] assms(4) by auto
qed

lemma run_keeps_target:
  assumes "wf_research x d" "ordered_tasks d" "\<forall>r \<in> set rs. typed_request r"
    and "task_of d i = Some p" "f \<in> set immutable_fields"
  shows "\<exists>q. task_of (operator_run x rs d) i = Some q \<and> canon (get_json q f) = canon (get_json p f)"
  using assms
proof (induction rs arbitrary: d p)
  case (Cons r rs)
  obtain t now params where r: "r = (t, now, params)" by (cases r)
  obtain v d' where o: "operator_change x t now params d = (v, d')" by (cases "operator_change x t now params d")
  have tr: "typed_tick t" "wf_jdict params" using Cons.prems(3) by (simp_all add: r typed_request_def)
  have k: "wf_research x d' \<and> ordered_tasks d'"
    by (rule operator_change_keeps [OF Cons.prems(1) tr Cons.prems(2) o])
  have "\<exists>q. task_of d' i = Some q \<and> canon (get_json q f) = canon (get_json p f)"
    using operator_change_saves [OF Cons.prems(1) tr(2) o] Cons.prems(4)
      save_keeps_target [OF Cons.prems(1) tr(1) _ Cons.prems(4,5)] by blast
  then obtain q where q: "task_of d' i = Some q" "canon (get_json q f) = canon (get_json p f)" by blast
  then show ?case using Cons.IH [OF _ _ _ q(1) Cons.prems(5)] k Cons.prems(3) by (simp add: r o)
qed auto

text \<open>
  C14. Whatever the operator does, a task is never removed, and its statement, imports, dependencies,
  sources, author and target hash stay what they were.
\<close>

theorem task_target_is_immutable:
  assumes "wf_research x d" "ordered_tasks d" "\<forall>r \<in> set rs. typed_request r"
    and "task_of d i = Some p"
    and "f \<in> {''statement'', ''imports'', ''depends_on'', ''source_refs'', ''author'', ''target_hash''}"
  shows "\<exists>q. task_of (operator_run x rs d) i = Some q \<and> canon (get_json q f) = canon (get_json p f)"
proof -
  have "f \<in> set immutable_fields" using assms(5) by (auto simp: immutable_fields_def)
  then show ?thesis by (rule run_keeps_target [OF assms(1-4)])
qed

text \<open>
  C5. Whatever the operator does, the dependencies between tasks have no cycle and name known tasks.
\<close>

theorem task_dependencies_acyclic:
  assumes "wf_research x d" "ordered_tasks d" "\<forall>r \<in> set rs. typed_request r"
  shows "acyclic (task_dependencies (operator_run x rs d))
    \<and> (\<forall>i j. (i, j) \<in> task_dependencies (operator_run x rs d) \<longrightarrow> task_of (operator_run x rs d) j \<noteq> None)"
  using operator_run_keeps [OF assms] unfolding ordered_tasks_def dependencies_known_def by blast

text \<open>
  C24. The frontier is the list of the tasks that can run, in the order of their identifiers: those
  pending and not paused, with rounds and failures left, whose dependencies are all verified.
\<close>

theorem frontier_lists_runnable:
  assumes "wf_research x d" "dependencies_known d"
  shows "\<exists>ts. frontier d = Inr (map snd ts) \<and> sorted (map fst ts) \<and> distinct (map fst ts)
    \<and> set ts = {(i, p). task_of d i = Some p \<and> can_run d p}"
proof -
  let ?qs = "sort_key fst (map (task_pair d) (task_rows d))"
  let ?ts = "filter (\<lambda>q. can_run d (snd q)) ?qs"
  have "map snd ?ts = filter (can_run d) (map snd ?qs)" by (simp add: filter_map comp_def)
  moreover have "sorted (map fst ?ts)" by (rule sorted_filter) (rule sorted_sort_key)
  moreover have "distinct (map fst ?qs)" using task_pairs(2) [OF assms(1)] unfolding distinct_map_fst_sort .
  then have "distinct (map fst ?ts)" by (rule distinct_map_filter)
  moreover have "set ?ts = {(i, p). task_of d i = Some p \<and> can_run d p}"
    using task_pairs(1) [OF assms(1)] by auto
  ultimately show ?thesis using frontier_Inr [OF assms] by metis
qed

subsection \<open>Witnesses\<close>

lemma wf_start: "wf_research x foundation_db"
proof -
  have "distinct (map projection_key (db_projections foundation_db))"
    "list_all wf_projection (db_projections foundation_db)"
    "list_all (\<lambda>r. pr_name r \<noteq> ''research'') (db_projections foundation_db)"
    by code_simp+
  then show ?thesis unfolding wf_research_def wf_projections_def list_all_iff by blast
qed

lemma no_tasks_at_start: "task_of foundation_db i = None"
proof -
  have "list_all (\<lambda>r. pr_name r \<noteq> ''research'') (db_projections foundation_db)" by code_simp
  then have "find_projection (db_projections foundation_db) ''research'' k = None" for k
    unfolding find_projection_None list_all_iff by blast
  then show ?thesis by (simp add: task_of_def research_map_def)
qed

lemma ordered_start: "ordered_tasks foundation_db"
  by (simp add: ordered_tasks_def dependencies_known_def task_dependencies_def no_tasks_at_start acyclic_def)

definition sample_requests :: "(tick \<times> string \<times> jdict) list" where
  "sample_requests =
     [(sample_tick (CHR ''1''), sample_now, sample_adding ''t'' []),
      (sample_tick (CHR ''2''), sample_now, sample_adding ''u'' [JStr ''t''])]"

lemma typed_sample_requests: "\<forall>r \<in> set sample_requests. typed_request r"
proof -
  have "list_all typed_request sample_requests"
    by (simp add: sample_requests_def typed_request_def typed_tick_def sample_tick_def sample_time_def
        sample_adding_def sample_target_def wf_jdict_def valid_datetime_def is_leap_def days_in_month_def)
  then show ?thesis unfolding list_all_iff .
qed

lemma sample_run:
  "operator_run sample_rc [hd sample_requests] foundation_db = first_task_db"
  "operator_run sample_rc sample_requests foundation_db = second_task_db"
  using sample_first_task sample_second_task by (simp_all add: sample_requests_def after_outcome_def)

lemma wf_sample_tasks:
  "wf_research sample_rc first_task_db" "ordered_tasks first_task_db"
  "wf_research sample_rc second_task_db" "ordered_tasks second_task_db"
proof -
  have one: "\<forall>r \<in> set [hd sample_requests]. typed_request r"
    using typed_sample_requests by (simp add: sample_requests_def)
  show "wf_research sample_rc first_task_db" "ordered_tasks first_task_db"
    using operator_run_keeps [OF wf_start [of sample_rc] ordered_start one] by (simp_all only: sample_run)
  show "wf_research sample_rc second_task_db" "ordered_tasks second_task_db"
    using operator_run_keeps [OF wf_start [of sample_rc] ordered_start typed_sample_requests] by (simp_all only: sample_run)
qed

theorem frontier_lists_runnable_witness:
  "(\<exists>ts. frontier second_task_db = Inr (map snd ts)
     \<and> set ts = {(i, p). task_of second_task_db i = Some p \<and> can_run second_task_db p})
   \<and> frontier second_task_db = Inr [sample_stored ''t'' [] False]"
proof -
  have "dependencies_known second_task_db" using wf_sample_tasks(4) by (simp add: ordered_tasks_def)
  moreover have "frontier second_task_db = Inr [sample_stored ''t'' [] False]" by code_simp
  ultimately show ?thesis using frontier_lists_runnable [OF wf_sample_tasks(3)] by blast
qed

theorem task_dependencies_acyclic_witness:
  "acyclic (task_dependencies (operator_run sample_rc sample_requests foundation_db))
   \<and> task_of (operator_run sample_rc sample_requests foundation_db) ''u'' = Some (sample_stored ''u'' [JStr ''t''] False)"
proof -
  have "task_of second_task_db ''u'' = Some (sample_stored ''u'' [JStr ''t''] False)" by code_simp
  then show ?thesis
    using task_dependencies_acyclic [OF wf_start [of sample_rc] ordered_start typed_sample_requests]
    unfolding sample_run by blast
qed

theorem task_target_is_immutable_witness:
  "\<exists>q. task_of (operator_run sample_rc [(sample_tick (CHR ''3''), sample_now, sample_pausing)] second_task_db) ''t''
       = Some q \<and> canon (get_json q ''statement'') = JStr ''True''"
proof -
  have t: "task_of second_task_db ''t'' = Some (sample_stored ''t'' [] False)" by code_simp
  have "\<forall>r \<in> set [(sample_tick (CHR ''3''), sample_now, sample_pausing)]. typed_request r"
    by (simp add: typed_request_def typed_tick_def sample_tick_def sample_time_def
        sample_pausing_def wf_jdict_def valid_datetime_def is_leap_def days_in_month_def)
  moreover have "canon (get_json (sample_stored ''t'' [] False) ''statement'') = JStr ''True''"
    by (simp add: get_json_def sample_stored_def)
  moreover have "''statement'' \<in> {''statement'', ''imports'', ''depends_on'', ''source_refs'', ''author'', ''target_hash''}"
    by simp
  ultimately show ?thesis
    using task_target_is_immutable [OF wf_sample_tasks(3,4) _ t] by metis
qed

theorem saved_record_reads_back_witness:
  "get_research ''task'' (JStr ''t'')
     (snd (save_record sample_rc (sample_tick (CHR ''3'')) sample_now ''task'' (JStr ''t'')
        (sample_stored ''t'' [] True) (JStr ''a'') None second_task_db))
   = Inr (Some (sample_stored ''t'' [] True))"
proof -
  let ?s = "save_record sample_rc (sample_tick (CHR ''3'')) sample_now ''task'' (JStr ''t'')
        (sample_stored ''t'' [] True) (JStr ''a'') None second_task_db"
  have "fst ?s = Inr 2" by code_simp
  then have s: "?s = (Inr 2, snd ?s)" by (metis prod.collapse)
  have w: "typed_tick (sample_tick (CHR ''3''))" "wf_jdict (sample_stored ''t'' [] True)"
    by (simp_all add: typed_tick_def sample_tick_def sample_time_def sample_stored_def sample_now_def
        wf_jdict_def valid_datetime_def is_leap_def days_in_month_def)
  have g: "get_research ''task'' (JStr ''t'') second_task_db = Inr (Some (sample_stored ''t'' [] False))"
    "canon_dict (with_times (Some (sample_stored ''t'' [] False)) sample_now (sample_stored ''t'' [] True))
       = sample_stored ''t'' [] True"
    by code_simp+
  from saved_record_reads_back [OF wf_sample_tasks(3) w s, of "''task''" "''t''"] g show ?thesis by simp
qed

end
