(* ===== verification/Research_Engine.thy ===== *)
theory Research_Engine
  imports Research_Records
begin

text \<open>
  The rounds of the research engine on the store (\<open>research/engine.py\<close>): what marks the start of a
  round, what its end records, which declarations count for a worker, and the recovery of rounds that
  a stopped process left open. The execution of a round itself, a model process and Lean, is outside;
  its result is an argument. A round saves several records, each with its own identifier and time:
  \<open>clock n\<close> gives those of the \<open>n\<close>th one. Random names are arguments.
\<close>

type_synonym clock = "nat \<Rightarrow> tick \<times> string"

definition bindo :: "'a outcome \<Rightarrow> ('a \<Rightarrow> db \<Rightarrow> 'b outcome) \<Rightarrow> 'b outcome" where
  "bindo m f = (case m of (Inl e, d) \<Rightarrow> (Inl e, d) | (Inr x, d) \<Rightarrow> f x d)"

definition supervisor :: json where
  "supervisor = JStr ''research_supervisor''"

definition supervisor_save ::
  "research_context \<Rightarrow> clock \<Rightarrow> nat \<Rightarrow> string \<Rightarrow> string \<Rightarrow> jdict \<Rightarrow> string option \<Rightarrow> db \<Rightarrow> int outcome" where
  "supervisor_save x clock n kind identity data run d =
     save_record x (fst (clock n)) (snd (clock n)) kind (JStr identity) data supervisor run d"

text \<open>A failing step before the first save returns its error; later ones leave what was saved.\<close>

definition reading :: "'a res \<Rightarrow> db \<Rightarrow> ('a \<Rightarrow> db \<Rightarrow> 'b outcome) \<Rightarrow> 'b outcome" where
  "reading m d f = (case m of Inl e \<Rightarrow> (Inl e, d) | Inr x \<Rightarrow> f x d)"

subsection \<open>What was verified\<close>

record attempt_result =
  at_feedback :: string
  at_declarations :: "string list"
  at_usage :: "jdict option"
  at_controller_usage :: "jdict option"

definition submitted_by :: "string \<Rightarrow> event_record \<Rightarrow> bool" where
  "submitted_by worker r \<longleftrightarrow> ev_type (rec_envelope r) = ''ContributionSubmitted''
     \<and> get_json (ev_payload (rec_envelope r)) ''worker_id'' = JStr worker"

definition contribution_of :: "event_record \<Rightarrow> json" where
  "contribution_of r = canon (get_json (ev_payload (rec_envelope r)) ''contribution_id'')"

definition published_of :: "json list \<Rightarrow> event_record \<Rightarrow> bool" where
  "published_of contributed r \<longleftrightarrow> ev_type (rec_envelope r) = ''DeclarationPublished''
     \<and> contribution_of r \<in> set contributed"

definition verified_for_worker ::
  "research_context \<Rightarrow> string \<Rightarrow> string \<Rightarrow> db \<Rightarrow> string list res" where
  "verified_for_worker x run worker d =
     bindr (query_events (rc_valid x) (Some run) d) (\<lambda>events.
     let contributed = map contribution_of (filter (submitted_by worker) events)
     in mapr (\<lambda>r. bindr (getr (ev_payload (rec_envelope r)) ''declaration_id'') plain_text)
          (filter (published_of contributed) events))"

subsection \<open>The start of a round\<close>

record round_names =
  rn_attempt :: string
  rn_worker :: string

definition new_attempt ::
  "string \<Rightarrow> string \<Rightarrow> string \<Rightarrow> round_names \<Rightarrow> string \<Rightarrow> json \<Rightarrow> int \<Rightarrow> json list \<Rightarrow> jdict" where
  "new_attempt run model controller_model names task_id target_hash round inbox_ids =
     [(''id'', JStr (''attempt-'' @ rn_attempt names)), (''task_id'', JStr task_id),
      (''worker_id'', JStr (''worker-'' @ rn_worker names)), (''run_id'', JStr run),
      (''target_hash'', target_hash), (''round'', JInt round), (''status'', JStr ''running''),
      (''feedback'', JStr []), (''verified_declarations'', JArr []), (''usage'', JNull),
      (''model'', JStr model), (''controller_model'', JStr controller_model),
      (''controller_usage'', JNull), (''inbox_ids'', JArr inbox_ids)]"

definition inbox_for :: "string \<Rightarrow> db \<Rightarrow> jdict list res" where
  "inbox_for task_id d =
     bindr (research_records ''inbox'' d) (\<lambda>entries.
     filter_res (\<lambda>e. bindr (getr e ''task_id'') (member_of [[], task_id])) entries)"

fun consume_inbox ::
  "research_context \<Rightarrow> clock \<Rightarrow> nat \<Rightarrow> string \<Rightarrow> string \<Rightarrow> jdict list \<Rightarrow> db \<Rightarrow> unit outcome" where
  "consume_inbox x clock n run identity [] d = (Inr (), d)"
| "consume_inbox x clock n run identity (e # es) d =
     reading (bindr (getr e ''consumed_by'') (\<lambda>c.
              bindr (research_texts c) (\<lambda>consumed.
              bindr (getr e ''id'') (\<lambda>v.
              bindr (plain_text v) (\<lambda>i. Inr (consumed, i)))))) d (\<lambda>(consumed, i) d.
     bindo (supervisor_save x clock n ''inbox'' i
       (AList.update ''consumed_by'' (JArr (map JStr consumed @ [JStr identity])) e) (Some run) d) (\<lambda>_ d.
     consume_inbox x clock (Suc n) run identity es d))"

definition begin_round ::
  "research_context \<Rightarrow> clock \<Rightarrow> string \<Rightarrow> string \<Rightarrow> string \<Rightarrow> round_names \<Rightarrow> jdict \<Rightarrow> db \<Rightarrow> jdict outcome" where
  "begin_round x clock run model controller_model names task d =
     reading
       (bindr (getr task ''task_id'') (\<lambda>v.
        bindr (plain_text v) (\<lambda>task_id.
        bindr (getr task ''rounds'') (\<lambda>v.
        bindr (plain_integer v) (\<lambda>rounds.
        bindr (getr task ''target_hash'') (\<lambda>target_hash.
        bindr (inbox_for task_id d) (\<lambda>inbox.
        bindr (mapr (\<lambda>e. getr e ''id'') inbox) (\<lambda>ids.
        Inr (task_id, rounds + 1, inbox,
          new_attempt run model controller_model names task_id target_hash (rounds + 1) ids))))))))) d
       (\<lambda>(task_id, round, inbox, attempt) d.
     bindo (supervisor_save x clock 0 ''attempt'' (''attempt-'' @ rn_attempt names) attempt (Some run) d)
       (\<lambda>_ d.
     bindo (supervisor_save x clock 1 ''task'' task_id
         (dict_merge task [(''status'', JStr ''running''), (''rounds'', JInt round)]) (Some run) d) (\<lambda>_ d.
     bindo (consume_inbox x clock 2 run (''attempt-'' @ rn_attempt names) inbox d) (\<lambda>_ d.
     (Inr attempt, d)))))"

subsection \<open>The end of a round\<close>

definition json_of_usage :: "jdict option \<Rightarrow> json" where
  "json_of_usage u = (case u of None \<Rightarrow> JNull | Some d \<Rightarrow> JObj d)"

text \<open>\<open>feedback[:8192] or "No result."\<close>, which counts characters.\<close>

definition round_feedback :: "string \<Rightarrow> string" where
  "round_feedback s =
     (let cut = concat (take 8192 (utf8_characters s)) in if cut = [] then ''No result.'' else cut)"

definition remove_prefix :: "string \<Rightarrow> string \<Rightarrow> string" where
  "remove_prefix p s = (case starts_with p s of None \<Rightarrow> s | Some r \<Rightarrow> r)"

definition finished_attempt ::
  "jdict \<Rightarrow> attempt_result \<Rightarrow> bool \<Rightarrow> string list \<Rightarrow> jdict" where
  "finished_attempt attempt result interrupted proved =
     dict_merge attempt
       [(''status'', JStr (if proved \<noteq> [] then ''verified''
           else if interrupted then ''interrupted'' else ''failed'')),
        (''feedback'', JStr (round_feedback (at_feedback result))),
        (''verified_declarations'', JArr (map JStr proved)),
        (''usage'', json_of_usage (at_usage result)),
        (''controller_usage'', json_of_usage (at_controller_usage result))]"

text \<open>The state of the task after the round: verified, blocked when its limits are reached, or pending.\<close>

definition finished_task ::
  "jdict \<Rightarrow> attempt_result \<Rightarrow> bool \<Rightarrow> string list \<Rightarrow> jdict res" where
  "finished_task task result interrupted proved =
     bindr (if proved \<noteq> [] then Inr 0
            else bindr (getr task ''failures'') (\<lambda>v.
                 bindr (plain_integer v) (\<lambda>n. Inr (n + (if interrupted then 0 else 1))))) (\<lambda>failures.
     bindr (getr task ''rounds'') (\<lambda>v.
     bindr (plain_integer v) (\<lambda>rounds.
     bindr (getr task ''max_rounds'') (\<lambda>v.
     bindr (plain_integer v) (\<lambda>max_rounds.
     bindr (if max_rounds \<le> rounds then Inr True
            else bindr (getr task ''max_failures'') (\<lambda>v.
                 bindr (plain_integer v) (\<lambda>max_failures. Inr (max_failures \<le> failures)))) (\<lambda>exhausted.
     Inr (dict_merge task
       [(''status'', JStr (if proved \<noteq> [] then ''verified'' else if exhausted then ''blocked'' else ''pending'')),
        (''feedback'', JStr (round_feedback (at_feedback result))), (''failures'', JInt failures),
        (''verified_declarations'', JArr (map JStr proved))])))))))"

definition round_memory :: "string \<Rightarrow> string \<Rightarrow> string \<Rightarrow> attempt_result \<Rightarrow> string list \<Rightarrow> jdict" where
  "round_memory memory_id task_id worker result proved =
     [(''id'', JStr memory_id), (''task_id'', JStr task_id), (''author'', JStr worker),
      (''kind'', JStr ''summary''), (''body'', JStr (round_feedback (at_feedback result))),
      (''source_refs'', JArr (map JStr proved)), (''origin'', JStr ''worker''), (''worker_id'', JStr []),
      (''verified'', JBool False)]"

definition stored_name :: "jdict \<Rightarrow> string \<Rightarrow> string res" where
  "stored_name data key = bindr (getr data key) plain_text"

definition finish_round ::
  "research_context \<Rightarrow> clock \<Rightarrow> jdict \<Rightarrow> attempt_result \<Rightarrow> bool \<Rightarrow> db \<Rightarrow> unit outcome" where
  "finish_round x clock attempt result interrupted d =
     reading
       (bindr (stored_name attempt ''task_id'') (\<lambda>task_id.
        bindr (stored_name attempt ''id'') (\<lambda>identity.
        bindr (require_task (JStr task_id) d) (\<lambda>task.
        bindr (getr task ''target_hash'') (\<lambda>now_hash.
        bindr (getr attempt ''target_hash'') (\<lambda>then_hash.
        bindr (ensure (canon now_hash = canon then_hash) (ResearchError ''TARGET_CHANGED_DURING_ROUND'')) (\<lambda>_.
        bindr (stored_name attempt ''run_id'') (\<lambda>run.
        bindr (stored_name attempt ''worker_id'') (\<lambda>worker.
        bindr (verified_for_worker x run worker d) (\<lambda>proved.
        bindr (ensure (set (at_declarations result) \<subseteq> set proved)
          (ResearchError ''UNTRUSTED_VERIFICATION_RESULT'')) (\<lambda>_.
        Inr (task_id, identity, task, run, worker, proved)))))))))))) d
       (\<lambda>(task_id, identity, task, run, worker, proved) d.
     bindo (supervisor_save x clock 0 ''attempt'' identity
         (finished_attempt attempt result interrupted proved) (Some run) d) (\<lambda>_ d.
     reading (finished_task task result interrupted proved) d (\<lambda>task d.
     bindo (supervisor_save x clock 1 ''task'' task_id task (Some run) d) (\<lambda>_ d.
     let memory_id = ''round-'' @ remove_prefix ''attempt-'' identity in
     reading (get_research ''memory'' (JStr memory_id) d) d (\<lambda>known d.
     if known \<noteq> None then (Inr (), d)
     else bindo (supervisor_save x clock 2 ''memory'' memory_id
            (round_memory memory_id task_id worker result proved) (Some run) d) (\<lambda>_ d.
          (Inr (), d)))))))"

subsection \<open>Recovery\<close>

text \<open>\<open>max(candidates, key=...)\<close>: the first of those with the highest round.\<close>

fun latest_attempt :: "(int \<times> jdict) list \<Rightarrow> int \<times> jdict \<Rightarrow> int \<times> jdict" where
  "latest_attempt [] best = best"
| "latest_attempt (c # cs) best = latest_attempt cs (if fst best < fst c then c else best)"

definition stored_integer_of :: "jdict \<Rightarrow> string \<Rightarrow> int res" where
  "stored_integer_of data key = bindr (getr data key) plain_integer"

definition open_round :: "jdict list \<Rightarrow> jdict \<Rightarrow> (int \<times> jdict) option res" where
  "open_round attempts task =
     bindr (filter_res (\<lambda>a. bindr (getr a ''task_id'') (\<lambda>i.
        bindr (getr task ''task_id'') (\<lambda>j. Inr (canon i = canon j)))) attempts) (\<lambda>candidates.
     bindr (mapr (\<lambda>a. bindr (stored_integer_of a ''round'') (\<lambda>n. Inr (n, a))) candidates) (\<lambda>rounds.
     case rounds of
       [] \<Rightarrow> Inr None
     | r # rs \<Rightarrow>
         let (n, attempt) = latest_attempt rs r in
         bindr (getr attempt ''status'') (\<lambda>s.
         bindr (if s \<noteq> JStr ''running''
                then bindr (getr task ''status'') (\<lambda>q. Inr (q \<noteq> JStr ''running'')) else Inr False) (\<lambda>closed.
         Inr (if closed then None else Some (n, attempt))))))"

text \<open>\<open>checked_usage\<close> of \<open>agents/codex_events.py\<close>\<close>

definition checked_usage :: "json \<Rightarrow> jdict option" where
  "checked_usage v =
     (case v of
       JObj d \<Rightarrow>
         (case (get_json d ''input_tokens'', get_json d ''cached_input_tokens'', get_json d ''output_tokens'') of
           (JInt i, JInt c, JInt out) \<Rightarrow>
             if 0 \<le> i \<and> 0 \<le> c \<and> 0 \<le> out \<and> c \<le> i
             then Some [(''input_tokens'', JInt i), (''cached_input_tokens'', JInt c),
               (''output_tokens'', JInt out)]
             else None
         | _ \<Rightarrow> None)
     | _ \<Rightarrow> None)"

text \<open>Each open round takes up to four identifiers and times.\<close>

fun recover_tasks ::
  "research_context \<Rightarrow> clock \<Rightarrow> nat \<Rightarrow> jdict list \<Rightarrow> jdict list \<Rightarrow> db \<Rightarrow> unit outcome" where
  "recover_tasks x clock n attempts [] d = (Inr (), d)"
| "recover_tasks x clock n attempts (task # tasks) d =
     reading (open_round attempts task) d (\<lambda>found d.
     case found of
       None \<Rightarrow> recover_tasks x clock n attempts tasks d
     | Some (round, attempt) \<Rightarrow>
         reading
           (bindr (stored_integer_of task ''rounds'') (\<lambda>rounds.
            bindr (stored_name task ''task_id'') (\<lambda>task_id. Inr (rounds, task_id)))) d
           (\<lambda>(rounds, task_id) d.
         bindo (supervisor_save x clock n ''task'' task_id
           (AList.update ''rounds'' (JInt (max rounds round)) task) None d) (\<lambda>_ d.
         reading
           (bindr (stored_name attempt ''run_id'') (\<lambda>run.
            bindr (stored_name attempt ''worker_id'') (\<lambda>worker. verified_for_worker x run worker d))) d
           (\<lambda>proved d.
         bindo (finish_round x (\<lambda>k. clock (n + 1 + k)) attempt
           \<lparr>at_feedback = ''Recovered after an interrupted run.'', at_declarations = proved,
            at_usage = checked_usage (get_json attempt ''usage''),
            at_controller_usage = checked_usage (get_json attempt ''controller_usage'')\<rparr> (proved = []) d) (\<lambda>_ d.
         recover_tasks x clock (n + 4) attempts tasks d)))))"

definition recover_rounds ::
  "research_context \<Rightarrow> clock \<Rightarrow> db \<Rightarrow> unit outcome" where
  "recover_rounds x clock d =
     reading (bindr (research_records ''attempt'' d) (\<lambda>attempts.
              bindr (research_records ''task'' d) (\<lambda>tasks. Inr (attempts, tasks)))) d
       (\<lambda>(attempts, tasks) d. recover_tasks x clock 0 attempts tasks d)"

end
