(* ===== verification/Gateway.thy ===== *)
theory Gateway
  imports Complex_Main State_Service
begin

text \<open>
  The capability gateway (\<open>gateway/capabilities.py\<close>, \<open>gateway/service.py\<close>): the tools and the
  roles that may use them, minting of capabilities, and the checks a call passes before it reaches its
  target. Parameters: \<open>sha\<close> is the SHA-256 hex digest, \<open>vr\<close> the validator of research records, and
  \<open>rnd\<close> the rounding of a difference of two readings of the monotonic clock, which are the rational
  values of floats (\<open>None\<close> where not finite).
\<close>

subsection \<open>Tools and roles\<close>

datatype gateway_tool =
    STATE_QUERY | SCHEDULE_PROPOSE | EVIDENCE_QUERY | SEARCH_BROKERED | EVIDENCE_SUBMIT
  | CANDIDATE_SUBMIT | AUDIT_SUBMIT | PROJECT_READ | LEAN_GOAL | LEAN_MULTI_ATTEMPT
  | LEAN_DIAGNOSTICS | ALIGNMENT_SUBMIT | FORMAL_GRAPH_READ | TASK_EDGE_SUBMIT | DOCUMENT_APPLY
  | CONTRIBUTION_SUBMIT | KNOWLEDGE_READ | TRACE_READ | ANNOTATION_SUBMIT | STATE_APPEND
  | DOCUMENT_RESOLVE_PATH | LEAN_BUILD | LEAN_VERIFY | PROMOTION_ENQUEUE | PROMOTION_PUBLISH
  | ENVIRONMENT_APPROVE | CAPABILITY_MINT

definition gateway_tools :: "(gateway_tool \<times> string) list" where
  "gateway_tools =
     [(STATE_QUERY, ''state.query''), (SCHEDULE_PROPOSE, ''schedule.propose''),
      (EVIDENCE_QUERY, ''evidence.query''), (SEARCH_BROKERED, ''search.brokered''),
      (EVIDENCE_SUBMIT, ''evidence.submit''), (CANDIDATE_SUBMIT, ''candidate.submit''),
      (AUDIT_SUBMIT, ''audit.submit''), (PROJECT_READ, ''project.read''), (LEAN_GOAL, ''lean.goal''),
      (LEAN_MULTI_ATTEMPT, ''lean.multi_attempt''), (LEAN_DIAGNOSTICS, ''lean.diagnostics''),
      (ALIGNMENT_SUBMIT, ''alignment.submit''), (FORMAL_GRAPH_READ, ''formal_graph.read''),
      (TASK_EDGE_SUBMIT, ''task_edge.submit''), (DOCUMENT_APPLY, ''document.apply''),
      (CONTRIBUTION_SUBMIT, ''contribution.submit''), (KNOWLEDGE_READ, ''knowledge.read''),
      (TRACE_READ, ''trace.read''), (ANNOTATION_SUBMIT, ''annotation.submit''),
      (STATE_APPEND, ''state.append''), (DOCUMENT_RESOLVE_PATH, ''document.resolve_path''),
      (LEAN_BUILD, ''lean.build''), (LEAN_VERIFY, ''lean.verify''),
      (PROMOTION_ENQUEUE, ''promotion.enqueue''), (PROMOTION_PUBLISH, ''promotion.publish''),
      (ENVIRONMENT_APPROVE, ''environment.approve''), (CAPABILITY_MINT, ''capability.mint'')]"

definition tool_value :: "gateway_tool \<Rightarrow> string" where
  "tool_value g = (case map_of gateway_tools g of Some s \<Rightarrow> s | None \<Rightarrow> [])"

definition gateway_tool_of :: "string \<Rightarrow> gateway_tool option" where
  "gateway_tool_of s = map_option fst (List.find (\<lambda>(g, v). v = s) gateway_tools)"

fun role_capabilities :: "agent_role \<Rightarrow> gateway_tool list" where
  "role_capabilities RESEARCH_CONDUCTOR = [STATE_QUERY, SCHEDULE_PROPOSE]"
| "role_capabilities LITERATURE_SCOUT = [EVIDENCE_QUERY, SEARCH_BROKERED, EVIDENCE_SUBMIT]"
| "role_capabilities BOUNDARY_MAPPER = [EVIDENCE_QUERY, EVIDENCE_SUBMIT]"
| "role_capabilities CONJECTURE_GENERATOR = [CANDIDATE_SUBMIT]"
| "role_capabilities NOVELTY_AUDITOR = [EVIDENCE_QUERY, SEARCH_BROKERED, AUDIT_SUBMIT]"
| "role_capabilities FORMALIZER =
     [PROJECT_READ, LEAN_GOAL, LEAN_MULTI_ATTEMPT, LEAN_DIAGNOSTICS, CANDIDATE_SUBMIT, ALIGNMENT_SUBMIT]"
| "role_capabilities FORMAL_PLANNER = [FORMAL_GRAPH_READ, TASK_EDGE_SUBMIT]"
| "role_capabilities PROOF_EXPLORER =
     [PROJECT_READ, LEAN_GOAL, LEAN_MULTI_ATTEMPT, LEAN_DIAGNOSTICS, DOCUMENT_APPLY, CONTRIBUTION_SUBMIT,
      KNOWLEDGE_READ]"
| "role_capabilities LEMMA_INVENTOR =
     [PROJECT_READ, LEAN_GOAL, LEAN_MULTI_ATTEMPT, LEAN_DIAGNOSTICS, DOCUMENT_APPLY, CONTRIBUTION_SUBMIT,
      KNOWLEDGE_READ]"
| "role_capabilities COUNTEREXAMPLE_AGENT =
     [PROJECT_READ, LEAN_GOAL, LEAN_MULTI_ATTEMPT, LEAN_DIAGNOSTICS, DOCUMENT_APPLY, EVIDENCE_SUBMIT,
      CONTRIBUTION_SUBMIT, KNOWLEDGE_READ]"
| "role_capabilities LEARNING_AGENT = [FORMAL_GRAPH_READ, KNOWLEDGE_READ, TRACE_READ, ANNOTATION_SUBMIT]"

definition advertised_tools :: "string \<Rightarrow> gateway_tool list" where
  "advertised_tools role = (case agent_role_of role of None \<Rightarrow> [] | Some r \<Rightarrow> role_capabilities r)"

subsection \<open>Minting\<close>

record capability_grant =
  gr_run :: string
  gr_worker :: string
  gr_role :: agent_role
  gr_lease :: "string option"
  gr_operations :: "gateway_tool list"
  gr_expires_at :: datetime

definition check_grant :: "capability_grant \<Rightarrow> unit res" where
  "check_grant g = require_all
     [ensure (gr_run g \<noteq> []) (ValueError ''run_id must be a non-empty string''),
      ensure (gr_worker g \<noteq> []) (ValueError ''worker_id must be a non-empty string''),
      ensure (gr_lease g \<noteq> Some []) (ValueError ''lease_id must be a non-empty string when present''),
      ensure (gr_operations g \<noteq> []) (ValueError ''operations must be a non-empty tuple''),
      ensure (distinct (gr_operations g)) (ValueError ''operations must be unique''),
      ensure (set (gr_operations g) \<subseteq> set (role_capabilities (gr_role g)))
        (ValueError ''operations exceed the role capability matrix''),
      ensure (is_utc (gr_expires_at g)) (ValueError ''expires_at must be a timezone-aware UTC datetime'')]"

definition mint ::
  "(jdict \<Rightarrow> bool) \<Rightarrow> (string \<Rightarrow> string) \<Rightarrow> tick \<Rightarrow> string \<Rightarrow> capability_grant \<Rightarrow> db \<Rightarrow> (string \<times> db) res" where
  "mint vr sha t raw_token g d =
     bindr (ensure (raw_token \<noteq> []) (ValueError ''token factory must return a non-empty string'')) (\<lambda>_.
     bindr (mk_capability
       \<lparr>cap_token_hash = sha raw_token, cap_run = gr_run g, cap_worker = gr_worker g,
        cap_role = role_value (gr_role g), cap_lease = gr_lease g,
        cap_operations = map tool_value (gr_operations g), cap_expires_at = gr_expires_at g,
        cap_revoked_at = None\<rparr>) (\<lambda>c.
     bindr (persist_capability vr t c d) (\<lambda>(_, d').
     Inr (raw_token, d'))))"

subsection \<open>Limits\<close>

record gateway_limits =
  request_limit :: int
  window_seconds :: rat
  run_budget :: int

definition check_limits :: "gateway_limits \<Rightarrow> unit res" where
  "check_limits l = require_all
     [ensure (0 < request_limit l) (ValueError ''request_limit must be a positive integer''),
      ensure (0 < window_seconds l) (ValueError ''window_seconds must be finite and positive''),
      ensure (0 < run_budget l) (ValueError ''run_budget must be a positive integer'')]"

text \<open>What the gateway counts. The reading of the clock at the start is a finite one.\<close>

record gateway_state =
  gw_started :: rat
  gw_count :: int
  gw_runs :: "int dict"

definition new_gateway :: "rat \<Rightarrow> gateway_state" where
  "new_gateway now = \<lparr>gw_started = now, gw_count = 0, gw_runs = []\<rparr>"

definition take_global_request ::
  "(rat \<Rightarrow> rat) \<Rightarrow> gateway_limits \<Rightarrow> rat option \<Rightarrow> gateway_state \<Rightarrow> bool \<times> gateway_state" where
  "take_global_request rnd l reading s =
     (case reading of
       None \<Rightarrow> (False, s)
     | Some now \<Rightarrow>
         let old = (now < gw_started s \<or> window_seconds l \<le> rnd (now - gw_started s));
             s1 = (if old then s\<lparr>gw_started := now, gw_count := 0\<rparr> else s)
         in if request_limit l \<le> gw_count s1 then (False, s1)
            else (True, s1\<lparr>gw_count := gw_count s1 + 1\<rparr>))"

definition run_count :: "gateway_state \<Rightarrow> string \<Rightarrow> int" where
  "run_count s run = (case map_of (gw_runs s) run of None \<Rightarrow> 0 | Some n \<Rightarrow> n)"

definition take_run_request :: "gateway_limits \<Rightarrow> string \<Rightarrow> gateway_state \<Rightarrow> bool \<times> gateway_state" where
  "take_run_request l run s =
     (if run_budget l \<le> run_count s run then (False, s)
      else (True, s\<lparr>gw_runs := AList.update run (run_count s run + 1) (gw_runs s)\<rparr>))"

subsection \<open>Denials\<close>

record capability_session =
  ss_token :: "string option"
  ss_run :: string
  ss_worker :: string
  ss_role :: string
  ss_lease :: "string option"

definition redacted :: string where
  "redacted = ''<redacted>''"

text \<open>\<open>[A-Za-z0-9_-]{32,}\<close> somewhere in the text.\<close>

definition token_character :: "char \<Rightarrow> bool" where
  "token_character c \<longleftrightarrow> is_alnum c \<or> c = CHR ''_'' \<or> c = CHR ''-''"

fun token_shaped :: "nat \<Rightarrow> string \<Rightarrow> bool" where
  "token_shaped n [] = (32 \<le> n)"
| "token_shaped n (c # s) = (32 \<le> n \<or> token_shaped (if token_character c then Suc n else 0) s)"

text \<open>\<open>[A-Za-z0-9][A-Za-z0-9_.:-]{0,127}\<close>\<close>

definition safe_identifier :: "string \<Rightarrow> string" where
  "safe_identifier s =
     (if ident_match is_alnum (\<lambda>c. token_character c \<or> c = CHR ''.'' \<or> c = CHR '':'') 127 s
         \<and> \<not> token_shaped 0 s
      then s else redacted)"

definition safe_role :: "string \<Rightarrow> string" where
  "safe_role s = (case agent_role_of s of None \<Rightarrow> redacted | Some r \<Rightarrow> role_value r)"

definition safe_operation :: "string \<Rightarrow> string" where
  "safe_operation s = (case gateway_tool_of s of None \<Rightarrow> redacted | Some g \<Rightarrow> tool_value g)"

datatype 'a gateway_result =
    GatewaySuccess 'a
  | GatewayFailure string string "string option"

definition deny ::
  "(jdict \<Rightarrow> bool) \<Rightarrow> tick \<Rightarrow> string \<Rightarrow> string \<Rightarrow> capability_session \<Rightarrow> string \<Rightarrow> string option \<Rightarrow> db
     \<Rightarrow> ('a gateway_result \<times> db) res" where
  "deny vr t reason request_id session operation persisted_run d =
     bindr (append_event vr t (command ''CapabilityDenied'' ''capability_gateway''
       (Some (safe_identifier (case persisted_run of None \<Rightarrow> ss_run session | Some r \<Rightarrow> r))) None
       [(''reason_code'', JStr reason), (''role'', JStr (safe_role (ss_role session))),
        (''worker_id'', JStr (safe_identifier (ss_worker session))),
        (''operation'', JStr (safe_operation operation)),
        (''request_id'', JStr (safe_identifier request_id))]) d) (\<lambda>(r, d').
     Inr (GatewayFailure ''CAPABILITY_DENIED'' ''operation is not allowed for this worker''
       (Some (ev_id (rec_envelope r))), d'))"

subsection \<open>Calls\<close>

text \<open>A call that passed every check; its target runs outside of the gateway.\<close>

record authorized_call =
  ac_request :: string
  ac_run :: string
  ac_worker :: string
  ac_role :: agent_role
  ac_lease :: "string option"
  ac_operation :: gateway_tool
  ac_payload :: jdict

definition binding_denial :: "capability_record \<Rightarrow> capability_session \<Rightarrow> string option" where
  "binding_denial c s =
     (if ss_run s \<noteq> cap_run c then Some ''RUN_MISMATCH''
      else if ss_worker s \<noteq> cap_worker c then Some ''WORKER_MISMATCH''
      else if ss_role s \<noteq> cap_role c then Some ''ROLE_MISMATCH''
      else if ss_lease s \<noteq> cap_lease c then Some ''LEASE_MISMATCH''
      else None)"

text \<open>Why a known capability does not allow the call, in the order of the checks.\<close>

definition record_denial ::
  "gateway_tool set \<Rightarrow> datetime \<Rightarrow> capability_record \<Rightarrow> capability_session \<Rightarrow> string
     \<Rightarrow> string + (agent_role \<times> gateway_tool)" where
  "record_denial targets now c session operation =
     (if cap_expires_at c \<le> now then Inl ''TOKEN_EXPIRED''
      else if cap_revoked_at c \<noteq> None then Inl ''TOKEN_REVOKED''
      else
        case binding_denial c session of
          Some reason \<Rightarrow> Inl reason
        | None \<Rightarrow>
            (case (agent_role_of (cap_role c), gateway_tool_of operation) of
              (Some role, Some tool) \<Rightarrow>
                if tool \<notin> set (advertised_tools (role_value role)) then Inl ''UNADVERTISED_OPERATION''
                else if tool_value tool \<notin> set (cap_operations c) then Inl ''OPERATION_NOT_MINTED''
                else if tool \<notin> targets then Inl ''TARGET_UNREGISTERED''
                else Inr (role, tool)
            | _ \<Rightarrow> Inl ''UNADVERTISED_OPERATION''))"

record call_input =
  in_request_id :: string
  in_reading :: "rat option"
  in_now :: datetime
  in_tick :: tick

definition gateway_call ::
  "(jdict \<Rightarrow> bool) \<Rightarrow> (string \<Rightarrow> string) \<Rightarrow> (rat \<Rightarrow> rat) \<Rightarrow> gateway_limits \<Rightarrow> gateway_tool set \<Rightarrow> call_input
     \<Rightarrow> capability_session \<Rightarrow> string \<Rightarrow> jdict \<Rightarrow> gateway_state \<Rightarrow> db
     \<Rightarrow> (authorized_call gateway_result \<times> db) res \<times> gateway_state" where
  "gateway_call vr sha rnd l targets i session operation payload s d =
     (let denied = (\<lambda>reason run. deny vr (in_tick i) reason (in_request_id i) session operation run d);
          (free, s1) = take_global_request rnd l (in_reading i) s
      in if \<not> free then (denied ''REQUEST_RATE_EXCEEDED'' None, s1)
      else case ss_token session of
        None \<Rightarrow> (denied ''MISSING_TOKEN'' None, s1)
      | Some token \<Rightarrow>
          if token = [] then (denied ''MISSING_TOKEN'' None, s1)
          else (case capability_record_of (sha token) d of
            Inl e \<Rightarrow> (Inl e, s1)
          | Inr None \<Rightarrow> (denied ''UNKNOWN_TOKEN'' None, s1)
          | Inr (Some c) \<Rightarrow>
              if cap_token_hash c \<noteq> sha token then (denied ''UNKNOWN_TOKEN'' None, s1)
              else
                let (funded, s2) = take_run_request l (cap_run c) s1
                in if \<not> funded then (denied ''RUN_BUDGET_EXHAUSTED'' (Some (cap_run c)), s2)
                else (case record_denial targets (in_now i) c session operation of
                  Inl reason \<Rightarrow> (denied reason (Some (cap_run c)), s2)
                | Inr (role, tool) \<Rightarrow>
                    (Inr (GatewaySuccess
                      \<lparr>ac_request = in_request_id i, ac_run = cap_run c, ac_worker = cap_worker c,
                       ac_role = role, ac_lease = cap_lease c, ac_operation = tool,
                       ac_payload = payload\<rparr>, d), s2))))"

end
