(* ===== verification/Controller_Dispatch.thy ===== *)
theory Controller_Dispatch
  imports Research_Engine Gateway
begin

text \<open>
  From a registered task to its end (\<open>orchestration/controller_backend.py\<close>,
  \<open>orchestration/controller_dispatcher.py\<close>, \<open>orchestration/worker_cursor.py\<close>): the choice of the
  next assignment, the decision of the controller's model, its limits, and the events that record what
  became of it. The model and the worker are processes outside; what they return is an argument.
  Parameters: \<open>parse\<close> is \<open>json.loads\<close> with the hook that refuses duplicate keys, \<open>None\<close> where it
  raises; \<open>schema\<close> is the validator of the decision schema; \<open>float_value\<close> the rational value of a
  finite float and \<open>rnd\<close> the rounding to the nearest float.
\<close>

subsection \<open>Contexts and decisions\<close>

record controller_context =
  cx_assignment :: string
  cx_task_version :: int
  cx_task :: string
  cx_worker :: string
  cx_role :: agent_role
  cx_project :: string
  cx_base_epoch :: string
  cx_knowledge_epoch :: int
  cx_operations :: "string list"
  cx_max_budget :: int
  cx_max_timeout :: rat
  cx_controller_version :: int

datatype controller_decision =
    DispatchDecision string string int rat
  | BlockedDecision string
  | RejectDecision string

definition max_instruction_bytes :: nat where
  "max_instruction_bytes = 65536"

definition max_worker_budget :: int where
  "max_worker_budget = 12"

definition max_worker_timeout :: rat where
  "max_worker_timeout = 60"

definition max_research_timeout :: rat where
  "max_research_timeout = 14400"

definition decision_invalid :: exn where
  "decision_invalid = ControllerBackendError ''CONTROLLER_DECISION_INVALID''"

definition decision_text :: "jdict \<Rightarrow> string \<Rightarrow> string res" where
  "decision_text d key = (case get_json d key of JStr s \<Rightarrow> Inr s | _ \<Rightarrow> Inl decision_invalid)"

definition decision_integer :: "jdict \<Rightarrow> string \<Rightarrow> int res" where
  "decision_integer d key = (case get_json d key of JInt i \<Rightarrow> Inr i | _ \<Rightarrow> Inl decision_invalid)"

text \<open>\<open>float(value)\<close> overflows from the middle between the greatest float and \<open>2 ** 1024\<close> on.\<close>

definition finite_number ::
  "(64 word \<Rightarrow> rat) \<Rightarrow> (rat \<Rightarrow> rat) \<Rightarrow> jdict \<Rightarrow> string \<Rightarrow> rat res" where
  "finite_number float_value rnd d key =
     (case get_json d key of
       JInt i \<Rightarrow> bindr (ensure (\<bar>i\<bar> < 2 ^ 1024 - 2 ^ 970) OverflowError) (\<lambda>_. Inr (rnd (of_int i)))
     | JFloat w \<Rightarrow> bindr (ensure (float_finite w) (ControllerBackendError ''CONTROLLER_TIMEOUT_INVALID''))
         (\<lambda>_. Inr (float_value w))
     | _ \<Rightarrow> Inl decision_invalid)"

definition dispatch_decision ::
  "(64 word \<Rightarrow> rat) \<Rightarrow> (rat \<Rightarrow> rat) \<Rightarrow> jdict \<Rightarrow> controller_context \<Rightarrow> controller_decision res" where
  "dispatch_decision float_value rnd d cx =
     bindr (decision_text d ''worker_id'') (\<lambda>worker.
     bindr (ensure (worker = cx_worker cx) (ControllerBackendError ''CONTROLLER_WORKER_INVALID'')) (\<lambda>_.
     bindr (decision_text d ''instruction'') (\<lambda>instruction.
     bindr (ensure (length instruction \<le> max_instruction_bytes)
       (ControllerBackendError ''CONTROLLER_INSTRUCTION_INVALID'')) (\<lambda>_.
     bindr (decision_integer d ''budget'') (\<lambda>budget.
     bindr (ensure (budget \<le> min (cx_max_budget cx) max_worker_budget)
       (ControllerBackendError ''CONTROLLER_BUDGET_INVALID'')) (\<lambda>_.
     bindr (finite_number float_value rnd d ''timeout_seconds'') (\<lambda>timeout.
     bindr (ensure (timeout \<le> min (cx_max_timeout cx) max_research_timeout)
       (ControllerBackendError ''CONTROLLER_TIMEOUT_INVALID'')) (\<lambda>_.
     Inr (DispatchDecision worker instruction budget timeout)))))))))"

definition reason_of :: "string list \<Rightarrow> jdict \<Rightarrow> string res" where
  "reason_of known d =
     bindr (decision_text d ''reason_code'') (\<lambda>r. bindr (ensure (r \<in> set known) decision_invalid) (\<lambda>_. Inr r))"

definition parse_valid_decision ::
  "(64 word \<Rightarrow> rat) \<Rightarrow> (rat \<Rightarrow> rat) \<Rightarrow> json \<Rightarrow> controller_context \<Rightarrow> controller_decision res" where
  "parse_valid_decision float_value rnd v cx =
     bindr (case v of JObj d \<Rightarrow> Inr d | _ \<Rightarrow> Inl decision_invalid) (\<lambda>d.
     bindr (decision_text d ''action'') (\<lambda>action.
     if action = ''dispatch'' then dispatch_decision float_value rnd d cx
     else if action = ''blocked'' then
       bindr (reason_of [''DEPENDENCY_UNAVAILABLE'', ''NO_SAFE_ACTION''] d) (\<lambda>r. Inr (BlockedDecision r))
     else if action = ''reject'' then
       bindr (reason_of [''TASK_UNSAFE'', ''TASK_UNSUPPORTED''] d) (\<lambda>r. Inr (RejectDecision r))
     else Inl decision_invalid))"

definition parse_controller_decision ::
  "(string \<Rightarrow> json option) \<Rightarrow> (json \<Rightarrow> bool) \<Rightarrow> (64 word \<Rightarrow> rat) \<Rightarrow> (rat \<Rightarrow> rat) \<Rightarrow> string \<Rightarrow> controller_context
     \<Rightarrow> controller_decision res" where
  "parse_controller_decision parse schema float_value rnd raw cx =
     (case parse raw of
       None \<Rightarrow> Inl decision_invalid
     | Some v \<Rightarrow> bindr (ensure (schema v) decision_invalid) (\<lambda>_. parse_valid_decision float_value rnd v cx))"

definition nullable_fields :: "string list" where
  "nullable_fields = [''worker_id'', ''instruction'', ''budget'', ''timeout_seconds'', ''reason_code'']"

definition without_nulls :: "json \<Rightarrow> json" where
  "without_nulls v =
     (case v of JObj d \<Rightarrow> JObj (filter (\<lambda>(k, x). x \<noteq> JNull \<or> k \<notin> set nullable_fields) d) | _ \<Rightarrow> v)"

definition parse_wire_decision ::
  "(string \<Rightarrow> json option) \<Rightarrow> (json \<Rightarrow> bool) \<Rightarrow> (64 word \<Rightarrow> string) \<Rightarrow> (64 word \<Rightarrow> rat) \<Rightarrow> (rat \<Rightarrow> rat) \<Rightarrow> string
     \<Rightarrow> controller_context \<Rightarrow> controller_decision res" where
  "parse_wire_decision parse schema frepr float_value rnd raw cx =
     (case parse raw of
       None \<Rightarrow> Inl decision_invalid
     | Some v \<Rightarrow> bindr (canonical_json frepr (without_nulls v)) (\<lambda>s.
         parse_controller_decision parse schema float_value rnd s cx))"

definition safe_operations :: "string list" where
  "safe_operations = [''project.read'', ''lean.goal'', ''lean.multi_attempt'', ''lean.diagnostics'',
     ''document.apply'', ''contribution.submit'', ''knowledge.read'']"

definition safe_operation_labels :: "string list \<Rightarrow> string list res" where
  "safe_operation_labels ops =
     bindr (ensure (length ops \<le> length safe_operations \<and> distinct ops \<and> set ops \<subseteq> set safe_operations)
       decision_invalid) (\<lambda>_. Inr ops)"

subsection \<open>The next assignment\<close>

record controller_run =
  cr_controller_version :: int
  cr_session :: string
  cr_project :: string
  cr_base_epoch :: string
  cr_knowledge_epoch :: int

record prepared_dispatch =
  pd_claim :: claimed_assignment
  pd_directive :: string
  pd_context :: controller_context

definition controller_worker_tools :: "agent_role \<Rightarrow> gateway_tool list" where
  "controller_worker_tools role =
     filter (\<lambda>g. g \<in> {PROJECT_READ, LEAN_GOAL, LEAN_MULTI_ATTEMPT, LEAN_DIAGNOSTICS, DOCUMENT_APPLY,
          CONTRIBUTION_SUBMIT, KNOWLEDGE_READ}
        \<and> g \<in> {LEAN_GOAL, LEAN_MULTI_ATTEMPT, LEAN_DIAGNOSTICS, DOCUMENT_APPLY, CONTRIBUTION_SUBMIT,
          KNOWLEDGE_READ}) (role_capabilities role)"

definition dispatch_context :: "controller_run \<Rightarrow> claimed_assignment \<Rightarrow> controller_context" where
  "dispatch_context run claim =
     \<lparr>cx_assignment = cl_assignment claim, cx_task_version = cl_task_version claim,
      cx_task = cl_task claim, cx_worker = cl_worker claim, cx_role = cl_role claim,
      cx_project = cr_project run, cx_base_epoch = cr_base_epoch run,
      cx_knowledge_epoch = cr_knowledge_epoch run,
      cx_operations = map tool_value (controller_worker_tools (cl_role claim)),
      cx_max_budget = max_worker_budget, cx_max_timeout = max_worker_timeout,
      cx_controller_version = cl_controller_version claim\<rparr>"

text \<open>The first worker, by name, whose assignment has no execution yet.\<close>

fun next_worker :: "string list \<Rightarrow> db \<Rightarrow> string option res" where
  "next_worker [] d = Inr None"
| "next_worker (w # ws) d =
     bindr (query_projection ''worker_assignments'' w d) (\<lambda>assignment.
     case assignment of
       None \<Rightarrow> next_worker ws d
     | Some a \<Rightarrow>
         bindr (stored_payload invalid_execution a) (\<lambda>payload.
         bindr (stored_text invalid_execution payload ''assignment_id'') (\<lambda>i.
         bindr (query_projection ''worker_executions'' i d) (\<lambda>execution.
         if execution = None then Inr (Some w) else next_worker ws d))))"

definition prepare_next ::
  "(jdict \<Rightarrow> bool) \<Rightarrow> tick \<Rightarrow> controller_run \<Rightarrow> string \<Rightarrow> string \<Rightarrow> db \<Rightarrow> (prepared_dispatch option \<times> db) res" where
  "prepare_next vr t run execution_id directive_id d =
     bindr (query_projection ''controller'' ''primary'' d) (\<lambda>configured.
     bindr (ensure (case configured of None \<Rightarrow> False | Some c \<Rightarrow> pr_version c = cr_controller_version run)
       (ControllerExecutionError ''CONTROLLER_VERSION_STALE'')) (\<lambda>_.
     bindr (store_projections (Some ''worker_roster'') d) (\<lambda>roster.
     bindr (next_worker (sort (map pr_entity roster)) d) (\<lambda>found.
     case found of
       None \<Rightarrow> Inr (None, d)
     | Some w \<Rightarrow>
         bindr (claim_assignment vr t w (cr_session run) (cr_controller_version run) execution_id d)
           (\<lambda>(claim, d').
         Inr (Some \<lparr>pd_claim = claim, pd_directive = directive_id,
                pd_context = dispatch_context run claim\<rparr>, d'))))))"

subsection \<open>The dispatch\<close>

definition valid_dispatch :: "string \<Rightarrow> string \<Rightarrow> int \<Rightarrow> rat \<Rightarrow> controller_context \<Rightarrow> bool" where
  "valid_dispatch worker instruction budget timeout cx \<longleftrightarrow>
     worker = cx_worker cx \<and> 0 < length instruction \<and> length instruction \<le> max_instruction_bytes
     \<and> 1 \<le> budget \<and> budget \<le> cx_max_budget cx \<and> 0 < timeout \<and> timeout \<le> cx_max_timeout cx"

definition candidate_name :: "(string \<Rightarrow> string) \<Rightarrow> string \<Rightarrow> string \<Rightarrow> string res" where
  "candidate_name sha run worker =
     bindr (ensure (run \<noteq> [] \<and> worker \<noteq> []) (ValueError ''INVALID_RUN_IDENTITY'')) (\<lambda>_.
     Inr ((if worker = ''prover-a'' then ''a_add_zero'' else if worker = ''prover-b'' then ''b_use_a''
           else ''candidate'') @ ''_'' @ take 16 (sha (run @ [CHR 0x00] @ worker))))"

definition statement_source :: "string \<Rightarrow> string \<Rightarrow> string list \<Rightarrow> string res" where
  "statement_source name statement imports =
     bindr (ensure (\<not> contains '':='' statement) (ResearchError ''STATEMENT_MUST_NOT_CONTAIN_A_PROOF'')) (\<lambda>_.
     Inr (concat (map (\<lambda>m. ''import '' @ m @ [CHR 0x0A]) imports) @ [CHR 0x0A] @ ''theorem '' @ name @ '' ''
       @ (if statement \<noteq> [] \<and> hd statement \<in> {CHR ''('', CHR 0x7B, CHR ''[''} then [] else '': '')
       @ statement @ '' := by'' @ [CHR 0x0A] @ ''  sorry'' @ [CHR 0x0A]))"

definition strip :: "string \<Rightarrow> string" where
  "strip s = concat (rev (dropWhile blank (rev (utf8_characters (ltrim s)))))"

text \<open>\<open>task.removeprefix("prove ").strip()\<close> of a task that starts with it.\<close>

definition formal_target :: "string \<Rightarrow> string option" where
  "formal_target task =
     (case starts_with ''prove '' task of
       None \<Rightarrow> None
     | Some rest \<Rightarrow> if strip rest = [] then None else Some (strip rest))"

text \<open>How the worker's execution ends: with its cursor, with an error, or cancelled.\<close>

datatype worker_end = Worker_Finished string | Worker_Raised | Worker_Cancelled

datatype dispatch_end = Dispatch_Done | Dispatch_Cancelled

definition recorded :: "(event_record \<times> db) res \<Rightarrow> db \<Rightarrow> dispatch_end outcome" where
  "recorded m d = and_then m d (\<lambda>_ d. (Inr Dispatch_Done, d))"

definition directive_document ::
  "(string \<Rightarrow> string) \<Rightarrow> prepared_dispatch \<Rightarrow> string \<Rightarrow> int \<Rightarrow> json \<Rightarrow> string \<Rightarrow> json" where
  "directive_document sha prepared instruction budget timeout source = JObj
     [(''budget'', JInt budget), (''directive_id'', JStr (pd_directive prepared)),
      (''initial_source_hash'', JStr (sha source)), (''instruction'', JStr instruction),
      (''operations'', JArr (map (JStr \<circ> tool_value) (controller_worker_tools (cl_role (pd_claim prepared))))),
      (''role'', JStr (role_value (cl_role (pd_claim prepared)))), (''timeout_seconds'', timeout),
      (''worker_id'', JStr (cl_worker (pd_claim prepared)))]"

text \<open>
  \<open>artifact document\<close> is the content hash under which the directive is stored and \<open>float_json\<close> the JSON
  value of a float; \<open>clock 0\<close> times the plan, \<open>clock 1\<close> its end.
\<close>

definition dispatch ::
  "research_context \<Rightarrow> (rat \<Rightarrow> rat) \<Rightarrow> (rat \<Rightarrow> json) \<Rightarrow> clock \<Rightarrow> (json \<Rightarrow> string res) \<Rightarrow> worker_end
     \<Rightarrow> prepared_dispatch \<Rightarrow> string \<Rightarrow> string \<Rightarrow> int \<Rightarrow> rat \<Rightarrow> db \<Rightarrow> dispatch_end outcome" where
  "dispatch x rnd float_json clock artifact ending prepared worker instruction budget timeout d =
     (let claim = pd_claim prepared;
          fail = (\<lambda>reason d. recorded (fail_assignment (rc_valid x) (fst (clock 1)) claim reason d) d)
      in if \<not> valid_dispatch worker instruction budget timeout (pd_context prepared)
         then fail ''CONTROLLER_DECISION_INVALID'' d
         else if controller_worker_tools (cl_role claim) = [] then fail ''WORKER_ROLE_UNSUPPORTED'' d
         else (case formal_target (cl_task claim) of
           None \<Rightarrow> fail ''FORMAL_TARGET_REQUIRED'' d
         | Some target \<Rightarrow>
             reading
               (bindr (candidate_name (rc_sha x) (''task-'' @ cl_execution claim) (cl_worker claim)) (\<lambda>name.
                bindr (statement_source name target [''Std'']) (\<lambda>source.
                bindr (ensure (pd_directive prepared \<noteq> [] \<and> cl_worker claim \<noteq> [])
                  (ValueError ''INVALID_WORKER_DIRECTIVE'')) (\<lambda>_.
                artifact (directive_document (rc_sha x) prepared instruction budget (float_json timeout) source))))) d
               (\<lambda>artifact_hash d.
             and_then (record_dispatch_planned (rc_valid x) (fst (clock 0)) claim (pd_directive prepared)
                 artifact_hash (rc_sha x instruction) budget (max 1 \<lceil>rnd (timeout * 1000)\<rceil>) d) d (\<lambda>_ d.
             case ending of
               Worker_Cancelled \<Rightarrow> (Inr Dispatch_Cancelled, d)
             | Worker_Raised \<Rightarrow> fail ''WORKER_FAILED'' d
             | Worker_Finished cursor_hash \<Rightarrow>
                 recorded (complete_assignment (rc_valid x) (fst (clock 1)) claim cursor_hash d) d))))"

text \<open>What the controller's model returns within its time limit.\<close>

datatype plan_end = Planned controller_decision | Plan_Timeout | Plan_Invalid | Plan_Cancelled

definition plan_and_execute ::
  "research_context \<Rightarrow> (rat \<Rightarrow> rat) \<Rightarrow> (rat \<Rightarrow> json) \<Rightarrow> clock \<Rightarrow> (json \<Rightarrow> string res) \<Rightarrow> plan_end
     \<Rightarrow> worker_end \<Rightarrow> prepared_dispatch \<Rightarrow> db \<Rightarrow> dispatch_end outcome" where
  "plan_and_execute x rnd float_json clock artifact plan ending prepared d =
     (let claim = pd_claim prepared;
          fail = (\<lambda>reason. recorded (fail_assignment (rc_valid x) (fst (clock 1)) claim reason d) d);
          interrupted = (\<lambda>d. and_then
            (interrupt_assignment (rc_valid x) (fst (clock 2)) claim ''OPERATOR_SIGNAL'' d) d
            (\<lambda>_ d. (Inr Dispatch_Cancelled, d)))
      in case plan of
           Plan_Cancelled \<Rightarrow> interrupted d
         | Plan_Timeout \<Rightarrow> fail ''CONTROLLER_TIMEOUT''
         | Plan_Invalid \<Rightarrow> fail ''CONTROLLER_DECISION_INVALID''
         | Planned (BlockedDecision _) \<Rightarrow> fail ''CONTROLLER_BLOCKED''
         | Planned (RejectDecision _) \<Rightarrow> fail ''CONTROLLER_REJECTED''
         | Planned (DispatchDecision worker instruction budget timeout) \<Rightarrow>
             (case dispatch x rnd float_json clock artifact ending prepared worker instruction budget timeout d of
               (Inr Dispatch_Cancelled, d') \<Rightarrow> interrupted d'
             | other \<Rightarrow> other))"

definition record_controller_stop ::
  "(jdict \<Rightarrow> bool) \<Rightarrow> tick \<Rightarrow> string \<Rightarrow> string \<Rightarrow> db \<Rightarrow> (event_record \<times> db) res" where
  "record_controller_stop vr t session reason d =
     append_event vr t (command ''ControllerStopped'' ''primary'' None None
       [(''controller_id'', JStr ''primary''), (''controller_session_id'', JStr session),
        (''reason_code'', JStr reason)]) d"

subsection \<open>Worker cursors\<close>

record worker_cursor =
  wc_directive :: string
  wc_worker :: string
  wc_execution :: string
  wc_sequence :: int
  wc_acknowledged :: "string option"
  wc_lease :: "string option"
  wc_document :: "string option"
  wc_document_version :: "int option"
  wc_epoch :: epoch_pair
  wc_remaining :: int
  wc_terminal :: bool

fun last_ack :: "string \<Rightarrow> event_record list \<Rightarrow> string option \<Rightarrow> string option" where
  "last_ack worker [] found = found"
| "last_ack worker (r # rs) found =
     last_ack worker rs
       (let e = rec_envelope r in
        if ev_type e = ''KnowledgeDeltaAcknowledged'' \<and> get_json (ev_payload e) ''worker_id'' = JStr worker
        then (case get_json (ev_payload e) ''delta_id'' of JStr i \<Rightarrow> Some i | _ \<Rightarrow> found)
        else found)"

definition invalid_cursor :: exn where
  "invalid_cursor = ValueError ''INVALID_WORKER_CURSOR''"

definition cursor_text :: "jdict \<Rightarrow> string \<Rightarrow> string res" where
  "cursor_text p key =
     (case get_json p key of JStr s \<Rightarrow> bindr (ensure (s \<noteq> []) invalid_cursor) (\<lambda>_. Inr s) | _ \<Rightarrow> Inl invalid_cursor)"

definition cursor_optional_text :: "jdict \<Rightarrow> string \<Rightarrow> string option res" where
  "cursor_optional_text p key =
     (if get_json p key = JNull then Inr None else bindr (cursor_text p key) (\<lambda>s. Inr (Some s)))"

definition cursor_integer :: "jdict \<Rightarrow> string \<Rightarrow> int res" where
  "cursor_integer p key =
     (case get_json p key of JInt i \<Rightarrow> bindr (ensure (0 \<le> i) invalid_cursor) (\<lambda>_. Inr i) | _ \<Rightarrow> Inl invalid_cursor)"

definition cursor_optional_integer :: "jdict \<Rightarrow> string \<Rightarrow> int option res" where
  "cursor_optional_integer p key =
     (if get_json p key = JNull then Inr None else bindr (cursor_integer p key) (\<lambda>i. Inr (Some i)))"

definition cursor_from_payload :: "jdict \<Rightarrow> worker_cursor res" where
  "cursor_from_payload p =
     bindr (cursor_text p ''directive_id'') (\<lambda>directive.
     bindr (cursor_text p ''worker_id'') (\<lambda>worker.
     bindr (cursor_text p ''execution_id'') (\<lambda>execution.
     bindr (cursor_text p ''base_epoch'') (\<lambda>base.
     bindr (cursor_optional_integer p ''document_version'') (\<lambda>version.
     bindr (case get_json p ''terminal'' of JBool b \<Rightarrow> Inr b | _ \<Rightarrow> Inl invalid_cursor) (\<lambda>terminal.
     bindr (cursor_integer p ''last_event_sequence'') (\<lambda>sequence.
     bindr (cursor_optional_text p ''last_acknowledged_delta'') (\<lambda>acknowledged.
     bindr (cursor_optional_text p ''lease_id'') (\<lambda>lease.
     bindr (cursor_optional_text p ''document_id'') (\<lambda>document.
     bindr (cursor_integer p ''knowledge_epoch'') (\<lambda>knowledge.
     bindr (new_epoch_pair base knowledge) (\<lambda>epoch.
     bindr (cursor_integer p ''remaining_budget'') (\<lambda>remaining.
     Inr \<lparr>wc_directive = directive, wc_worker = worker, wc_execution = execution, wc_sequence = sequence,
          wc_acknowledged = acknowledged, wc_lease = lease, wc_document = document,
          wc_document_version = version, wc_epoch = epoch, wc_remaining = remaining,
          wc_terminal = terminal\<rparr>)))))))))))))"

end
