(* ===== verification/Gateway_Properties.thy ===== *)
theory Gateway_Properties
  imports Gateway Sample_Capability Store_Runs
begin

text \<open>
  What the gateway promises: a call reaches a target only under a live capability that was minted for
  it, a call without one leaves its denial in the log, an ended lease takes its capabilities with it,
  and a run never has more calls authorized than its budget, whatever the order of the calls.
\<close>

subsection \<open>One call\<close>

lemma record_denial_Inr:
  "record_denial targets now r session operation = Inr (role, tool) \<longleftrightarrow>
     \<not> cap_expires_at r \<le> now \<and> cap_revoked_at r = None
     \<and> ss_run session = cap_run r \<and> ss_worker session = cap_worker r \<and> ss_role session = cap_role r
     \<and> ss_lease session = cap_lease r
     \<and> agent_role_of (cap_role r) = Some role \<and> gateway_tool_of operation = Some tool
     \<and> tool \<in> set (role_capabilities role) \<and> tool_value tool \<in> set (cap_operations r) \<and> tool \<in> targets"
proof -
  have "advertised_tools (role_value x) = role_capabilities x" for x
    by (simp add: advertised_tools_def)
  then show ?thesis
    by (auto simp: record_denial_def binding_denial_def split: option.splits)
qed

lemma find_tool: "map_option fst (List.find (\<lambda>(g, v). v = s) ts) = Some g \<Longrightarrow> (g, s) \<in> set ts"
  by (induction ts) (auto split: if_splits)

lemma gateway_tool_value: "gateway_tool_of s = Some g \<Longrightarrow> tool_value g = s"
proof -
  assume "gateway_tool_of s = Some g"
  then have "(g, s) \<in> set gateway_tools"
    unfolding gateway_tool_of_def by (metis find_tool)
  moreover have "distinct (map fst gateway_tools)" by code_simp
  ultimately show ?thesis by (simp add: tool_value_def)
qed

lemma deny_fails: "deny vr t reason i session operation run d \<noteq> Inr (GatewaySuccess c, d')"
  by (auto simp: deny_def inr_simps)

lemma gateway_call_Inr:
  "gateway_call vr sha rnd l targets i session operation payload s d = (Inr (GatewaySuccess c, d'), s') \<longleftrightarrow>
    d' = d \<and> (\<exists>token r s1 role tool.
      take_global_request rnd l (in_reading i) s = (True, s1)
      \<and> ss_token session = Some token \<and> token \<noteq> []
      \<and> capability_record_of (sha token) d = Inr (Some r) \<and> cap_token_hash r = sha token
      \<and> take_run_request l (cap_run r) s1 = (True, s')
      \<and> record_denial targets (in_now i) r session operation = Inr (role, tool)
      \<and> c = \<lparr>ac_request = in_request_id i, ac_run = cap_run r, ac_worker = cap_worker r,
              ac_role = role, ac_lease = cap_lease r, ac_operation = tool, ac_payload = payload\<rparr>)"
  unfolding gateway_call_def Let_def
  by (auto simp: deny_fails split: prod.splits option.splits sum.splits if_splits)

text \<open>
  C4. A call is authorized only when its token is the token of a stored capability that has neither
  expired nor been revoked, the session names the run, the worker, the role and the lease the
  capability was minted for, and the operation is one the role may use, one the capability was minted
  for and one with a target. The database is left as it was, and the target is given the names of the
  capability.
\<close>

theorem gateway_calls_are_authorized:
  assumes "gateway_call vr sha rnd l targets i session operation payload s d
      = (Inr (GatewaySuccess c, d'), s')"
  shows "d' = d \<and> (\<exists>token r role.
      ss_token session = Some token \<and> token \<noteq> [] \<and> capability_record_of (sha token) d = Inr (Some r)
      \<and> \<not> cap_expires_at r \<le> in_now i \<and> cap_revoked_at r = None
      \<and> ss_run session = cap_run r \<and> ss_worker session = cap_worker r \<and> ss_role session = cap_role r
      \<and> ss_lease session = cap_lease r \<and> agent_role_of (cap_role r) = Some role
      \<and> ac_operation c \<in> set (role_capabilities role) \<and> ac_operation c \<in> targets
      \<and> tool_value (ac_operation c) = operation \<and> operation \<in> set (cap_operations r)
      \<and> ac_run c = cap_run r \<and> ac_worker c = cap_worker r \<and> ac_role c = role
      \<and> ac_lease c = cap_lease r \<and> ac_payload c = payload)"
proof -
  from assms obtain token r s1 role tool where "d' = d" "ss_token session = Some token" "token \<noteq> []"
    "capability_record_of (sha token) d = Inr (Some r)"
    and r: "record_denial targets (in_now i) r session operation = Inr (role, tool)"
    and c: "c = \<lparr>ac_request = in_request_id i, ac_run = cap_run r, ac_worker = cap_worker r,
      ac_role = role, ac_lease = cap_lease r, ac_operation = tool, ac_payload = payload\<rparr>"
    unfolding gateway_call_Inr by blast
  moreover from r have "tool_value tool = operation"
    unfolding record_denial_Inr using gateway_tool_value by blast
  ultimately show ?thesis
    using r unfolding record_denial_Inr
    by (intro conjI exI [of _ token] exI [of _ r] exI [of _ role]) simp_all
qed

lemma capability_record_of_row:
  assumes "capability_record_of h d = Inr (Some c)"
  obtains row where "List.find (\<lambda>r. cr_token_hash r = h) (db_capabilities d) = Some row" "cap_run c = cr_run row"
    "cap_lease c = cr_lease row" "cap_revoked_at c = None \<longleftrightarrow> cr_revoked_at row = None"
proof -
  from assms obtain row where row: "List.find (\<lambda>r. cr_token_hash r = h) (db_capabilities d) = Some row"
    and c: "capability_from_row row = Inr c"
    by (auto simp: capability_record_of_def inr_simps split: option.splits)
  from c obtain ops t revoked where
    v: "(case cr_revoked_at row of None \<Rightarrow> Inr None
      | Some s \<Rightarrow> bindr (parse_capability_time s ''revoked_at'') (\<lambda>t. Inr (Some t))) = Inr revoked"
    and m: "mk_capability \<lparr>cap_token_hash = cr_token_hash row, cap_run = cr_run row,
      cap_worker = cr_worker row, cap_role = cr_role row, cap_lease = cr_lease row, cap_operations = ops,
      cap_expires_at = t, cap_revoked_at = revoked\<rparr> = Inr c"
    unfolding capability_from_row_def bindr_eq_Inr by blast
  have r: "revoked = None \<longleftrightarrow> cr_revoked_at row = None"
    using v by (cases "cr_revoked_at row") (auto simp: bindr_eq_Inr)
  from m have c: "cap_run c = cr_run row" "cap_lease c = cr_lease row" "cap_revoked_at c = revoked"
    by (auto simp: mk_capability_def bindr_eq_Inr)
  show ?thesis by (rule that [OF row c(1,2)]) (simp add: c(3) r)
qed

text \<open>The rows an operation leaves when its event ends a lease.\<close>

lemma lease_end_rows:
  assumes "run_store_op vr a d = Inr d1" "a \<in> {Append e, Mutate_Documents (TerminateLease run worker lease e)}"
    and "ev_type e \<in> {''LeaseReleased'', ''LeaseRecovered''}"
  obtains r l where "ev_run e = Some r" "get_str (ev_payload e) ''lease_id'' = Some l"
    "\<forall>row \<in> set (db_capabilities d1). cr_revoked_at row = None \<longrightarrow> \<not> (cr_run row = r \<and> cr_lease row = Some l)"
proof -
  have "\<exists>d0. revoke_lease_capabilities e d0 = Inr d1"
    using assms(2)
  proof (elim insertE emptyE)
    assume "a = Append e"
    then obtain x where "store_append apply_event e d = Inr (x, d1)" using assms(1) by auto
    then show ?thesis unfolding store_append_Inr by blast
  next
    assume "a = Mutate_Documents (TerminateLease run worker lease e)"
    then show ?thesis using assms(1) terminate_revokes by (auto simp del: mutate_documents.simps)
  qed
  then obtain d0 where "revoke_lease_capabilities e d0 = Inr d1" ..
  then obtain r l where e: "ev_run e = Some r" "get_str (ev_payload e) ''lease_id'' = Some l"
    and rows: "db_capabilities d1
      = revoke_rows (\<lambda>c. cr_run c = r \<and> cr_lease c = Some l) (utc_text (ev_time e)) (db_capabilities d0)"
    unfolding revoke_lease_capabilities_Inr [OF assms(3)] by auto
  show ?thesis using revoke_rows_unrevoked [of _ "\<lambda>c. cr_run c = r \<and> cr_lease c = Some l"]
    by (intro that [OF e]) (simp only: rows, blast)
qed

text \<open>
  C20. A token whose capability was in the store when its lease was ended, by the event that releases
  or recovers the lease, is never good for that lease again: no call with it is authorized under the
  lease in its run, whatever is appended, minted, revoked, leased, promoted or published in between,
  whoever asks, and whatever the state of the limits. Capabilities minted for the lease afterwards are
  another matter: minting does not ask whether the lease is active.
\<close>

theorem ended_lease_stops_calls:
  assumes ended: "run_store_op vr a d = Inr d1"
      "a \<in> {Append e, Mutate_Documents (TerminateLease run worker lease e)}"
      "ev_type e \<in> {''LeaseReleased'', ''LeaseRecovered''}"
    and token: "sha token \<in> cr_token_hash ` set (db_capabilities d)" "ss_token session = Some token"
    and call: "gateway_call vr sha rnd l targets i session operation payload s (fold (store_op_step vr) ops d1)
      = (Inr (GatewaySuccess c, d2), s')"
  shows "ev_run e \<noteq> Some (ac_run c) \<or> ac_lease c = None \<or> get_str (ev_payload e) ''lease_id'' \<noteq> ac_lease c"
proof -
  let ?row = "\<lambda>d. List.find (\<lambda>r. cr_token_hash r = sha token) (db_capabilities d)"
  obtain run' lease' where e: "ev_run e = Some run'" "get_str (ev_payload e) ''lease_id'' = Some lease'"
    and gone: "\<forall>row \<in> set (db_capabilities d1). cr_revoked_at row = None
      \<longrightarrow> \<not> (cr_run row = run' \<and> cr_lease row = Some lease')"
    using ended by (rule lease_end_rows)
  have "?row d \<noteq> None" using token(1) by (auto simp: find_None_iff)
  then obtain row1 where row1: "?row d1 = Some row1"
    using find_later [OF run_store_op_later [OF ended(1)]] by blast
  obtain row2 where row2: "?row (fold (store_op_step vr) ops d1) = Some row2"
    "row2 = row1 \<or> cr_revoked_at row1 = None \<and> (\<exists>t. row2 = row1\<lparr>cr_revoked_at := Some t\<rparr>)"
    using find_later [OF store_ops_later row1] by blast
  from call token(2) obtain k where
    k: "capability_record_of (sha token) (fold (store_op_step vr) ops d1) = Inr (Some k)" "cap_revoked_at k = None"
    and c: "ac_run c = cap_run k" "ac_lease c = cap_lease k"
    unfolding gateway_call_Inr record_denial_Inr by (auto simp del: not_le)
  from k(1) have "cap_run k = cr_run row2" "cap_lease k = cr_lease row2" "cr_revoked_at row2 = None"
    by (rule capability_record_of_row; use row2(1) k(2) in simp)+
  moreover from this row2(2) have "row2 = row1" by auto
  moreover have "row1 \<in> set (db_capabilities d1)" using row1 by (auto simp: find_Some_iff)
  ultimately show ?thesis using e c gone by auto
qed

subsection \<open>Many calls\<close>

text \<open>A call with what the environment gives it and the database it finds.\<close>

record attempted_call =
  at_input :: call_input
  at_session :: capability_session
  at_operation :: string
  at_payload :: jdict
  at_db :: db

definition attempt_call ::
  "(jdict \<Rightarrow> bool) \<Rightarrow> (string \<Rightarrow> string) \<Rightarrow> (rat \<Rightarrow> rat) \<Rightarrow> gateway_limits \<Rightarrow> gateway_tool set
     \<Rightarrow> attempted_call \<Rightarrow> gateway_state \<Rightarrow> (authorized_call gateway_result \<times> db) res \<times> gateway_state" where
  "attempt_call vr sha rnd l targets a s = gateway_call vr sha rnd l targets (at_input a) (at_session a)
     (at_operation a) (at_payload a) s (at_db a)"

fun authorized_calls ::
  "(jdict \<Rightarrow> bool) \<Rightarrow> (string \<Rightarrow> string) \<Rightarrow> (rat \<Rightarrow> rat) \<Rightarrow> gateway_limits \<Rightarrow> gateway_tool set
     \<Rightarrow> attempted_call list \<Rightarrow> gateway_state \<Rightarrow> authorized_call list" where
  "authorized_calls vr sha rnd l targets [] s = []"
| "authorized_calls vr sha rnd l targets (a # calls) s =
     (case attempt_call vr sha rnd l targets a s of (m, s') \<Rightarrow>
       (case m of Inr (GatewaySuccess c, _) \<Rightarrow> [c] | _ \<Rightarrow> []) @ authorized_calls vr sha rnd l targets calls s')"

lemma take_global_runs: "take_global_request rnd l reading s = (b, s') \<Longrightarrow> gw_runs s' = gw_runs s"
  by (auto simp: take_global_request_def Let_def split: option.splits if_splits)

lemma take_run_counts:
  "take_run_request l run s = (b, s') \<Longrightarrow> run_count s other \<le> run_count s' other
     \<and> (b \<longrightarrow> run_count s' run = run_count s run + 1 \<and> run_count s run < run_budget l)"
  by (auto simp: take_run_request_def run_count_def update_conv split: if_splits)

lemma gateway_call_counts:
  assumes "gateway_call vr sha rnd l targets i session operation payload s d = (m, s')"
  shows "run_count s run \<le> run_count s' run"
proof -
  have same: "run_count s1 run = run_count s run" if "take_global_request rnd l (in_reading i) s = (b, s1)" for b s1
    using take_global_runs [OF that] by (simp add: run_count_def)
  then show ?thesis
    using assms unfolding gateway_call_def Let_def
    by (auto dest!: same dest: take_run_counts [where other = run] split: prod.splits option.splits sum.splits if_splits)
qed

lemma gateway_call_spends:
  assumes "gateway_call vr sha rnd l targets i session operation payload s d = (Inr (GatewaySuccess c, d'), s')"
  shows "run_count s' (ac_run c) = run_count s (ac_run c) + 1 \<and> run_count s (ac_run c) < run_budget l"
proof -
  from assms obtain s1 where s1: "take_global_request rnd l (in_reading i) s = (True, s1)"
    "take_run_request l (ac_run c) s1 = (True, s')"
    by (auto simp: gateway_call_Inr)
  then show ?thesis
    using take_run_counts [OF s1(2)] take_global_runs [OF s1(1)] by (simp add: run_count_def)
qed

lemma authorized_calls_bound:
  "int (length (filter (\<lambda>c. ac_run c = run) (authorized_calls vr sha rnd l targets calls s)))
     \<le> max 0 (run_budget l - run_count s run)"
proof (induction calls arbitrary: s)
  case (Cons a calls)
  obtain m s' where m: "attempt_call vr sha rnd l targets a s = (m, s')" by fastforce
  note m' = m [unfolded attempt_call_def]
  have up: "run_count s run \<le> run_count s' run" by (rule gateway_call_counts [OF m'])
  show ?case
  proof (cases "\<exists>c d'. m = Inr (GatewaySuccess c, d') \<and> ac_run c = run")
    case True
    then obtain c d' where "m = Inr (GatewaySuccess c, d')" "ac_run c = run" by blast
    then show ?thesis using m gateway_call_spends m' Cons.IH [of s'] by fastforce
  next
    case False
    then have "filter (\<lambda>c. ac_run c = run) (case m of Inr (GatewaySuccess c, _) \<Rightarrow> [c] | _ \<Rightarrow> []) = []"
      by (auto split: sum.splits gateway_result.splits)
    then show ?thesis using m up Cons.IH [of s'] by auto
  qed
qed simp

text \<open>
  C8. However many calls are made, in whatever order, with whatever tokens, clocks and databases,
  the gateway authorizes at most \<open>run_budget\<close> of them for any one run from its start on.
\<close>

theorem run_budget_bounds_calls:
  assumes "check_limits l = Inr ()"
  shows "int (length (filter (\<lambda>c. ac_run c = run)
      (authorized_calls vr sha rnd l targets calls (new_gateway now)))) \<le> run_budget l"
  using authorized_calls_bound [of run vr sha rnd l targets calls "new_gateway now"] assms
  by (auto simp: new_gateway_def run_count_def check_limits_def inr_simps)

subsection \<open>A sample\<close>

text \<open>The worker of the sample lease is given a token, and uses it.\<close>

definition token_sha :: "string \<Rightarrow> string" where
  "token_sha s = sample_hash (if s = ''token'' then CHR ''e'' else CHR ''d'')"

definition sample_grant :: capability_grant where
  "sample_grant =
     \<lparr>gr_run = ''r'', gr_worker = ''w'', gr_role = PROOF_EXPLORER, gr_lease = Some ''l'',
      gr_operations = [LEAN_GOAL, DOCUMENT_APPLY], gr_expires_at = sample_time 30\<rparr>"

definition sample_grant_payload :: jdict where
  "sample_grant_payload = [(''role'', JStr ''proof_explorer''), (''worker_id'', JStr ''w'')]"

definition gateway_db :: db where
  "gateway_db = leased_db
     \<lparr>db_events := db_events leased_db
        @ [sample_row 3 (CHR ''4'') ''CapabilityMinted'' ''capability_issuer'' (Some ''r'') None
             [(''expires_at'', JStr ''2025-01-02T03:30:00Z''), (''lease_id'', JStr ''l''),
              (''operations'', JArr [JStr ''lean.goal'', JStr ''document.apply'']),
              (''role'', JStr ''proof_explorer''), (''worker_id'', JStr ''w'')]],
      db_projections := db_projections leased_db
        @ [sample_record ''resources'' ''r'' 1 (CHR ''4'') ''CapabilityMinted'' (Some ''r'')
             [(''expires_at'', JStr ''2025-01-02T03:30:00Z''), (''lease_id'', JStr ''l''),
              (''operations'', JArr [JStr ''lean.goal'', JStr ''document.apply'']),
              (''role'', JStr ''proof_explorer''), (''worker_id'', JStr ''w'')]],
      db_capabilities :=
        [\<lparr>cr_token_hash = sample_hash (CHR ''e''), cr_run = ''r'', cr_worker = ''w'',
          cr_role = ''proof_explorer'', cr_lease = Some ''l'',
          cr_operations = JArr [JStr ''lean.goal'', JStr ''document.apply''],
          cr_expires_at = ''2025-01-02T03:30:00Z'', cr_revoked_at = None\<rparr>]\<rparr>"

definition sample_session :: capability_session where
  "sample_session =
     \<lparr>ss_token = Some ''token'', ss_run = ''r'', ss_worker = ''w'', ss_role = ''proof_explorer'',
      ss_lease = Some ''l''\<rparr>"

definition sample_input :: call_input where
  "sample_input =
     \<lparr>in_request_id = ''q'', in_reading = Some 1, in_now = sample_time 5, in_tick = sample_tick (CHR ''5'')\<rparr>"

definition sample_limits :: gateway_limits where
  "sample_limits = \<lparr>request_limit = 10, window_seconds = 1, run_budget = 1\<rparr>"

definition sample_call :: "db \<Rightarrow> (authorized_call gateway_result \<times> db) res \<times> gateway_state" where
  "sample_call = gateway_call (\<lambda>_. False) token_sha id sample_limits {DOCUMENT_APPLY} sample_input
     sample_session ''document.apply'' [] (new_gateway 0)"

definition sample_authorized :: authorized_call where
  "sample_authorized =
     \<lparr>ac_request = ''q'', ac_run = ''r'', ac_worker = ''w'', ac_role = PROOF_EXPLORER, ac_lease = Some ''l'',
      ac_operation = DOCUMENT_APPLY, ac_payload = []\<rparr>"

lemma sample_authorized_run:
  "sample_call gateway_db =
    (Inr (GatewaySuccess sample_authorized, gateway_db), \<lparr>gw_started = 1, gw_count = 1, gw_runs = [(''r'', 1)]\<rparr>)"
  by code_simp

lemma sample_mint_run:
  "leads_to (mint (\<lambda>_. False) token_sha (sample_tick (CHR ''4'')) ''token'' sample_grant leased_db) gateway_db"
  by code_simp

theorem gateway_calls_are_authorized_witness:
  "\<exists>r. capability_record_of (token_sha ''token'') gateway_db = Inr (Some r) \<and> cap_run r = ''r''
    \<and> cap_revoked_at r = None \<and> ''document.apply'' \<in> set (cap_operations r)"
  using gateway_calls_are_authorized [OF sample_authorized_run [unfolded sample_call_def]]
  by (auto simp: sample_authorized_def sample_session_def)

text \<open>A second token, which no lease is bound to, is still good after the lease was released.\<close>

definition two_tokens_db :: db where
  "two_tokens_db = gateway_db
     \<lparr>db_capabilities := db_capabilities gateway_db @
        [\<lparr>cr_token_hash = sample_hash (CHR ''d''), cr_run = ''r'', cr_worker = ''w'',
          cr_role = ''proof_explorer'', cr_lease = None, cr_operations = JArr [JStr ''document.apply''],
          cr_expires_at = ''2025-01-02T03:30:00Z'', cr_revoked_at = None\<rparr>]\<rparr>"

definition released_db :: db where
  "released_db = db_after (store_append apply_event sample_release two_tokens_db)"

text \<open>Then a new token is minted for the lease that has ended.\<close>

definition later_ops :: "store_op list" where
  "later_ops =
     [Persist (sample_capability\<lparr>cap_token_hash := sample_hash (CHR ''a'')\<rparr>)
        (sample_minting\<lparr>ev_id := fst (sample_tick (CHR ''6''))\<rparr>)]"

definition later_db :: db where
  "later_db = fold (store_op_step (\<lambda>_. False)) later_ops released_db"

definition second_call :: "(authorized_call gateway_result \<times> db) res \<times> gateway_state" where
  "second_call = gateway_call (\<lambda>_. False) token_sha id sample_limits {DOCUMENT_APPLY} sample_input
     (sample_session\<lparr>ss_token := Some ''other'', ss_lease := None\<rparr>) ''document.apply'' [] (new_gateway 0)
     later_db"

definition success_of :: "('a gateway_result \<times> db) res \<times> gateway_state \<Rightarrow> 'a option" where
  "success_of m = (case m of (Inr (GatewaySuccess c, _), _) \<Rightarrow> Some c | _ \<Rightarrow> None)"

lemma success_of_Some: "success_of m = Some c \<Longrightarrow> \<exists>d s. m = (Inr (GatewaySuccess c, d), s)"
  by (auto simp: success_of_def split: prod.splits sum.splits gateway_result.splits)

lemma sample_second_call:
  "succeeds (store_append apply_event sample_release two_tokens_db)
    \<and> success_of second_call = Some (sample_authorized\<lparr>ac_lease := None\<rparr>)
    \<and> success_of (sample_call later_db) = None \<and> length (db_capabilities later_db) = 3"
  by code_simp

theorem ended_lease_stops_calls_witness:
  "ac_lease (sample_authorized\<lparr>ac_lease := None\<rparr>) = None
    \<and> success_of second_call = Some (sample_authorized\<lparr>ac_lease := None\<rparr>)
    \<and> success_of (sample_call later_db) = None"
proof -
  obtain r where r: "store_append apply_event sample_release two_tokens_db = Inr (r, released_db)"
    using succeeds_db_after [OF conjunct1 [OF sample_second_call]] unfolding released_db_def by (elim exE)
  then have ending: "run_store_op (\<lambda>_. False) (Append sample_release) two_tokens_db = Inr released_db" by simp
  obtain d s where call: "second_call = (Inr (GatewaySuccess (sample_authorized\<lparr>ac_lease := None\<rparr>), d), s)"
    using success_of_Some [OF conjunct1 [OF conjunct2 [OF sample_second_call]]] by (elim exE)
  have type: "ev_type sample_release \<in> {''LeaseReleased'', ''LeaseRecovered''}" by (simp add: sample_release_def)
  have "token_sha ''other'' \<in> cr_token_hash ` set (db_capabilities two_tokens_db)"
    by (simp add: two_tokens_db_def token_sha_def)
  from ended_lease_stops_calls [OF ending _ type this _ call [unfolded second_call_def later_db_def]] sample_second_call
  show ?thesis by (simp add: sample_release_def)
qed

definition sample_calls :: "attempted_call list" where
  "sample_calls = replicate 3
     \<lparr>at_input = sample_input, at_session = sample_session, at_operation = ''document.apply'', at_payload = [],
      at_db = gateway_db\<rparr>"

lemma sample_calls_run:
  "authorized_calls (\<lambda>_. False) token_sha id sample_limits {DOCUMENT_APPLY} (take 1 sample_calls) (new_gateway 0)
    = [sample_authorized] \<and> check_limits sample_limits = Inr ()"
  by code_simp

theorem run_budget_bounds_calls_witness:
  "length (filter (\<lambda>c. ac_run c = ''r'') (authorized_calls (\<lambda>_. False) token_sha id sample_limits
     {DOCUMENT_APPLY} sample_calls (new_gateway 0))) \<le> 1"
  using run_budget_bounds_calls [OF conjunct2 [OF sample_calls_run], where run = "''r''"
      and calls = sample_calls and now = 0]
  by (simp add: sample_limits_def)

end
