(* ===== verification/Rpc_Operations.thy ===== *)
theory Rpc_Operations
  imports Research_Records
begin

text \<open>
  The operations a client of the state service can request (\<open>state/operations.py\<close>,
  \<open>state/research_operations.py\<close>, \<open>StateService._dispatch\<close>): what a request may hold, which
  operation it selects, which errors become responses. An error that nothing catches is the value
  \<open>Inl\<close>. Every operation asks the environment for at most one identifier and time.
\<close>

subsection \<open>Requests and responses\<close>

record rpc_request =
  rq_operation :: string
  rq_params :: jdict
  rq_session :: "string option"

datatype rpc_response =
    RpcSuccess json
  | RpcFailure string string "string option"

abbreviation rpc_failure :: "string \<Rightarrow> string \<Rightarrow> rpc_response" where
  "rpc_failure c m \<equiv> RpcFailure c m None"

definition invalid_params :: exn where
  "invalid_params = RpcProtocolError ''INVALID_PARAMS''"

definition param_text :: "jdict \<Rightarrow> string \<Rightarrow> string res" where
  "param_text params key =
     (case get_json params key of
       JStr s \<Rightarrow> bindr (ensure (s \<noteq> []) invalid_params) (\<lambda>_. Inr s)
     | _ \<Rightarrow> Inl invalid_params)"

definition param_optional_text :: "jdict \<Rightarrow> string \<Rightarrow> string option res" where
  "param_optional_text params key =
     (case get_json params key of
       JNull \<Rightarrow> Inr None
     | JStr s \<Rightarrow> bindr (ensure (s \<noteq> []) invalid_params) (\<lambda>_. Inr (Some s))
     | _ \<Rightarrow> Inl invalid_params)"

definition param_keys :: "jdict \<Rightarrow> string list \<Rightarrow> string list \<Rightarrow> unit res" where
  "param_keys params needed extra =
     ensure (set needed \<subseteq> keys params \<and> keys params \<subseteq> set (needed @ extra)) invalid_params"

definition append_command_of :: "jdict \<Rightarrow> append_command res" where
  "append_command_of params =
     bindr (param_keys params [''event_type'', ''actor'', ''run_id'', ''causation_id'', ''payload''] []) (\<lambda>_.
     bindr (case get_json params ''payload'' of JObj p \<Rightarrow> Inr p | _ \<Rightarrow> Inl invalid_params) (\<lambda>payload.
     bindr (param_text params ''event_type'') (\<lambda>event_type.
     bindr (param_text params ''actor'') (\<lambda>actor.
     bindr (param_optional_text params ''run_id'') (\<lambda>run.
     bindr (param_optional_text params ''causation_id'') (\<lambda>cause.
     Inr (command event_type actor run cause payload)))))))"

subsection \<open>Queries\<close>

definition record_document :: "projection \<Rightarrow> json" where
  "record_document r = JObj
     [(''entity_id'', JStr (pr_entity r)), (''projection_name'', JStr (pr_name r)),
      (''state'', pr_state r), (''version'', JInt (pr_version r))]"

definition projection_result :: "projection option \<Rightarrow> json" where
  "projection_result r = (case r of None \<Rightarrow> JNull | Some r \<Rightarrow> record_document r)"

definition event_document :: "event_record \<Rightarrow> json" where
  "event_document r =
     JObj ((''sequence'', JInt (int (rec_sequence r))) # event_as_dict (rec_envelope r))"

definition health_request :: "jdict \<Rightarrow> rpc_response res" where
  "health_request params =
     bindr (param_keys params [] []) (\<lambda>_.
     Inr (RpcSuccess (JObj [(''event_schema_version'', JInt 1), (''ready'', JBool True)])))"

definition projection_request :: "jdict \<Rightarrow> db \<Rightarrow> rpc_response res" where
  "projection_request params d =
     bindr (param_keys params [''projection_name'', ''entity_id''] []) (\<lambda>_.
     bindr (param_text params ''projection_name'') (\<lambda>name.
     bindr (param_text params ''entity_id'') (\<lambda>entity.
     bindr (query_projection name entity d) (\<lambda>r.
     Inr (RpcSuccess (projection_result r))))))"

definition events_request :: "(jdict \<Rightarrow> bool) \<Rightarrow> jdict \<Rightarrow> db \<Rightarrow> rpc_response res" where
  "events_request vr params d =
     bindr (param_keys params [] [''run_id'']) (\<lambda>_.
     bindr (param_optional_text params ''run_id'') (\<lambda>run.
     bindr (query_events vr run d) (\<lambda>records.
     Inr (RpcSuccess (JArr (map event_document records))))))"

definition projections_request :: "jdict \<Rightarrow> db \<Rightarrow> rpc_response res" where
  "projections_request params d =
     bindr (param_keys params [] [''projection_name'']) (\<lambda>_.
     bindr (param_optional_text params ''projection_name'') (\<lambda>name.
     bindr (store_projections name d) (\<lambda>records.
     Inr (RpcSuccess (JArr (map record_document records))))))"

text \<open>The text of a stored value that holds no infinite float, which the store never does.\<close>

definition state_text :: "research_context \<Rightarrow> json \<Rightarrow> string" where
  "state_text x v = canonical_text (rc_frepr x) v"

definition digest_request :: "research_context \<Rightarrow> jdict \<Rightarrow> db \<Rightarrow> rpc_response res" where
  "digest_request x params d =
     bindr (param_keys params [] []) (\<lambda>_.
     Inr (RpcSuccess (JObj [(''logical_digest'', JStr (logical_digest (rc_sha x) (state_text x) d))])))"

definition replay_request :: "research_context \<Rightarrow> jdict \<Rightarrow> db \<Rightarrow> rpc_response res" where
  "replay_request x params d =
     bindr (param_keys params [] []) (\<lambda>_.
     bindr (replay_verify (rc_valid x) (rc_sha x) (state_text x) apply_event d) (\<lambda>v.
     Inr (RpcSuccess (JObj [(''logical_digest'', JStr (rv_logical_digest v)),
       (''matched'', JBool (rv_matched v))]))))"

subsection \<open>Changes\<close>

text \<open>Only a session that has shown the session of the service appends events directly.\<close>

definition append_request ::
  "research_context \<Rightarrow> tick \<Rightarrow> bool \<Rightarrow> jdict \<Rightarrow> db \<Rightarrow> rpc_response outcome" where
  "append_request x t trusted params d =
     (if \<not> trusted
      then (Inr (rpc_failure ''NOT_AUTHORIZED'' ''trusted service session is required''), d)
      else
        and_then (bindr (append_command_of params) (\<lambda>c. append_event (rc_valid x) t c d)) d
          (\<lambda>r d'. (Inr (RpcSuccess (JObj [(''event_id'', JStr (ev_id (rec_envelope r))),
             (''sequence'', JInt (int (rec_sequence r)))])), d')))"

definition control_messages :: "string dict" where
  "control_messages =
     [(''CONTROLLER_NOT_CONFIGURED'', ''controller is not configured''),
      (''CONTROLLER_PROVIDER_INVALID'', ''controller provider is invalid''),
      (''CONTROLLER_PROVIDER_UNSUPPORTED'', ''controller provider is unsupported''),
      (''CONTROLLER_MODEL_INVALID'', ''controller model is invalid''),
      (''WORKER_ALREADY_REGISTERED'', ''worker is already registered''),
      (''WORKER_NOT_REGISTERED'', ''worker is not registered''),
      (''WORKER_ROLE_INVALID'', ''worker role is invalid''),
      (''WORKER_ID_INVALID'', ''worker id is invalid''),
      (''WORKER_TASK_INVALID'', ''worker task is invalid''),
      (''CONTROL_STATE_INVALID'', ''control state is invalid'')]"

definition version_response :: "int \<Rightarrow> rpc_response" where
  "version_response v = RpcSuccess (JObj [(''version'', JInt v)])"

definition control_change ::
  "research_context \<Rightarrow> tick \<Rightarrow> string \<Rightarrow> jdict \<Rightarrow> db \<Rightarrow> int outcome" where
  "control_change x t operation params d =
     (if operation = ''control.configure_controller'' then
        then_save
          (bindr (param_keys params [''provider''] [''model'']) (\<lambda>_.
           bindr (param_text params ''provider'') (\<lambda>provider.
           bindr (param_optional_text params ''model'') (\<lambda>model. Inr (provider, model))))) d
          (\<lambda>(provider, model). configure_controller (rc_valid x) t provider model d)
      else if operation = ''control.register_worker'' then
        then_save
          (bindr (param_keys params [''worker_id'', ''role''] []) (\<lambda>_.
           bindr (param_text params ''role'') (\<lambda>role_text.
           bindr (case agent_role_of role_text of
               None \<Rightarrow> Inl (ControlOperationError ''WORKER_ROLE_INVALID'') | Some r \<Rightarrow> Inr r) (\<lambda>role.
           bindr (param_text params ''worker_id'') (\<lambda>worker. Inr (worker, role)))))) d
          (\<lambda>(worker, role). register_worker (rc_valid x) t worker role d)
      else if operation = ''control.assign_task'' then
        then_save
          (bindr (param_keys params [''worker_id'', ''task''] []) (\<lambda>_.
           bindr (param_text params ''worker_id'') (\<lambda>worker.
           bindr (param_text params ''task'') (\<lambda>task. Inr (worker, task))))) d
          (\<lambda>(worker, task). assign_task (rc_valid x) (rc_sha x) (state_text x) t worker task d)
      else (Inl invalid_params, d))"

definition control_request ::
  "research_context \<Rightarrow> tick \<Rightarrow> string \<Rightarrow> jdict \<Rightarrow> db \<Rightarrow> rpc_response outcome" where
  "control_request x t operation params d =
     (case control_change x t operation params d of
       (Inr v, d') \<Rightarrow> (Inr (version_response v), d')
     | (Inl (ControlOperationError c), d') \<Rightarrow>
         (Inr (rpc_failure c (case map_of control_messages c of
            None \<Rightarrow> ''control request failed'' | Some m \<Rightarrow> m)), d')
     | (Inl e, d') \<Rightarrow> (Inl e, d'))"

definition dispatch_research ::
  "research_context \<Rightarrow> tick \<Rightarrow> string \<Rightarrow> jdict \<Rightarrow> db \<Rightarrow> rpc_response outcome" where
  "dispatch_research x t now params d =
     (case operator_change x t now params d of
       (Inr v, d') \<Rightarrow> (Inr (version_response v), d')
     | (Inl (ResearchError c), d') \<Rightarrow> (Inr (rpc_failure c ''research request rejected''), d')
     | (Inl e, d') \<Rightarrow> (Inl e, d'))"

subsection \<open>Dispatch\<close>

definition read_only :: "rpc_response res \<Rightarrow> db \<Rightarrow> rpc_response outcome" where
  "read_only m d = (m, d)"

definition operation_handler ::
  "research_context \<Rightarrow> tick \<Rightarrow> string \<Rightarrow> rpc_request \<Rightarrow> bool \<Rightarrow> (db \<Rightarrow> rpc_response outcome) option" where
  "operation_handler x t now request trusted =
     (let params = rq_params request; control = control_request x t (rq_operation request) params
      in map_of
       [(''control.research'', dispatch_research x t now params),
        (''health'', \<lambda>d. read_only (health_request params) d),
        (''append_event'', append_request x t trusted params),
        (''query_projection'', \<lambda>d. read_only (projection_request params d) d),
        (''query_events'', \<lambda>d. read_only (events_request (rc_valid x) params d) d),
        (''query_projections'', \<lambda>d. read_only (projections_request params d) d),
        (''logical_digest'', \<lambda>d. read_only (digest_request x params d) d),
        (''replay_verify'', \<lambda>d. read_only (replay_request x params d) d),
        (''control.configure_controller'', control), (''control.register_worker'', control),
        (''control.assign_task'', control)] (rq_operation request))"

fun error_response :: "exn \<Rightarrow> rpc_response res" where
  "error_response (RpcProtocolError c) =
     Inr (rpc_failure ''INVALID_PARAMS'' ''request parameters are invalid'')"
| "error_response (EventValidationError f r) = Inr (rpc_failure ''INVALID_EVENT'' ''event request is invalid'')"
| "error_response (DuplicateEventError i) =
     Inr (RpcFailure ''DUPLICATE_EVENT'' ''event id already exists'' (Some i))"
| "error_response (ProjectionAuthorityError n r) =
     Inr (rpc_failure ''INVALID_PROJECTION'' ''projection is not available'')"
| "error_response e = Inl e"

definition dispatch_operation ::
  "research_context \<Rightarrow> tick \<Rightarrow> string \<Rightarrow> rpc_request \<Rightarrow> bool \<Rightarrow> db \<Rightarrow> rpc_response outcome" where
  "dispatch_operation x t now request trusted d =
     (case operation_handler x t now request trusted of
       None \<Rightarrow> (Inr (rpc_failure ''UNKNOWN_OPERATION'' ''operation is not available''), d)
     | Some handler \<Rightarrow>
         (case handler d of (Inl e, d') \<Rightarrow> (error_response e, d') | (Inr r, d') \<Rightarrow> (Inr r, d')))"

text \<open>The service also tells its owner of each control operation that succeeded.\<close>

definition is_success :: "rpc_response \<Rightarrow> bool" where
  "is_success r = (case r of RpcSuccess _ \<Rightarrow> True | RpcFailure _ _ _ \<Rightarrow> False)"

definition service_dispatch ::
  "research_context \<Rightarrow> tick \<Rightarrow> string \<Rightarrow> rpc_request \<Rightarrow> bool \<Rightarrow> db \<Rightarrow> (rpc_response \<times> string option) outcome" where
  "service_dispatch x t now request trusted d =
     (case dispatch_operation x t now request trusted d of
       (Inl e, d') \<Rightarrow> (Inl e, d')
     | (Inr r, d') \<Rightarrow>
         (Inr (r, if starts_with ''control.'' (rq_operation request) \<noteq> None \<and> is_success r
                  then Some (rq_operation request) else None), d'))"

end
