(* ===== verification/Rpc_Transport.thy ===== *)
theory Rpc_Transport
  imports Rpc_Operations
begin

text \<open>
  The frames of the state service's socket (\<open>state/rpc.py\<close>): requests and responses as canonical
  JSON behind a length of four bytes, and the loop that serves one connection. A connection is the
  bytes the client sends until it closes; the responses, what ended the connection and the database
  are its result. The requests of different connections are dispatched one at a time, so the database
  a request finds is what the request before it left, on whatever connection.

  \<open>parse\<close> is \<open>json.loads\<close> on the decoded body, \<open>None\<close> where it raises.
\<close>

definition max_frame_bytes :: nat where
  "max_frame_bytes = 1048576"

definition malformed :: exn where
  "malformed = RpcProtocolError ''MALFORMED_FRAME''"

subsection \<open>Documents\<close>

definition json_document ::
  "(string \<Rightarrow> json option) \<Rightarrow> (64 word \<Rightarrow> string) \<Rightarrow> string \<Rightarrow> jdict res" where
  "json_document parse frepr body =
     (case parse body of
       Some (JObj d) \<Rightarrow> (case canonical_json frepr (JObj d) of Inl _ \<Rightarrow> Inl malformed | Inr _ \<Rightarrow> Inr d)
     | _ \<Rightarrow> Inl malformed)"

definition frame_text :: "jdict \<Rightarrow> string \<Rightarrow> string res" where
  "frame_text document key =
     (case get_json document key of
       JStr s \<Rightarrow> bindr (ensure (s \<noteq> []) malformed) (\<lambda>_. Inr s)
     | _ \<Rightarrow> Inl malformed)"

definition frame_optional_text :: "jdict \<Rightarrow> string \<Rightarrow> string option res" where
  "frame_optional_text document key =
     (case get_json document key of
       JNull \<Rightarrow> Inr None
     | JStr s \<Rightarrow> bindr (ensure (s \<noteq> []) malformed) (\<lambda>_. Inr (Some s))
     | _ \<Rightarrow> Inl malformed)"

definition request_fields :: "string list" where
  "request_fields = [''operation'', ''params'', ''session_id'']"

definition decode_request ::
  "(string \<Rightarrow> json option) \<Rightarrow> (64 word \<Rightarrow> string) \<Rightarrow> string \<Rightarrow> rpc_request res" where
  "decode_request parse frepr body =
     bindr (json_document parse frepr body) (\<lambda>document.
     bindr (ensure (keys document = set request_fields) malformed) (\<lambda>_.
     bindr (case get_json document ''params'' of JObj p \<Rightarrow> Inr p | _ \<Rightarrow> Inl malformed) (\<lambda>params.
     bindr (frame_text document ''operation'') (\<lambda>operation.
     bindr (frame_optional_text document ''session_id'') (\<lambda>session.
     Inr \<lparr>rq_operation = operation, rq_params = params, rq_session = session\<rparr>)))))"

definition decode_response ::
  "(string \<Rightarrow> json option) \<Rightarrow> (64 word \<Rightarrow> string) \<Rightarrow> string \<Rightarrow> rpc_response res" where
  "decode_response parse frepr body =
     bindr (json_document parse frepr body) (\<lambda>document.
     if get_json document ''ok'' = JBool True \<and> keys document = {''ok'', ''result''}
     then Inr (RpcSuccess (get_json document ''result''))
     else
       bindr (case get_json document ''error'' of JObj e \<Rightarrow> Inr e | _ \<Rightarrow> Inl malformed) (\<lambda>error.
       bindr (ensure (get_json document ''ok'' = JBool False \<and> keys document = {''ok'', ''error''}) malformed) (\<lambda>_.
       bindr (ensure (keys error = {''code'', ''message'', ''event_id''}) malformed) (\<lambda>_.
       bindr (frame_text error ''code'') (\<lambda>c.
       bindr (frame_text error ''message'') (\<lambda>m.
       bindr (frame_optional_text error ''event_id'') (\<lambda>i.
       Inr (RpcFailure c m i))))))))"

text \<open>\<open>canonical_json\<close> of a response: the fields of its data classes.\<close>

fun response_document :: "rpc_response \<Rightarrow> json" where
  "response_document (RpcSuccess v) = JObj [(''ok'', JBool True), (''result'', v)]"
| "response_document (RpcFailure c m i) =
     JObj [(''ok'', JBool False),
       (''error'', JObj [(''code'', JStr c), (''message'', JStr m), (''event_id'', json_of_option i)])]"

subsection \<open>Frames\<close>

definition frame :: "string \<Rightarrow> string" where
  "frame body = big_endian 4 (length body) @ body"

fun from_big_endian :: "string \<Rightarrow> nat" where
  "from_big_endian [] = 0"
| "from_big_endian (c # s) = code c * 256 ^ length s + from_big_endian s"

definition response_too_large :: rpc_response where
  "response_too_large = rpc_failure ''RESPONSE_TOO_LARGE'' ''response exceeds the service frame limit''"

definition write_response :: "(64 word \<Rightarrow> string) \<Rightarrow> rpc_response \<Rightarrow> string res" where
  "write_response frepr response =
     bindr (canonical_json frepr (response_document response)) (\<lambda>encoded.
     if max_frame_bytes < length encoded
     then bindr (canonical_json frepr (response_document response_too_large)) (\<lambda>e. Inr (frame e))
     else Inr (frame encoded))"

definition request_document :: "rpc_request \<Rightarrow> json" where
  "request_document r = JObj [(''operation'', JStr (rq_operation r)), (''params'', JObj (rq_params r)),
     (''session_id'', json_of_option (rq_session r))]"

definition write_request :: "(64 word \<Rightarrow> string) \<Rightarrow> rpc_request \<Rightarrow> string res" where
  "write_request frepr r =
     bindr (canonical_json frepr (request_document r)) (\<lambda>encoded.
     bindr (ensure (length encoded \<le> max_frame_bytes) (RpcProtocolError ''FRAME_TOO_LARGE'')) (\<lambda>_.
     Inr (frame encoded)))"

text \<open>What the client makes of the bytes it receives; \<open>readexactly\<close> raises at the end of the stream.\<close>

definition read_response ::
  "(string \<Rightarrow> json option) \<Rightarrow> (64 word \<Rightarrow> string) \<Rightarrow> string \<Rightarrow> (rpc_response \<times> string) res" where
  "read_response parse frepr stream =
     (let size = from_big_endian (take 4 stream); rest = drop 4 stream in
      bindr (ensure (4 \<le> length stream) (ValueError ''IncompleteReadError'')) (\<lambda>_.
      bindr (ensure (size \<le> max_frame_bytes) (RpcProtocolError ''FRAME_TOO_LARGE'')) (\<lambda>_.
      bindr (ensure (size \<le> length rest) (ValueError ''IncompleteReadError'')) (\<lambda>_.
      bindr (decode_response parse frepr (take size rest)) (\<lambda>r.
      Inr (r, drop size rest))))))"

subsection \<open>A connection\<close>

text \<open>The end of the stream, a frame that is refused, or a request and the bytes behind it.\<close>

datatype received =
    End_Of_Stream
  | Refused string string
  | Received rpc_request string

definition next_request ::
  "(string \<Rightarrow> json option) \<Rightarrow> (64 word \<Rightarrow> string) \<Rightarrow> string \<Rightarrow> received" where
  "next_request parse frepr stream =
     (if length stream < 4
      then (if stream = [] then End_Of_Stream else Refused ''MALFORMED_FRAME'' ''frame header is incomplete'')
      else
        let size = from_big_endian (take 4 stream); rest = drop 4 stream in
        if max_frame_bytes < size then Refused ''FRAME_TOO_LARGE'' ''request exceeds the frame limit''
        else if length rest < size then Refused ''MALFORMED_FRAME'' ''frame body is incomplete''
        else
          (case decode_request parse frepr (take size rest) of
            Inl (RpcProtocolError c) \<Rightarrow> Refused c ''request frame is malformed''
          | Inl e \<Rightarrow> Refused ''MALFORMED_FRAME'' ''request frame is malformed''
          | Inr r \<Rightarrow> Received r (drop size rest)))"

lemma next_request_shorter:
  "next_request parse frepr stream = Received r rest \<Longrightarrow> length rest < length stream"
  by (auto simp: next_request_def Let_def split: if_splits sum.splits exn.splits)

record connection_end =
  ce_responses :: "string list"
  ce_error :: "exn option"
  ce_db :: db

definition last_response :: "string res \<Rightarrow> db \<Rightarrow> connection_end" where
  "last_response m d =
     (case m of Inl e \<Rightarrow> \<lparr>ce_responses = [], ce_error = Some e, ce_db = d\<rparr>
      | Inr f \<Rightarrow> \<lparr>ce_responses = [f], ce_error = None, ce_db = d\<rparr>)"

text \<open>
  \<open>clock n\<close> is what the environment gives the \<open>n\<close>th request: an identifier, a time and the time as text.
\<close>

function serve ::
  "(string \<Rightarrow> json option) \<Rightarrow> research_context \<Rightarrow> string \<Rightarrow> (nat \<Rightarrow> tick \<times> string) \<Rightarrow> nat \<Rightarrow> bool
     \<Rightarrow> string \<Rightarrow> db \<Rightarrow> connection_end" where
  "serve parse x session clock n trusted stream d =
     (case next_request parse (rc_frepr x) stream of
       End_Of_Stream \<Rightarrow> \<lparr>ce_responses = [], ce_error = None, ce_db = d\<rparr>
     | Refused c m \<Rightarrow> last_response (write_response (rc_frepr x) (rpc_failure c m)) d
     | Received request rest \<Rightarrow>
         let trusted' = trusted \<or> rq_session request = Some session in
         (case service_dispatch x (fst (clock n)) (snd (clock n)) request trusted' d of
           (Inl e, d') \<Rightarrow> \<lparr>ce_responses = [], ce_error = Some e, ce_db = d'\<rparr>
         | (Inr (response, notified), d') \<Rightarrow>
             (case write_response (rc_frepr x) response of
               Inl e \<Rightarrow> \<lparr>ce_responses = [], ce_error = Some e, ce_db = d'\<rparr>
             | Inr f \<Rightarrow>
                 (let next = serve parse x session clock (Suc n) trusted' rest d'
                  in next\<lparr>ce_responses := f # ce_responses next\<rparr>))))"
  by pat_completeness auto
termination
  by (relation "measure (\<lambda>(parse, x, session, clock, n, trusted, stream, d). length stream)")
     (auto dest: next_request_shorter)

declare serve.simps [simp del]

text \<open>The requests a stream holds, up to its end or the first frame that is refused.\<close>

function stream_requests ::
  "(string \<Rightarrow> json option) \<Rightarrow> (64 word \<Rightarrow> string) \<Rightarrow> string \<Rightarrow> rpc_request list" where
  "stream_requests parse frepr stream =
     (case next_request parse frepr stream of
       Received request rest \<Rightarrow> request # stream_requests parse frepr rest
     | _ \<Rightarrow> [])"
  by pat_completeness auto
termination
  by (relation "measure (\<lambda>(parse, frepr, stream). length stream)") (auto dest: next_request_shorter)

declare stream_requests.simps [simp del]

end
