(* ===== verification/Rpc_Properties.thy ===== *)
theory Rpc_Properties
  imports Rpc_Transport Research_Properties Execution_Runs
begin

text \<open>
  What the state service promises its clients: a request that fails changes nothing, one that
  succeeds adds at most one event, a connection that never shows the session of the service adds only
  the events of the operator's requests, and whatever is served the log replays to the stored
  projections. The frames are read back by the other side as they were written.
\<close>

subsection \<open>Databases of journals\<close>

lemma replayed_research:
  assumes "replay_log es = Inr d" "\<forall>e \<in> set es. stored_event (rc_valid x) e"
  shows "wf_research x d"
  using assms
proof (induction es arbitrary: d rule: rev_induct)
  case Nil
  then show ?case using wf_start by (simp add: replay_log_def)
next
  case (snoc e es)
  then obtain d0 r where d0: "replay_log es = Inr d0" and s: "store_append apply_event e d0 = Inr (r, d)"
    unfolding replay_log_snoc by (auto simp: inr_simps)
  have wf: "wf_research x d0" by (rule snoc.IH [OF d0]) (use snoc.prems(2) in simp)
  have e: "valid_event (rc_valid x) e" "typed_event e"
    using snoc.prems(2) by (simp_all add: stored_event_def)
  obtain cs where cs: "apply_event (query_projections d0) e = Inr cs"
    "db_projections d = db_projections (log_step e cs d0)"
    using wf store_append_projections [OF _ e s] unfolding wf_research_def by blast
  show ?case
    using event_research(1) [OF wf e cs(1)] cs(2) by (simp add: wf_research_def)
qed

lemma journal_research: "journal (rc_valid x) es d \<Longrightarrow> wf_research x d"
  using replayed_research [of es "log_part d" x] by (simp add: journal_def wf_research_def)

lemma journal_appends_one:
  assumes "journal (rc_valid x) es d" "appends_one (rc_valid x) tys d d'"
  obtains e where "journal (rc_valid x) (es @ [e]) d'" "ev_type e \<in> tys"
proof -
  from assms(2) obtain t c r where c: "typed_tick t" "typed_command c" "cmd_type c \<in> tys"
    and a: "append_event (rc_valid x) t c d = Inr (r, d')"
    unfolding appends_one_def by blast
  obtain e where "journal (rc_valid x) (es @ [canonical_event e]) d'" "ev_type e = cmd_type c"
    by (rule journal_append_event [OF assms(1) order_blind_records c(1,2) a])
  with c(3) show ?thesis using that by simp
qed

subsection \<open>What one operation appends\<close>

definition client_types :: "string set" where
  "client_types =
     {''ControllerConfigured'', ''WorkerConfigured'', ''WorkerTaskAssigned'', ''ResearchRecordUpdated''}"

text \<open>The outcome of a request: nothing changed, or it succeeded with one event of the given types.\<close>

definition one_event :: "research_context \<Rightarrow> string set \<Rightarrow> bool \<Rightarrow> db \<Rightarrow> db \<Rightarrow> bool" where
  "one_event x tys ok d d' \<longleftrightarrow> d' = d \<or> ok \<and> appends_one (rc_valid x) tys d d'"

lemma one_event_refl [simp]: "one_event x tys ok d d"
  by (simp add: one_event_def)

lemma appends_oneI:
  "append_event vr t (command ty a run cause p) d = Inr (r, d') \<Longrightarrow> typed_tick t \<Longrightarrow> wf_jdict p \<Longrightarrow> ty \<in> tys
    \<Longrightarrow> appends_one vr tys d d'"
  unfolding appends_one_def
  by (rule exI [of _ t], rule exI [of _ "command ty a run cause p"], rule exI [of _ r]) (simp add: typed_command_def)

lemma configure_controller_appends:
  "configure_controller vr t p m d = (Inr n, d') \<Longrightarrow> typed_tick t \<Longrightarrow> appends_one vr client_types d d'"
  by (auto simp: configure_controller_def Let_def and_then_eq split: if_splits option.splits)
     (erule (1) appends_oneI, simp add: wf_jdict_def, simp add: client_types_def)+

lemma register_worker_appends:
  "register_worker vr t w role d = (Inr n, d') \<Longrightarrow> typed_tick t \<Longrightarrow> appends_one vr client_types d d'"
  by (auto simp: register_worker_def and_then_eq bindr_eq_Inr)
     (erule (1) appends_oneI, simp add: wf_jdict_def, simp add: client_types_def)+

lemma assign_task_appends:
  "assign_task vr sha text t w task d = (Inr n, d') \<Longrightarrow> typed_tick t \<Longrightarrow> appends_one vr client_types d d'"
  by (auto simp: assign_task_def and_then_eq bindr_eq_Inr Let_def)
     (erule (1) appends_oneI, simp add: wf_jdict_def, simp add: client_types_def)+

lemma save_record_appends:
  assumes wf: "wf_research x d" and "typed_tick t" "wf_jdict data"
    and s: "save_record x t now kind (JStr i) data actor run d = (Inr n, d')"
  shows "appends_one (rc_valid x) client_types d d'"
proof -
  from s obtain key previous who r where g: "get_research kind (JStr i) d = Inr previous"
    and a: "append_event (rc_valid x) t (command ''ResearchRecordUpdated'' who run None
          [(''record_id'', JStr key), (''kind'', JStr kind),
           (''data'', JObj (with_times previous now data))]) d = Inr (r, d')"
    unfolding save_record_def and_then_eq by (auto simp: inr_simps)
  show ?thesis
    by (rule appends_oneI [OF a assms(2)])
       (use previous_times_wf [OF wf assms(3) g] in \<open>simp_all add: wf_jdict_def client_types_def\<close>)
qed

lemma operator_change_appends:
  assumes wf: "wf_research x d" and t: "typed_tick t" and p: "wf_jdict params"
    and o: "operator_change x t now params d = (v, d')"
  shows "one_event x client_types (\<exists>n. v = Inr n) d d'"
proof (cases v)
  case (Inl e)
  then have "d' = d" using refused_change_saves_nothing [OF wf t p] o by blast
  then show ?thesis by simp
next
  case (Inr n)
  with operator_change_saves [OF wf p o] save_record_appends [OF wf t]
  show ?thesis unfolding one_event_def by blast
qed

lemma control_change_appends:
  assumes wf: "wf_projections (db_projections d)" and t: "typed_tick t"
    and c: "control_change x t operation params d = (v, d')"
  shows "one_event x client_types (\<exists>n. v = Inr n) d d'"
proof -
  note refused = refused_control_changes_nothing [OF wf t]
  note same = configure_controller_appends [OF _ t] register_worker_appends [OF _ t] assign_task_appends [OF _ t]
  have "one_event x client_types (\<exists>n. v = Inr n) d d'" if "configure_controller (rc_valid x) t p m d = (v, d')" for p m
    using that refused same(1) by (cases v) (auto simp: one_event_def)
  moreover have "one_event x client_types (\<exists>n. v = Inr n) d d'" if "register_worker (rc_valid x) t w role d = (v, d')" for w role
    using that refused same(2) by (cases v) (auto simp: one_event_def)
  moreover have "one_event x client_types (\<exists>n. v = Inr n) d d'"
    if "assign_task (rc_valid x) (rc_sha x) (state_text x) t w task d = (v, d')" for w task
    using that refused same(3) by (cases v) (auto simp: one_event_def)
  ultimately show ?thesis
    using c unfolding control_change_def by (auto simp: then_save_eq split: if_splits prod.splits)
qed

lemma control_request_appends:
  assumes "wf_projections (db_projections d)" "typed_tick t"
    and "control_request x t operation params d = (v, d')"
  shows "one_event x client_types (\<exists>j. v = Inr (RpcSuccess j)) d d'"
proof -
  obtain u where u: "control_change x t operation params d = (u, d')"
    using assms(3) unfolding control_request_def
    by (cases "control_change x t operation params d") (auto split: sum.splits exn.splits)
  from control_change_appends [OF assms(1,2) u] show ?thesis
    using assms(3) u unfolding control_request_def one_event_def
    by (auto simp: version_response_def)
qed

lemma dispatch_research_appends:
  assumes "wf_research x d" "typed_tick t" "wf_jdict params"
    and "dispatch_research x t now params d = (v, d')"
  shows "one_event x client_types (\<exists>j. v = Inr (RpcSuccess j)) d d'"
proof -
  obtain u where u: "operator_change x t now params d = (u, d')"
    using assms(4) unfolding dispatch_research_def
    by (cases "operator_change x t now params d") (auto split: sum.splits exn.splits)
  from operator_change_appends [OF assms(1-3) u] show ?thesis
    using assms(4) u unfolding dispatch_research_def one_event_def
    by (auto simp: version_response_def)
qed

lemma append_command_of_typed: "append_command_of params = Inr c \<Longrightarrow> wf_jdict params \<Longrightarrow> typed_command c"
proof -
  assume c: "append_command_of params = Inr c" and wf: "wf_jdict params"
  from c obtain p where "get_json params ''payload'' = JObj p" "cmd_payload c = p"
    by (auto simp: append_command_of_def inr_simps split: json.splits)
  then show "typed_command c"
    using wf_get_json [OF wf, of "''payload''"] by (simp add: typed_command_def wf_jdict_def)
qed

lemma append_request_appends:
  assumes "typed_tick t" "wf_jdict params" "append_request x t trusted params d = (v, d')"
  shows "one_event x (if trusted then UNIV else client_types) (\<exists>j. v = Inr (RpcSuccess j)) d d'"
proof (cases trusted)
  case True
  with assms(3) have "and_then (bindr (append_command_of params) (\<lambda>c. append_event (rc_valid x) t c d)) d
      (\<lambda>r d'. (Inr (RpcSuccess (JObj [(''event_id'', JStr (ev_id (rec_envelope r))),
             (''sequence'', JInt (int (rec_sequence r)))])), d')) = (v, d')"
    by (simp add: append_request_def)
  then consider "d' = d" | c r where "append_command_of params = Inr c"
      "append_event (rc_valid x) t c d = Inr (r, d')" "\<exists>j. v = Inr (RpcSuccess j)"
    unfolding and_then_eq by (auto simp: bindr_eq_Inr)
  then show ?thesis
  proof cases
    case 2
    have "appends_one (rc_valid x) UNIV d d'"
      unfolding appends_one_def using 2(2) assms(1) append_command_of_typed [OF 2(1) assms(2)] by blast
    then show ?thesis using True 2(3) by (simp add: one_event_def)
  qed simp
next
  case False
  then show ?thesis using assms(3) by (simp add: append_request_def)
qed

lemma one_event_mono: "one_event x tys ok d d' \<Longrightarrow> tys \<subseteq> tys' \<Longrightarrow> one_event x tys' ok d d'"
  unfolding one_event_def appends_one_def by blast

lemma dispatch_operation_appends:
  assumes wf: "wf_research x d" and t: "typed_tick t" and p: "wf_jdict (rq_params request)"
    and o: "dispatch_operation x t now request trusted d = (v, d')"
  shows "one_event x (if trusted then UNIV else client_types) (\<exists>j. v = Inr (RpcSuccess j)) d d'"
proof (cases "operation_handler x t now request trusted")
  case None
  then show ?thesis using o by (simp add: dispatch_operation_def)
next
  case (Some handler)
  let ?tys = "if trusted then UNIV else client_types"
  obtain u where u: "handler d = (u, d')" "\<forall>r. u = Inr r \<longrightarrow> v = Inr r"
    using o Some unfolding dispatch_operation_def by (auto split: prod.splits sum.splits)
  have wfp: "wf_projections (db_projections d)" using wf by (simp add: wf_research_def)
  have handlers: "handler \<in> snd ` set
     [(''control.research'', dispatch_research x t now (rq_params request)),
      (''append_event'', append_request x t trusted (rq_params request)),
      (''control'', control_request x t (rq_operation request) (rq_params request))]
     \<or> (\<exists>m. handler = (\<lambda>d. read_only (m d) d))"
    using Some unfolding operation_handler_def Let_def by (auto split: if_splits)
  have "one_event x ?tys (\<exists>j. u = Inr (RpcSuccess j)) d d'"
    using handlers
  proof (elim disjE)
    assume "\<exists>m. handler = (\<lambda>d. read_only (m d) d)"
    then show ?thesis using u(1) by (auto simp: read_only_def)
  next
    assume h: "handler \<in> snd ` set
     [(''control.research'', dispatch_research x t now (rq_params request)),
      (''append_event'', append_request x t trusted (rq_params request)),
      (''control'', control_request x t (rq_operation request) (rq_params request))]"
    then consider "handler = dispatch_research x t now (rq_params request)"
      | "handler = append_request x t trusted (rq_params request)"
      | "handler = control_request x t (rq_operation request) (rq_params request)" by auto
    then show ?thesis
    proof cases
      case 1
      show ?thesis
        by (rule one_event_mono [OF dispatch_research_appends [OF wf t p u(1) [unfolded 1]]]) simp
    next
      case 2
      show ?thesis by (rule append_request_appends [OF t p u(1) [unfolded 2]])
    next
      case 3
      show ?thesis
        by (rule one_event_mono [OF control_request_appends [OF wfp t u(1) [unfolded 3]]]) simp
    qed
  qed
  then show ?thesis using u(2) unfolding one_event_def by blast
qed

lemma failed_request_result:
  assumes "journal (rc_valid x) es d" "typed_tick t" "wf_jdict (rq_params request)"
    and "service_dispatch x t now request trusted d = (v, d')"
  shows "d' = d \<or> ((\<exists>j n. v = Inr (RpcSuccess j, n)) \<and> (\<exists>e. journal (rc_valid x) (es @ [e]) d'
    \<and> (trusted \<or> ev_type e \<in> client_types)))"
proof -
  obtain u where u: "dispatch_operation x t now request trusted d = (u, d')"
    "\<forall>r. u = Inr r \<longrightarrow> (\<exists>n. v = Inr (r, n))"
    using assms(4) unfolding service_dispatch_def by (auto split: prod.splits sum.splits)
  from dispatch_operation_appends [OF journal_research [OF assms(1)] assms(2,3) u(1)]
  show ?thesis
    unfolding one_event_def
  proof (elim disjE conjE exE)
    fix j
    assume j: "u = Inr (RpcSuccess j)"
      and a: "appends_one (rc_valid x) (if trusted then UNIV else client_types) d d'"
    obtain e where "journal (rc_valid x) (es @ [e]) d'" "ev_type e \<in> (if trusted then UNIV else client_types)"
      by (rule journal_appends_one [OF assms(1) a])
    then show ?thesis using u(2) j by (auto split: if_splits)
  qed simp
qed

text \<open>
  C22. A request that does not succeed, because it is refused, unknown, malformed, or stopped by an
  error that nothing catches, leaves the database as it was; one that succeeds appends at most one
  event, and without the session of the service only one of the operator's.
\<close>

theorem failed_request_changes_nothing:
  assumes "journal (rc_valid x) es d" "typed_tick t" "wf_jdict (rq_params request)"
    and "service_dispatch x t now request trusted d = (v, d')"
  shows "d' = d \<or> ((\<exists>j n. v = Inr (RpcSuccess j, n)) \<and> (\<exists>e. journal (rc_valid x) (es @ [e]) d'
    \<and> (trusted \<or> ev_type e \<in> client_types)))"
  by (rule failed_request_result [OF assms])

subsection \<open>A connection\<close>

lemma decode_request_wf:
  assumes "\<forall>s v. parse s = Some v \<longrightarrow> wf_json v" "decode_request parse frepr body = Inr r"
  shows "wf_jdict (rq_params r)"
proof -
  from assms(2) obtain document p where d: "json_document parse frepr body = Inr document"
    and v: "(case get_json document ''params'' of JObj p \<Rightarrow> Inr p | _ \<Rightarrow> Inl malformed) = Inr p"
    and r: "rq_params r = p"
    unfolding decode_request_def bindr_eq_Inr by fastforce
  from v have p: "get_json document ''params'' = JObj p" by (auto split: json.splits)
  have d: "parse body = Some (JObj document)"
    using d by (auto simp: json_document_def split: option.splits json.splits sum.splits)
  have "wf_jdict document" using assms(1) d unfolding wf_jdict_def by blast
  then show ?thesis using wf_get_json [of document "''params''"] p r by (simp add: wf_jdict_def)
qed

lemma next_request_wf:
  assumes "\<forall>s v. parse s = Some v \<longrightarrow> wf_json v" "next_request parse frepr stream = Received r rest"
  shows "wf_jdict (rq_params r)"
  using assms(2) decode_request_wf [OF assms(1)]
  by (auto simp: next_request_def Let_def split: if_splits sum.splits exn.splits)

lemma stream_requests_Received:
  "next_request parse frepr stream = Received r rest \<Longrightarrow>
   stream_requests parse frepr stream = r # stream_requests parse frepr rest"
  by (subst stream_requests.simps) simp

text \<open>A served connection extends the log by one event at most for each of its requests.\<close>

definition served ::
  "research_context \<Rightarrow> event_envelope list \<Rightarrow> rpc_request list \<Rightarrow> bool \<Rightarrow> db \<Rightarrow> bool" where
  "served x es requests confined d' \<longleftrightarrow>
     (\<exists>fs. journal (rc_valid x) (es @ fs) d' \<and> length fs \<le> length requests
        \<and> (confined \<longrightarrow> ev_type ` set fs \<subseteq> client_types))"

lemma served_start: "journal (rc_valid x) es d \<Longrightarrow> served x es rs b d"
  unfolding served_def by (rule exI [of _ "[]"]) simp

lemma served_step:
  assumes "journal (rc_valid x) es d1 \<or> (\<exists>e. journal (rc_valid x) (es @ [e]) d1 \<and> (b \<longrightarrow> ev_type e \<in> client_types))"
    and "\<And>es'. journal (rc_valid x) es' d1 \<Longrightarrow> served x es' rs b d2"
  shows "served x es (r # rs) b d2"
  using assms(1)
proof (elim disjE exE conjE)
  assume "journal (rc_valid x) es d1"
  from assms(2) [OF this] show ?thesis unfolding served_def by (auto simp: le_Suc_eq)
next
  fix e
  assume e: "journal (rc_valid x) (es @ [e]) d1" "b \<longrightarrow> ev_type e \<in> client_types"
  from assms(2) [OF e(1)] obtain fs where "journal (rc_valid x) ((es @ [e]) @ fs) d2"
    "length fs \<le> length rs" "b \<longrightarrow> ev_type ` set fs \<subseteq> client_types"
    unfolding served_def by blast
  then show ?thesis using e(2) unfolding served_def by (intro exI [of _ "e # fs"]) auto
qed

lemma serve_served:
  assumes "journal (rc_valid x) es d" "\<forall>s v. parse s = Some v \<longrightarrow> wf_json v"
    and "\<forall>n. typed_tick (fst (clock n))"
  shows "served x es (stream_requests parse (rc_frepr x) stream)
    (\<not> trusted \<and> (\<forall>r \<in> set (stream_requests parse (rc_frepr x) stream). rq_session r \<noteq> Some session))
    (ce_db (serve parse x session clock n trusted stream d))"
  using assms
proof (induction parse x session clock n trusted stream d arbitrary: es rule: serve.induct)
  case (1 parse x session clock n trusted stream d)
  show ?case
  proof (cases "next_request parse (rc_frepr x) stream")
    case End_Of_Stream
    then show ?thesis using 1(2) by (simp add: serve.simps served_start)
  next
    case (Refused c m)
    then show ?thesis
      using 1(2) by (simp add: serve.simps served_start last_response_def split: sum.split)
  next
    case (Received request rest)
    define now where "now = (trusted \<or> rq_session request = Some session)"
    let ?requests = "stream_requests parse (rc_frepr x) rest"
    note list = stream_requests_Received [OF Received]
    define b where "b = (\<not> trusted \<and> (\<forall>r \<in> set (request # ?requests). rq_session r \<noteq> Some session))"
    obtain v d1 where o: "service_dispatch x (fst (clock n)) (snd (clock n)) request now d = (v, d1)"
      by (cases "service_dispatch x (fst (clock n)) (snd (clock n)) request now d")
    have wf: "wf_jdict (rq_params request)" by (rule next_request_wf [OF 1(3) Received])
    have step: "journal (rc_valid x) es d1
        \<or> (\<exists>e. journal (rc_valid x) (es @ [e]) d1 \<and> (b \<longrightarrow> ev_type e \<in> client_types))"
      using failed_request_result [OF 1(2) _ wf o] 1(2,4) unfolding b_def now_def by auto
    show ?thesis
    proof (cases "\<exists>response notified f. v = Inr (response, notified) \<and> write_response (rc_frepr x) response = Inr f")
      case True
      then obtain response notified f where v: "v = Inr (response, notified)"
        "write_response (rc_frepr x) response = Inr f" by blast
      have s: "ce_db (serve parse x session clock n trusted stream d)
          = ce_db (serve parse x session clock (Suc n) now rest d1)"
        by (subst serve.simps) (simp add: Received o [unfolded now_def] v Let_def now_def)
      have "served x es' ?requests b (ce_db (serve parse x session clock (Suc n) now rest d1))"
        if "journal (rc_valid x) es' d1" for es'
      proof -
        have "served x es' ?requests (\<not> now \<and> (\<forall>r \<in> set ?requests. rq_session r \<noteq> Some session))
            (ce_db (serve parse x session clock (Suc n) now rest d1))"
          using 1(1) [OF Received now_def o [symmetric] _ refl v(2) that 1(3,4)] v by simp
        then show ?thesis unfolding served_def b_def now_def by auto
      qed
      then show ?thesis
        unfolding s list b_def [symmetric] by (rule served_step [OF step])
    next
      case False
      have s: "ce_db (serve parse x session clock n trusted stream d) = d1"
        using False
        by (subst serve.simps) (auto simp: Received o [unfolded now_def] Let_def split: sum.split prod.split)
      show ?thesis
        unfolding s list b_def [symmetric] by (rule served_step [OF step served_start])
    qed
  qed
qed

text \<open>
  C3. Whatever a client sends on a connection, the database that is left is still the journal of its
  events: those that were there, and at most one more for each request. A connection on which no
  request shows the session of the service adds only events of the operator's requests. Replaying
  the log from the start then gives exactly the stored projections.
\<close>

theorem served_connections_extend_the_log:
  assumes "journal (rc_valid x) es d" "\<forall>s v. parse s = Some v \<longrightarrow> wf_json v"
    and "\<forall>n. typed_tick (fst (clock n))"
    and "d' = ce_db (serve parse x session clock 0 False stream d)"
  shows "\<exists>fs. journal (rc_valid x) (es @ fs) d'
    \<and> length fs \<le> length (stream_requests parse (rc_frepr x) stream)
    \<and> ((\<forall>r \<in> set (stream_requests parse (rc_frepr x) stream). rq_session r \<noteq> Some session)
        \<longrightarrow> ev_type ` set fs \<subseteq> client_types)
    \<and> replay_verify (rc_valid x) sha render apply_event d' = Inr
        \<lparr>rv_matched = True, rv_projection_json = canonical_projection_json render d',
         rv_logical_digest = logical_digest sha render d'\<rparr>"
proof -
  obtain fs where fs: "journal (rc_valid x) (es @ fs) d'"
    "length fs \<le> length (stream_requests parse (rc_frepr x) stream)"
    "(\<forall>r \<in> set (stream_requests parse (rc_frepr x) stream). rq_session r \<noteq> Some session)
        \<longrightarrow> ev_type ` set fs \<subseteq> client_types"
    using serve_served [OF assms(1-3), where n = 0 and trusted = False and stream = stream and session = session]
    unfolding served_def assms(4) [symmetric] by auto
  then show ?thesis using journal_replay_verify [OF fs(1)] by blast
qed

subsection \<open>Frames\<close>

lemma from_big_endian_append: "from_big_endian (s @ [c]) = 256 * from_big_endian s + code c"
  by (induction s) (simp_all add: algebra_simps)

lemma from_big_endian: "n < 256 ^ k \<Longrightarrow> from_big_endian (big_endian k n) = n"
proof (induction k arbitrary: n)
  case (Suc k)
  then have "from_big_endian (big_endian k (n div 256)) = n div 256"
    by (simp add: less_mult_imp_div_less algebra_simps)
  then show ?case by (simp add: from_big_endian_append code_def)
qed simp

text \<open>The responses whose texts a client accepts; the service makes no others.\<close>

fun readable :: "rpc_response \<Rightarrow> bool" where
  "readable (RpcSuccess v) = True"
| "readable (RpcFailure c m i) = (c \<noteq> [] \<and> m \<noteq> [] \<and> i \<noteq> Some [])"

fun canonical_response :: "rpc_response \<Rightarrow> rpc_response" where
  "canonical_response (RpcSuccess v) = RpcSuccess (canon v)"
| "canonical_response (RpcFailure c m i) = RpcFailure c m i"

lemma json_document_canon:
  assumes "parse body = Some (canon (JObj d))" "floats_finite (JObj d)"
  shows "json_document parse frepr body = Inr (canon_dict d)"
proof -
  have "floats_finite (JObj (canon_dict d))"
    using floats_finite_canon [of "JObj d"] assms(2) unfolding canon_JObj by blast
  then show ?thesis
    using assms(1) by (simp add: json_document_def canonical_json_def ensure_def canon_JObj del: canon.simps floats_finite.simps)
qed

lemma decode_response_document:
  assumes "readable r" "floats_finite (response_document r)"
    and "parse body = Some (canon (response_document r))"
  shows "decode_response parse frepr body = Inr (canonical_response r)"
proof (cases r)
  case (RpcSuccess v)
  define d where "d = [(''ok'', JBool True), (''result'', v)]"
  have doc: "json_document parse frepr body = Inr (canon_dict d)"
    by (rule json_document_canon) (use assms(2,3) in \<open>simp_all add: RpcSuccess d_def del: canon.simps\<close>)
  have wf: "wf_dict d" by (simp add: d_def wf_dict_def)
  have "keys (canon_dict d) = {''ok'', ''result''}" by (simp add: d_def)
  moreover have "get_json (canon_dict d) ''ok'' = JBool True" "get_json (canon_dict d) ''result'' = canon v"
    unfolding get_json_canon [OF wf] by (simp_all add: d_def get_json_def)
  ultimately show ?thesis by (simp add: decode_response_def doc RpcSuccess)
next
  case (RpcFailure c m i)
  define e where "e = [(''code'', JStr c), (''message'', JStr m), (''event_id'', json_of_option i)]"
  define d where "d = [(''ok'', JBool False), (''error'', JObj e)]"
  have doc: "json_document parse frepr body = Inr (canon_dict d)"
    by (rule json_document_canon) (use assms(2,3) in \<open>simp_all add: RpcFailure d_def e_def del: canon.simps\<close>)
  have wf: "wf_dict d" "wf_dict e" by (simp_all add: d_def e_def wf_dict_def)
  have k: "keys d = {''ok'', ''error''}" "keys e = {''code'', ''message'', ''event_id''}"
    by (simp_all add: d_def e_def)
  have g: "get_json (canon_dict d) ''ok'' = JBool False" "get_json (canon_dict d) ''error'' = JObj (canon_dict e)"
    unfolding get_json_canon [OF wf(1)] by (simp_all add: d_def get_json_def canon_JObj del: canon.simps(2))
  have h: "get_json (canon_dict e) ''code'' = JStr c" "get_json (canon_dict e) ''message'' = JStr m"
    "get_json (canon_dict e) ''event_id'' = json_of_option i"
    unfolding get_json_canon [OF wf(2)] by (simp_all add: e_def get_json_def json_of_option_def split: option.split)
  show ?thesis
    using assms(1) by (cases i) (simp_all add: decode_response_def doc RpcFailure k g h frame_text_def
        frame_optional_text_def json_of_option_def ensure_def)
qed

lemma read_frame:
  assumes "length body \<le> max_frame_bytes" "decode_response parse frepr body = Inr r"
  shows "read_response parse frepr (frame body @ rest) = Inr (r, rest)"
proof -
  have "from_big_endian (big_endian 4 (length body)) = length body"
    by (rule from_big_endian) (use assms(1) in \<open>simp add: max_frame_bytes_def\<close>)
  then show ?thesis
    using assms by (simp add: read_response_def Let_def frame_def ensure_def)
qed

text \<open>
  C23. The frame of a response is never longer than the limit and its header. A client that reads it,
  whatever follows on the connection, gets the response back in canonical form when its text is within
  the limit, and the notice that it is too large otherwise, and is left with what follows.
\<close>

theorem response_frames_read_back:
  assumes "write_response frepr r = Inr f" "readable r"
    and "\<forall>v \<in> {response_document r, response_document response_too_large}.
      parse (canonical_text frepr (canon v)) = Some (canon v)"
  shows "length f \<le> max_frame_bytes + 4
    \<and> read_response parse frepr (f @ rest) = Inr
        (if length (canonical_text frepr (canon (response_document r))) \<le> max_frame_bytes
         then canonical_response r else response_too_large, rest)"
proof -
  let ?text = "\<lambda>r. canonical_text frepr (canon (response_document r))"
  have fin: "floats_finite (response_document r)"
    and f: "f = (if length (?text r) \<le> max_frame_bytes then frame (?text r) else frame (?text response_too_large))"
    using assms(1) by (auto simp: write_response_def canonical_json_def bindr_eq_Inr not_le split: if_splits)
  have short: "length (?text response_too_large) \<le> max_frame_bytes"
    by code_simp
  have ok: "readable response_too_large" "floats_finite (response_document response_too_large)"
    "canonical_response response_too_large = response_too_large"
    by (simp_all add: response_too_large_def json_of_option_def)
  have big: "decode_response parse frepr (?text response_too_large) = Inr response_too_large"
    using decode_response_document [OF ok(1,2), of parse] assms(3) ok(3) by simp
  have own: "decode_response parse frepr (?text r) = Inr (canonical_response r)"
    using decode_response_document [OF assms(2) fin, of parse] assms(3) by simp
  show ?thesis
  proof (cases "length (?text r) \<le> max_frame_bytes")
    case True
    then show ?thesis using read_frame [OF True own] f by (simp add: frame_def)
  next
    case False
    then show ?thesis using read_frame [OF short big] f short by (simp add: frame_def)
  qed
qed

subsection \<open>A sample\<close>

text \<open>A reader that takes only well-formed documents without floats.\<close>

definition sample_parse :: "string \<Rightarrow> json option" where
  "sample_parse s = Option.bind (loads s) (\<lambda>v. if wf_json v then Some v else None)"

definition sample_registration :: rpc_request where
  "sample_registration =
     \<lparr>rq_operation = ''control.register_worker'',
      rq_params = [(''role'', JStr ''formalizer''), (''worker_id'', JStr ''w'')], rq_session = None\<rparr>"

definition sample_clock :: "nat \<Rightarrow> tick \<times> string" where
  "sample_clock n = (sample_tick (CHR ''2''), sample_now)"

definition sample_stream :: string where
  "sample_stream = (case write_request (rc_frepr sample_rc) sample_registration of Inl e \<Rightarrow> [] | Inr f \<Rightarrow> f)"

lemma sample_served:
  "map rq_session (stream_requests sample_parse (rc_frepr sample_rc) sample_stream) = [None]"
  "map er_type (db_events (ce_db (serve sample_parse sample_rc ''s'' sample_clock 0 False sample_stream foundation_db)))
    = [''WorkerConfigured'']"
  by code_simp+

lemma sample_reader: "\<forall>s v. sample_parse s = Some v \<longrightarrow> wf_json v"
  by (auto simp: sample_parse_def bind_eq_Some_conv split: if_splits)

lemma sample_clock_typed: "\<forall>n. typed_tick (fst (sample_clock n))"
  using typed_sample_requests by (simp add: sample_clock_def sample_requests_def typed_request_def)

theorem served_connections_extend_the_log_witness:
  "\<exists>fs. journal (rc_valid sample_rc) fs
      (ce_db (serve sample_parse sample_rc ''s'' sample_clock 0 False sample_stream foundation_db))
    \<and> length fs \<le> 1 \<and> ev_type ` set fs \<subseteq> client_types"
proof -
  let ?rs = "stream_requests sample_parse (rc_frepr sample_rc) sample_stream"
  obtain r where r: "?rs = [r]" "rq_session r = None"
    using sample_served(1) unfolding map_eq_Cons_conv map_is_Nil_conv by blast
  have one: "length ?rs = 1" unfolding r(1) by simp
  have none: "\<forall>r \<in> set ?rs. rq_session r \<noteq> Some ''s''" unfolding r(1) using r(2) by simp
  show ?thesis
    using served_connections_extend_the_log [OF journal_foundation sample_reader sample_clock_typed refl,
        where session = "''s''" and stream = sample_stream and x = sample_rc and sha = "\<lambda>s. s"
        and render = "\<lambda>_. []"] one none
    unfolding append_Nil by auto
qed

lemma sample_dispatch_events:
  "db_events (snd (service_dispatch sample_rc (sample_tick (CHR ''2'')) sample_now sample_registration False
     foundation_db)) \<noteq> []"
  by code_simp

theorem failed_request_changes_nothing_witness:
  "\<exists>e. journal (rc_valid sample_rc) [e] (snd (service_dispatch sample_rc (sample_tick (CHR ''2'')) sample_now
     sample_registration False foundation_db)) \<and> ev_type e \<in> client_types"
proof -
  obtain v d where o: "service_dispatch sample_rc (sample_tick (CHR ''2'')) sample_now sample_registration False
      foundation_db = (v, d)" by (rule prod.exhaust)
  have "typed_tick (sample_tick (CHR ''2''))" using sample_clock_typed by (simp add: sample_clock_def)
  moreover have "wf_jdict (rq_params sample_registration)"
    by (simp add: sample_registration_def wf_jdict_def)
  moreover have "d \<noteq> foundation_db"
    using sample_dispatch_events o by (auto simp: foundation_db_def empty_db_def)
  ultimately show ?thesis
    using failed_request_changes_nothing [OF journal_foundation _ _ o] o by auto
qed

definition sample_response :: rpc_response where
  "sample_response = RpcSuccess (JObj [(''version'', JInt 1), (''name'', JNull)])"

definition sample_frame :: string where
  "sample_frame = (case write_response (rc_frepr sample_rc) sample_response of Inl e \<Rightarrow> [] | Inr f \<Rightarrow> f)"

lemma sample_framed:
  "write_response (rc_frepr sample_rc) sample_response = Inr sample_frame"
  "list_all (\<lambda>v. sample_parse (canonical_text (rc_frepr sample_rc) (canon v)) = Some (canon v))
     [response_document sample_response, response_document response_too_large]"
  "length (canonical_text (rc_frepr sample_rc) (canon (response_document sample_response))) \<le> max_frame_bytes"
  by code_simp+

theorem response_frames_read_back_witness:
  "read_response sample_parse (rc_frepr sample_rc) (sample_frame @ ''rest'')
    = Inr (RpcSuccess (JObj [(''name'', JNull), (''version'', JInt 1)]), ''rest'')"
proof -
  have "\<forall>v \<in> {response_document sample_response, response_document response_too_large}.
      sample_parse (canonical_text (rc_frepr sample_rc) (canon v)) = Some (canon v)"
    using sample_framed(2) by simp
  moreover have "canonical_response sample_response = RpcSuccess (JObj [(''name'', JNull), (''version'', JInt 1)])"
    by code_simp
  ultimately show ?thesis
    using response_frames_read_back [OF sample_framed(1), of sample_parse "''rest''"] sample_framed(3)
    by (simp add: sample_response_def)
qed

end
