(* ===== verification/Contributions.thy ===== *)
theory Contributions
  imports Documents
begin

text \<open>
  What a worker contributes (\<open>knowledge/contributions.py\<close>): patches of a document by ranges of its
  bytes, snapshots, and the check of a candidate's source. Source is bytes; where the code decodes it,
  the text is the list of its code points. \<open>sha\<close> is the SHA-256 hex digest; \<open>uw\<close> and \<open>us\<close> tell
  which code points beyond ASCII \<open>\w\<close> and \<open>\s\<close> match.
\<close>

subsection \<open>UTF-8\<close>

text \<open>The strict decoder: no overlong forms, no surrogates, nothing beyond the last code point.\<close>

definition continuation :: "nat \<Rightarrow> bool" where
  "continuation b \<longleftrightarrow> 0x80 \<le> b \<and> b \<le> 0xBF"

definition first_point :: "string \<Rightarrow> (nat \<times> string) option" where
  "first_point s =
     (case s of
       [] \<Rightarrow> None
     | c0 # r \<Rightarrow>
         let b0 = code c0 in
         if b0 < 0x80 then Some (b0, r)
         else if 0xC2 \<le> b0 \<and> b0 \<le> 0xDF then
           (case r of
             c1 # r' \<Rightarrow>
               if continuation (code c1) then Some ((b0 - 0xC0) * 64 + (code c1 - 0x80), r') else None
           | _ \<Rightarrow> None)
         else if 0xE0 \<le> b0 \<and> b0 \<le> 0xEF then
           (case r of
             c1 # c2 # r' \<Rightarrow>
               if continuation (code c1) \<and> continuation (code c2) \<and> (b0 = 0xE0 \<longrightarrow> 0xA0 \<le> code c1)
                 \<and> (b0 = 0xED \<longrightarrow> code c1 \<le> 0x9F)
               then Some ((b0 - 0xE0) * 4096 + (code c1 - 0x80) * 64 + (code c2 - 0x80), r') else None
           | _ \<Rightarrow> None)
         else if 0xF0 \<le> b0 \<and> b0 \<le> 0xF4 then
           (case r of
             c1 # c2 # c3 # r' \<Rightarrow>
               if continuation (code c1) \<and> continuation (code c2) \<and> continuation (code c3)
                 \<and> (b0 = 0xF0 \<longrightarrow> 0x90 \<le> code c1) \<and> (b0 = 0xF4 \<longrightarrow> code c1 \<le> 0x8F)
               then Some ((b0 - 0xF0) * 262144 + (code c1 - 0x80) * 4096 + (code c2 - 0x80) * 64
                 + (code c3 - 0x80), r') else None
           | _ \<Rightarrow> None)
         else None)"

lemma first_point_shorter: "first_point s = Some (p, r) \<Longrightarrow> length r < length s"
  by (auto simp: first_point_def Let_def split: list.splits if_splits)

lemma first_point_append: "first_point s = Some (p, r) \<Longrightarrow> first_point (s @ t) = Some (p, r @ t)"
  by (cases s; cases "tl s"; cases "tl (tl s)"; cases "tl (tl (tl s))")
     (auto simp: first_point_def Let_def split: if_splits)

function points :: "string \<Rightarrow> nat list option" where
  "points s =
     (if s = [] then Some []
      else case first_point s of
        None \<Rightarrow> None
      | Some (p, r) \<Rightarrow> map_option (Cons p) (points r))"
  by pat_completeness auto
termination by (relation "measure length") (auto dest: first_point_shorter)

declare points.simps [simp del]

definition utf8 :: "string \<Rightarrow> nat list res" where
  "utf8 s = (case points s of None \<Rightarrow> Inl (ContributionValidationError ''INVALID_UTF8'') | Some p \<Rightarrow> Inr p)"

definition valid_utf8 :: "string \<Rightarrow> bool" where
  "valid_utf8 s \<longleftrightarrow> points s \<noteq> None"

definition boundary :: "string \<Rightarrow> nat \<Rightarrow> bool" where
  "boundary source offset \<longleftrightarrow> valid_utf8 (take offset source) \<and> valid_utf8 (drop offset source)"

subsection \<open>Patches\<close>

abbreviation rejected :: "string \<Rightarrow> exn" where
  "rejected \<equiv> ContributionValidationError"

record byte_edit =
  be_start :: int
  be_end :: int
  be_replacement :: string

definition mk_byte_edit :: "byte_edit \<Rightarrow> byte_edit res" where
  "mk_byte_edit e =
     bindr (ensure (0 \<le> be_start e \<and> be_start e \<le> be_end e) (rejected ''INVALID_BYTE_EDIT'')) (\<lambda>_.
     bindr (utf8 (be_replacement e)) (\<lambda>_. Inr e))"

record patch_payload =
  pp_version :: int
  pp_hash :: string
  pp_edits :: "byte_edit list"

definition contribution_text :: "string \<Rightarrow> string \<Rightarrow> unit res" where
  "contribution_text value error = ensure (value \<noteq> []) (rejected error)"

definition contribution_hash :: "string \<Rightarrow> string \<Rightarrow> unit res" where
  "contribution_hash value error =
     bindr (contribution_text value error) (\<lambda>_. ensure (is_hash value) (rejected error))"

definition mk_patch :: "patch_payload \<Rightarrow> patch_payload res" where
  "mk_patch p =
     bindr (ensure (0 \<le> pp_version p) (rejected ''INVALID_FILE_VERSION'')) (\<lambda>_.
     bindr (contribution_hash (pp_hash p) ''INVALID_CONTENT_HASH'') (\<lambda>_.
     bindr (ensure (pp_edits p \<noteq> []) (rejected ''INVALID_BYTE_EDITS'')) (\<lambda>_. Inr p)))"

text \<open>What \<open>b"".join(output)\<close> is after the remaining edits, from the cursor on.\<close>

fun apply_edits :: "string \<Rightarrow> nat \<Rightarrow> byte_edit list \<Rightarrow> string res" where
  "apply_edits source cursor [] = Inr (drop cursor source)"
| "apply_edits source cursor (e # es) =
     (let start = nat (be_start e); stop = nat (be_end e) in
      bindr (ensure (int cursor \<le> be_start e \<and> be_end e \<le> int (length source) \<and> boundary source start
        \<and> boundary source stop) (rejected ''INVALID_BYTE_EDITS'')) (\<lambda>_.
      bindr (apply_edits source stop es) (\<lambda>rest.
      Inr (take (start - cursor) (drop cursor source) @ be_replacement e @ rest))))"

definition apply_patch :: "(string \<Rightarrow> string) \<Rightarrow> patch_payload \<Rightarrow> string \<Rightarrow> string res" where
  "apply_patch sha p source =
     bindr (utf8 source) (\<lambda>_.
     bindr (ensure (sha source = pp_hash p) (rejected ''CONTENT_HASH_MISMATCH'')) (\<lambda>_.
     bindr (apply_edits source 0 (pp_edits p)) (\<lambda>result.
     bindr (utf8 result) (\<lambda>_.
     Inr result))))"

record snapshot_payload =
  sn_source :: string
  sn_hash :: string

definition mk_snapshot :: "(string \<Rightarrow> string) \<Rightarrow> snapshot_payload \<Rightarrow> snapshot_payload res" where
  "mk_snapshot sha s =
     bindr (utf8 (sn_source s)) (\<lambda>_.
     bindr (contribution_hash (sn_hash s) ''INVALID_PAYLOAD_HASH'') (\<lambda>_.
     bindr (ensure (sha (sn_source s) = sn_hash s) (rejected ''PAYLOAD_HASH_MISMATCH'')) (\<lambda>_.
     Inr s)))"

subsection \<open>The source of a candidate\<close>

text \<open>Code points of ASCII text.\<close>

definition ascii :: "string \<Rightarrow> nat list" where
  "ascii s = map code s"

definition word_point :: "(nat \<Rightarrow> bool) \<Rightarrow> nat \<Rightarrow> bool" where
  "word_point uw p \<longleftrightarrow> (if p < 128 then is_alnum (char_of p) \<or> p = 95 else uw p)"

text \<open>\<open>\s\<close>: tab to carriage return, the four separators and the space.\<close>

definition space_point :: "(nat \<Rightarrow> bool) \<Rightarrow> nat \<Rightarrow> bool" where
  "space_point us p \<longleftrightarrow> (if p < 128 then 9 \<le> p \<and> p \<le> 13 \<or> 28 \<le> p \<and> p \<le> 32 else us p)"

text \<open>The code that is left when comments and strings are taken out; \<open>depth\<close> counts open comments.\<close>

fun strip_code :: "nat \<Rightarrow> bool \<Rightarrow> bool \<Rightarrow> nat list \<Rightarrow> nat list" where
  "strip_code depth quoted line [] = []"
| "strip_code depth quoted line (c # s) =
     (if line then (if c = 10 then c # strip_code depth quoted False s else strip_code depth quoted True s)
      else if depth > 0 then
        (case s of
          d # r \<Rightarrow>
            if c = 47 \<and> d = 45 then strip_code (Suc depth) quoted line r
            else if c = 45 \<and> d = 47 then strip_code (depth - 1) quoted line r
            else strip_code depth quoted line s
        | [] \<Rightarrow> [])
      else if quoted then
        (if c = 92 then (case s of d # r \<Rightarrow> strip_code depth quoted line r | [] \<Rightarrow> [])
         else strip_code depth (c \<noteq> 34) line s)
      else
        (case s of
          d # r \<Rightarrow>
            if c = 45 \<and> d = 45 then strip_code depth quoted True r
            else if c = 47 \<and> d = 45 then strip_code 1 quoted line r
            else if c = 34 then strip_code depth True line s
            else c # strip_code depth quoted line s
        | [] \<Rightarrow> (if c = 34 then [] else [c])))"

definition code_of :: "nat list \<Rightarrow> nat list" where
  "code_of source = strip_code 0 False False source"

definition starts :: "nat list \<Rightarrow> nat list \<Rightarrow> bool" where
  "starts w s \<longleftrightarrow> take (length w) s = w"

definition boundary_after :: "(nat \<Rightarrow> bool) \<Rightarrow> nat list \<Rightarrow> bool" where
  "boundary_after uw s \<longleftrightarrow> (case s of [] \<Rightarrow> True | c # _ \<Rightarrow> \<not> word_point uw c)"

text \<open>How often \<open>\bword\b\<close> occurs; \<open>inside\<close> tells whether the point before is one of a word.\<close>

fun count_word :: "(nat \<Rightarrow> bool) \<Rightarrow> nat list \<Rightarrow> bool \<Rightarrow> nat list \<Rightarrow> nat" where
  "count_word uw w inside [] = 0"
| "count_word uw w inside (c # s) =
     (if \<not> inside \<and> starts w (c # s) \<and> boundary_after uw (drop (length w) (c # s)) then 1 else 0)
     + count_word uw w (word_point uw c) s"

definition has_word :: "(nat \<Rightarrow> bool) \<Rightarrow> string \<Rightarrow> nat list \<Rightarrow> bool" where
  "has_word uw w s \<longleftrightarrow> 0 < count_word uw (ascii w) False s"

text \<open>\<open>(?m)^\s*command\b\<close>\<close>

fun has_command :: "(nat \<Rightarrow> bool) \<Rightarrow> (nat \<Rightarrow> bool) \<Rightarrow> nat list \<Rightarrow> bool \<Rightarrow> nat list \<Rightarrow> bool" where
  "has_command uw us w at_line [] = False"
| "has_command uw us w at_line (c # s) =
     ((at_line \<and> (let r = dropWhile (space_point us) (c # s) in
        starts w r \<and> boundary_after uw (drop (length w) r)))
      \<or> has_command uw us w (c = 10) s)"

definition import_point :: "nat \<Rightarrow> bool" where
  "import_point p \<longleftrightarrow> p < 128 \<and> (is_alnum (char_of p) \<or> p = 95 \<or> p = 46)"

text \<open>\<open>(?m)^\s*import\s+([A-Za-z0-9_.]+)\<close>: the name and what is left behind the match.\<close>

definition import_at :: "(nat \<Rightarrow> bool) \<Rightarrow> nat list \<Rightarrow> (nat list \<times> nat list) option" where
  "import_at us s =
     (let r = dropWhile (space_point us) s; t = drop 6 r; u = dropWhile (space_point us) t in
      if starts (ascii ''import'') r \<and> u \<noteq> t \<and> takeWhile import_point u \<noteq> []
      then Some (takeWhile import_point u, dropWhile import_point u) else None)"

lemma shorter_dropWhile: "takeWhile P u \<noteq> [] \<Longrightarrow> length (dropWhile P u) < length u"
  by (cases u) (auto simp: length_dropWhile_le le_imp_less_Suc split: if_splits)

lemma import_at_shorter: "import_at us s = Some (n, r) \<Longrightarrow> length r < length s"
proof -
  assume "import_at us s = Some (n, r)"
  then have r: "r = dropWhile import_point (dropWhile (space_point us) (drop 6 (dropWhile (space_point us) s)))"
    and ne: "takeWhile import_point (dropWhile (space_point us) (drop 6 (dropWhile (space_point us) s))) \<noteq> []"
    by (auto simp: import_at_def Let_def split: if_splits)
  let ?u = "dropWhile (space_point us) (drop 6 (dropWhile (space_point us) s))"
  have "length r < length ?u"
    using shorter_dropWhile [OF ne] unfolding r .
  also have "\<dots> \<le> length s"
    using length_dropWhile_le [of "space_point us" "drop 6 (dropWhile (space_point us) s)"]
      length_dropWhile_le [of "space_point us" s] by simp
  finally show ?thesis .
qed

function import_names :: "(nat \<Rightarrow> bool) \<Rightarrow> bool \<Rightarrow> nat list \<Rightarrow> nat list list" where
  "import_names us at_line s =
     (case s of
       [] \<Rightarrow> []
     | c # s' \<Rightarrow>
         (case (if at_line then import_at us s else None) of
           Some (name, rest) \<Rightarrow> name # import_names us False rest
         | None \<Rightarrow> import_names us (c = 10) s'))"
  by pat_completeness auto
termination
  by (relation "measure (\<lambda>(us, at_line, s). length s)")
     (auto split: if_splits dest!: import_at_shorter)

declare import_names.simps [simp del]

text \<open>\<open>re.sub(r"\s+", " ", code)\<close>\<close>

fun collapse :: "(nat \<Rightarrow> bool) \<Rightarrow> bool \<Rightarrow> nat list \<Rightarrow> nat list" where
  "collapse us spaced [] = []"
| "collapse us spaced (c # s) =
     (if space_point us c then (if spaced then collapse us True s else 32 # collapse us True s)
      else c # collapse us False s)"

text \<open>\<open>\bdeclaration(?=\s*:=)\<close>, where the declaration starts with a letter\<close>

fun has_declaration :: "(nat \<Rightarrow> bool) \<Rightarrow> (nat \<Rightarrow> bool) \<Rightarrow> nat list \<Rightarrow> bool \<Rightarrow> nat list \<Rightarrow> bool" where
  "has_declaration uw us w inside [] = False"
| "has_declaration uw us w inside (c # s) =
     (\<not> inside \<and> starts w (c # s)
        \<and> starts (ascii '':='') (dropWhile (space_point us) (drop (length w) (c # s)))
      \<or> has_declaration uw us w (word_point uw c) s)"

definition forbidden_words :: "string list" where
  "forbidden_words = [''sorry'', ''admit'', ''axiom'', ''unsafe'', ''lean_run_code'']"

definition extra_declarations :: "string list" where
  "extra_declarations = [''def'', ''abbrev'', ''opaque'', ''inductive'', ''structure'', ''class'', ''instance'',
     ''macro'', ''syntax'', ''elab'']"

definition refused_commands :: "string list" where
  "refused_commands = [''#check'', ''#eval'', ''#print'', ''attribute'', ''example'', ''export'', ''initialize'',
     ''local'', ''open'', ''run_tac'', ''set_option'', ''variable'']"

definition validate_candidate_source ::
  "(nat \<Rightarrow> bool) \<Rightarrow> (nat \<Rightarrow> bool) \<Rightarrow> string \<Rightarrow> string \<Rightarrow> string \<Rightarrow> string list \<Rightarrow> unit res" where
  "validate_candidate_source uw us source name type_text allowed =
     bindr (utf8 source) (\<lambda>text.
     bindr (contribution_text name ''INVALID_CANDIDATE'') (\<lambda>_.
     bindr (contribution_text type_text ''INVALID_CANDIDATE'') (\<lambda>_.
     bindr (utf8 (''theorem '' @ name @ '' '' @ (if type_text \<noteq> [] \<and> hd type_text \<in> set ''({['' then [] else '': '')
       @ type_text)) (\<lambda>declaration.
     let stripped = code_of text in
     require_all
       [ensure (\<not> list_ex (\<lambda>w. has_word uw w stripped) forbidden_words) (rejected ''FORBIDDEN_LEAN_TOKEN''),
        ensure (count_word uw (ascii ''theorem'') False stripped = 1
            \<and> \<not> list_ex (\<lambda>w. has_word uw w stripped) extra_declarations)
          (rejected ''EXTRA_TOP_LEVEL_DECLARATION''),
        ensure (\<not> list_ex (\<lambda>w. has_command uw us (ascii w) True stripped) refused_commands)
          (rejected ''FORBIDDEN_LEAN_COMMAND''),
        ensure (list_all (\<lambda>n. n \<in> set (map ascii allowed)) (import_names us True stripped))
          (rejected ''IMPORT_NOT_ALLOWED''),
        ensure (has_declaration uw us declaration False (collapse us False stripped))
          (rejected ''CANDIDATE_NOT_IN_SOURCE'')]))))"

end
