(* ===== verification/Contribution_Properties.thy ===== *)
theory Contribution_Properties
  imports Contributions
begin

text \<open>
  Patches: the edits of an accepted patch, applied in one pass from the front, give what replacing one
  range after the other from the back gives, and the result is text again.
\<close>

subsection \<open>Valid text\<close>

lemma points_Nil [simp]: "points [] = Some []"
  by (simp add: points.simps)

lemma points_append: "points s = Some p \<Longrightarrow> points (s @ t) = map_option ((@) p) (points t)"
proof (induction s arbitrary: p rule: points.induct)
  case (1 s)
  show ?case
  proof (cases "s = []")
    case True
    then show ?thesis using 1(2) by (cases "points t") auto
  next
    case False
    with 1(2) obtain c r q where f: "first_point s = Some (c, r)" "points r = Some q" "p = c # q"
      by (subst (asm) points.simps) (auto split: option.splits)
    have "points (s @ t) = map_option (Cons c) (points (r @ t))"
      by (subst points.simps) (simp add: False first_point_append [OF f(1)])
    then show ?thesis
      using 1(1) [OF False f(1) refl f(2)] f(3) by (cases "points t") simp_all
  qed
qed

lemma valid_append: "valid_utf8 s \<Longrightarrow> valid_utf8 (s @ t) \<longleftrightarrow> valid_utf8 t"
  unfolding valid_utf8_def using points_append by fastforce

lemma valid_Nil [simp]: "valid_utf8 []"
  by (simp add: valid_utf8_def)

lemma utf8_Inr: "(\<exists>p. utf8 s = Inr p) \<longleftrightarrow> valid_utf8 s"
  by (auto simp: utf8_def valid_utf8_def split: option.splits)

lemma utf8_invalid: "\<not> valid_utf8 s \<Longrightarrow> utf8 s = Inl (rejected ''INVALID_UTF8'')"
  by (simp add: utf8_def valid_utf8_def)

subsection \<open>Edits\<close>

definition replace_bytes :: "byte_edit \<Rightarrow> string \<Rightarrow> string" where
  "replace_bytes e s = take (nat (be_start e)) s @ be_replacement e @ drop (nat (be_end e)) s"

text \<open>The edits are in order, do not overlap, and start and end between characters.\<close>

fun fitting_edits :: "string \<Rightarrow> nat \<Rightarrow> byte_edit list \<Rightarrow> bool" where
  "fitting_edits source cursor [] = True"
| "fitting_edits source cursor (e # es) =
     (int cursor \<le> be_start e \<and> be_end e \<le> int (length source) \<and> boundary source (nat (be_start e))
      \<and> boundary source (nat (be_end e)) \<and> fitting_edits source (nat (be_end e)) es)"

lemma mk_byte_edit_Inr:
  "mk_byte_edit e = Inr e \<longleftrightarrow> 0 \<le> be_start e \<and> be_start e \<le> be_end e \<and> valid_utf8 (be_replacement e)"
  using utf8_Inr [of "be_replacement e"] by (auto simp: mk_byte_edit_def inr_simps)

lemma apply_edits_refused:
  "\<not> fitting_edits source cursor es \<Longrightarrow> apply_edits source cursor es = Inl (rejected ''INVALID_BYTE_EDITS'')"
  by (induction source cursor es rule: apply_edits.induct) (auto simp: Let_def ensure_def)

lemma apply_edits_replaces:
  assumes "fitting_edits source cursor es" "list_all (\<lambda>e. mk_byte_edit e = Inr e) es" "cursor \<le> length source"
  shows "apply_edits source cursor es = Inr (drop cursor (foldr replace_bytes es source))
    \<and> take cursor (foldr replace_bytes es source) = take cursor source"
  using assms
proof (induction es arbitrary: cursor)
  case (Cons e es)
  define i j where "i = nat (be_start e)" and "j = nat (be_end e)"
  define f where "f = foldr replace_bytes es source"
  have ij: "cursor \<le> i" "i \<le> j" "j \<le> length source"
    using Cons.prems by (auto simp: i_def j_def mk_byte_edit_Inr nat_le_iff le_nat_iff)
  have IH: "apply_edits source j es = Inr (drop j f)" "take j f = take j source"
    using Cons.IH [of j] Cons.prems ij(3) by (simp_all add: i_def j_def f_def)
  have ti: "take i f = take i source"
    using IH(2) ij(2) by (metis min.absorb1 take_take)
  have len: "length (take i source) = i" using ij by simp
  have r: "foldr replace_bytes (e # es) source = take i source @ be_replacement e @ drop j f"
    by (simp add: replace_bytes_def i_def [symmetric] j_def [symmetric] f_def [symmetric] ti)
  have "apply_edits source cursor (e # es)
      = Inr (take (i - cursor) (drop cursor source) @ be_replacement e @ drop j f)"
    using Cons.prems(1) IH(1) by (simp add: Let_def i_def j_def ensure_def)
  also have "take (i - cursor) (drop cursor source) = drop cursor (take i source)"
    by (simp add: drop_take)
  finally show ?case using ij len unfolding r by simp
qed simp

lemma apply_edits_valid:
  assumes "fitting_edits source cursor es" "list_all (\<lambda>e. mk_byte_edit e = Inr e) es"
    and "boundary source cursor" "apply_edits source cursor es = Inr out"
  shows "valid_utf8 out"
  using assms
proof (induction es arbitrary: cursor out)
  case Nil
  then show ?case by (simp add: boundary_def)
next
  case (Cons e es)
  define i j where "i = nat (be_start e)" and "j = nat (be_end e)"
  have c: "cursor \<le> i" using Cons.prems(1) by (auto simp: i_def le_nat_iff)
  obtain rest where rest: "apply_edits source j es = Inr rest"
    "out = take (i - cursor) (drop cursor source) @ be_replacement e @ rest"
    using Cons.prems(4) by (auto simp: Let_def i_def j_def inr_simps)
  have "valid_utf8 rest"
    by (rule Cons.IH [OF _ _ _ rest(1)]) (use Cons.prems in \<open>simp_all add: j_def\<close>)
  moreover have "valid_utf8 (take (i - cursor) (drop cursor source))"
  proof -
    have "take i source = take cursor source @ take (i - cursor) (drop cursor source)"
      using c by (metis le_add_diff_inverse take_add)
    moreover have "valid_utf8 (take cursor source)" "valid_utf8 (take i source)"
      using Cons.prems by (simp_all add: boundary_def i_def)
    ultimately show ?thesis using valid_append by metis
  qed
  moreover have "valid_utf8 (be_replacement e)" using Cons.prems(2) by (simp add: mk_byte_edit_Inr)
  ultimately show ?case by (simp add: rest(2) valid_append)
qed

text \<open>
  C15. A patch is applied exactly when the source is text with the expected hash and the edits are in
  order, without overlap, within the source and between characters. The result is then what replacing
  the ranges one after the other, the last one first, makes of the source, and it is text again: the
  check of the result never refuses it. In every other case the error is the one of the first check
  that fails.
\<close>

theorem patch_replaces_ranges:
  assumes "list_all (\<lambda>e. mk_byte_edit e = Inr e) (pp_edits p)"
  shows "apply_patch sha p source =
    (if \<not> valid_utf8 source then Inl (ContributionValidationError ''INVALID_UTF8'')
     else if sha source \<noteq> pp_hash p then Inl (ContributionValidationError ''CONTENT_HASH_MISMATCH'')
     else if \<not> fitting_edits source 0 (pp_edits p) then Inl (ContributionValidationError ''INVALID_BYTE_EDITS'')
     else Inr (foldr replace_bytes (pp_edits p) source))"
proof (cases "valid_utf8 source \<and> sha source = pp_hash p \<and> fitting_edits source 0 (pp_edits p)")
  case True
  then have out: "apply_edits source 0 (pp_edits p) = Inr (foldr replace_bytes (pp_edits p) source)"
    using apply_edits_replaces [of source 0 "pp_edits p"] assms by simp
  moreover have "valid_utf8 (foldr replace_bytes (pp_edits p) source)"
    by (rule apply_edits_valid [OF _ assms _ out]) (use True in \<open>simp_all add: boundary_def\<close>)
  ultimately show ?thesis
    using True utf8_Inr [of source] utf8_Inr [of "foldr replace_bytes (pp_edits p) source"]
    by (auto simp: apply_patch_def ensure_def)
next
  case False
  then show ?thesis
    using utf8_Inr [of source] apply_edits_refused [of source 0 "pp_edits p"] utf8_invalid [of source]
    by (auto simp: apply_patch_def ensure_def)
qed

text \<open>A text of two lines, of which one word is replaced and one letter of two bytes is inserted.\<close>

definition sample_patch :: patch_payload where
  "sample_patch =
     \<lparr>pp_version = 1, pp_hash = ''ab cd'',
      pp_edits = [\<lparr>be_start = 0, be_end = 2, be_replacement = ''x''\<rparr>,
                  \<lparr>be_start = 5, be_end = 5, be_replacement = [CHR 0xCE, CHR 0xB1]\<rparr>]\<rparr>"

theorem patch_replaces_ranges_witness:
  "apply_patch id sample_patch ''ab cd'' = Inr (''x cd'' @ [CHR 0xCE, CHR 0xB1])"
proof -
  have "list_all (\<lambda>e. mk_byte_edit e = Inr e) (pp_edits sample_patch)" by code_simp
  from patch_replaces_ranges [OF this, of id "''ab cd''"]
  have "apply_patch id sample_patch ''ab cd'' =
     (if \<not> valid_utf8 ''ab cd'' then Inl (ContributionValidationError ''INVALID_UTF8'')
      else if id ''ab cd'' \<noteq> pp_hash sample_patch then Inl (ContributionValidationError ''CONTENT_HASH_MISMATCH'')
      else if \<not> fitting_edits ''ab cd'' 0 (pp_edits sample_patch)
      then Inl (ContributionValidationError ''INVALID_BYTE_EDITS'')
      else Inr (foldr replace_bytes (pp_edits sample_patch) ''ab cd''))" .
  also have "\<dots> = Inr (''x cd'' @ [CHR 0xCE, CHR 0xB1])" by code_simp
  finally show ?thesis .
qed

text \<open>
  The check of a source takes the quotation mark of a character literal for the start of a string: a
  word between two such literals is not seen.
\<close>

lemma quoted_words_are_missed:
  "validate_candidate_source (\<lambda>_. True) (\<lambda>_. False)
     (''theorem t : True := by exact f '' @ [CHR 0x27, CHR 0x22, CHR 0x27] @ '' sorry '' @ [CHR 0x27, CHR 0x22, CHR 0x27])
     ''t'' ''True'' [] = Inr ()
   \<and> validate_candidate_source (\<lambda>_. True) (\<lambda>_. False) ''theorem t : True := by sorry'' ''t'' ''True'' []
       = Inl (ContributionValidationError ''FORBIDDEN_LEAN_TOKEN'')"
  by code_simp

end
