(* ===== verification/Knowledge.thy ===== *)
theory Knowledge
  imports Contributions Promotion_Service Serialization Document_Service
begin

text \<open>
  Published knowledge (\<open>knowledge/artifacts.py\<close>, \<open>deltas.py\<close>, \<open>promotion_context.py\<close>): the
  content-addressed files, the events of a publication, reading and acknowledging them, and what a
  promotion reads of the state. An artifact tree holds, for a run, a category and a digest, the content
  of the file and whether only its owner may read it; a path without a regular file is not in it.
  Creating and opening the files is outside. \<open>sha\<close> is the SHA-256 hex digest, \<open>frepr\<close>
  \<open>float.__repr__\<close>.
\<close>

subsection \<open>Artifacts\<close>

type_synonym artifact_files = "((string \<times> string \<times> string) \<times> (string \<times> bool)) list"

record artifact_reference =
  ar_run :: string
  ar_category :: string
  ar_hash :: string
  ar_media :: string
  ar_length :: nat

text \<open>\<open>[A-Za-z0-9][A-Za-z0-9_-]{0,63}\<close>\<close>

definition artifact_identifier :: "string \<Rightarrow> string \<Rightarrow> unit res" where
  "artifact_identifier value error =
     ensure (ident_match is_alnum (\<lambda>c. is_alnum c \<or> c = CHR ''_'' \<or> c = CHR ''-'') 63 value) (ArtifactError error)"

definition artifact_hash :: "string \<Rightarrow> unit res" where
  "artifact_hash value = ensure (is_hash value) (ArtifactError ''INVALID_ARTIFACT_REFERENCE'')"

definition mk_artifact_reference :: "artifact_reference \<Rightarrow> artifact_reference res" where
  "mk_artifact_reference r =
     bindr (artifact_identifier (ar_run r) ''INVALID_ARTIFACT_REFERENCE'') (\<lambda>_.
     bindr (artifact_identifier (ar_category r) ''INVALID_ARTIFACT_REFERENCE'') (\<lambda>_.
     bindr (artifact_hash (ar_hash r)) (\<lambda>_.
     bindr (ensure (ar_media r \<noteq> []) (ArtifactError ''INVALID_ARTIFACT_REFERENCE'')) (\<lambda>_.
     Inr r))))"

definition store_artifact ::
  "(string \<Rightarrow> string) \<Rightarrow> string \<Rightarrow> string \<Rightarrow> string \<Rightarrow> string \<Rightarrow> artifact_files
     \<Rightarrow> (artifact_reference \<times> artifact_files) res" where
  "store_artifact sha run category content media files =
     bindr (artifact_identifier run ''INVALID_ARTIFACT_REQUEST'') (\<lambda>_.
     bindr (artifact_identifier category ''INVALID_ARTIFACT_REQUEST'') (\<lambda>_.
     bindr (ensure (media \<noteq> []) (ArtifactError ''INVALID_ARTIFACT_REQUEST'')) (\<lambda>_.
     let digest = sha content; path = (run, category, digest);
         files' = (case map_of files path of None \<Rightarrow> (path, (content, True)) # files | Some _ \<Rightarrow> files)
     in bindr (ensure (map_of files' path = Some (content, True)) (ArtifactError ''ARTIFACT_INTEGRITY_MISMATCH'')) (\<lambda>_.
        bindr (mk_artifact_reference \<lparr>ar_run = run, ar_category = category, ar_hash = digest,
          ar_media = media, ar_length = length content\<rparr>) (\<lambda>r.
        Inr (r, files'))))))"

definition load_artifact ::
  "(string \<Rightarrow> string) \<Rightarrow> string \<Rightarrow> string \<Rightarrow> string \<Rightarrow> artifact_files \<Rightarrow> string res" where
  "load_artifact sha run category digest files =
     bindr (artifact_identifier run ''INVALID_ARTIFACT_REFERENCE'') (\<lambda>_.
     bindr (artifact_identifier category ''INVALID_ARTIFACT_REFERENCE'') (\<lambda>_.
     bindr (artifact_hash digest) (\<lambda>_.
     case map_of files (run, category, digest) of
       None \<Rightarrow> Inl (DocumentIoError ''DOCUMENT_PATH_DENIED'')
     | Some (body, private) \<Rightarrow>
         bindr (ensure (private \<and> sha body = digest) (ArtifactError ''ARTIFACT_INTEGRITY_MISMATCH'')) (\<lambda>_.
         Inr body))))"

definition read_artifact ::
  "(string \<Rightarrow> string) \<Rightarrow> artifact_reference \<Rightarrow> artifact_files \<Rightarrow> string res" where
  "read_artifact sha r files =
     (case map_of files (ar_run r, ar_category r, ar_hash r) of
       None \<Rightarrow> Inl (DocumentIoError ''DOCUMENT_PATH_DENIED'')
     | Some (body, private) \<Rightarrow>
         bindr (ensure (private \<and> length body = ar_length r \<and> sha body = ar_hash r)
           (ArtifactError ''ARTIFACT_INTEGRITY_MISMATCH'')) (\<lambda>_.
         Inr body))"

subsection \<open>Publications\<close>

definition epoch_document :: "epoch_pair \<Rightarrow> json" where
  "epoch_document e = JObj [(''base_epoch'', JStr (base_epoch e)), (''knowledge_epoch'', JInt (knowledge_epoch e))]"

text \<open>\<open>sha256_json\<close> of a document that holds no float.\<close>

definition json_digest :: "(string \<Rightarrow> string) \<Rightarrow> (64 word \<Rightarrow> string) \<Rightarrow> jdict \<Rightarrow> string" where
  "json_digest sha frepr d = sha (canonical_text frepr (canon (JObj d)))"

definition json_items :: "string list \<Rightarrow> json" where
  "json_items values = JArr (map JStr values)"

record publication =
  pb_epoch :: epoch_pair
  pb_prepared :: append_command
  pb_declaration :: append_command
  pb_delta :: append_command

text \<open>What the verification says of a declaration, with the links of its contribution.\<close>

record declared =
  dc_name :: string
  dc_type :: string
  dc_dependencies :: "string list"
  dc_assumptions :: "string list"
  dc_axioms :: "string list"
  dc_links :: "string list"

definition publication_delta ::
  "(string \<Rightarrow> string) \<Rightarrow> (64 word \<Rightarrow> string) \<Rightarrow> string \<Rightarrow> string \<Rightarrow> epoch_pair \<Rightarrow> string \<Rightarrow> artifact_reference
     \<Rightarrow> string \<Rightarrow> declared \<Rightarrow> nat \<Rightarrow> publication res" where
  "publication_delta sha frepr contribution run current new_base module module_name c sequence =
     bindr (new_epoch_pair new_base (knowledge_epoch current + 1)) (\<lambda>new_epoch.
     let declaration_id = json_digest sha frepr [(''name'', JStr (dc_name c)), (''module'', JStr (ar_hash module))];
         delta_id = json_digest sha frepr
           [(''declaration'', JStr declaration_id), (''epoch'', epoch_document new_epoch)];
         event = (\<lambda>ty payload. command ty ''promotion_service'' (Some run) None payload);
         lists = [(''dependencies'', json_items (dc_dependencies c)), (''assumptions'', json_items (dc_assumptions c)),
           (''axioms'', json_items (dc_axioms c)), (''evidence_links'', json_items (dc_links c)),
           (''publication_sequence'', JInt (int sequence))]
     in Inr \<lparr>pb_epoch = new_epoch,
          pb_prepared = event ''PromotionPrepared''
            [(''contribution_id'', JStr contribution), (''module'', JStr module_name),
             (''content_hash'', JStr (ar_hash module)), (''base_epoch'', JStr (base_epoch new_epoch)),
             (''knowledge_epoch'', JInt (knowledge_epoch new_epoch)), (''declaration_id'', JStr declaration_id),
             (''delta_id'', JStr delta_id)],
          pb_declaration = event ''DeclarationPublished''
            ([(''declaration_id'', JStr declaration_id), (''name'', JStr (dc_name c)),
              (''type'', JStr (dc_type c)), (''content_hash'', JStr (ar_hash module)),
              (''contribution_id'', JStr contribution), (''module'', JStr module_name)] @ lists),
          pb_delta = event ''KnowledgeDeltaPublished''
            ([(''delta_id'', JStr delta_id), (''base_epoch'', JStr (base_epoch new_epoch)),
              (''knowledge_epoch'', JInt (knowledge_epoch new_epoch)), (''declaration_id'', JStr declaration_id),
              (''contribution_id'', JStr contribution), (''previous_base_epoch'', JStr (base_epoch current)),
              (''previous_knowledge_epoch'', JInt (knowledge_epoch current)),
              (''fully_qualified_name'', JStr (dc_name c)), (''complete_type'', JStr (dc_type c)),
              (''module'', JStr module_name)] @ lists)\<rparr>)"

text \<open>The characters of \<open>[^A-Za-z0-9_]\<close>, one underscore for each.\<close>

definition name_stem :: "string \<Rightarrow> string" where
  "name_stem candidate =
     (case points candidate of
       None \<Rightarrow> []
     | Some ps \<Rightarrow> map (\<lambda>p. if p < 128 \<and> (is_alnum (char_of p) \<or> p = 95) then char_of p else CHR ''_'') ps)"

definition research_name :: "string \<Rightarrow> string \<Rightarrow> string \<Rightarrow> string" where
  "research_name candidate digest namespace =
     (let stem = name_stem candidate;
          prefix = (if stem = [] \<or> is_digit (hd stem) then ''candidate_'' else [])
      in namespace @ ''.'' @ prefix @ stem @ ''_'' @ take 16 digest)"

subsection \<open>Reading and acknowledging\<close>

record published_delta =
  pd_delta :: string
  pd_previous :: epoch_pair
  pd_new :: epoch_pair
  pd_declaration :: string
  pd_name :: string
  pd_type :: string
  pd_module :: string
  pd_dependencies :: "string list"
  pd_assumptions :: "string list"
  pd_axioms :: "string list"
  pd_links :: "string list"
  pd_contribution :: string
  pd_sequence :: int

definition field_text :: "exn \<Rightarrow> jdict \<Rightarrow> string \<Rightarrow> string res" where
  "field_text e payload field =
     (case get_json payload field of JStr s \<Rightarrow> bindr (ensure (s \<noteq> []) e) (\<lambda>_. Inr s) | _ \<Rightarrow> Inl e)"

definition field_integer :: "exn \<Rightarrow> jdict \<Rightarrow> string \<Rightarrow> int res" where
  "field_integer e payload field =
     (case get_json payload field of JInt i \<Rightarrow> bindr (ensure (0 \<le> i) e) (\<lambda>_. Inr i) | _ \<Rightarrow> Inl e)"

definition field_strings :: "exn \<Rightarrow> jdict \<Rightarrow> string \<Rightarrow> string list res" where
  "field_strings e payload field =
     (case get_json payload field of
       JArr xs \<Rightarrow> mapr (\<lambda>v. case v of JStr s \<Rightarrow> bindr (ensure (s \<noteq> []) e) (\<lambda>_. Inr s) | _ \<Rightarrow> Inl e) xs
     | _ \<Rightarrow> Inl e)"

definition read_delta :: "jdict \<Rightarrow> published_delta res" where
  "read_delta p =
     (let e = ValueError ''INVALID_KNOWLEDGE_DELTA'' in
      bindr (field_text e p ''delta_id'') (\<lambda>delta_id.
      bindr (field_text e p ''previous_base_epoch'') (\<lambda>b0.
      bindr (field_integer e p ''previous_knowledge_epoch'') (\<lambda>k0.
      bindr (new_epoch_pair b0 k0) (\<lambda>previous.
      bindr (field_text e p ''base_epoch'') (\<lambda>b1.
      bindr (field_integer e p ''knowledge_epoch'') (\<lambda>k1.
      bindr (new_epoch_pair b1 k1) (\<lambda>new.
      bindr (field_text e p ''declaration_id'') (\<lambda>declaration.
      bindr (field_text e p ''fully_qualified_name'') (\<lambda>name.
      bindr (field_text e p ''complete_type'') (\<lambda>ty.
      bindr (field_text e p ''module'') (\<lambda>module.
      bindr (field_strings e p ''dependencies'') (\<lambda>dependencies.
      bindr (field_strings e p ''assumptions'') (\<lambda>assumptions.
      bindr (field_strings e p ''axioms'') (\<lambda>axioms.
      bindr (field_strings e p ''evidence_links'') (\<lambda>links.
      bindr (field_text e p ''contribution_id'') (\<lambda>contribution.
      bindr (field_integer e p ''publication_sequence'') (\<lambda>sequence.
      Inr \<lparr>pd_delta = delta_id, pd_previous = previous, pd_new = new, pd_declaration = declaration,
           pd_name = name, pd_type = ty, pd_module = module, pd_dependencies = dependencies,
           pd_assumptions = assumptions, pd_axioms = axioms, pd_links = links,
           pd_contribution = contribution, pd_sequence = sequence\<rparr>))))))))))))))))))"

definition is_delta :: "event_record \<Rightarrow> bool" where
  "is_delta r \<longleftrightarrow> ev_type (rec_envelope r) = ''KnowledgeDeltaPublished''"

definition read_knowledge :: "(jdict \<Rightarrow> bool) \<Rightarrow> int \<Rightarrow> db \<Rightarrow> published_delta list res" where
  "read_knowledge vr after d =
     bindr (ensure (0 \<le> after) (ValueError ''INVALID_KNOWLEDGE_CURSOR'')) (\<lambda>_.
     bindr (query_events vr None d) (\<lambda>events.
     bindr (mapr (\<lambda>r. read_delta (ev_payload (rec_envelope r))) (filter is_delta events)) (\<lambda>deltas.
     Inr (filter (\<lambda>p. after < knowledge_epoch (pd_new p)) deltas))))"

definition acknowledge_delta ::
  "(jdict \<Rightarrow> bool) \<Rightarrow> (string \<Rightarrow> string) \<Rightarrow> (64 word \<Rightarrow> string) \<Rightarrow> tick \<Rightarrow> string \<Rightarrow> string \<Rightarrow> string \<Rightarrow> db
     \<Rightarrow> (bool \<times> db) res" where
  "acknowledge_delta vr sha frepr t run worker delta d =
     bindr (ensure ([] \<notin> set [run, worker, delta]) (ValueError ''INVALID_KNOWLEDGE_ACKNOWLEDGEMENT'')) (\<lambda>_.
     bindr (query_events vr (Some run) d) (\<lambda>events.
     bindr (ensure (list_ex (\<lambda>r. is_delta r
         \<and> get_json (ev_payload (rec_envelope r)) ''delta_id'' = JStr delta) events)
       (ValueError ''UNKNOWN_KNOWLEDGE_DELTA'')) (\<lambda>_.
     let i = json_digest sha frepr
       [(''run_id'', JStr run), (''worker_id'', JStr worker), (''delta_id'', JStr delta)]
     in if list_ex (\<lambda>r. ev_type (rec_envelope r) = ''KnowledgeDeltaAcknowledged''
          \<and> get_json (ev_payload (rec_envelope r)) ''acknowledgement_id'' = JStr i) events
        then Inr (False, d)
        else bindr (append_event vr t (command ''KnowledgeDeltaAcknowledged'' worker (Some run) None
          [(''acknowledgement_id'', JStr i), (''worker_id'', JStr worker), (''delta_id'', JStr delta)]) d) (\<lambda>(_, d').
          Inr (True, d')))))"

subsection \<open>What a promotion reads\<close>

abbreviation invalid_contribution :: exn where
  "invalid_contribution \<equiv> PromotionError ''INVALID_CONTRIBUTION''"

definition submits :: "string \<Rightarrow> event_record \<Rightarrow> bool" where
  "submits contribution r \<longleftrightarrow> ev_type (rec_envelope r) = ''ContributionSubmitted''
     \<and> get_json (ev_payload (rec_envelope r)) ''contribution_id'' = JStr contribution"

definition find_contribution :: "(jdict \<Rightarrow> bool) \<Rightarrow> string \<Rightarrow> db \<Rightarrow> event_envelope res" where
  "find_contribution vr contribution d =
     bindr (query_events vr None d) (\<lambda>events.
     case List.find (submits contribution) events of
       None \<Rightarrow> Inl (PromotionError ''PROMOTION_NOT_FOUND'')
     | Some r \<Rightarrow> Inr (rec_envelope r))"

definition contribution_run_id :: "(jdict \<Rightarrow> bool) \<Rightarrow> string \<Rightarrow> db \<Rightarrow> string option res" where
  "contribution_run_id vr contribution d =
     bindr (find_contribution vr contribution d) (\<lambda>e. Inr (ev_run e))"

definition current_epoch_pair :: "db \<Rightarrow> epoch_pair res" where
  "current_epoch_pair d =
     bindr (query_projection ''epochs'' ''global'' d) (\<lambda>record.
     case record of
       None \<Rightarrow> Inl (PromotionError ''EPOCH_MISMATCH'')
     | Some r \<Rightarrow>
         (case pr_state r of
           JObj payload \<Rightarrow>
             bindr (field_text invalid_contribution payload ''base_epoch'') (\<lambda>b.
             bindr (field_integer invalid_contribution payload ''knowledge_epoch'') (\<lambda>k.
             new_epoch_pair b k))
         | _ \<Rightarrow> Inl (PromotionError ''EPOCH_MISMATCH'')))"

definition promoted_document :: "jdict \<Rightarrow> db \<Rightarrow> jdict option res" where
  "promoted_document payload d =
     bindr (field_text invalid_contribution payload ''document_id'') (\<lambda>document.
     bindr (query_projection ''documents'' document d) (\<lambda>record.
     Inr (case record of
         None \<Rightarrow> None
       | Some r \<Rightarrow>
           (case pr_state r of
             JObj state \<Rightarrow> (case get_json state ''payload'' of JObj p \<Rightarrow> Some p | _ \<Rightarrow> None)
           | _ \<Rightarrow> None))))"

definition is_stale_contribution :: "jdict \<Rightarrow> epoch_pair \<Rightarrow> db \<Rightarrow> bool res" where
  "is_stale_contribution payload current d =
     bindr (field_text invalid_contribution payload ''base_epoch'') (\<lambda>b.
     bindr (field_integer invalid_contribution payload ''knowledge_epoch'') (\<lambda>k.
     if (b, k) \<noteq> (base_epoch current, knowledge_epoch current) then Inr True
     else
       bindr (field_text invalid_contribution payload ''payload_kind'') (\<lambda>kind.
       if kind \<noteq> ''patch'' then Inr False
       else
         bindr (promoted_document payload d) (\<lambda>document.
         case document of
           None \<Rightarrow> Inr True
         | Some p \<Rightarrow>
             bindr (field_integer invalid_contribution p ''version'') (\<lambda>v.
             bindr (field_integer invalid_contribution payload ''expected_file_version'') (\<lambda>w.
             Inr (v \<noteq> w)))))))"

end
