(* ===== verification/Promotion_Engine.thy ===== *)
theory Promotion_Engine
  imports Knowledge
begin

text \<open>
  The promotion of a contribution (\<open>knowledge/promotion.py\<close>, \<open>promotion_types.py\<close>,
  \<open>promotion_evidence.py\<close>, \<open>promotion_materialization.py\<close>, \<open>failures.py\<close>, \<open>rebase.py\<close>) and its
  submission (\<open>submission.py\<close>). Lean, which verifies a source, and the materializer, which builds and
  activates a module, are functions of the environment; a promotion takes whatever they answer. While
  it waits for them it renews its claim any number of times. An exception leaves what was written
  before it: a step returns its result next to the state it leaves.
\<close>

subsection \<open>Steps\<close>

record knowledge_state =
  ks_db :: db
  ks_files :: artifact_files

type_synonym 'a step = "knowledge_state \<Rightarrow> 'a res \<times> knowledge_state"

definition returning :: "'a res \<Rightarrow> 'a step" where
  "returning m s = (m, s)"

definition on_db :: "(db \<Rightarrow> ('a \<times> db) res) \<Rightarrow> 'a step" where
  "on_db f s = (case f (ks_db s) of Inl e \<Rightarrow> (Inl e, s) | Inr (x, d) \<Rightarrow> (Inr x, s\<lparr>ks_db := d\<rparr>))"

definition on_files :: "(artifact_files \<Rightarrow> ('a \<times> artifact_files) res) \<Rightarrow> 'a step" where
  "on_files f s = (case f (ks_files s) of Inl e \<Rightarrow> (Inl e, s) | Inr (x, a) \<Rightarrow> (Inr x, s\<lparr>ks_files := a\<rparr>))"

definition querying :: "(db \<Rightarrow> 'a res) \<Rightarrow> 'a step" where
  "querying f s = (f (ks_db s), s)"

definition loads_file :: "(artifact_files \<Rightarrow> 'a res) \<Rightarrow> 'a step" where
  "loads_file f s = (f (ks_files s), s)"

definition binds :: "'a step \<Rightarrow> ('a \<Rightarrow> 'b step) \<Rightarrow> 'b step" where
  "binds m f s = (case m s of (Inl e, s') \<Rightarrow> (Inl e, s') | (Inr x, s') \<Rightarrow> f x s')"

definition recovering :: "'a step \<Rightarrow> (exn \<Rightarrow> 'a step) \<Rightarrow> 'a step" where
  "recovering m h s = (case m s of (Inl e, s') \<Rightarrow> h e s' | (Inr x, s') \<Rightarrow> (Inr x, s'))"

subsection \<open>Evidence (\<open>promotion_types.py\<close>)\<close>

record promotion_evidence =
  pv_diagnostics :: "string list"
  pv_axioms :: "string list"
  pv_type :: string
  pv_dependencies :: "string list"
  pv_assumptions :: "string list"
  pv_source :: "string option"
  pv_diagnostics_hash :: "string option"
  pv_build_hash :: "string option"
  pv_axiom_hash :: "string option"
  pv_success :: bool
  pv_warnings :: "string list"

definition mk_evidence :: "promotion_evidence \<Rightarrow> promotion_evidence res" where
  "mk_evidence v =
     (let bad = PromotionError ''INVALID_PROMOTION_EVIDENCE'' in
      bindr (ensure (pv_type v \<noteq> []) bad) (\<lambda>_.
      bindr (ensure (list_all (\<lambda>xs. [] \<notin> set xs)
        [pv_diagnostics v, pv_axioms v, pv_dependencies v, pv_assumptions v, pv_warnings v]) bad) (\<lambda>_.
      bindr (ensure (list_all (\<lambda>h. case h of None \<Rightarrow> True | Some x \<Rightarrow> is_hash x)
        [pv_diagnostics_hash v, pv_build_hash v, pv_axiom_hash v]) bad) (\<lambda>_.
      Inr v))))"

definition allowed_axioms :: "string list" where
  "allowed_axioms = [''propext'', ''Classical.choice'', ''Quot.sound'']"

definition accepted_evidence :: "promotion_evidence \<Rightarrow> bool" where
  "accepted_evidence v \<longleftrightarrow> pv_diagnostics v = [] \<and> pv_success v \<and> pv_warnings v = []
     \<and> ''sorryAx'' \<notin> set (pv_axioms v) \<and> set (pv_axioms v) \<subseteq> set allowed_axioms"

record materialization =
  mz_module :: string
  mz_hash :: string
  mz_epoch :: string

text \<open>\<open>(?:AizimSmoke\.Research|AizimResearch)\.[A-Za-z_][A-Za-z0-9_]*\<close>\<close>

definition research_module :: "string \<Rightarrow> bool" where
  "research_module s \<longleftrightarrow> list_ex (\<lambda>p. starts_with p s \<and> (case drop (length p) s of
       c # r \<Rightarrow> (is_alpha c \<or> c = CHR ''_'') \<and> list_all (\<lambda>c. is_alnum c \<or> c = CHR ''_'') r
     | [] \<Rightarrow> False)) [''AizimSmoke.Research.'', ''AizimResearch.'']"

definition mk_materialization :: "materialization \<Rightarrow> materialization res" where
  "mk_materialization m =
     bindr (ensure (research_module (mz_module m) \<and> is_hash (mz_hash m) \<and> is_hash (mz_epoch m))
       (PromotionError ''INVALID_MATERIALIZATION'')) (\<lambda>_. Inr m)"

record promotion_outcome =
  po_contribution :: string
  po_state :: queue_state
  po_epoch :: "epoch_pair option"
  po_rebased :: "string option"

subsection \<open>The service and its environment\<close>

record promotion_service =
  ps_vr :: "jdict \<Rightarrow> bool"
  ps_sha :: "string \<Rightarrow> string"
  ps_frepr :: "64 word \<Rightarrow> string"
  ps_word :: "nat \<Rightarrow> bool"
  ps_space :: "nat \<Rightarrow> bool"
  ps_owner :: string
  ps_imports :: "string list"
  ps_namespace :: string

text \<open>
  For one promotion: the identifiers and times of its events and the readings of its clock, by the call
  that asks for them; what Lean and the materializer answer; the renewals of the claim while each of
  the three operations that are waited for runs.
\<close>

record promotion_world =
  pw_tick :: "nat \<Rightarrow> tick"
  pw_now :: "nat \<Rightarrow> datetime"
  pw_verify :: "string \<Rightarrow> string \<Rightarrow> promotion_evidence res"
  pw_materialize :: "string \<Rightarrow> epoch_pair \<Rightarrow> nat \<Rightarrow> materialization res"
  pw_activate :: "materialization \<Rightarrow> unit res"
  pw_renewals :: "nat \<Rightarrow> (datetime \<times> tick) list"

definition candidate_check :: "promotion_service \<Rightarrow> string \<Rightarrow> string \<Rightarrow> string \<Rightarrow> unit res" where
  "candidate_check p source name type_text =
     validate_candidate_source (ps_word p) (ps_space p) source name type_text (ps_imports p)"

fun renew :: "promotion_service \<Rightarrow> string \<Rightarrow> (datetime \<times> tick) list \<Rightarrow> unit step" where
  "renew p contribution [] = returning (Inr ())"
| "renew p contribution ((now, t) # beats) =
     binds (on_db (heartbeat_promotion (ps_vr p) now t contribution (ps_owner p))) (\<lambda>_.
     renew p contribution beats)"

text \<open>A renewal that fails ends the wait with its error; else the operation ends it with its own result.\<close>

definition active :: "promotion_service \<Rightarrow> string \<Rightarrow> (datetime \<times> tick) list \<Rightarrow> 'a res \<Rightarrow> 'a step" where
  "active p contribution beats m =
     binds (renew p contribution beats) (\<lambda>_. returning m)"

definition verdict :: "bool \<Rightarrow> json" where
  "verdict b = JStr (if b then ''pass'' else ''failed'')"

definition record_verification ::
  "promotion_service \<Rightarrow> tick \<Rightarrow> string \<Rightarrow> string \<Rightarrow> promotion_evidence \<Rightarrow> db \<Rightarrow> (event_record \<times> db) res" where
  "record_verification p t run contribution v d =
     (let digest = json_digest (ps_sha p) (ps_frepr p);
          or_else = (\<lambda>h x. case h of Some y \<Rightarrow> if y \<noteq> [] then y else x | None \<Rightarrow> x);
          axiom_hash = JStr (or_else (pv_axiom_hash v) (digest [(''axioms'', json_items (pv_axioms v))]));
          axioms_ok = set (pv_axioms v) \<subseteq> set allowed_axioms
      in append_event (ps_vr p) t (command ''PromotionVerificationRecorded'' ''promotion_service'' (Some run) None
        [(''contribution_id'', JStr contribution),
         (''diagnostics_hash'', JStr (or_else (pv_diagnostics_hash v)
            (digest [(''diagnostics'', json_items (pv_diagnostics v))]))),
         (''diagnostics_verdict'', verdict (pv_diagnostics v = [])),
         (''build_hash'', JStr (or_else (pv_build_hash v) (digest [(''success'', JBool (pv_success v))]))),
         (''build_verdict'', verdict (pv_success v)),
         (''source_scan_hash'', axiom_hash),
         (''source_scan_verdict'', verdict (pv_axiom_hash v \<noteq> None \<and> pv_warnings v = [] \<and> axioms_ok)),
         (''axiom_verification_hash'', axiom_hash),
         (''axiom_verification_verdict'', verdict axioms_ok)]) d)"

subsection \<open>Failures and rebasing\<close>

definition quarantine_failure ::
  "promotion_service \<Rightarrow> promotion_world \<Rightarrow> nat \<Rightarrow> queue_entry \<Rightarrow> string option \<Rightarrow> string \<Rightarrow> string list
     \<Rightarrow> string list \<Rightarrow> queue_entry step" where
  "quarantine_failure p w n entry run reason diagnostics axioms =
     binds (on_files (store_artifact (ps_sha p) (case run of Some r \<Rightarrow> if r \<noteq> [] then r else ''unknown'' | None \<Rightarrow> ''unknown'')
       ''diagnostics''
       (canonical_text (ps_frepr p) (canon (JObj [(''reason'', JStr reason), (''diagnostics'', json_items diagnostics),
         (''axioms'', json_items axioms)])))
       ''application/json'')) (\<lambda>artifact.
     on_db (fail_promotion_service (ps_vr p) (pw_tick w n) (pw_now w n) (pw_tick w (Suc n)) (qe_contribution entry)
       (ps_owner p) (command ''PromotionFailed'' ''promotion_service'' run None
         [(''contribution_id'', JStr (qe_contribution entry)), (''reason_code'', JStr reason),
          (''artifact_hash'', JStr (ar_hash artifact))])))"

definition fail_entry ::
  "promotion_service \<Rightarrow> promotion_world \<Rightarrow> nat \<Rightarrow> queue_entry \<Rightarrow> string option \<Rightarrow> string \<Rightarrow> promotion_evidence option
     \<Rightarrow> promotion_outcome step" where
  "fail_entry p w n entry run reason evidence =
     binds (quarantine_failure p w n entry run reason
       (case evidence of None \<Rightarrow> [] | Some v \<Rightarrow> pv_diagnostics v @ pv_warnings v)
       (case evidence of None \<Rightarrow> [] | Some v \<Rightarrow> pv_axioms v)) (\<lambda>quarantined.
     returning (Inr \<lparr>po_contribution = qe_contribution entry, po_state = qe_state quarantined, po_epoch = None,
       po_rebased = None\<rparr>))"

text \<open>\<open>bytes.fromhex\<close>, which skips white space between the bytes\<close>

definition hex_char :: "char \<Rightarrow> bool" where
  "hex_char c \<longleftrightarrow> is_digit c \<or> 97 \<le> code c \<and> code c \<le> 102 \<or> 65 \<le> code c \<and> code c \<le> 70"

definition hex_value :: "char \<Rightarrow> nat" where
  "hex_value c = (if is_digit c then digit_val c else if 97 \<le> code c then code c - 87 else code c - 55)"

definition hex_space :: "char \<Rightarrow> bool" where
  "hex_space c \<longleftrightarrow> 9 \<le> code c \<and> code c \<le> 13 \<or> code c = 32"

fun from_hex :: "string \<Rightarrow> string option" where
  "from_hex [] = Some []"
| "from_hex [c] = (if hex_space c then Some [] else None)"
| "from_hex (c # d # s) =
     (if hex_space c then from_hex (d # s)
      else if hex_char c \<and> hex_char d
      then map_option (Cons (char_of (16 * hex_value c + hex_value d))) (from_hex s) else None)"

definition invalid_edits :: exn where
  "invalid_edits = PromotionError ''INVALID_PATCH_EDITS''"

definition read_edit :: "json \<Rightarrow> byte_edit res" where
  "read_edit item =
     (case item of
       JObj d \<Rightarrow>
         bindr (ensure (keys d = {''start_byte'', ''end_byte'', ''replacement_hex''}) invalid_edits) (\<lambda>_.
         bindr (field_text invalid_edits d ''replacement_hex'') (\<lambda>h.
         case from_hex h of
           None \<Rightarrow> Inl invalid_edits
         | Some replacement \<Rightarrow>
             bindr (field_integer invalid_edits d ''start_byte'') (\<lambda>a.
             bindr (field_integer invalid_edits d ''end_byte'') (\<lambda>b.
             mk_byte_edit \<lparr>be_start = a, be_end = b, be_replacement = replacement\<rparr>))))
     | _ \<Rightarrow> Inl invalid_edits)"

definition read_edits :: "jdict \<Rightarrow> byte_edit list res" where
  "read_edits payload =
     (case get_json payload ''edits'' of JArr items \<Rightarrow> mapr read_edit items | _ \<Rightarrow> Inl invalid_edits)"

definition rebase_patch ::
  "promotion_service \<Rightarrow> jdict \<Rightarrow> jdict \<Rightarrow> string \<Rightarrow> (artifact_reference \<times> int \<times> string) step" where
  "rebase_patch p payload document run =
     binds (returning (bindr (field_integer invalid_edits document ''version'') (\<lambda>version.
       bindr (field_text invalid_edits document ''content_hash'') (\<lambda>h. Inr (version, h))))) (\<lambda>(version, h).
     binds (loads_file (load_artifact (ps_sha p) run ''documents'' h)) (\<lambda>source.
     binds (returning (bindr (read_edits payload) (\<lambda>edits.
       bindr (mk_patch \<lparr>pp_version = version, pp_hash = h, pp_edits = edits\<rparr>) (\<lambda>patch.
       bindr (apply_patch (ps_sha p) patch source) (\<lambda>rebased.
       bindr (field_text invalid_edits payload ''candidate_name'') (\<lambda>name.
       bindr (field_text invalid_edits payload ''complete_type'') (\<lambda>type_text.
       bindr (candidate_check p rebased name type_text) (\<lambda>_.
       Inr rebased)))))))) (\<lambda>rebased.
     binds (on_files (store_artifact (ps_sha p) run ''contributions'' rebased ''text/x-lean'')) (\<lambda>artifact.
     returning (Inr (artifact, version, h))))))"

definition rebase_entry ::
  "promotion_service \<Rightarrow> promotion_world \<Rightarrow> queue_entry \<Rightarrow> string \<Rightarrow> jdict \<Rightarrow> epoch_pair \<Rightarrow> promotion_outcome step" where
  "rebase_entry p w entry run payload current =
     binds (returning (field_text invalid_contribution payload ''payload_kind'')) (\<lambda>kind.
     binds (if kind = ''patch'' then
         binds (querying (promoted_document payload)) (\<lambda>document.
         case document of
           None \<Rightarrow> returning (Inl (PromotionError ''DOCUMENT_NOT_FOUND''))
         | Some doc \<Rightarrow> binds (rebase_patch p payload doc run) (\<lambda>patch. returning (Inr (Some patch))))
       else returning (Inr None)) (\<lambda>patch.
     let rebased = json_digest (ps_sha p) (ps_frepr p)
           [(''contribution_id'', JStr (qe_contribution entry)), (''epoch'', epoch_document current)];
         next = dict_merge payload
           [(''contribution_id'', JStr rebased), (''base_epoch'', JStr (base_epoch current)),
            (''knowledge_epoch'', JInt (knowledge_epoch current)),
            (''rebased_from'', JStr (qe_contribution entry))];
         next = (case patch of
             None \<Rightarrow> next
           | Some (artifact, version, h) \<Rightarrow> dict_merge next
               [(''payload_hash'', JStr (ar_hash artifact)), (''expected_file_version'', JInt version),
                (''expected_content_hash'', JStr h)])
     in binds (on_db (rebase_promotion (ps_vr p) (pw_tick w 1) (pw_tick w 2) (pw_tick w 3) (pw_now w 1) (pw_tick w 4)
          (qe_contribution entry) (ps_owner p)
          (command ''ContributionSubmitted'' ''promotion_service'' (Some run) None next)
          (command ''ContributionRebased'' ''promotion_service'' (Some run) None
            [(''contribution_id'', JStr rebased), (''source_contribution_id'', JStr (qe_contribution entry)),
             (''base_epoch'', JStr (base_epoch current))]))) (\<lambda>_.
        returning (Inr \<lparr>po_contribution = qe_contribution entry, po_state = Quarantined, po_epoch = None,
          po_rebased = Some rebased\<rparr>))))"

subsection \<open>Promotion\<close>

definition materialize ::
  "promotion_service \<Rightarrow> promotion_world \<Rightarrow> artifact_reference \<Rightarrow> epoch_pair \<Rightarrow> nat \<Rightarrow> materialization step" where
  "materialize p w module current sequence =
     binds (loads_file (load_artifact (ps_sha p) (ar_run module) (ar_category module) (ar_hash module))) (\<lambda>source.
     returning
       (bindr (pw_materialize w source current sequence) (\<lambda>m.
        bindr (mk_materialization m) (\<lambda>_.
        bindr (ensure (mz_hash m = ps_sha p source) (PromotionError ''MATERIALIZATION_HASH_MISMATCH'')) (\<lambda>_.
        Inr m)))))"

definition publish_entry ::
  "promotion_service \<Rightarrow> promotion_world \<Rightarrow> queue_entry \<Rightarrow> string \<Rightarrow> jdict \<Rightarrow> epoch_pair \<Rightarrow> artifact_reference
     \<Rightarrow> materialization \<Rightarrow> promotion_evidence \<Rightarrow> string \<Rightarrow> promotion_outcome step" where
  "publish_entry p w entry run payload current module m v name =
     binds (returning (bindr (field_strings invalid_contribution payload ''evidence_links'') (\<lambda>links.
       publication_delta (ps_sha p) (ps_frepr p) (qe_contribution entry) run current (mz_epoch m) module
         (mz_module m) \<lparr>dc_name = name, dc_type = pv_type v, dc_dependencies = pv_dependencies v,
           dc_assumptions = pv_assumptions v, dc_axioms = pv_axioms v, dc_links = links\<rparr>
         (qe_sequence entry)))) (\<lambda>publication.
     binds (on_db (prepare_promotion (ps_vr p) (pw_tick w 8) (qe_contribution entry) (ps_owner p)
       (pb_prepared publication))) (\<lambda>_.
     binds (active p (qe_contribution entry) (pw_renewals w 2) (pw_activate w m)) (\<lambda>_.
     binds (on_db (publish_promotion (ps_vr p) (pw_tick w 9) (pw_tick w 10) (pw_now w 5) (pw_tick w 11)
       (qe_contribution entry) (ps_owner p) (pb_declaration publication) (pb_delta publication))) (\<lambda>published.
     returning (Inr \<lparr>po_contribution = qe_contribution entry, po_state = qe_state published,
       po_epoch = Some (pb_epoch publication), po_rebased = None\<rparr>)))))"

definition advance_from ::
  "promotion_service \<Rightarrow> promotion_world \<Rightarrow> nat \<Rightarrow> queue_state \<Rightarrow> queue_state \<Rightarrow> queue_entry \<Rightarrow> queue_entry step" where
  "advance_from p w n source target entry =
     (if qe_state entry = source
      then on_db (advance_promotion (ps_vr p) (pw_now w n) (pw_tick w n) (qe_contribution entry) (ps_owner p) target)
      else returning (Inr entry))"

definition promote_current ::
  "promotion_service \<Rightarrow> promotion_world \<Rightarrow> queue_entry \<Rightarrow> string \<Rightarrow> jdict \<Rightarrow> epoch_pair \<Rightarrow> promotion_outcome step" where
  "promote_current p w entry run payload current =
     (let contribution = qe_contribution entry in
      binds (returning (field_text invalid_contribution payload ''payload_hash'')) (\<lambda>digest.
      binds (loads_file (load_artifact (ps_sha p) run ''contributions'' digest)) (\<lambda>source.
      binds (returning (bindr (field_text invalid_contribution payload ''candidate_name'') (\<lambda>name.
        bindr (field_text invalid_contribution payload ''complete_type'') (\<lambda>type_text.
        bindr (candidate_check p source name type_text) (\<lambda>_.
        Inr (research_name name digest (ps_namespace p))))))) (\<lambda>name.
      binds (active p contribution (pw_renewals w 0) (bindr (pw_verify w source name) mk_evidence)) (\<lambda>v.
      binds (on_db (record_verification p (pw_tick w 1) run contribution v)) (\<lambda>_.
      if \<not> accepted_evidence v then fail_entry p w 2 entry (Some run) ''LEAN_VERIFICATION_FAILED'' (Some v)
      else
        binds (advance_from p w 4 Staged Verified entry) (\<lambda>verified.
        binds (on_files (store_artifact (ps_sha p) run ''promotions''
          (case pv_source v of None \<Rightarrow> source | Some rendered \<Rightarrow> rendered) ''text/x-lean'')) (\<lambda>module.
        binds (advance_from p w 5 Verified Materialized verified) (\<lambda>materialized.
        binds (binds (renew p contribution (pw_renewals w 1)) (\<lambda>_.
          materialize p w module current (qe_sequence materialized))) (\<lambda>m.
        publish_entry p w materialized run payload current module m v name)))))))))) "

text \<open>\<open>str(error)\<close> for the errors the promotion knows\<close>

fun failure_reason :: "exn \<Rightarrow> string" where
  "failure_reason (ArtifactError s) = s"
| "failure_reason (ContributionValidationError s) = s"
| "failure_reason (PromotionError s) = s"
| "failure_reason e = ''PROMOTION_FAILED''"

definition promote_entry :: "promotion_service \<Rightarrow> promotion_world \<Rightarrow> queue_entry \<Rightarrow> promotion_outcome step" where
  "promote_entry p w entry =
     recovering
       (binds (querying (\<lambda>d. bindr (find_contribution (ps_vr p) (qe_contribution entry) d) (\<lambda>event.
          bindr (current_epoch_pair d) (\<lambda>current.
          bindr (case ev_run event of None \<Rightarrow> Inl invalid_contribution | Some r \<Rightarrow> Inr r) (\<lambda>run.
          bindr (is_stale_contribution (ev_payload event) current d) (\<lambda>stale.
          Inr (ev_payload event, current, run, stale))))))) (\<lambda>(payload, current, run, stale).
        if stale then rebase_entry p w entry run payload current
        else promote_current p w entry run payload current))
       (\<lambda>e. binds (querying (contribution_run_id (ps_vr p) (qe_contribution entry))) (\<lambda>run.
          fail_entry p w 12 entry run (failure_reason e) None))"

definition promote_next ::
  "promotion_service \<Rightarrow> promotion_world \<Rightarrow> promotion_outcome option step" where
  "promote_next p w =
     binds (on_db (claim_next_promotion (ps_vr p) (pw_now w 0) (pw_tick w 0) (ps_owner p))) (\<lambda>claimed.
     case claimed of
       None \<Rightarrow> returning (Inr None)
     | Some entry \<Rightarrow> binds (promote_entry p w entry) (\<lambda>r. returning (Inr (Some r))))"

definition recover_next ::
  "promotion_service \<Rightarrow> promotion_world \<Rightarrow> int \<Rightarrow> promotion_outcome option step" where
  "recover_next p w claim_timeout =
     binds (on_db (recover_expired_promotion (ps_vr p) (pw_now w 0) (pw_tick w 0) (ps_owner p) claim_timeout)) (\<lambda>claimed.
     case claimed of
       None \<Rightarrow> returning (Inr None)
     | Some entry \<Rightarrow> binds (promote_entry p w entry) (\<lambda>r. returning (Inr (Some r))))"

subsection \<open>Submission (\<open>submission.py\<close>)\<close>

datatype contribution_payload = Patch patch_payload | Snapshot snapshot_payload

record contribution_draft =
  dr_contribution :: string
  dr_worker :: string
  dr_run :: string
  dr_lease :: string
  dr_document :: string
  dr_epoch :: epoch_pair
  dr_environment :: string
  dr_payload :: contribution_payload
  dr_candidate :: string
  dr_type :: string
  dr_imports :: "string list"
  dr_dependencies :: "string list"
  dr_assumptions :: "string list"
  dr_links :: "string list"

definition mk_draft :: "contribution_draft \<Rightarrow> contribution_draft res" where
  "mk_draft r =
     bindr (ensure ([] \<notin> set [dr_contribution r, dr_worker r, dr_run r, dr_lease r, dr_document r, dr_candidate r,
       dr_type r]) (rejected ''INVALID_CONTRIBUTION'')) (\<lambda>_.
     bindr (contribution_hash (dr_environment r) ''INVALID_CONTRIBUTION'') (\<lambda>_.
     bindr (ensure (list_all (\<lambda>xs. [] \<notin> set xs) [dr_imports r, dr_dependencies r, dr_assumptions r, dr_links r])
       (rejected ''INVALID_CONTRIBUTION'')) (\<lambda>_. Inr r)))"

definition hex_text :: "string \<Rightarrow> string" where
  "hex_text s = concat (map (\<lambda>c. [hex_digit (code c div 16), hex_digit (code c mod 16)]) s)"

definition stored_edit :: "byte_edit \<Rightarrow> json" where
  "stored_edit e = JObj [(''start_byte'', JInt (be_start e)), (''end_byte'', JInt (be_end e)),
     (''replacement_hex'', JStr (hex_text (be_replacement e)))]"

definition stored_edits :: "patch_payload \<Rightarrow> json" where
  "stored_edits p = JArr (map stored_edit (pp_edits p))"

definition submitted_source ::
  "(string \<Rightarrow> string) \<Rightarrow> contribution_payload \<Rightarrow> int \<Rightarrow> string \<Rightarrow> string option \<Rightarrow> string res" where
  "submitted_source sha payload version content_hash current_source =
     (case payload of
       Patch p \<Rightarrow>
         bindr (ensure (pp_version p = version) (rejected ''PATCH_FILE_VERSION_MISMATCH'')) (\<lambda>_.
         bindr (ensure (pp_hash p = content_hash) (rejected ''CONTENT_HASH_MISMATCH'')) (\<lambda>_.
         case current_source of
           None \<Rightarrow> Inl (rejected ''CONTENT_HASH_MISMATCH'')
         | Some source \<Rightarrow> apply_patch sha p source))
     | Snapshot s \<Rightarrow>
         bindr (ensure (current_source = None \<and> sha (sn_source s) = content_hash)
           (rejected ''CONTENT_HASH_MISMATCH'')) (\<lambda>_.
         Inr (sn_source s)))"

definition submission_payload ::
  "contribution_draft \<Rightarrow> string \<Rightarrow> int \<Rightarrow> jdict" where
  "submission_payload r payload_hash version =
     [(''contribution_id'', JStr (dr_contribution r)), (''worker_id'', JStr (dr_worker r)),
      (''lease_id'', JStr (dr_lease r)), (''document_id'', JStr (dr_document r)),
      (''payload_kind'', JStr (case dr_payload r of Patch _ \<Rightarrow> ''patch'' | Snapshot _ \<Rightarrow> ''snapshot'')),
      (''payload_hash'', JStr payload_hash), (''expected_file_version'', JInt version),
      (''environment_fingerprint'', JStr (dr_environment r)), (''base_epoch'', JStr (base_epoch (dr_epoch r))),
      (''knowledge_epoch'', JInt (knowledge_epoch (dr_epoch r))), (''candidate_name'', JStr (dr_candidate r)),
      (''complete_type'', JStr (dr_type r)), (''imports'', json_items (dr_imports r)),
      (''dependencies'', json_items (dr_dependencies r)), (''assumptions'', json_items (dr_assumptions r)),
      (''evidence_links'', json_items (dr_links r))]
     @ (case dr_payload r of
         Patch p \<Rightarrow> [(''expected_content_hash'', JStr (pp_hash p)), (''edits'', stored_edits p)]
       | Snapshot _ \<Rightarrow> [])"

record submitted_contribution =
  sc_contribution :: string
  sc_hash :: string
  sc_artifact :: artifact_reference
  sc_entry :: queue_entry

definition submit_contribution ::
  "promotion_service \<Rightarrow> string \<Rightarrow> datetime \<Rightarrow> tick \<Rightarrow> tick \<Rightarrow> contribution_draft \<Rightarrow> string option
     \<Rightarrow> submitted_contribution step" where
  "submit_contribution p environment now t1 t2 r current_source =
     binds (querying (\<lambda>d.
       bindr (case document_for (dr_run r) (dr_worker r) (dr_lease r) (dr_document r) now d of
           Inl (DocumentStateError _) \<Rightarrow> Inl (rejected ''LEASE_ACCESS_DENIED'') | m \<Rightarrow> m) (\<lambda>document.
       bindr (submitted_source (ps_sha p) (dr_payload r) (ds_version document) (ds_hash document)
         current_source) (\<lambda>source.
       bindr (ensure (dr_epoch r = ds_epoch document \<and> dr_environment r = environment)
         (rejected ''EPOCH_MISMATCH'')) (\<lambda>_.
       bindr (ensure (set (dr_imports r) \<subseteq> set (ps_imports p)) (rejected ''IMPORT_NOT_ALLOWED'')) (\<lambda>_.
       bindr (candidate_check p source (dr_candidate r) (dr_type r)) (\<lambda>_.
       Inr (document, source)))))))) (\<lambda>(document, source).
     binds (on_files (store_artifact (ps_sha p) (dr_run r) ''contributions'' source ''text/x-lean'')) (\<lambda>artifact.
     binds (recovering
       (on_db (enqueue_contribution (ps_vr p) t1 t2
         (command ''ContributionSubmitted'' ''contribution_service'' (Some (dr_run r)) None
           (submission_payload r (ar_hash artifact) (ds_version document)))))
       (\<lambda>e. returning (Inl (if e = ValueError ''DUPLICATE_CONTRIBUTION_MISMATCH''
          then rejected ''DUPLICATE_CONTRIBUTION_MISMATCH'' else e)))) (\<lambda>entry.
     returning (Inr \<lparr>sc_contribution = dr_contribution r, sc_hash = ar_hash artifact, sc_artifact = artifact,
       sc_entry = entry\<rparr>))))"

end
