(* ===== verification/Knowledge_Properties.thy ===== *)
theory Knowledge_Properties
  imports Promotion_Engine Promotion_Runs
begin

text \<open>
  What a promotion promises: only the source its contribution names, checked and verified without an
  axiom beyond the allowed ones, is published, for the epoch it was submitted for; everything else ends
  in quarantine. And what becomes of the edits of a patch between its submission and its rebasing.
\<close>

subsection \<open>Steps that succeed\<close>

lemma binds_Inr:
  "binds m f s = (Inr y, s2) \<longleftrightarrow> (\<exists>x s1. m s = (Inr x, s1) \<and> f x s1 = (Inr y, s2))"
  by (auto simp: binds_def split: prod.splits sum.splits)

lemma step_Inr:
  "returning m s = (Inr y, s2) \<longleftrightarrow> m = Inr y \<and> s2 = s"
  "on_db f s = (Inr y, s2) \<longleftrightarrow> (\<exists>d. f (ks_db s) = Inr (y, d) \<and> s2 = s\<lparr>ks_db := d\<rparr>)"
  "on_files g s = (Inr y, s2) \<longleftrightarrow> (\<exists>a. g (ks_files s) = Inr (y, a) \<and> s2 = s\<lparr>ks_files := a\<rparr>)"
  "querying h s = (Inr y, s2) \<longleftrightarrow> h (ks_db s) = Inr y \<and> s2 = s"
  "loads_file k s = (Inr y, s2) \<longleftrightarrow> k (ks_files s) = Inr y \<and> s2 = s"
  by (auto simp: returning_def on_db_def on_files_def querying_def loads_file_def split: sum.splits prod.splits)

lemma recovering_Inr:
  "recovering m h s = (Inr y, s2) \<longleftrightarrow>
     m s = (Inr y, s2) \<or> (\<exists>e s1. m s = (Inl e, s1) \<and> h e s1 = (Inr y, s2))"
  by (auto simp: recovering_def split: prod.splits sum.splits)

lemma field_text_Inr: "field_text e p f = Inr s \<longleftrightarrow> get_json p f = JStr s \<and> s \<noteq> []"
  by (auto simp: field_text_def bindr_eq_Inr split: json.splits)

lemma field_integer_Inr: "field_integer e p f = Inr i \<longleftrightarrow> get_json p f = JInt i \<and> 0 \<le> i"
  by (auto simp: field_integer_def bindr_eq_Inr split: json.splits)

lemma load_artifact_Inr: "load_artifact sha run category digest files = Inr body \<Longrightarrow> sha body = digest"
  by (auto simp: load_artifact_def bindr_eq_Inr split: option.splits prod.splits)

subsection \<open>Where a promotion ends\<close>

lemma fail_promotion_state:
  assumes "fail_promotion_service vr t1 now t2 i owner c d = Inr (e, d')"
  shows "qe_state e = Quarantined"
proof -
  from assms obtain q d1 where "queue_update q owner now Quarantined d = Inr (e, d1)"
    by (auto simp: fail_promotion_service_def fail_promotion_def inr_simps)
  then show ?thesis by (auto simp: queue_update_def Let_def mk_queue_entry_def bindr_eq_Inr)
qed

lemma fail_entry_state:
  assumes "fail_entry p w n entry run reason v s = (Inr r, s')"
  shows "po_state r = Quarantined"
  using assms unfolding fail_entry_def quarantine_failure_def
  by (auto simp: binds_Inr step_Inr dest: fail_promotion_state)

lemma rebase_entry_state:
  assumes "rebase_entry p w entry run payload current s = (Inr r, s')"
  shows "po_state r = Quarantined"
  using assms unfolding rebase_entry_def Let_def by (auto simp: binds_Inr step_Inr)

text \<open>The rows a publication adds.\<close>

lemma publish_rows:
  assumes "publish_promotion vr t1 t2 now t3 i owner declaration delta d = Inr (e, d')"
  obtains n where "qe_state e = Published" "er_payload n = canon (JObj (cmd_payload declaration))"
    "er_type n = ''DeclarationPublished''" "n \<in> set (db_events d')"
proof -
  from assms obtain e1 e2 c d1 d2 d3 d4 f where ev: "service_event vr t1 declaration = Inr e1"
    "ev_type e1 = ''DeclarationPublished''"
    and u: "queue_update c owner now Published d = Inr (e, d1)"
    and a: "queue_append apply_event e1 d1 = Inr d2" "queue_append apply_event e2 d2 = Inr d3"
      "queue_append apply_event f d3 = Inr d'"
    by (auto simp: publish_promotion_def publish_def inr_simps)
  let ?n = "event_row_of (next_sequence (map er_sequence (db_events d1))) e1"
  have "?n \<in> set (db_events d')" using a [THEN queue_append_events] by simp
  moreover have "er_payload ?n = canon (JObj (cmd_payload declaration))"
    using service_event_valid(5) [OF ev(1)] by (simp add: event_row_of_def)
  moreover have "qe_state e = Published"
    using u by (auto simp: queue_update_def Let_def mk_queue_entry_def bindr_eq_Inr)
  ultimately show ?thesis using that [of ?n] ev(2) by simp
qed

text \<open>
  What stands behind a published declaration: the contribution and the epoch a promotion found in
  \<open>d\<close>, the source and what was said of it, and the epoch of the publication.
\<close>

definition publication_is_backed ::
  "promotion_service \<Rightarrow> promotion_world \<Rightarrow> queue_entry \<Rightarrow> db \<Rightarrow> promotion_outcome \<Rightarrow> db \<Rightarrow> bool" where
  "publication_is_backed p w entry d r d' \<longleftrightarrow>
     (\<exists>event current source name type_text v row declaration.
        find_contribution (ps_vr p) (qe_contribution entry) d = Inr event
        \<and> current_epoch_pair d = Inr current
        \<and> get_json (ev_payload event) ''base_epoch'' = JStr (base_epoch current)
        \<and> get_json (ev_payload event) ''knowledge_epoch'' = JInt (knowledge_epoch current)
        \<and> get_json (ev_payload event) ''payload_hash'' = JStr (ps_sha p source)
        \<and> get_json (ev_payload event) ''candidate_name'' = JStr name
        \<and> get_json (ev_payload event) ''complete_type'' = JStr type_text
        \<and> candidate_check p source name type_text = Inr ()
        \<and> pw_verify w source (research_name name (ps_sha p source) (ps_namespace p)) = Inr v
        \<and> pv_diagnostics v = [] \<and> pv_success v \<and> set (pv_axioms v) \<subseteq> set allowed_axioms
        \<and> map_option knowledge_epoch (po_epoch r) = Some (knowledge_epoch current + 1)
        \<and> row \<in> set (db_events d') \<and> er_type row = ''DeclarationPublished''
        \<and> er_payload row = canon (JObj declaration)
        \<and> get_json declaration ''contribution_id'' = JStr (qe_contribution entry)
        \<and> get_json declaration ''name'' = JStr (research_name name (ps_sha p source) (ps_namespace p))
        \<and> get_json declaration ''type'' = JStr (pv_type v)
        \<and> get_json declaration ''axioms'' = json_items (pv_axioms v))"

lemma not_stale:
  assumes "is_stale_contribution payload current d = Inr False"
  shows "get_json payload ''base_epoch'' = JStr (base_epoch current)"
    "get_json payload ''knowledge_epoch'' = JInt (knowledge_epoch current)"
  using assms by (auto simp: is_stale_contribution_def bindr_eq_Inr field_text_Inr field_integer_Inr split: if_splits)

lemma publication_delta_Inr:
  assumes "publication_delta sha frepr i run current new_base module m c n = Inr b"
  shows "knowledge_epoch (pb_epoch b) = knowledge_epoch current + 1"
    and "get_json (cmd_payload (pb_declaration b)) ''contribution_id'' = JStr i"
    "get_json (cmd_payload (pb_declaration b)) ''name'' = JStr (dc_name c)"
    "get_json (cmd_payload (pb_declaration b)) ''type'' = JStr (dc_type c)"
    "get_json (cmd_payload (pb_declaration b)) ''axioms'' = json_items (dc_axioms c)"
  using assms
  by (auto simp: publication_delta_def new_epoch_pair_def bindr_eq_Inr Let_def get_json_def command_select)

lemma publish_entry_backed:
  assumes "publish_entry p w entry run payload current module m v name s = (Inr r, s')"
  obtains row and b :: publication where "po_epoch r = Some (pb_epoch b)" "po_state r = Published"
    "knowledge_epoch (pb_epoch b) = knowledge_epoch current + 1"
    "row \<in> set (db_events (ks_db s'))" "er_type row = ''DeclarationPublished''"
    "er_payload row = canon (JObj (cmd_payload (pb_declaration b)))"
    "get_json (cmd_payload (pb_declaration b)) ''contribution_id'' = JStr (qe_contribution entry)"
    "get_json (cmd_payload (pb_declaration b)) ''name'' = JStr name"
    "get_json (cmd_payload (pb_declaration b)) ''type'' = JStr (pv_type v)"
    "get_json (cmd_payload (pb_declaration b)) ''axioms'' = json_items (pv_axioms v)"
proof -
  from assms obtain links b e d1 d2 where
    b: "publication_delta (ps_sha p) (ps_frepr p) (qe_contribution entry) run current (mz_epoch m) module
         (mz_module m) \<lparr>dc_name = name, dc_type = pv_type v, dc_dependencies = pv_dependencies v,
           dc_assumptions = pv_assumptions v, dc_axioms = pv_axioms v, dc_links = links\<rparr>
         (qe_sequence entry) = Inr b"
    and pub: "publish_promotion (ps_vr p) (pw_tick w 9) (pw_tick w 10) (pw_now w 5) (pw_tick w 11)
       (qe_contribution entry) (ps_owner p) (pb_declaration b) (pb_delta b) d1 = Inr (e, d2)"
    and r: "r = \<lparr>po_contribution = qe_contribution entry, po_state = qe_state e, po_epoch = Some (pb_epoch b),
      po_rebased = None\<rparr>" and s': "ks_db s' = d2"
    unfolding publish_entry_def binds_Inr step_Inr bindr_eq_Inr by auto
  obtain n where "qe_state e = Published" "er_payload n = canon (JObj (cmd_payload (pb_declaration b)))"
    "er_type n = ''DeclarationPublished''" "n \<in> set (db_events d2)"
    by (rule publish_rows [OF pub])
  then show ?thesis
    using publication_delta_Inr [OF b] r s' by (intro that [of b n]) simp_all
qed

lemma current_entry_contribution:
  assumes "current_entry i d = Inr c"
  shows "qe_contribution c = i"
proof -
  from assms obtain r where r: "find_row i d = Some r" "entry_of_row r = Inr c"
    by (auto simp: current_entry_def split: option.splits)
  have "qe_contribution c = qr_contribution r"
    using r(2) by (auto simp: entry_of_row_def mk_queue_entry_def bindr_eq_Inr split: option.splits)
  then show ?thesis using r(1) by (auto simp: find_row_def find_Some_iff)
qed

lemma advance_from_contribution:
  "advance_from p w n a b entry s = (Inr e, s') \<Longrightarrow> qe_contribution e = qe_contribution entry"
  by (auto simp: advance_from_def step_Inr advance_promotion_def advance_def queue_update_Inr bindr_eq_Inr
      dest: current_entry_contribution split: if_splits)

lemma promote_current_state:
  assumes "promote_current p w entry run payload current s = (Inr r, s')"
  shows "po_state r = Published \<or> po_state r = Quarantined"
proof -
  have published: "po_state r = Published" if "publish_entry p w e run payload current module m v name s1 = (Inr r, s')"
    for e module m v name s1
    by (rule publish_entry_backed [OF that])
  from assms show ?thesis
    unfolding promote_current_def Let_def
    by (auto simp: binds_Inr dest: fail_entry_state published split: if_splits)
qed

lemma promote_current_backed:
  assumes c: "promote_current p w entry run payload current s = (Inr r, s')" and "po_state r = Published"
    and f: "find_contribution (ps_vr p) (qe_contribution entry) d = Inr event" "payload = ev_payload event"
    and e: "current_epoch_pair d = Inr current" "is_stale_contribution payload current d = Inr False"
  shows "publication_is_backed p w entry d r (ks_db s')"
proof -
  from c obtain digest source name type_text z u v s1 where
    h: "get_json payload ''payload_hash'' = JStr digest"
    and l: "load_artifact (ps_sha p) run ''contributions'' digest (ks_files s) = Inr source"
    and n: "get_json payload ''candidate_name'' = JStr name" "get_json payload ''complete_type'' = JStr type_text"
      "candidate_check p source name type_text = Inr z"
    and v: "pw_verify w source (research_name name digest (ps_namespace p)) = Inr u" "mk_evidence u = Inr v"
    and rest: "(if \<not> accepted_evidence v then fail_entry p w 2 entry (Some run) ''LEAN_VERIFICATION_FAILED'' (Some v)
      else
        binds (advance_from p w 4 Staged Verified entry) (\<lambda>verified.
        binds (on_files (store_artifact (ps_sha p) run ''promotions''
          (case pv_source v of None \<Rightarrow> source | Some rendered \<Rightarrow> rendered) ''text/x-lean'')) (\<lambda>module.
        binds (advance_from p w 5 Verified Materialized verified) (\<lambda>materialized.
        binds (binds (renew p (qe_contribution entry) (pw_renewals w 1)) (\<lambda>_.
          materialize p w module current (qe_sequence materialized))) (\<lambda>m.
        publish_entry p w materialized run payload current module m v
          (research_name name digest (ps_namespace p))))))) s1 = (Inr r, s')"
    unfolding promote_current_def Let_def active_def binds_Inr step_Inr bindr_eq_Inr field_text_Inr sum.inject by blast
  have u: "u = v" using v(2) by (auto simp: mk_evidence_def Let_def bindr_eq_Inr)
  have ok: "accepted_evidence v"
    using rest assms(2) by (auto dest: fail_entry_state split: if_splits)
  then have no: "(\<not> accepted_evidence v) = False" by simp
  from rest [unfolded no if_False binds_Inr step_Inr] obtain verified materialized module m s2 s3 s4 s5 where
    a: "advance_from p w 4 Staged Verified entry s1 = (Inr verified, s2)"
      "advance_from p w 5 Verified Materialized verified s3 = (Inr materialized, s4)"
    and p: "publish_entry p w materialized run payload current module m v
      (research_name name digest (ps_namespace p)) s5 = (Inr r, s')"
    by blast
  have q: "qe_contribution materialized = qe_contribution entry"
    using advance_from_contribution [OF a(1)] advance_from_contribution [OF a(2)] by simp
  have digest: "ps_sha p source = digest" by (rule load_artifact_Inr [OF l])
  show ?thesis
  proof (rule publish_entry_backed [OF p])
    fix row and b :: publication
    assume "po_epoch r = Some (pb_epoch b)" "knowledge_epoch (pb_epoch b) = knowledge_epoch current + 1"
      "row \<in> set (db_events (ks_db s'))" "er_type row = ''DeclarationPublished''"
      "er_payload row = canon (JObj (cmd_payload (pb_declaration b)))"
      "get_json (cmd_payload (pb_declaration b)) ''contribution_id'' = JStr (qe_contribution materialized)"
      "get_json (cmd_payload (pb_declaration b)) ''name'' = JStr (research_name name digest (ps_namespace p))"
      "get_json (cmd_payload (pb_declaration b)) ''type'' = JStr (pv_type v)"
      "get_json (cmd_payload (pb_declaration b)) ''axioms'' = json_items (pv_axioms v)"
    then show ?thesis
      unfolding publication_is_backed_def
      using f e(1) not_stale [OF e(2)] h n v(1) ok
      by (intro exI [of _ event] exI [of _ current] exI [of _ source] exI [of _ name] exI [of _ type_text]
          exI [of _ v] exI [of _ row] exI [of _ "cmd_payload (pb_declaration b)"])
         (simp add: u digest q accepted_evidence_def)
  qed
qed

text \<open>
  C1. When a promotion ends with a published contribution, the contribution was submitted for the
  epoch that was current, the source is the one whose hash it names, the check of candidates passed
  it, and Lean verified that source under the published name without a diagnostic and without an axiom
  beyond the allowed ones. The declaration in the log names the contribution, the name, the type and
  the axioms of that verification, and the knowledge epoch of the publication is the next one. Every
  other promotion ends in quarantine.
\<close>

theorem published_declarations_are_verified:
  assumes "promote_next p w s = (Inr (Some r), s')"
  shows "\<exists>entry d. claim_next_promotion (ps_vr p) (pw_now w 0) (pw_tick w 0) (ps_owner p) (ks_db s) = Inr (Some entry, d)
    \<and> (if po_state r = Published then publication_is_backed p w entry d r (ks_db s')
       else po_state r = Quarantined)"
proof -
  from assms obtain entry d where claim:
      "claim_next_promotion (ps_vr p) (pw_now w 0) (pw_tick w 0) (ps_owner p) (ks_db s) = Inr (Some entry, d)"
    and e: "promote_entry p w entry (s\<lparr>ks_db := d\<rparr>) = (Inr r, s')"
    unfolding promote_next_def by (auto simp: binds_Inr step_Inr split: option.splits)
  have "if po_state r = Published then publication_is_backed p w entry d r (ks_db s') else po_state r = Quarantined"
    using e unfolding promote_entry_def recovering_Inr
  proof (elim disjE exE conjE)
    fix f s1
    assume "binds (querying (contribution_run_id (ps_vr p) (qe_contribution entry))) (\<lambda>run.
          fail_entry p w 12 entry run (failure_reason f) None) s1 = (Inr r, s')"
    then show ?thesis by (auto simp: binds_Inr dest: fail_entry_state)
  next
    assume "binds (querying (\<lambda>d. bindr (find_contribution (ps_vr p) (qe_contribution entry) d) (\<lambda>event.
          bindr (current_epoch_pair d) (\<lambda>current.
          bindr (case ev_run event of None \<Rightarrow> Inl invalid_contribution | Some r \<Rightarrow> Inr r) (\<lambda>run.
          bindr (is_stale_contribution (ev_payload event) current d) (\<lambda>stale.
          Inr (ev_payload event, current, run, stale))))))) (\<lambda>(payload, current, run, stale).
        if stale then rebase_entry p w entry run payload current
        else promote_current p w entry run payload current) (s\<lparr>ks_db := d\<rparr>) = (Inr r, s')"
    then obtain event current run stale where f: "find_contribution (ps_vr p) (qe_contribution entry) d = Inr event"
      and c: "current_epoch_pair d = Inr current" "is_stale_contribution (ev_payload event) current d = Inr stale"
      and k: "(if stale then rebase_entry p w entry run (ev_payload event) current
        else promote_current p w entry run (ev_payload event) current) (s\<lparr>ks_db := d\<rparr>) = (Inr r, s')"
      by (auto simp: binds_Inr step_Inr bindr_eq_Inr)
    show ?thesis
    proof (cases stale)
      case True
      then show ?thesis using k rebase_entry_state by fastforce
    next
      case False
      then have k': "promote_current p w entry run (ev_payload event) current (s\<lparr>ks_db := d\<rparr>) = (Inr r, s')"
        using k by simp
      show ?thesis
        using promote_current_backed [OF k' _ f refl c(1)] c(2) False promote_current_state [OF k'] by auto
    qed
  qed
  then show ?thesis using claim by blast
qed

subsection \<open>Edits of a patch\<close>

lemma hex_parts: "code c div 16 < 16 \<and> code c mod 16 < 16"
proof -
  have "code c < 256" by (simp add: code_def)
  then show ?thesis by auto
qed

lemma from_hex_text: "from_hex (hex_text s) = Some s"
proof (induction s)
  case (Cons c s)
  have d: "hex_char (hex_digit n) \<and> hex_value (hex_digit n) = n \<and> \<not> hex_space (hex_digit n)" if "n < 16" for n
    using that by (auto simp: hex_char_def hex_value_def hex_space_def hex_digit_def char_class_defs
        digit_char_def digit_val_def)
  note n = hex_parts [THEN conjunct1] hex_parts [THEN conjunct2]
  have "char_of (16 * (code c div 16) + code c mod 16) = c" by (simp add: code_def)
  then show ?case using d [OF n(1), of c] d [OF n(2), of c] Cons by (simp add: hex_text_def)
qed (simp add: hex_text_def)

lemma get_json_canon_dict: "wf_dict d \<Longrightarrow> get_json (canon_dict d) k = canon (get_json d k)"
  by (simp add: get_json_def map_of_canon_dict split: option.split)

lemma read_payload:
  assumes "event_record_of vr row = Inr record"
  shows "er_payload row = JObj (ev_payload (rec_envelope record))"
  using assms
  by (auto simp: event_record_of_def upcast_def upcast_v1_def Let_def getr_def bindr_eq_Inr mk_event_Inr
      split: json.splits option.splits if_splits)

text \<open>An edit in the log has its keys in order.\<close>

definition edit_fields :: "byte_edit \<Rightarrow> jdict" where
  "edit_fields e = [(''start_byte'', JInt (be_start e)), (''end_byte'', JInt (be_end e)),
     (''replacement_hex'', JStr (hex_text (be_replacement e)))]"

lemma logged_edit: "canon (stored_edit e) = JObj (canon_dict (edit_fields e))"
  by (simp only: stored_edit_def edit_fields_def canon_JObj)

lemma wf_stored_edit: "wf_dict (edit_fields e)" "wf_json (stored_edit e)"
  by (simp_all add: stored_edit_def edit_fields_def wf_dict_def)

lemma read_logged_edit:
  assumes "mk_byte_edit e = Inr e"
  shows "read_edit (canon (stored_edit e)) = (if be_replacement e = [] then Inl invalid_edits else Inr e)"
proof -
  have fields: "keys (edit_fields e) = {''start_byte'', ''end_byte'', ''replacement_hex''}"
    "get_json (canon_dict (edit_fields e)) ''start_byte'' = JInt (be_start e)"
    "get_json (canon_dict (edit_fields e)) ''end_byte'' = JInt (be_end e)"
    "get_json (canon_dict (edit_fields e)) ''replacement_hex'' = JStr (hex_text (be_replacement e))"
    unfolding get_json_canon_dict [OF wf_stored_edit(1)] by (auto simp: edit_fields_def get_json_def keys_def)
  have "hex_text (be_replacement e) = [] \<longleftrightarrow> be_replacement e = []"
    by (cases "be_replacement e") (simp_all add: hex_text_def)
  moreover have "0 \<le> be_start e" "0 \<le> be_end e"
    using assms by (auto simp: mk_byte_edit_def bindr_eq_Inr)
  moreover have "mk_byte_edit \<lparr>be_start = be_start e, be_end = be_end e, be_replacement = be_replacement e\<rparr> = Inr e"
    using assms by (cases e) simp
  ultimately show ?thesis
    by (simp add: logged_edit read_edit_def field_text_def field_integer_def fields ensure_def
        from_hex_text)
qed

lemma valid_logged_edit:
  assumes "mk_byte_edit e = Inr e"
  shows "patch_edit (canon (stored_edit e))"
proof -
  have "is_lower_hex (hex_digit n)" if "n < 16" for n
    using that by (auto simp: is_lower_hex_def hex_digit_def char_class_defs digit_char_def)
  then have "even (length (hex_text s)) \<and> list_all is_lower_hex (hex_text s)" for s
    by (induction s) (auto simp: hex_text_def hex_parts)
  then have "patch_edit (stored_edit e)"
    using assms by (auto simp: patch_edit_def stored_edit_def mk_byte_edit_def bindr_eq_Inr)
  then show ?thesis
    using canon_invariant_patch_edit wf_stored_edit(2) [of e] by (simp add: canon_invariant_def)
qed

lemma logged_edits:
  assumes "dr_payload r = Patch p" "er_payload row = canon (JObj (submission_payload r h v))"
    and "event_record_of vr row = Inr record"
  shows "get_json (ev_payload (rec_envelope record)) ''edits'' = JArr (map (canon \<circ> stored_edit) (pp_edits p))"
proof -
  have "ev_payload (rec_envelope record) = canon_dict (submission_payload r h v)"
    using read_payload [OF assms(3)] unfolding assms(2) canon_JObj json.inject by (rule sym)
  moreover have "wf_dict (submission_payload r h v)"
    by (simp add: assms(1) submission_payload_def wf_dict_def)
  moreover have "get_json (submission_payload r h v) ''edits'' = stored_edits p"
    by (simp add: assms(1) submission_payload_def get_json_def)
  ultimately show ?thesis by (simp add: get_json_canon_dict stored_edits_def)
qed

text \<open>
  C40. The edits of a patch, read back from the event of its submission as a rebase reads them, are the
  edits that were submitted, provided none deletes without replacing. With one that does, the schema
  accepts the payload all the same, but reading the edits is refused.
\<close>

theorem stored_edits_read_back:
  assumes "dr_payload r = Patch p" "list_all (\<lambda>e. mk_byte_edit e = Inr e) (pp_edits p)"
    and "er_payload row = canon (JObj (submission_payload r h v))" "event_record_of vr row = Inr record"
  shows "patch_edits_payload (get_json (ev_payload (rec_envelope record)) ''edits'')
    \<and> read_edits (ev_payload (rec_envelope record)) = (if \<exists>e \<in> set (pp_edits p). be_replacement e = []
         then Inl (PromotionError ''INVALID_PATCH_EDITS'') else Inr (pp_edits p))"
proof -
  have "mapr read_edit (map (canon \<circ> stored_edit) es)
      = (if \<exists>e \<in> set es. be_replacement e = [] then Inl invalid_edits else Inr es)"
    if "list_all (\<lambda>e. mk_byte_edit e = Inr e) es" for es
    using that by (induction es) (auto simp: read_logged_edit)
  moreover have "list_all patch_edit (map (canon \<circ> stored_edit) (pp_edits p))"
    using assms(2) valid_logged_edit by (auto simp: list_all_iff)
  ultimately show ?thesis
    using assms(2) by (simp add: logged_edits [OF assms(1,3,4)] patch_edits_payload_def read_edits_def invalid_edits_def)
qed

end
