(* ===== verification/Sample_Publication.thy ===== *)
theory Sample_Publication
  imports Knowledge_Properties Sample_Project
begin

text \<open>
  A contribution of the sample project, promoted up to its publication: what the properties of
  promotions are applied to. The states between the steps are written out; each lemma evaluates one
  step, and the last ones put them together.
\<close>

definition candidate_source :: string where
  "candidate_source = ''theorem t : True := by trivial''"

definition sample_contribution :: jdict where
  "sample_contribution =
     [(''base_epoch'', JStr (sample_hash (CHR ''a''))), (''candidate_name'', JStr ''t''),
      (''complete_type'', JStr ''True''), (''contribution_id'', JStr ''c''), (''evidence_links'', JArr []),
      (''knowledge_epoch'', JInt 0), (''payload_hash'', JStr (sample_hash (CHR ''b''))),
      (''payload_kind'', JStr ''snapshot'')]"

definition contributed_db :: db where
  "contributed_db = project_db
     \<lparr>db_events := db_events project_db
       @ [sample_row 2 (CHR ''2'') ''ContributionSubmitted'' ''contribution_service'' (Some ''r'') None
            sample_contribution],
      db_projections := db_projections project_db
       @ [sample_record ''contributions'' ''c'' 1 (CHR ''2'') ''ContributionSubmitted'' (Some ''r'') sample_contribution],
      db_queue := [\<lparr>qr_sequence = 1, qr_contribution = ''c'', qr_state = ''queued'', qr_version = 0,
        qr_claimed_by = None, qr_claimed_at = None\<rparr>]\<rparr>"

definition sample_service :: promotion_service where
  "sample_service =
     \<lparr>ps_vr = (\<lambda>_. False),
      ps_sha = (\<lambda>s. sample_hash (if s = candidate_source then CHR ''b'' else CHR ''d'')),
      ps_frepr = (\<lambda>_. []), ps_word = (\<lambda>_. True), ps_space = (\<lambda>_. False), ps_owner = ''o'',
      ps_imports = [''Std''], ps_namespace = ''AizimResearch''\<rparr>"

definition sample_evidence :: promotion_evidence where
  "sample_evidence =
     \<lparr>pv_diagnostics = [], pv_axioms = [''propext''], pv_type = ''True'', pv_dependencies = [],
      pv_assumptions = [], pv_source = None, pv_diagnostics_hash = None, pv_build_hash = None,
      pv_axiom_hash = None, pv_success = True, pv_warnings = []\<rparr>"

definition sample_world :: promotion_world where
  "sample_world =
     \<lparr>pw_tick = (\<lambda>n. sample_tick (''3456789ABCDEFGH'' ! n)), pw_now = (\<lambda>n. sample_time (5 + n)),
      pw_verify = (\<lambda>source name. Inr sample_evidence),
      pw_materialize = (\<lambda>source epoch n. Inr \<lparr>mz_module = ''AizimResearch.M'',
        mz_hash = sample_hash (CHR ''b''), mz_epoch = sample_hash (CHR ''e'')\<rparr>),
      pw_activate = (\<lambda>m. Inr ()), pw_renewals = (\<lambda>n. [])\<rparr>"

definition sample_knowledge :: knowledge_state where
  "sample_knowledge =
     \<lparr>ks_db = contributed_db,
      ks_files = [((''r'', ''contributions'', sample_hash (CHR ''b'')), (candidate_source, True))]\<rparr>"

subsection \<open>The states between the steps\<close>

definition promotion_record :: "nat \<Rightarrow> char \<Rightarrow> string \<Rightarrow> jdict \<Rightarrow> projection" where
  "promotion_record v c t p = sample_record ''contributions'' ''c'' (int v) c t (Some ''r'') p"

definition promotion_row :: "nat \<Rightarrow> char \<Rightarrow> string \<Rightarrow> jdict \<Rightarrow> event_row" where
  "promotion_row n c t p = sample_row n c t ''promotion_service'' (Some ''r'') None p"

definition state_change :: "queue_state \<Rightarrow> nat \<Rightarrow> jdict" where
  "state_change q v =
     [(''contribution_id'', JStr ''c''), (''state'', JStr (queue_state_text q)), (''state_version'', JInt (int v))]"

definition recorded :: jdict where
  "recorded =
     [(''axiom_verification_hash'', JStr (sample_hash (CHR ''d''))), (''axiom_verification_verdict'', JStr ''pass''), (''build_hash'', JStr (sample_hash (CHR ''d''))),
      (''build_verdict'', JStr ''pass''), (''contribution_id'', JStr ''c''), (''diagnostics_hash'', JStr (sample_hash (CHR ''d''))),
      (''diagnostics_verdict'', JStr ''pass''), (''source_scan_hash'', JStr (sample_hash (CHR ''d''))),
      (''source_scan_verdict'', JStr ''failed'')]"

definition prepared :: jdict where
  "prepared =
     [(''base_epoch'', JStr (sample_hash (CHR ''e''))), (''content_hash'', JStr (sample_hash (CHR ''b''))), (''contribution_id'', JStr ''c''), (''declaration_id'', JStr (sample_hash (CHR ''d''))),
      (''delta_id'', JStr (sample_hash (CHR ''d''))), (''knowledge_epoch'', JInt 1), (''module'', JStr ''AizimResearch.M'')]"

definition evaluation :: projection where
  "evaluation = sample_record ''evaluations'' ''c'' 1 (CHR ''4'') ''PromotionVerificationRecorded'' (Some ''r'') recorded"

definition with_event :: "db \<Rightarrow> event_row \<Rightarrow> projection list \<Rightarrow> queue_state \<Rightarrow> nat \<Rightarrow> string \<Rightarrow> db" where
  "with_event d row projections q v at = d
     \<lparr>db_events := db_events d @ [row], db_projections := db_projections project_db @ projections,
      db_queue := [\<lparr>qr_sequence = 1, qr_contribution = ''c'', qr_state = queue_state_text q, qr_version = int v,
        qr_claimed_by = Some ''o'', qr_claimed_at = Some at\<rparr>]\<rparr>"

definition staged_db :: db where
  "staged_db = with_event contributed_db
     (promotion_row 3 (CHR ''3'') ''PromotionStateChanged'' (state_change Staged 1))
     [promotion_record 2 (CHR ''3'') ''PromotionStateChanged'' (state_change Staged 1)] Staged 1 ''2025-01-02T03:05:00Z''"

definition evaluated_db :: db where
  "evaluated_db = with_event staged_db
     (promotion_row 4 (CHR ''4'') ''PromotionVerificationRecorded'' recorded)
     [promotion_record 2 (CHR ''3'') ''PromotionStateChanged'' (state_change Staged 1), evaluation]
     Staged 1 ''2025-01-02T03:05:00Z''"

definition checked_db :: db where
  "checked_db = with_event evaluated_db
     (promotion_row 5 (CHR ''7'') ''PromotionStateChanged'' (state_change Verified 2))
     [promotion_record 3 (CHR ''7'') ''PromotionStateChanged'' (state_change Verified 2), evaluation]
     Verified 2 ''2025-01-02T03:09:00Z''"

definition rendered_db :: db where
  "rendered_db = with_event checked_db
     (promotion_row 6 (CHR ''8'') ''PromotionStateChanged'' (state_change Materialized 3))
     [promotion_record 4 (CHR ''8'') ''PromotionStateChanged'' (state_change Materialized 3), evaluation]
     Materialized 3 ''2025-01-02T03:10:00Z''"

definition announced_db :: db where
  "announced_db = with_event rendered_db
     (promotion_row 7 (CHR ''B'') ''PromotionPrepared'' prepared)
     [promotion_record 5 (CHR ''B'') ''PromotionPrepared'' prepared, evaluation]
     Materialized 3 ''2025-01-02T03:10:00Z''"

definition promoted_entry :: "queue_state \<Rightarrow> nat \<Rightarrow> nat \<Rightarrow> queue_entry" where
  "promoted_entry q v m =
     \<lparr>qe_contribution = ''c'', qe_sequence = 1, qe_state = q, qe_version = int v, qe_claimed_by = Some ''o'',
      qe_claimed_at = Some (sample_time m)\<rparr>"

definition rendered_files :: artifact_files where
  "rendered_files = ((''r'', ''promotions'', sample_hash (CHR ''b'')), (candidate_source, True)) # ks_files sample_knowledge"

definition rendered_module :: artifact_reference where
  "rendered_module =
     \<lparr>ar_run = ''r'', ar_category = ''promotions'', ar_hash = sample_hash (CHR ''b''), ar_media = ''text/x-lean'',
      ar_length = length candidate_source\<rparr>"

abbreviation "knowledge_with d files \<equiv> sample_knowledge\<lparr>ks_db := d, ks_files := files\<rparr>"
abbreviation "first_files \<equiv> ks_files sample_knowledge"

definition first_epoch :: epoch_pair where
  "first_epoch = \<lparr>base_epoch = sample_hash (CHR ''a''), knowledge_epoch = 0\<rparr>"

definition sample_materialization :: materialization where
  "sample_materialization =
     \<lparr>mz_module = ''AizimResearch.M'', mz_hash = sample_hash (CHR ''b''), mz_epoch = sample_hash (CHR ''e'')\<rparr>"

lemma binds_step: "m s = (Inr x, s1) \<Longrightarrow> f x s1 = (Inr y, s2) \<Longrightarrow> binds m f s = (Inr y, s2)"
  by (simp add: binds_def)

subsection \<open>The steps\<close>

lemma claiming_step:
  "on_db (claim_next_promotion (ps_vr sample_service) (pw_now sample_world 0) (pw_tick sample_world 0)
     (ps_owner sample_service)) sample_knowledge
   = (Inr (Some (promoted_entry Staged 1 5)), knowledge_with staged_db first_files)"
  by code_simp

lemma recording_step:
  "\<exists>r. on_db (record_verification sample_service (pw_tick sample_world 1) ''r'' ''c'' sample_evidence)
     (knowledge_with staged_db first_files) = (Inr r, knowledge_with evaluated_db first_files)"
proof -
  have "leads_to (record_verification sample_service (pw_tick sample_world 1) ''r'' ''c'' sample_evidence staged_db)
      evaluated_db"
    by code_simp
  then show ?thesis unfolding leads_to_Inr by (auto simp: on_db_def)
qed

lemma verifying_step:
  "advance_from sample_service sample_world 4 Staged Verified (promoted_entry Staged 1 5)
     (knowledge_with evaluated_db first_files)
   = (Inr (promoted_entry Verified 2 9), knowledge_with checked_db first_files)"
  by code_simp

lemma storing_step:
  "on_files (store_artifact (ps_sha sample_service) ''r'' ''promotions'' candidate_source ''text/x-lean'')
     (knowledge_with checked_db first_files) = (Inr rendered_module, knowledge_with checked_db rendered_files)"
  by code_simp

lemma materializing_step:
  "advance_from sample_service sample_world 5 Verified Materialized (promoted_entry Verified 2 9)
     (knowledge_with checked_db rendered_files)
   = (Inr (promoted_entry Materialized 3 10), knowledge_with rendered_db rendered_files)"
  by code_simp

lemma sample_found:
  "querying (\<lambda>d. bindr (find_contribution (ps_vr sample_service) ''c'' d) (\<lambda>event.
      bindr (current_epoch_pair d) (\<lambda>current.
      bindr (case ev_run event of None \<Rightarrow> Inl invalid_contribution | Some r \<Rightarrow> Inr r) (\<lambda>run.
      bindr (is_stale_contribution (ev_payload event) current d) (\<lambda>stale.
      Inr (ev_payload event, current, run, stale)))))) (knowledge_with staged_db first_files)
    = (Inr (sample_contribution, first_epoch, ''r'', False), knowledge_with staged_db first_files)"
  by code_simp

lemma sample_checked:
  "returning (bindr (field_text invalid_contribution sample_contribution ''candidate_name'') (\<lambda>name.
        bindr (field_text invalid_contribution sample_contribution ''complete_type'') (\<lambda>type_text.
        bindr (candidate_check sample_service candidate_source name type_text) (\<lambda>_.
        Inr (research_name name (sample_hash (CHR ''b'')) (ps_namespace sample_service)))))) s
    = (Inr ''AizimResearch.t_bbbbbbbbbbbbbbbb'', s)"
  unfolding returning_def by (rule arg_cong [where f = "\<lambda>m. (m, s)"]) code_simp

definition sample_publication :: publication where
  "sample_publication = projr (publication_delta (ps_sha sample_service) (ps_frepr sample_service) ''c'' ''r'' first_epoch
     (mz_epoch sample_materialization) rendered_module (mz_module sample_materialization)
     \<lparr>dc_name = ''AizimResearch.t_bbbbbbbbbbbbbbbb'', dc_type = pv_type sample_evidence,
      dc_dependencies = pv_dependencies sample_evidence, dc_assumptions = pv_assumptions sample_evidence,
      dc_axioms = pv_axioms sample_evidence, dc_links = []\<rparr> 1)"

lemma publication_step:
  "returning (bindr (field_strings invalid_contribution sample_contribution ''evidence_links'') (\<lambda>links.
       publication_delta (ps_sha sample_service) (ps_frepr sample_service) ''c'' ''r'' first_epoch
         (mz_epoch sample_materialization) rendered_module (mz_module sample_materialization)
         \<lparr>dc_name = ''AizimResearch.t_bbbbbbbbbbbbbbbb'', dc_type = pv_type sample_evidence,
          dc_dependencies = pv_dependencies sample_evidence, dc_assumptions = pv_assumptions sample_evidence,
          dc_axioms = pv_axioms sample_evidence, dc_links = links\<rparr> 1)) s = (Inr sample_publication, s)"
  unfolding returning_def by (rule arg_cong [where f = "\<lambda>m. (m, s)"]) code_simp

lemma preparing_step:
  "\<exists>e. on_db (prepare_promotion (ps_vr sample_service) (pw_tick sample_world 8) ''c'' (ps_owner sample_service)
     (pb_prepared sample_publication)) (knowledge_with rendered_db rendered_files)
   = (Inr e, knowledge_with announced_db rendered_files)"
proof -
  have "leads_to (prepare_promotion (ps_vr sample_service) (pw_tick sample_world 8) ''c'' (ps_owner sample_service)
     (pb_prepared sample_publication) rendered_db) announced_db"
    by code_simp
  then show ?thesis unfolding leads_to_Inr by (auto simp: on_db_def)
qed

lemma publishing_step:
  "\<exists>s. on_db (publish_promotion (ps_vr sample_service) (pw_tick sample_world 9) (pw_tick sample_world 10)
      (pw_now sample_world 5) (pw_tick sample_world 11) ''c'' (ps_owner sample_service)
      (pb_declaration sample_publication) (pb_delta sample_publication)) (knowledge_with announced_db rendered_files)
    = (Inr (promoted_entry Published 4 10), s)"
proof -
  define m where "m = publish_promotion (ps_vr sample_service) (pw_tick sample_world 9) (pw_tick sample_world 10)
      (pw_now sample_world 5) (pw_tick sample_world 11) ''c'' (ps_owner sample_service)
      (pb_declaration sample_publication) (pb_delta sample_publication) announced_db"
  have "(case m of Inl _ \<Rightarrow> False | Inr (e, _) \<Rightarrow> e = promoted_entry Published 4 10)"
    unfolding m_def by code_simp
  then obtain d where "m = Inr (promoted_entry Published 4 10, d)" by (auto split: sum.splits prod.splits)
  then show ?thesis by (auto simp: on_db_def m_def)
qed

lemma waiting_steps:
  "active sample_service ''c'' (pw_renewals sample_world 0) (bindr (pw_verify sample_world source name) mk_evidence) s
    = (Inr sample_evidence, s)"
  "binds (renew sample_service ''c'' (pw_renewals sample_world 1)) (\<lambda>_.
     materialize sample_service sample_world rendered_module first_epoch 1) (knowledge_with rendered_db rendered_files)
    = (Inr sample_materialization, knowledge_with rendered_db rendered_files)"
  "active sample_service ''c'' (pw_renewals sample_world 2) (pw_activate sample_world sample_materialization) s
    = (Inr (), s)"
proof -
  have "mk_evidence sample_evidence = Inr sample_evidence" by code_simp
  then show "active sample_service ''c'' (pw_renewals sample_world 0)
      (bindr (pw_verify sample_world source name) mk_evidence) s = (Inr sample_evidence, s)"
    "active sample_service ''c'' (pw_renewals sample_world 2) (pw_activate sample_world sample_materialization) s
      = (Inr (), s)"
    by (simp_all add: active_def sample_world_def binds_def returning_def)
  show "binds (renew sample_service ''c'' (pw_renewals sample_world 1)) (\<lambda>_.
     materialize sample_service sample_world rendered_module first_epoch 1) (knowledge_with rendered_db rendered_files)
    = (Inr sample_materialization, knowledge_with rendered_db rendered_files)"
    by code_simp
qed

lemma promoted_entry_select:
  "qe_contribution (promoted_entry q v m) = ''c''" "qe_sequence (promoted_entry q v m) = 1"
  "qe_state (promoted_entry q v m) = q"
  by (simp_all add: promoted_entry_def)

definition sample_outcome :: promotion_outcome where
  "sample_outcome = \<lparr>po_contribution = ''c'', po_state = Published, po_epoch = Some (pb_epoch sample_publication),
     po_rebased = None\<rparr>"

lemma publishing_entry:
  "\<exists>s. publish_entry sample_service sample_world (promoted_entry Materialized 3 10) ''r'' sample_contribution
      first_epoch rendered_module sample_materialization sample_evidence ''AizimResearch.t_bbbbbbbbbbbbbbbb''
      (knowledge_with rendered_db rendered_files) = (Inr sample_outcome, s)"
proof -
  obtain e where e: "on_db (prepare_promotion (ps_vr sample_service) (pw_tick sample_world 8) ''c''
      (ps_owner sample_service) (pb_prepared sample_publication)) (knowledge_with rendered_db rendered_files)
    = (Inr e, knowledge_with announced_db rendered_files)"
    using preparing_step by (elim exE)
  obtain s where s: "on_db (publish_promotion (ps_vr sample_service) (pw_tick sample_world 9) (pw_tick sample_world 10)
      (pw_now sample_world 5) (pw_tick sample_world 11) ''c'' (ps_owner sample_service)
      (pb_declaration sample_publication) (pb_delta sample_publication)) (knowledge_with announced_db rendered_files)
    = (Inr (promoted_entry Published 4 10), s)"
    using publishing_step by (elim exE)
  have "publish_entry sample_service sample_world (promoted_entry Materialized 3 10) ''r'' sample_contribution
      first_epoch rendered_module sample_materialization sample_evidence ''AizimResearch.t_bbbbbbbbbbbbbbbb''
      (knowledge_with rendered_db rendered_files) = (Inr sample_outcome, s)"
    unfolding publish_entry_def promoted_entry_select
    by (rule binds_step, rule publication_step, rule binds_step, rule e, rule binds_step, rule waiting_steps(3),
        rule binds_step, rule s) (simp add: returning_def promoted_entry_select sample_outcome_def)
  then show ?thesis ..
qed

lemma promoting_entry:
  "\<exists>s. promote_current sample_service sample_world (promoted_entry Staged 1 5) ''r'' sample_contribution first_epoch
      (knowledge_with staged_db first_files) = (Inr sample_outcome, s)"
proof -
  obtain r where r: "on_db (record_verification sample_service (pw_tick sample_world 1) ''r'' ''c'' sample_evidence)
     (knowledge_with staged_db first_files) = (Inr r, knowledge_with evaluated_db first_files)"
    using recording_step by (elim exE)
  obtain s where s: "publish_entry sample_service sample_world (promoted_entry Materialized 3 10) ''r''
      sample_contribution first_epoch rendered_module sample_materialization sample_evidence
      ''AizimResearch.t_bbbbbbbbbbbbbbbb'' (knowledge_with rendered_db rendered_files) = (Inr sample_outcome, s)"
    using publishing_entry by (elim exE)
  have digest: "returning (field_text invalid_contribution sample_contribution ''payload_hash'')
      (knowledge_with staged_db first_files) = (Inr (sample_hash (CHR ''b'')), knowledge_with staged_db first_files)"
    by code_simp
  have source: "loads_file (load_artifact (ps_sha sample_service) ''r'' ''contributions'' (sample_hash (CHR ''b'')))
      (knowledge_with staged_db first_files) = (Inr candidate_source, knowledge_with staged_db first_files)"
    by code_simp
  have ok: "(\<not> accepted_evidence sample_evidence) = False" by code_simp
  have own: "(case pv_source sample_evidence of None \<Rightarrow> candidate_source | Some rendered \<Rightarrow> rendered) = candidate_source"
    by (simp add: sample_evidence_def)
  have "promote_current sample_service sample_world (promoted_entry Staged 1 5) ''r'' sample_contribution first_epoch
      (knowledge_with staged_db first_files) = (Inr sample_outcome, s)"
    unfolding promote_current_def Let_def promoted_entry_select
    by (rule binds_step, rule digest, rule binds_step, rule source, rule binds_step, rule sample_checked,
        rule binds_step, rule waiting_steps(1), rule binds_step, rule r, unfold ok if_False own,
        rule binds_step, rule verifying_step, rule binds_step, rule storing_step,
        rule binds_step, rule materializing_step, unfold promoted_entry_select,
        rule binds_step, rule waiting_steps(2), rule s)
  then show ?thesis ..
qed

lemma sample_promotion_published:
  "\<exists>s. promote_next sample_service sample_world sample_knowledge = (Inr (Some sample_outcome), s)"
proof -
  obtain s where s: "promote_current sample_service sample_world (promoted_entry Staged 1 5) ''r'' sample_contribution
      first_epoch (knowledge_with staged_db first_files) = (Inr sample_outcome, s)"
    using promoting_entry by (elim exE)
  have entry: "promote_entry sample_service sample_world (promoted_entry Staged 1 5) (knowledge_with staged_db first_files)
      = (Inr sample_outcome, s)"
    unfolding promote_entry_def recovering_Inr promoted_entry_select
    by (rule disjI1, rule binds_step, rule sample_found, unfold prod.case if_False, rule s)
  have "promote_next sample_service sample_world sample_knowledge = (Inr (Some sample_outcome), s)"
    unfolding promote_next_def
    by (rule binds_step, rule claiming_step, unfold option.case, rule binds_step, rule entry)
      (simp add: returning_def)
  then show ?thesis ..
qed

theorem published_declarations_are_verified_witness:
  "\<exists>entry d d'. publication_is_backed sample_service sample_world entry d sample_outcome d'"
proof -
  obtain s where s: "promote_next sample_service sample_world sample_knowledge = (Inr (Some sample_outcome), s)"
    using sample_promotion_published by (elim exE)
  from published_declarations_are_verified [OF s] show ?thesis by (auto simp: sample_outcome_def)
qed

definition deleting_patch :: patch_payload where
  "deleting_patch =
     \<lparr>pp_version = 1, pp_hash = sample_hash (CHR ''b''),
      pp_edits = [\<lparr>be_start = 0, be_end = 2, be_replacement = ''x''\<rparr>,
                  \<lparr>be_start = 3, be_end = 5, be_replacement = []\<rparr>]\<rparr>"

definition deleting_draft :: contribution_draft where
  "deleting_draft =
     \<lparr>dr_contribution = ''c'', dr_worker = ''w'', dr_run = ''r'', dr_lease = ''l'', dr_document = ''d'',
      dr_epoch = first_epoch, dr_environment = sample_hash (CHR ''f''), dr_payload = Patch deleting_patch,
      dr_candidate = ''t'', dr_type = ''True'', dr_imports = [], dr_dependencies = [], dr_assumptions = [],
      dr_links = []\<rparr>"

definition deleting_row :: event_row where
  "deleting_row = event_row_of 2
     \<lparr>ev_id = fst (sample_tick (CHR ''2'')), ev_version = 1, ev_type = ''ContributionSubmitted'',
      ev_time = sample_time 4, ev_actor = ''contribution_service'', ev_run = Some ''r'', ev_cause = None,
      ev_payload = submission_payload deleting_draft (sample_hash (CHR ''d'')) 1\<rparr>"

theorem stored_edits_read_back_witness:
  "\<exists>record. event_record_of (\<lambda>_. False) deleting_row = Inr record
    \<and> patch_edits_payload (get_json (ev_payload (rec_envelope record)) ''edits'')
    \<and> read_edits (ev_payload (rec_envelope record)) = Inl (PromotionError ''INVALID_PATCH_EDITS'')"
proof -
  have "case event_record_of (\<lambda>_. False) deleting_row of Inl _ \<Rightarrow> False | Inr _ \<Rightarrow> True" by code_simp
  then obtain found where "event_record_of (\<lambda>_. False) deleting_row = Inr found" by (auto split: sum.splits)
  moreover have "er_payload deleting_row
      = canon (JObj (submission_payload deleting_draft (sample_hash (CHR ''d'')) 1))"
    by (simp add: deleting_row_def event_row_of_def)
  moreover have "dr_payload deleting_draft = Patch deleting_patch" by (simp add: deleting_draft_def)
  moreover have "list_all (\<lambda>e. mk_byte_edit e = Inr e) (pp_edits deleting_patch)" by code_simp
  moreover have "\<exists>e \<in> set (pp_edits deleting_patch). be_replacement e = []"
    by (simp add: deleting_patch_def)
  ultimately show ?thesis using stored_edits_read_back by fastforce
qed

end
