(* ===== verification/Spec2Isabelle.thy ===== *)
theory Spec2Isabelle
  imports Sample_Capability Document_Examples Promotion_Properties Execution_Properties Research_Properties
    Controller_Dispatch Gateway_Properties Rpc_Properties Contribution_Properties Sample_Publication
begin

text \<open>
  Aizim is a runtime for proof agents: workers lease documents, edit them, submit contributions, and
  a promotion service has Lean verify a contribution before it becomes knowledge that other workers
  see. What happened is a log of events in an SQLite store; everything else the program knows of a
  project is a projection of that log. This library models the Python package under
  \<open>src/src/aizim\<close> from the encoding of values up to the service, the gateway and the promotion of
  contributions, and proves what each part promises to the parts above it. File names below are
  relative to that package.

  \<^bold>\<open>The parts.\<close> A client or worker sends a frame to the socket of the state service
  (\<open>state/rpc.py\<close>); the service checks the request, builds a command (\<open>state/operations.py\<close>,
  \<open>control_operations.py\<close>, \<open>research_operations.py\<close>, \<open>document_operations.py\<close>), makes an event of
  it (\<open>state/service.py\<close>) and gives it to the store. The store (\<open>state/store*.py\<close>) validates the
  event by its schema, applies the reducer (\<open>state/reducers.py\<close>) to the projections, updates
  leases, capabilities and the publication queue, all in one transaction. The gateway
  (\<open>gateway/\<close>) admits the calls of workers under capabilities that are kept in that store. The
  controller (\<open>orchestration/\<close>) claims assigned tasks and records what became of them; the research
  engine (\<open>research/\<close>) does so for rounds of research tasks. The promotion service (\<open>knowledge/\<close>)
  takes contributions from the queue and ends each in a publication or in quarantine.

  \<^bold>\<open>Conventions.\<close> A data class is a record, its \<open>__post_init__\<close> a function \<open>mk_\<dots>\<close> or
  \<open>check_\<dots>\<close> that gives the first error of the checks in their order. An operation that may raise
  gives \<open>'a res\<close>, the sum of \<open>exn\<close>, which has a constructor for each exception class with its code,
  and the result. An operation that writes takes the database and returns the next one; it raises
  with the transaction rolled back, so an \<open>Inl\<close> has no database. Operations that make more than one
  transaction return the result and the database they leave side by side. A table is the list of its
  rows in the order of their insertion. Python integers are \<open>int\<close>, floats their 64 bits; text is the
  list of the bytes of its UTF-8 encoding, and where the code looks at the code points of source text
  theory \<open>Contributions\<close> decodes it.

  \<^bold>\<open>Parameters.\<close> What the model does not compute is an argument: SHA-256 (\<open>sha\<close>), \<open>float.__repr__\<close>
  (\<open>frepr\<close>), \<open>json.loads\<close> (\<open>parse\<close>), the rounding of floats (\<open>rnd\<close>), which code points beyond
  ASCII match \<open>\w\<close> and \<open>\s\<close>, the identifiers, clocks and random names of the environment (\<open>tick\<close>,
  \<open>now\<close>, \<open>clock\<close>), and the answers of models, workers, Lean and the materializer
  (\<open>promotion_world\<close>). No property assumes anything of \<open>sha\<close>; what a property assumes of
  \<open>parse\<close> is that it reads a canonical text back or gives well-formed values.

  \<^bold>\<open>Values and events.\<close>
  \<^item> \<open>Prelude\<close>, \<open>Text_Format\<close>, \<open>Timestamps\<close>: exceptions, results, dictionaries, regular expressions,
    numbers, \<open>datetime\<close> with its order and its text, and the collections of lemmas that carry the proofs.
  \<^item> \<open>Json\<close>, \<open>Json_Text\<close>, \<open>Serialization\<close> (\<open>domain/serialization.py\<close>, \<open>state/event_payload.py\<close>): canonical
    JSON, its text and a reader of it, framed digests and base epochs. The text of a value determines it,
    the frames determine their parts.
  \<^item> \<open>Domain_Model\<close> (\<open>domain/model.py\<close>): the data classes with their checks.
  \<^item> \<open>Event_Schema\<close>, \<open>Events\<close> (\<open>state/schema_v1*.py\<close>, \<open>payload_validation.py\<close>, \<open>events.py\<close>): the schema of
    every event, envelopes and identifiers. An envelope is read back from its document; identifiers
    ascend whatever the clock does.

  \<^bold>\<open>The store and its contract.\<close>
  \<^item> \<open>Reducers\<close>, \<open>Event_Store\<close> (\<open>state/reducers.py\<close>, \<open>projections*.py\<close>, \<open>store*.py\<close>): the reducer, the
    tables, \<open>append\<close>, queries, capabilities and the verification by replay.
  \<^item> \<open>Event_Log\<close>, \<open>Event_Updates\<close>: the invariant of the store (\<open>journal\<close>): valid events numbered from one
    and projections that are a function of them, so that a replay matches. The locale
    \<open>append_only_system\<close> states it for callers; the store interprets it.
  \<^item> \<open>Capabilities\<close>: persisted capabilities are read back, revocations stay, the end of a lease revokes.
  \<^item> \<open>Exclusive_Holders\<close>: the locale of what at most one party holds at a time. The publication queue
    and the executions of a worker interpret it.

  \<^bold>\<open>Documents and the publication queue.\<close>
  \<^item> \<open>Documents\<close>, \<open>Document_Service\<close> (\<open>state/documents.py\<close>, \<open>store_documents.py\<close>, \<open>document_service.py\<close>),
    \<open>Lease_Table\<close>: each operation that succeeds is the stated update of a table of leases and a table
    of documents.
  \<^item> \<open>Publication_Queue\<close>, \<open>Promotion_Service\<close> (\<open>state/store_publication*.py\<close>, \<open>promotion_state.py\<close>),
    \<open>Queue_Spec\<close>, \<open>Promotion_Runs\<close>, \<open>Promotion_Properties\<close>: the methods refine a queue of contributions whose
    steps are the inductive relation \<open>queue_step\<close>. At most one contribution is being promoted, settled
    ones stay, a publication was prepared. One theorem shows a defect: the age of a claim is
    compared as text, which is not the order of the times within the second of the cutoff.
  \<^item> \<open>Store_Runs\<close>, \<open>Promotion_Progress\<close>: runs of all operations of the store. The locale \<open>queue_relation\<close>
    carries a relation between databases from the two primitives of the queue to every promotion
    method; it is interpreted twice, for capabilities, which are only added and revoked, and for the
    events that submitted the contributions of the queue. With the second, claims and recoveries
    that have work to do cannot fail.

  \<^bold>\<open>The state service.\<close>
  \<^item> \<open>Service_Events\<close>, \<open>State_Service\<close>, \<open>Control_Operations\<close> (\<open>state/service.py\<close>, \<open>operations.py\<close>,
    \<open>control_operations.py\<close>): commands, events, the operations of the operator.
  \<^item> \<open>Rpc_Operations\<close>, \<open>Rpc_Transport\<close>, \<open>Rpc_Properties\<close> (\<open>state/operations.py\<close>, \<open>rpc.py\<close>): every request
    with the errors that become responses, the frames and the loop that serves a connection. The loop
    ends because every request takes at least its header off the stream. Requests that fail change
    nothing; a connection only extends the log, without the session of the service only by events of the
    operator; frames are read back.
  \<^item> \<open>Gateway\<close>, \<open>Gateway_Properties\<close> (\<open>gateway/capabilities.py\<close>, \<open>service.py\<close>): tools, roles, minting, limits and
    the checks of a call. Calls are authorized under live capabilities only and within the budget of
    a run, whatever calls are interleaved; the end of a lease ends the tokens minted for it before.

  \<^bold>\<open>The controller and research.\<close>
  \<^item> \<open>Controller_Execution\<close>, \<open>Execution_Table\<close>, \<open>Execution_Runs\<close>, \<open>Execution_Properties\<close>
    (\<open>orchestration/controller_execution.py\<close>, \<open>controller_lifecycle.py\<close>): claims, plans, ends and
    interruptions refine the table of executions whose steps are the relation \<open>execution_step\<close>; a worker
    has at most one active execution; a restart interrupts those that are left.
  \<^item> \<open>Controller_Dispatch\<close> (\<open>orchestration/controller_dispatcher.py\<close>, \<open>controller_backend.py\<close>,
    \<open>worker_cursor.py\<close>): choosing the next task, the decision of the model with its parser, the error
    paths of a dispatch.
  \<^item> \<open>Research_Records\<close>, \<open>Research_Table\<close>, \<open>Research_Frontier\<close>, \<open>Research_Engine\<close>, \<open>Research_Properties\<close>
    (\<open>research/records.py\<close>, \<open>engine.py\<close>): records are read back as saved, the target of a task never
    changes, dependencies stay acyclic, the frontier is the list of the tasks that can run.

  \<^bold>\<open>Knowledge.\<close>
  \<^item> \<open>Contributions\<close>, \<open>Contribution_Properties\<close> (\<open>knowledge/contributions.py\<close>): the UTF-8 decoder, patches
    and the scan of a candidate. A patch replaces its ranges, last to first, and leaves text.
  \<^item> \<open>Knowledge\<close>, \<open>Promotion_Engine\<close>, \<open>Knowledge_Properties\<close> (\<open>knowledge/artifacts.py\<close>, \<open>deltas.py\<close>,
    \<open>promotion*.py\<close>, \<open>failures.py\<close>, \<open>rebase.py\<close>, \<open>submission.py\<close>): artifacts, deltas, and the promotion with
    its error paths as steps over the database and the artifacts. What is published was submitted for
    the current epoch, checked and verified; everything else ends in quarantine.

  \<^bold>\<open>Samples.\<close> \<open>Sample_Project\<close>, \<open>Sample_Promotion\<close>, \<open>Sample_Controller\<close>, \<open>Sample_Research\<close>,
  \<open>Sample_Capability\<close>, \<open>Sample_Publication\<close> and \<open>Document_Examples\<close> run the model on a small project. The
  witnesses apply the properties there, so their hypotheses hold together on states the operations reach.

  \<^bold>\<open>Bounds.\<close> No definition takes fuel: recursions are structural or decrease the length of the input.
  The limits are the code's (frames of \<open>max_frame_bytes\<close>, tasks, instructions, budgets).

  \<^bold>\<open>What is not modelled.\<close>
  \<^item> Operating-system I/O: opening the database, the socket, lock files, the descriptor-relative access
    to files in \<open>lean/\<close>; processes, sandboxes and \<open>asyncio\<close> in \<open>agents/\<close>, \<open>runtime/\<close>, the session broker of
    \<open>gateway/\<close> and the runners of \<open>orchestration/\<close> and \<open>research/\<close>. Their results are arguments.
  \<^item> Interleaving inside a promotion: between two steps of a promotion other clients may append
    events; here the promotion sees only its own writes.
  \<^item> The recursion limit of Python, which \<open>json.loads\<close> and canonicalization run into on deeply nested
    values.
  \<^item> \<open>cli/\<close>, \<open>config/\<close>, \<open>modes/\<close>, the reports and searches of \<open>research/\<close>, the release gates, and the launcher
    in Rust: rendering, settings and evaluation around the core.
\<close>

end
